(* ===== verification/Prelude.thy ===== *)
theory Prelude
  imports Main "HOL-Library.Word"
begin

text \<open>
  Shared vocabulary of the development: the machine integer types of the C
  sources, the named collections the component proofs draw on, and generic
  lemmas on masked words, ring indices and lists.
\<close>

unbundle bit_operations_syntax

type_synonym u8 = "8 word"
type_synonym u16 = "16 word"
type_synonym u32 = "32 word"
type_synonym u64 = "64 word"

named_theorems ring_simps \<open>index arithmetic on rings whose size is a power of two\<close>
named_theorems hw_defs \<open>definitions of the register accessors\<close>
named_theorems frame_rules \<open>what an operation leaves unchanged\<close>

text \<open>C truth value of an integer expression.\<close>

abbreviation nz :: "'a::len word \<Rightarrow> bool" where
  "nz w \<equiv> w \<noteq> 0"

lemma unat_bound: "unat (x :: 'a::len word) < 2 ^ LENGTH('a)"
  by (rule unsigned_less)

text \<open>Masking with \<open>2 ^ n - 1\<close> is reduction modulo \<open>2 ^ n\<close>.\<close>

lemma uint_and_mask [ring_simps]:
  fixes x :: "'a::len word"
  shows "uint (x AND mask n) = uint x mod 2 ^ n"
  by (simp only: take_bit_eq_mask [symmetric] unsigned_take_bit_eq) (simp only: take_bit_eq_mod)

lemma unat_and_mask_eq_mod [ring_simps]:
  fixes x :: "'a::len word"
  shows "unat (x AND mask n) = unat x mod 2 ^ n"
  by (simp only: take_bit_eq_mask [symmetric] unsigned_take_bit_eq) (simp only: take_bit_eq_mod)

lemma unat_drop_bit_eq_div [ring_simps]:
  fixes x :: "'a::len word"
  shows "unat (drop_bit n x) = unat x div 2 ^ n"
  using unat_bound [of x]
  by (simp only: unsigned_drop_bit_eq take_bit_nat_eq_self) (simp only: drop_bit_eq_div)

lemma unat_ucast_mod:
  "unat (ucast (x :: 'a::len word) :: 'b::len word) = unat x mod 2 ^ LENGTH('b)"
  by (simp only: unsigned_ucast_eq) (simp only: take_bit_eq_mod)

lemma unat_ucast_wider:
  assumes "LENGTH('a) \<le> LENGTH('b)"
  shows "unat (ucast (x :: 'a::len word) :: 'b::len word) = unat x"
proof -
  have "unat x < 2 ^ LENGTH('b)"
    by (rule less_le_trans [OF unat_bound power_increasing]) (use assms in simp_all)
  then show ?thesis by (simp only: unat_ucast_mod mod_less)
qed

lemma unat_not:
  fixes x :: "'a::len word"
  shows "unat (NOT x) = 2 ^ LENGTH('a) - 1 - unat x"
proof -
  have "NOT x = -1 - x" by (simp add: not_eq_complement)
  moreover have "x \<le> -1" by (rule word_n1_ge)
  ultimately show ?thesis
    by (simp add: unat_sub unsigned_minus_1_eq_mask mask_eq_exp_minus_1)
qed

lemma sint_small:
  fixes w :: "'a::len word"
  assumes "unat w < 2 ^ (LENGTH('a) - 1)"
  shows "sint w = int (unat w)"
proof -
  have "int (unat w) < 2 ^ (LENGTH('a) - 1)"
    using assms by (simp only: of_nat_less_iff [symmetric, where ?'a = int] of_nat_power of_nat_numeral)
  moreover have "- (2 ^ (LENGTH('a) - 1)) \<le> int (unat w)"
    by (rule order_trans [of _ 0]) simp_all
  ultimately show ?thesis
    by (simp only: sint_uint uint_nat signed_take_bit_int_eq_self One_nat_def)
qed

lemma mask_2047: "(2047 :: 'a::len word) = mask 11"
  by (simp add: mask_eq_exp_minus_1)

lemma mask_1023: "(1023 :: 'a::len word) = mask 10"
  by (simp add: mask_eq_exp_minus_1)

lemma uint_diff_and_mask:
  fixes a b :: "'a::len word"
  assumes "n \<le> LENGTH('a)"
  shows "uint ((b - a) AND mask n) = (uint b - uint a) mod 2 ^ n"
proof -
  have "(2::int) ^ n dvd 2 ^ LENGTH('a)"
    using assms by (rule le_imp_power_dvd)
  then show ?thesis
    by (simp add: uint_and_mask uint_word_ariths mod_mod_cancel)
qed

lemma unat_diff_and_mask:
  fixes a b :: "'a::len word"
  assumes "n \<le> LENGTH('a)" "unat a \<le> 2 ^ n"
  shows "unat ((b - a) AND mask n) = (unat b + 2 ^ n - unat a) mod 2 ^ n"
proof -
  have "int (unat ((b - a) AND mask n)) = (uint b - uint a) mod 2 ^ n"
    using uint_diff_and_mask [OF assms(1), of b a] by simp
  also have "\<dots> = (uint b - uint a + 2 ^ n) mod 2 ^ n"
    by simp
  also have "uint b - uint a + 2 ^ n = int (unat b + 2 ^ n - unat a)"
    using assms(2) by (simp add: of_nat_diff)
  also have "\<dots> mod 2 ^ n = int ((unat b + 2 ^ n - unat a) mod 2 ^ n)"
    by (simp add: zmod_int)
  finally show ?thesis
    by (simp only: of_nat_eq_iff)
qed

lemma unat_plus1_and_mask:
  fixes a :: "'a::len word"
  assumes "n \<le> LENGTH('a)"
  shows "unat ((a + 1) AND mask n) = (unat a + 1) mod 2 ^ n"
proof -
  have d: "(2::nat) ^ n dvd 2 ^ LENGTH('a)"
    using assms by (rule le_imp_power_dvd)
  have "unat ((a + 1) AND mask n) = ((unat a + 1) mod 2 ^ LENGTH('a)) mod 2 ^ n"
    by (simp add: unat_and_mask_eq_mod unat_word_ariths)
  then show ?thesis
    using d by (simp add: mod_mod_cancel)
qed

lemma mod_once:
  fixes x n :: nat
  assumes "x < 2 * n"
  shows "x mod n = (if x < n then x else x - n)"
  using assms by (simp add: le_mod_geq)

text \<open>Distance from \<open>h\<close> forward to \<open>t\<close> on a ring of \<open>n\<close> cells.\<close>

definition ring_dist :: "nat \<Rightarrow> nat \<Rightarrow> nat \<Rightarrow> nat" where
  "ring_dist n h t = (t + n - h) mod n"

lemma ring_dist_cases:
  assumes "h < n" "t < n"
  shows "ring_dist n h t = (if h \<le> t then t - h else t + n - h)"
proof (cases "h \<le> t")
  case True
  then have eq: "t + n - h = (t - h) + n" by simp
  from True assms show ?thesis unfolding ring_dist_def eq mod_add_self2 by simp
qed (use assms in \<open>simp add: ring_dist_def\<close>)

lemma ring_next_cases:
  fixes t n :: nat
  assumes "t < n"
  shows "Suc t mod n = (if Suc t = n then 0 else Suc t)"
  using assms by simp

lemma ring_dist_less: "0 < n \<Longrightarrow> ring_dist n h t < n"
  by (simp add: ring_dist_def)

lemma ring_dist_full:
  assumes "h < n" "t < n"
  shows "(t + 1) mod n = h \<longleftrightarrow> ring_dist n h t = n - 1"
  using assms by (auto simp: ring_dist_cases ring_next_cases split: if_splits)

lemma ring_dist_push:
  assumes "h < n" "t < n" "ring_dist n h t < n - 1"
  shows "ring_dist n h ((t + 1) mod n) = Suc (ring_dist n h t)"
proof -
  have "(t + 1) mod n < n" using assms by simp
  then show ?thesis
    using assms by (auto simp: ring_dist_cases ring_next_cases split: if_splits)
qed

lemma ring_dist_pop:
  assumes "h < n" "t < n" "h \<noteq> t"
  shows "ring_dist n h t = Suc (ring_dist n ((h + 1) mod n) t)"
proof -
  have "(h + 1) mod n < n" using assms by simp
  then show ?thesis
    using assms by (auto simp: ring_dist_cases ring_next_cases split: if_splits)
qed

lemma ring_dist_tail:
  assumes "h < n" "t < n"
  shows "(h + ring_dist n h t) mod n = t"
  using assms by (simp add: ring_dist_cases)

text \<open>
  The part of a circular array that is in use: \<open>d\<close> cells from index \<open>h\<close>,
  oldest first.
\<close>

definition ring_window :: "'a list \<Rightarrow> nat \<Rightarrow> nat \<Rightarrow> 'a list" where
  "ring_window xs h d = map (\<lambda>i. xs ! ((h + i) mod length xs)) [0..<d]"

lemma length_ring_window [simp]: "length (ring_window xs h d) = d"
  by (simp add: ring_window_def)

lemma ring_window_0 [simp]: "ring_window xs h 0 = []"
  by (simp add: ring_window_def)

lemma nth_ring_window [simp]:
  "i < d \<Longrightarrow> ring_window xs h d ! i = xs ! ((h + i) mod length xs)"
  by (simp add: ring_window_def)

lemma mod_add_left_inj:
  fixes h i j n :: nat
  assumes "i < n" "j < n" "(h + i) mod n = (h + j) mod n"
  shows "i = j"
proof -
  have *: "a = b" if "a \<le> b" "b < n" "(h + a) mod n = (h + b) mod n" for a b
  proof -
    have "n dvd (h + b) - (h + a)"
      using that by (metis mod_eq_dvd_iff_nat add_le_cancel_left)
    then show ?thesis
      using that by (auto dest: dvd_imp_le)
  qed
  show ?thesis
    using *[of i j] *[of j i] assms by (metis nat_le_linear)
qed

lemma ring_window_update_outside:
  assumes "d < length xs"
  shows "ring_window (xs[(h + d) mod length xs := p]) h d = ring_window xs h d"
proof (rule nth_equalityI)
  fix i assume "i < length (ring_window (xs[(h + d) mod length xs := p]) h d)"
  then have i: "i < d" by simp
  then have "(h + i) mod length xs \<noteq> (h + d) mod length xs"
    using assms mod_add_left_inj [of i "length xs" d h] by auto
  then show "ring_window (xs[(h + d) mod length xs := p]) h d ! i = ring_window xs h d ! i"
    using i by simp
qed simp

lemma ring_window_snoc:
  "ring_window xs h (Suc d) = ring_window xs h d @ [xs ! ((h + d) mod length xs)]"
  by (simp add: ring_window_def)

lemma ring_window_push:
  assumes "d < length xs"
  shows "ring_window (xs[(h + d) mod length xs := p]) h (Suc d) = ring_window xs h d @ [p]"
proof -
  have "(h + d) mod length xs < length xs" using assms by (intro mod_less_divisor) linarith
  then show ?thesis
    using assms by (simp add: ring_window_snoc ring_window_update_outside)
qed

lemma ring_window_Cons:
  "ring_window xs h (Suc d) = xs ! (h mod length xs) # ring_window xs ((h + 1) mod length xs) d"
proof (rule nth_equalityI)
  fix i assume "i < length (ring_window xs h (Suc d))"
  then show "ring_window xs h (Suc d) ! i
      = (xs ! (h mod length xs) # ring_window xs ((h + 1) mod length xs) d) ! i"
    by (cases i) (simp_all add: mod_simps)
qed simp

lemma ring_window_mod:
  "ring_window xs (h mod length xs) d = ring_window xs h d"
  by (simp add: ring_window_def mod_simps)

subsection \<open>Transition systems\<close>

text \<open>
  The contract of the step relations of the components: an invariant every
  step keeps holds in every reachable state, and a measure every step lowers
  bounds the length of a run.
\<close>

locale invariant_system =
  fixes step :: "'s \<Rightarrow> 's \<Rightarrow> bool" and good :: "'s \<Rightarrow> bool"
  assumes step_good: "good s \<Longrightarrow> step s s' \<Longrightarrow> good s'"
begin

lemma reach_good: "step\<^sup>*\<^sup>* s s' \<Longrightarrow> good s \<Longrightarrow> good s'"
  by (induction rule: rtranclp_induct) (auto intro: step_good)

end

locale terminating_system = invariant_system +
  fixes left :: "'a \<Rightarrow> nat"
  assumes step_left: "good s \<Longrightarrow> step s s' \<Longrightarrow> left s' < left s"
begin

lemma run_bound: "(step ^^ n) s s' \<Longrightarrow> good s \<Longrightarrow> n + left s' \<le> left s"
proof (induction n arbitrary: s')
  case (Suc n)
  then obtain t where t: "(step ^^ n) s t" "step t s'" by auto
  then have "good t" using reach_good Suc.prems(2) by (metis rtranclp_power)
  then show ?case using Suc.IH [OF t(1) Suc.prems(2)] step_left [OF _ t(2)] by simp
qed simp

end

end
