(* ===== verification/Mmio.thy ===== *)
theory Mmio
  imports Prelude "HOL-Library.State_Monad"
begin

text \<open>
  The driver's view of the device. The controller itself is not code: it is
  the parameter \<open>chip\<close>, which answers every read as an arbitrary function of
  the complete history of bus accesses, so a theorem about this layer holds for
  every behaviour of the hardware. \<open>rtl8125_private\<close> is the software state of
  \<open>rtl812xx.h\<close>; \<open>hw\<close> collects it with the bus history and with the members of
  the class \<open>RTL8127Hw\<close>. Register accesses and delays are state-monad
  operations that append to the history (most recent first).
\<close>

subsection \<open>Chip generations\<close>

datatype mcfg =
    CFG_METHOD_2 | CFG_METHOD_3 | CFG_METHOD_4 | CFG_METHOD_5 | CFG_METHOD_6 | CFG_METHOD_7
  | CFG_METHOD_8 | CFG_METHOD_9 | CFG_METHOD_10 | CFG_METHOD_11 | CFG_METHOD_12 | CFG_METHOD_13
  | CFG_METHOD_31 | CFG_METHOD_32 | CFG_METHOD_33 | CFG_METHOD_41 | CFG_METHOD_42 | CFG_METHOD_DEFAULT

text \<open>The value of the enumeration constant.\<close>

fun mcfg_num :: "mcfg \<Rightarrow> nat" where
  "mcfg_num CFG_METHOD_2 = 2" | "mcfg_num CFG_METHOD_3 = 3" | "mcfg_num CFG_METHOD_4 = 4"
| "mcfg_num CFG_METHOD_5 = 5" | "mcfg_num CFG_METHOD_6 = 6" | "mcfg_num CFG_METHOD_7 = 7"
| "mcfg_num CFG_METHOD_8 = 8" | "mcfg_num CFG_METHOD_9 = 9" | "mcfg_num CFG_METHOD_10 = 10"
| "mcfg_num CFG_METHOD_11 = 11" | "mcfg_num CFG_METHOD_12 = 12" | "mcfg_num CFG_METHOD_13 = 13"
| "mcfg_num CFG_METHOD_31 = 14" | "mcfg_num CFG_METHOD_32 = 15" | "mcfg_num CFG_METHOD_33 = 16"
| "mcfg_num CFG_METHOD_41 = 17" | "mcfg_num CFG_METHOD_42 = 18" | "mcfg_num CFG_METHOD_DEFAULT = 19"

lemma mcfg_num_inj: "mcfg_num a = mcfg_num b \<Longrightarrow> a = b"
  by (cases a; cases b) simp_all

instantiation mcfg :: linorder
begin

definition less_eq_mcfg :: "mcfg \<Rightarrow> mcfg \<Rightarrow> bool" where
  "less_eq_mcfg a b \<longleftrightarrow> mcfg_num a \<le> mcfg_num b"

definition less_mcfg :: "mcfg \<Rightarrow> mcfg \<Rightarrow> bool" where
  "less_mcfg a b \<longleftrightarrow> mcfg_num a < mcfg_num b"

instance
  by standard (auto simp: less_eq_mcfg_def less_mcfg_def dest: mcfg_num_inj)

end

subsection \<open>Software state\<close>

record ethtool_eee =
  eee_supported :: u32
  eee_advertised :: u32
  eee_enabled :: u32
  tx_lpi_enabled :: u32
  tx_lpi_timer :: u32
  eee_active :: u32

record rtl8125_private =
  tp_chipset :: u32
  tp_mcfg :: mcfg
  tp_rx_config :: u32
  tp_rms :: u16
  tp_cp_cmd :: u16
  tp_phy_auto_nego_reg :: u32
  tp_phy_1000_ctrl_reg :: u32
  tp_phy_2500_ctrl_reg :: u32
  tp_aspm :: u8
  tp_wol_enabled :: u8
  tp_wol_opts :: u32
  tp_eeprom_type :: u8
  tp_autoneg :: u8
  tp_duplex :: u8
  tp_speed :: u32
  tp_fcpause :: u32
  tp_advertising :: u64
  tp_HwSuppMaxPhyLinkSpeed :: u32
  tp_eeprom_len :: u16
  tp_cur_page :: u16
  tp_bios_setting :: u32
  tp_org_pci_offset_99 :: u8
  tp_org_pci_offset_180 :: u8
  tp_HwIcVerUnknown :: bool
  tp_NotWrRamCodeToMicroP :: bool
  tp_NotWrMcuPatchCode :: bool
  tp_HwHasWrRamCodeToMicroP :: bool
  tp_sw_ram_code_ver :: u16
  tp_hw_ram_code_ver :: u16
  tp_rtk_enable_diag :: bool
  tp_RequiredPfmPatch :: bool
  tp_RequirePhyMdiSwapPatch :: bool
  tp_RequireLSOPatch :: bool
  tp_HwFiberModeVer :: u32
  tp_HwFiberStat :: u32
  tp_HwSuppMagicPktVer :: u8
  tp_HwSuppCheckPhyDisableModeVer :: u8
  tp_random_mac :: bool
  tp_phy_reg_aner :: u16
  tp_phy_reg_anlpar :: u16
  tp_phy_reg_gbsr :: u16
  tp_phy_reg_status_2500 :: u16
  tp_HwPcieSNOffset :: u32
  tp_HwSuppEsdVer :: u8
  tp_TestPhyOcpReg :: bool
  tp_BackupPhyFuseDout :: "u16 list"
  tp_MaxTxDescPtrMask :: u32
  tp_HwCloPtrReg :: u16
  tp_SwTailPtrReg :: u16
  tp_HwSuppTxNoCloseVer :: u8
  tp_HwSuppIntMitiVer :: u8
  tp_check_keep_link_speed :: bool
  tp_resume_not_chg_speed :: bool
  tp_HwSuppD0SpeedUpVer :: u8
  tp_D0SpeedUpSpeed :: u8
  tp_HwSuppDashVer :: u8
  tp_DASH :: bool
  tp_HwPkgDet :: u8
  tp_HwSuppOcpChannelVer :: u8
  tp_DashFirmwareVersion :: u32
  tp_AllowAccessDashOcp :: bool
  tp_eee :: ethtool_eee
  tp_HwSuppRxDescType :: u8
  tp_HwSuppMacMcuVer :: u8
  tp_MacMcuPageSize :: u16
  tp_hw_mcu_patch_code_ver :: u64
  tp_bin_mcu_patch_code_ver :: u64
  tp_HwSuppTcamVer :: u8
  tp_TcamNotValidReg :: u16
  tp_TcamValidReg :: u16
  tp_TcamMaAddrcOffset :: u16
  tp_TcamVlanTagOffset :: u16


subsection \<open>The bus\<close>

text \<open>Where an access goes: device registers or PCI configuration space, with its width.\<close>

datatype addr = Reg8 u16 | Reg16 u16 | Reg32 u16 | Pci8 u16 | Pci16 u16 | Pci32 u16

datatype io = Rd addr u32 | Wr addr u32 | Delay nat

type_synonym chip = "io list \<Rightarrow> addr \<Rightarrow> u32"

record hw =
  chip :: chip
  hist :: "io list"
  tp :: rtl8125_private
  hw_mtu :: u32
  pcieCapOffset :: u8
  intrMask :: u32
  intrMaskRxTx :: u32
  intrMaskTimer :: u32
  intrMaskPoll :: u32
  statPhyAddr :: u64
  txPhyAddr :: u64
  rxPhyAddr :: u64
  txTailPtr0 :: u32
  txClosePtr0 :: u32
  txNextDescIndex :: u32
  txDirtyDescIndex :: u32
  txNumFreeDesc :: "32 word"
  rxNextDescIndex :: u32
  stateFlags :: u32
  multicastFilter :: u64
  wolCapable :: bool
  hasSensor :: bool
  currMacAddr :: "u8 list"
  origMacAddr :: "u8 list"
  fallBackMacAddr :: "u8 list"
  pciVendor :: u16
  pciDeviceId :: u16
  gRandSeed :: u32

type_synonym 'a hwm = "(hw, 'a) state"

abbreviation ret :: "'a \<Rightarrow> 'a hwm" where "ret \<equiv> State_Monad.return"

definition skip :: "unit hwm" where
  "skip = ret ()"

definition getf :: "(hw \<Rightarrow> 'a) \<Rightarrow> 'a hwm" where
  "getf f = State (\<lambda>s. (f s, s))"

definition modf :: "(hw \<Rightarrow> hw) \<Rightarrow> unit hwm" where
  "modf f = State (\<lambda>s. ((), f s))"

definition tpget :: "(rtl8125_private \<Rightarrow> 'a) \<Rightarrow> 'a hwm" where
  "tpget f = getf (\<lambda>s. f (tp s))"

definition tpmod :: "(rtl8125_private \<Rightarrow> rtl8125_private) \<Rightarrow> unit hwm" where
  "tpmod f = modf (\<lambda>s. s\<lparr>tp := f (tp s)\<rparr>)"

definition bus_read :: "addr \<Rightarrow> u32 hwm" where
  "bus_read a = State (\<lambda>s. let v = chip s (hist s) a in (v, s\<lparr>hist := Rd a v # hist s\<rparr>))"

definition bus_write :: "addr \<Rightarrow> u32 \<Rightarrow> unit hwm" where
  "bus_write a v = modf (\<lambda>s. s\<lparr>hist := Wr a v # hist s\<rparr>)"

definition delay :: "nat \<Rightarrow> unit hwm" where
  "delay us = modf (\<lambda>s. s\<lparr>hist := Delay us # hist s\<rparr>)"

abbreviation "udelay us \<equiv> delay us"
abbreviation "mdelay ms \<equiv> delay (1000 * ms)"

definition RTL_R8 :: "u16 \<Rightarrow> u8 hwm" where
  "RTL_R8 r = do { v \<leftarrow> bus_read (Reg8 r); ret (ucast v) }"
definition RTL_R16 :: "u16 \<Rightarrow> u16 hwm" where
  "RTL_R16 r = do { v \<leftarrow> bus_read (Reg16 r); ret (ucast v) }"
definition RTL_R32 :: "u16 \<Rightarrow> u32 hwm" where
  "RTL_R32 r = bus_read (Reg32 r)"
definition RTL_W8 :: "u16 \<Rightarrow> u8 \<Rightarrow> unit hwm" where
  "RTL_W8 r v = bus_write (Reg8 r) (ucast v)"
definition RTL_W16 :: "u16 \<Rightarrow> u16 \<Rightarrow> unit hwm" where
  "RTL_W16 r v = bus_write (Reg16 r) (ucast v)"
definition RTL_W32 :: "u16 \<Rightarrow> u32 \<Rightarrow> unit hwm" where
  "RTL_W32 r v = bus_write (Reg32 r) v"

definition extendedConfigRead8 :: "u16 \<Rightarrow> u8 hwm" where
  "extendedConfigRead8 r = do { v \<leftarrow> bus_read (Pci8 r); ret (ucast v) }"
definition extendedConfigRead16 :: "u16 \<Rightarrow> u16 hwm" where
  "extendedConfigRead16 r = do { v \<leftarrow> bus_read (Pci16 r); ret (ucast v) }"
definition extendedConfigRead32 :: "u16 \<Rightarrow> u32 hwm" where
  "extendedConfigRead32 r = bus_read (Pci32 r)"
definition extendedConfigWrite8 :: "u16 \<Rightarrow> u8 \<Rightarrow> unit hwm" where
  "extendedConfigWrite8 r v = bus_write (Pci8 r) (ucast v)"
definition extendedConfigWrite16 :: "u16 \<Rightarrow> u16 \<Rightarrow> unit hwm" where
  "extendedConfigWrite16 r v = bus_write (Pci16 r) (ucast v)"
definition extendedConfigWrite32 :: "u16 \<Rightarrow> u32 \<Rightarrow> unit hwm" where
  "extendedConfigWrite32 r v = bus_write (Pci32 r) v"

text \<open>The bounded wait loops of the code: up to \<open>n\<close> times delay and test.\<close>

fun poll :: "nat \<Rightarrow> nat \<Rightarrow> bool hwm \<Rightarrow> bool hwm" where
  "poll 0 us test = ret False"
| "poll (Suc n) us test = do { udelay us; b \<leftarrow> test; if b then ret True else poll n us test }"

fun for_each :: "'b list \<Rightarrow> ('b \<Rightarrow> unit hwm) \<Rightarrow> unit hwm" where
  "for_each [] body = skip"
| "for_each (x # xs) body = do { body x; for_each xs body }"

definition whenM :: "bool \<Rightarrow> unit hwm \<Rightarrow> unit hwm" where
  "whenM b m = (if b then m else skip)"

subsection \<open>Running\<close>

abbreviation run :: "'a hwm \<Rightarrow> hw \<Rightarrow> 'a \<times> hw" where
  "run \<equiv> run_state"

lemma run_skip [simp]: "run skip s = ((), s)"
  by (simp add: skip_def)

lemma run_getf [simp]: "run (getf f) s = (f s, s)"
  by (simp add: getf_def)

lemma run_modf [simp]: "run (modf f) s = ((), f s)"
  by (simp add: modf_def)

lemma run_tpget [simp]: "run (tpget f) s = (f (tp s), s)"
  by (simp add: tpget_def)

lemma run_tpmod [simp]: "run (tpmod f) s = ((), s\<lparr>tp := f (tp s)\<rparr>)"
  by (simp add: tpmod_def)

lemma run_delay [simp]: "run (delay us) s = ((), s\<lparr>hist := Delay us # hist s\<rparr>)"
  by (simp add: delay_def)

lemma run_bus_read [simp]:
  "run (bus_read a) s = (chip s (hist s) a, s\<lparr>hist := Rd a (chip s (hist s) a) # hist s\<rparr>)"
  by (simp add: bus_read_def Let_def)

lemma run_bus_write [simp]: "run (bus_write a v) s = ((), s\<lparr>hist := Wr a v # hist s\<rparr>)"
  by (simp add: bus_write_def)

lemma run_whenM [simp]: "run (whenM b m) s = (if b then run m s else ((), s))"
  by (simp add: whenM_def)

lemma fst_run_bind: "fst (run (m \<bind> g) s) = fst (run (g (fst (run m s))) (snd (run m s)))"
  by (simp split: prod.splits)

lemma snd_run_bind: "snd (run (m \<bind> g) s) = snd (run (g (fst (run m s))) (snd (run m s)))"
  by (simp split: prod.splits)

lemmas run_if [simp] = if_distrib [of run] if_distribR

lemmas reg_defs [hw_defs] =
  RTL_R8_def RTL_R16_def RTL_R32_def RTL_W8_def RTL_W16_def RTL_W32_def
  extendedConfigRead8_def extendedConfigRead16_def extendedConfigRead32_def
  extendedConfigWrite8_def extendedConfigWrite16_def extendedConfigWrite32_def

subsection \<open>Frame and trace rules\<close>

text \<open>
  \<open>keeps f m\<close>: running \<open>m\<close> leaves the projection \<open>f\<close> of the state unchanged.
  \<open>emits P m\<close>: \<open>m\<close> only adds events satisfying \<open>P\<close> to the history.
  \<open>within n m\<close>: \<open>m\<close> performs at most \<open>n\<close> bus events, whatever the chip answers.
\<close>

definition keeps :: "(hw \<Rightarrow> 'b) \<Rightarrow> 'a hwm \<Rightarrow> bool" where
  "keeps f m \<longleftrightarrow> (\<forall>s. f (snd (run m s)) = f s)"

definition emits :: "(io \<Rightarrow> bool) \<Rightarrow> 'a hwm \<Rightarrow> bool" where
  "emits P m \<longleftrightarrow> (\<forall>s. \<exists>new. hist (snd (run m s)) = new @ hist s \<and> (\<forall>e \<in> set new. P e))"

definition within :: "nat \<Rightarrow> 'a hwm \<Rightarrow> bool" where
  "within n m \<longleftrightarrow> (\<forall>s. \<exists>new. hist (snd (run m s)) = new @ hist s \<and> length new \<le> n)"

lemma keepsD: "keeps f m \<Longrightarrow> f (snd (run m s)) = f s"
  by (simp add: keeps_def)

lemma keeps_return [frame_rules]: "keeps f (ret x)"
  by (simp add: keeps_def)

lemma keeps_skip [frame_rules]: "keeps f skip"
  by (simp add: keeps_def)

lemma keeps_bind [frame_rules]: "keeps f m \<Longrightarrow> (\<And>x. keeps f (g x)) \<Longrightarrow> keeps f (m \<bind> g)"
  by (simp add: keeps_def split: prod.splits) (metis snd_conv)

lemma keeps_if [frame_rules]:
  "(b \<Longrightarrow> keeps f m) \<Longrightarrow> (\<not> b \<Longrightarrow> keeps f n) \<Longrightarrow> keeps f (if b then m else n)"
  by simp

lemma keeps_whenM [frame_rules]: "keeps f m \<Longrightarrow> keeps f (whenM b m)"
  by (simp add: whenM_def frame_rules)

lemma keeps_getf [frame_rules]: "keeps f (getf g)"
  by (simp add: keeps_def)

lemma keeps_tpget [frame_rules]: "keeps f (tpget g)"
  by (simp add: keeps_def)

lemma keeps_poll [frame_rules]: "keeps f (delay us) \<Longrightarrow> keeps f t \<Longrightarrow> keeps f (poll n us t)"
  by (induction n) (auto intro!: frame_rules)

lemma keeps_for_each [frame_rules]: "(\<And>x. keeps f (b x)) \<Longrightarrow> keeps f (for_each xs b)"
  by (induction xs) (auto intro!: frame_rules)

lemma emits_return [frame_rules]: "emits P (ret x)"
  by (simp add: emits_def)

lemma emits_skip [frame_rules]: "emits P skip"
  by (simp add: emits_def)

lemma emits_bind [frame_rules]:
  assumes "emits P m" "\<And>x. emits P (g x)"
  shows "emits P (m \<bind> g)"
  unfolding emits_def
proof
  fix s
  obtain a s' where r: "run m s = (a, s')" by fastforce
  obtain n1 where n1: "hist s' = n1 @ hist s" "\<forall>e \<in> set n1. P e"
    using assms(1) r unfolding emits_def by (metis snd_conv)
  obtain n2 where "hist (snd (run (g a) s')) = n2 @ hist s'" "\<forall>e \<in> set n2. P e"
    using assms(2) unfolding emits_def by blast
  then show "\<exists>new. hist (snd (run (m \<bind> g) s)) = new @ hist s \<and> (\<forall>e \<in> set new. P e)"
    using r n1 by (intro exI [of _ "n2 @ n1"]) auto
qed

lemma emits_if [frame_rules]:
  "(b \<Longrightarrow> emits P m) \<Longrightarrow> (\<not> b \<Longrightarrow> emits P n) \<Longrightarrow> emits P (if b then m else n)"
  by simp

lemma emits_whenM [frame_rules]: "emits P m \<Longrightarrow> emits P (whenM b m)"
  by (simp add: whenM_def frame_rules)

lemma emits_getf [frame_rules]: "emits P (getf g)"
  by (simp add: emits_def)

lemma emits_tpget [frame_rules]: "emits P (tpget g)"
  by (simp add: emits_def)

lemma emits_tpmod [frame_rules]: "emits P (tpmod g)"
  by (simp add: emits_def)

lemma emits_poll [frame_rules]: "emits P (delay us) \<Longrightarrow> emits P t \<Longrightarrow> emits P (poll n us t)"
  by (induction n) (auto intro!: frame_rules)

lemma emits_for_each [frame_rules]: "(\<And>x. emits P (b x)) \<Longrightarrow> emits P (for_each xs b)"
  by (induction xs) (auto intro!: frame_rules)

lemma within_return [frame_rules]: "within 0 (ret x)"
  by (simp add: within_def)

lemma within_skip [frame_rules]: "within 0 skip"
  by (simp add: within_def)

lemma within_mono: "within a m \<Longrightarrow> a \<le> b \<Longrightarrow> within b m"
  unfolding within_def by (meson le_trans)

lemma within_bind [frame_rules]:
  assumes "within a m" "\<And>x. within b (g x)"
  shows "within (a + b) (m \<bind> g)"
  unfolding within_def
proof
  fix s
  obtain r s' where r: "run m s = (r, s')" by fastforce
  obtain n1 where n1: "hist s' = n1 @ hist s" "length n1 \<le> a"
    using assms(1) r unfolding within_def by (metis snd_conv)
  obtain n2 where "hist (snd (run (g r) s')) = n2 @ hist s'" "length n2 \<le> b"
    using assms(2) unfolding within_def by blast
  then show "\<exists>new. hist (snd (run (m \<bind> g) s)) = new @ hist s \<and> length new \<le> a + b"
    using r n1 by (intro exI [of _ "n2 @ n1"]) auto
qed

lemma within_if [frame_rules]: "within a m \<Longrightarrow> within b n \<Longrightarrow> within (max a b) (if c then m else n)"
  by (auto intro: within_mono)

lemma within_whenM [frame_rules]: "within a m \<Longrightarrow> within a (whenM c m)"
  by (auto simp: whenM_def skip_def intro: within_mono [OF within_return])

lemma within_getf [frame_rules]: "within 0 (getf g)"
  by (simp add: within_def)

lemma within_tpget [frame_rules]: "within 0 (tpget g)"
  by (simp add: within_def)

lemma within_tpmod [frame_rules]: "within 0 (tpmod g)"
  by (simp add: within_def)

lemma within_delay [frame_rules]: "within 1 (delay us)"
  by (simp add: within_def)

lemma within_bus_read [frame_rules]: "within 1 (bus_read a)"
  by (simp add: within_def)

lemma within_bus_write [frame_rules]: "within 1 (bus_write a v)"
  by (simp add: within_def)

lemma within_poll [frame_rules]:
  assumes "within a t"
  shows "within (n * (1 + a)) (poll n us t)"
proof (induction n)
  case (Suc n)
  have "within (1 + (a + max 0 (n * (1 + a)))) (poll (Suc n) us t)"
    unfolding poll.simps
    by (intro within_bind within_delay within_if within_return assms Suc)
  then show ?case by (rule within_mono) simp
qed (simp add: within_return)

lemma within_for_each [frame_rules]:
  assumes "\<And>x. within a (b x)"
  shows "within (length xs * a) (for_each xs b)"
proof (induction xs)
  case (Cons x xs)
  have "within (a + length xs * a) (for_each (x # xs) b)"
    unfolding for_each.simps by (intro within_bind assms Cons)
  then show ?case by (rule within_mono) simp
qed (simp add: within_skip)

lemma keeps_modf [frame_rules]: "(\<And>s. f (g s) = f s) \<Longrightarrow> keeps f (modf g)"
  by (simp add: keeps_def)

lemma keeps_tpmod [frame_rules]: "(\<And>s. f (s\<lparr>tp := g (tp s)\<rparr>) = f s) \<Longrightarrow> keeps f (tpmod g)"
  by (simp add: keeps_def)

lemma keeps_delay: "(\<And>s h. f (s\<lparr>hist := h\<rparr>) = f s) \<Longrightarrow> keeps f (delay us)"
  by (simp add: keeps_def)

lemma keeps_bus_read [frame_rules]: "(\<And>s h. f (s\<lparr>hist := h\<rparr>) = f s) \<Longrightarrow> keeps f (bus_read a)"
  by (simp add: keeps_def)

lemma keeps_bus_write [frame_rules]: "(\<And>s h. f (s\<lparr>hist := h\<rparr>) = f s) \<Longrightarrow> keeps f (bus_write a v)"
  by (simp add: keeps_def)

lemma emits_delay [frame_rules]: "P (Delay us) \<Longrightarrow> emits P (delay us)"
  by (simp add: emits_def)

lemma emits_bus_read [frame_rules]: "(\<And>v. P (Rd a v)) \<Longrightarrow> emits P (bus_read a)"
  by (simp add: emits_def)

lemma emits_bus_write [frame_rules]: "P (Wr a v) \<Longrightarrow> emits P (bus_write a v)"
  by (simp add: emits_def)

end
