(* ===== verification/Registers.thy ===== *)
theory Registers
  imports Mmio
begin

text \<open>
  Register offsets and field constants of the controller, as \<open>rtl812xx.h\<close>,
  \<open>linux/uapi/linux/mii.h\<close> and \<open>ethtool.h\<close> define them. They are abbreviations,
  so that every definition computes with the numbers themselves.
\<close>

abbreviation "MAC0 \<equiv> (0x00 :: u16)"
abbreviation "MAC4 \<equiv> (0x04 :: u16)"
abbreviation "MAR0 \<equiv> (0x08 :: u16)"
abbreviation "MAR1 \<equiv> (0x0C :: u16)"
abbreviation "CounterAddrLow \<equiv> (0x10 :: u16)"
abbreviation "CounterAddrHigh \<equiv> (0x14 :: u16)"
abbreviation "TxDescStartAddrLow \<equiv> (0x20 :: u16)"
abbreviation "TxDescStartAddrHigh \<equiv> (0x24 :: u16)"
abbreviation "INT_CFG0_8125 \<equiv> (0x34 :: u16)"
abbreviation "ChipCmd \<equiv> (0x37 :: u16)"
abbreviation "IMR0_8125 \<equiv> (0x38 :: u16)"
abbreviation "ISR0_8125 \<equiv> (0x3C :: u16)"
abbreviation "TxConfig \<equiv> (0x40 :: u16)"
abbreviation "RxConfig \<equiv> (0x44 :: u16)"
abbreviation "TCTR0_8125 \<equiv> (0x48 :: u16)"
abbreviation "Cfg9346 \<equiv> (0x50 :: u16)"
abbreviation "Config1 \<equiv> (0x52 :: u16)"
abbreviation "Config2 \<equiv> (0x53 :: u16)"
abbreviation "Config3 \<equiv> (0x54 :: u16)"
abbreviation "Config5 \<equiv> (0x56 :: u16)"
abbreviation "TDFNR \<equiv> (0x57 :: u16)"
abbreviation "TIMER_INT0_8125 \<equiv> (0x58 :: u16)"
abbreviation "TIMER_INT1_8125 \<equiv> (0x5C :: u16)"
abbreviation "CSIDR \<equiv> (0x64 :: u16)"
abbreviation "CSIAR \<equiv> (0x68 :: u16)"
abbreviation "PHYstatus \<equiv> (0x6C :: u16)"
abbreviation "PMCH \<equiv> (0x6F :: u16)"
abbreviation "ERIDR \<equiv> (0x70 :: u16)"
abbreviation "ERIAR \<equiv> (0x74 :: u16)"
abbreviation "INT_CFG1_8125 \<equiv> (0x7A :: u16)"
abbreviation "EPHYAR \<equiv> (0x80 :: u16)"
abbreviation "TimeInt2 \<equiv> (0x8C :: u16)"
abbreviation "TIMER_INT2_8125 \<equiv> (0x8C :: u16)"
abbreviation "MACOCP \<equiv> (0xB0 :: u16)"
abbreviation "PHYOCP \<equiv> (0xB8 :: u16)"
abbreviation "MCUCmd_reg \<equiv> (0xD3 :: u16)"
abbreviation "RxMaxSize \<equiv> (0xDA :: u16)"
abbreviation "CPlusCmd \<equiv> (0xE0 :: u16)"
abbreviation "IntrMitigate \<equiv> (0xE2 :: u16)"
abbreviation "RxDescAddrLow \<equiv> (0xE4 :: u16)"
abbreviation "RxDescAddrHigh \<equiv> (0xE8 :: u16)"
abbreviation "TIMER_INT3_8125 \<equiv> (0xF4 :: u16)"
abbreviation "RADMFIFO_PROTECT \<equiv> (0x0402 :: u16)"
abbreviation "INT_MITI_V2_0_RX \<equiv> (0x0A00 :: u16)"
abbreviation "INT_MITI_V2_0_TX \<equiv> (0x0A02 :: u16)"
abbreviation "INT_MITI_V2_1_TX \<equiv> (0x0A0A :: u16)"
abbreviation "SW_TAIL_PTR0_8125BP \<equiv> (0x0D30 :: u16)"
abbreviation "HW_CLO_PTR0_8125BP \<equiv> (0x0D34 :: u16)"
abbreviation "BACKUP_ADDR0_8125 \<equiv> (0x19E0 :: u16)"
abbreviation "BACKUP_ADDR1_8125 \<equiv> (0x19E4 :: u16)"
abbreviation "SW_TAIL_PTR0_8125 \<equiv> (0x2800 :: u16)"
abbreviation "HW_CLO_PTR0_8125 \<equiv> (0x2802 :: u16)"
abbreviation "SW_TAIL_PTR0_8126 \<equiv> (0x2800 :: u16)"
abbreviation "HW_CLO_PTR0_8126 \<equiv> (0x2800 :: u16)"
abbreviation "RSS_CTRL_8125 \<equiv> (0x4500 :: u16)"
abbreviation "Q_NUM_CTRL_8125 \<equiv> (0x4800 :: u16)"
abbreviation "EEE_TXIDLE_TIMER_8125 \<equiv> (0x6048 :: u16)"

abbreviation "BIT_0 \<equiv> 0x1"
abbreviation "BIT_1 \<equiv> 0x2"
abbreviation "BIT_2 \<equiv> 0x4"
abbreviation "BIT_3 \<equiv> 0x8"
abbreviation "BIT_4 \<equiv> 0x10"
abbreviation "BIT_5 \<equiv> 0x20"
abbreviation "BIT_6 \<equiv> 0x40"
abbreviation "BIT_7 \<equiv> 0x80"
abbreviation "BIT_8 \<equiv> 0x100"
abbreviation "BIT_9 \<equiv> 0x200"
abbreviation "BIT_10 \<equiv> 0x400"
abbreviation "BIT_11 \<equiv> 0x800"
abbreviation "BIT_12 \<equiv> 0x1000"
abbreviation "BIT_13 \<equiv> 0x2000"
abbreviation "BIT_14 \<equiv> 0x4000"
abbreviation "BIT_15 \<equiv> 0x8000"

abbreviation "OCPR_Write \<equiv> (0x80000000 :: u32)"
abbreviation "OCPR_Flag \<equiv> (0x80000000 :: u32)"
abbreviation "OCPDR_Data_Mask \<equiv> (0xFFFF :: u32)"
abbreviation "OCP_STD_PHY_BASE_PAGE \<equiv> (0x0A40 :: u16)"
abbreviation "EPHYAR_Flag \<equiv> (0x80000000 :: u32)"
abbreviation "EPHYAR_Write \<equiv> (0x80000000 :: u32)"
abbreviation "EPHYAR_Reg_Mask_v2 \<equiv> (0x7f :: u32)"
abbreviation "CSIAR_Flag \<equiv> (0x80000000 :: u32)"
abbreviation "CSIAR_Write \<equiv> (0x80000000 :: u32)"
abbreviation "CSIAR_ByteEn \<equiv> (0x0f :: u32)"
abbreviation "CSIAR_Addr_Mask \<equiv> (0x0fff :: u32)"
abbreviation "ERIAR_Flag \<equiv> (0x80000000 :: u32)"
abbreviation "ERIAR_Write \<equiv> (0x80000000 :: u32)"
abbreviation "ERIAR_ByteEn \<equiv> (0x0f :: u32)"
abbreviation "ERIAR_OOB \<equiv> (2 :: u32)"
abbreviation "ERIAR_ExGMAC \<equiv> (0 :: u32)"

abbreviation "Cfg9346_EEM_MASK \<equiv> (0xC0 :: u8)"
abbreviation "Cfg9346_Unlock \<equiv> (0xC0 :: u8)"
abbreviation "StopReq \<equiv> (0x80 :: u8)"
abbreviation "CmdReset \<equiv> (0x10 :: u8)"
abbreviation "CmdRxEnb \<equiv> (0x08 :: u8)"
abbreviation "CmdTxEnb \<equiv> (0x04 :: u8)"
abbreviation "Now_is_oob \<equiv> (0x80 :: u8)"
abbreviation "Txfifo_empty \<equiv> (0x20 :: u8)"
abbreviation "Rxfifo_empty \<equiv> (0x10 :: u8)"
abbreviation "AcceppVlanPhys \<equiv> (0x8000 :: u16)"
abbreviation "PMEnable \<equiv> (0x01 :: u8)"
abbreviation "PMSTS_En \<equiv> (0x20 :: u8)"
abbreviation "MagicPacket \<equiv> (0x20 :: u8)"
abbreviation "LinkUp \<equiv> (0x10 :: u8)"
abbreviation "BWF \<equiv> (0x40 :: u8)"
abbreviation "MWF \<equiv> (0x20 :: u8)"
abbreviation "UWF \<equiv> (0x10 :: u8)"
abbreviation "LanWake \<equiv> (0x02 :: u8)"

abbreviation "AcceptErr \<equiv> (0x20 :: u32)"
abbreviation "AcceptRunt \<equiv> (0x10 :: u32)"
abbreviation "AcceptBroadcast \<equiv> (0x08 :: u32)"
abbreviation "AcceptMulticast \<equiv> (0x04 :: u32)"
abbreviation "AcceptMyPhys \<equiv> (0x02 :: u32)"
abbreviation "AcceptAllPhys \<equiv> (0x01 :: u32)"

abbreviation "WAKE_PHY \<equiv> (0x01 :: u32)"
abbreviation "WAKE_UCAST \<equiv> (0x02 :: u32)"
abbreviation "WAKE_MCAST \<equiv> (0x04 :: u32)"
abbreviation "WAKE_BCAST \<equiv> (0x08 :: u32)"
abbreviation "WAKE_MAGIC \<equiv> (0x20 :: u32)"
abbreviation "WAKEUP_MAGIC_PACKET_V3 \<equiv> (3 :: u8)"

abbreviation "MII_BMCR \<equiv> (0x00 :: u16)"
abbreviation "MII_ADVERTISE \<equiv> (0x04 :: u16)"
abbreviation "MII_LPA \<equiv> (0x05 :: u16)"
abbreviation "MII_EXPANSION \<equiv> (0x06 :: u16)"
abbreviation "MII_CTRL1000 \<equiv> (0x09 :: u16)"
abbreviation "MII_STAT1000 \<equiv> (0x0a :: u16)"
abbreviation "BMCR_FULLDPLX \<equiv> (0x0100 :: u16)"
abbreviation "BMCR_ANRESTART \<equiv> (0x0200 :: u16)"
abbreviation "BMCR_PDOWN \<equiv> (0x0800 :: u16)"
abbreviation "BMCR_ANENABLE \<equiv> (0x1000 :: u16)"
abbreviation "BMCR_SPEED100 \<equiv> (0x2000 :: u16)"
abbreviation "BMCR_RESET \<equiv> (0x8000 :: u16)"
abbreviation "ADVERTISE_10HALF \<equiv> 0x0020"
abbreviation "ADVERTISE_10FULL \<equiv> 0x0040"
abbreviation "ADVERTISE_100HALF \<equiv> 0x0080"
abbreviation "ADVERTISE_100FULL \<equiv> 0x0100"
abbreviation "ADVERTISE_1000HALF \<equiv> 0x0100"
abbreviation "ADVERTISE_1000FULL \<equiv> 0x0200"
abbreviation "RTK_ADVERTISE_2500FULL \<equiv> 0x80"
abbreviation "RTK_ADVERTISE_5000FULL \<equiv> 0x100"
abbreviation "RTK_ADVERTISE_10000FULL \<equiv> 0x1000"

abbreviation "ADVERTISED_10baseT_Half \<equiv> (0x1 :: u64)"
abbreviation "ADVERTISED_10baseT_Full \<equiv> (0x2 :: u64)"
abbreviation "ADVERTISED_100baseT_Half \<equiv> (0x4 :: u64)"
abbreviation "ADVERTISED_100baseT_Full \<equiv> (0x8 :: u64)"
abbreviation "ADVERTISED_1000baseT_Half \<equiv> (0x10 :: u64)"
abbreviation "ADVERTISED_1000baseT_Full \<equiv> (0x20 :: u64)"
abbreviation "ADVERTISED_10000baseT_Full \<equiv> (0x1000 :: u64)"
abbreviation "ADVERTISED_2500baseX_Full \<equiv> (0x8000 :: u64)"
abbreviation "RTK_ADVERTISED_5000baseX_Full \<equiv> (0x1000000000000 :: u64)"

abbreviation "SPEED_10 \<equiv> (10 :: u32)"
abbreviation "SPEED_100 \<equiv> (100 :: u32)"
abbreviation "SPEED_1000 \<equiv> (1000 :: u32)"
abbreviation "SPEED_2500 \<equiv> (2500 :: u32)"
abbreviation "SPEED_5000 \<equiv> (5000 :: u32)"
abbreviation "SPEED_10000 \<equiv> (10000 :: u32)"
abbreviation "DUPLEX_HALF \<equiv> (0 :: u8)"
abbreviation "DUPLEX_FULL \<equiv> (1 :: u8)"
abbreviation "AUTONEG_DISABLE \<equiv> (0 :: u8)"
abbreviation "AUTONEG_ENABLE \<equiv> (1 :: u8)"

abbreviation "rtl8125_fc_none \<equiv> (0 :: u32)"
abbreviation "rtl8125_fc_full \<equiv> (3 :: u32)"

end
