(* ===== verification/Firmware.thy ===== *)
theory Firmware
  imports Registers
begin

text \<open>
  PHY firmware (\<open>rtl812x_firmware.c\<close>): the container check
  (\<open>rtl8125_fw_format_ok\<close>), the program check (\<open>rtl8125_fw_data_ok\<close>) and the
  interpreter of the patch language (\<open>rtl8125_fw_write_firmware\<close>). A blob is
  its list of bytes. The four access functions of \<open>struct rtl8125_fw\<close> are
  fields of the model's record, so the interpreter runs over any of them. Its
  loop need not end, so it takes fuel: \<open>fw_loop\<close> returns \<open>None\<close> when the
  fuel is used up.
\<close>

definition FW_OPCODE_SIZE :: nat where "FW_OPCODE_SIZE = 4"
definition RTL8125_VER_SIZE :: nat where "RTL8125_VER_SIZE = 32"

text \<open>\<open>struct fw_info\<close>, packed: magic, version, start, length, checksum.\<close>

definition FW_INFO_SIZE :: nat where "FW_INFO_SIZE = 4 + RTL8125_VER_SIZE + 4 + 4 + 1"

datatype rtl_fw_opcode =
    PHY_READ | PHY_DATA_OR | PHY_DATA_AND | PHY_BJMPN | PHY_MDIO_CHG | PHY_CLEAR_READCOUNT
  | PHY_WRITE | PHY_READCOUNT_EQ_SKIP | PHY_COMP_EQ_SKIPN | PHY_COMP_NEQ_SKIPN
  | PHY_WRITE_PREVIOUS | PHY_SKIPN | PHY_DELAY_MS

definition fw_opcode :: "u32 \<Rightarrow> rtl_fw_opcode option" where
  "fw_opcode action =
    (let k = unat (drop_bit 28 action) in
     if k = 0x0 then Some PHY_READ else if k = 0x1 then Some PHY_DATA_OR
     else if k = 0x2 then Some PHY_DATA_AND else if k = 0x3 then Some PHY_BJMPN
     else if k = 0x4 then Some PHY_MDIO_CHG else if k = 0x7 then Some PHY_CLEAR_READCOUNT
     else if k = 0x8 then Some PHY_WRITE else if k = 0x9 then Some PHY_READCOUNT_EQ_SKIP
     else if k = 0xa then Some PHY_COMP_EQ_SKIPN else if k = 0xb then Some PHY_COMP_NEQ_SKIPN
     else if k = 0xc then Some PHY_WRITE_PREVIOUS else if k = 0xd then Some PHY_SKIPN
     else if k = 0xe then Some PHY_DELAY_MS else None)"

definition fw_data :: "u32 \<Rightarrow> u32" where
  "fw_data action = action AND 0x0000ffff"

definition fw_regno :: "u32 \<Rightarrow> u32" where
  "fw_regno action = drop_bit 16 (action AND 0x0fff0000)"

definition le32 :: "u8 list \<Rightarrow> nat \<Rightarrow> u32" where
  "le32 d i = ucast (d ! i) OR push_bit 8 (ucast (d ! (i + 1))) OR
     push_bit 16 (ucast (d ! (i + 2))) OR push_bit 24 (ucast (d ! (i + 3)))"

text \<open>
  \<open>strscpy\<close>: the copied characters, terminating NUL included, and whether the
  result is \<open>-E2BIG\<close>. \<open>None\<close> is a read beyond the source.
\<close>

fun strscpy_loop :: "u8 list \<Rightarrow> nat \<Rightarrow> (u8 list \<times> bool) option" where
  "strscpy_loop src 0 = Some ([], True)"
| "strscpy_loop [] (Suc count) = None"
| "strscpy_loop (c # src) (Suc count) =
    (if c = 0 then Some ([0], False)
     else map_option (\<lambda>(d, big). (c # d, big)) (strscpy_loop src count))"

definition strscpy :: "u8 list \<Rightarrow> nat \<Rightarrow> (u8 list \<times> bool) option" where
  "strscpy src count =
    (if count = 0 then Some ([], True)
     else case strscpy_loop src count of
       None \<Rightarrow> None
     | Some (d, False) \<Rightarrow> Some (d, False)
     | Some (d, True) \<Rightarrow> Some (if d \<noteq> [] then d[length d - 1 := 0] else d, True))"

record rtl8125_fw =
  phy_write :: "u16 \<Rightarrow> u16 \<Rightarrow> unit hwm"
  phy_read :: "u16 \<Rightarrow> u32 hwm"
  mac_mcu_write :: "u16 \<Rightarrow> u16 \<Rightarrow> unit hwm"
  mac_mcu_read :: "u16 \<Rightarrow> u32 hwm"
  fw_blob :: "u8 list"
  fw_name :: "u8 list"
  fw_version :: "u8 list"
  pa_code :: "u32 list"
  pa_size :: nat

definition fw_words :: "u8 list \<Rightarrow> nat \<Rightarrow> nat \<Rightarrow> u32 list" where
  "fw_words d start sz = map (\<lambda>i. le32 d (start + FW_OPCODE_SIZE * i)) [0..<sz]"

text \<open>The C result and the updated structure.\<close>

definition rtl8125_fw_format_ok :: "rtl8125_fw \<Rightarrow> bool \<times> rtl8125_fw" where
  "rtl8125_fw_format_ok rtl_fw =
    (let d = fw_blob rtl_fw; fsize = length d in
     if fsize < FW_OPCODE_SIZE then (False, rtl_fw)
     else if le32 d 0 = 0 then
       (if fsize < FW_INFO_SIZE then (False, rtl_fw)
        else if sum_list d \<noteq> 0 then (False, rtl_fw)
        else
          let start = unat (le32 d (4 + RTL8125_VER_SIZE)) in
          if start > fsize then (False, rtl_fw)
          else
            let sz = unat (le32 d (4 + RTL8125_VER_SIZE + 4)) in
            if sz > (fsize - start) div FW_OPCODE_SIZE then (False, rtl_fw)
            else
              (case strscpy (drop 4 d) RTL8125_VER_SIZE of
                 None \<Rightarrow> (False, rtl_fw)
               | Some (v, _) \<Rightarrow>
                   (True, rtl_fw\<lparr>fw_version := v, pa_code := fw_words d start sz, pa_size := sz\<rparr>)))
     else
       (if fsize mod FW_OPCODE_SIZE \<noteq> 0 then (False, rtl_fw)
        else case strscpy (fw_name rtl_fw @ [0]) RTL8125_VER_SIZE of
          None \<Rightarrow> (False, rtl_fw)
        | Some (v, _) \<Rightarrow>
            (True, rtl_fw\<lparr>fw_version := v, pa_code := fw_words d 0 (fsize div FW_OPCODE_SIZE),
               pa_size := fsize div FW_OPCODE_SIZE\<rparr>)))"

definition fw_action_ok :: "nat \<Rightarrow> nat \<Rightarrow> u32 \<Rightarrow> bool" where
  "fw_action_ok sz index action =
    (let val = fw_data action; regno = unat (fw_regno action) in
     case fw_opcode action of
       None \<Rightarrow> False
     | Some PHY_MDIO_CHG \<Rightarrow> \<not> val > 1
     | Some PHY_BJMPN \<Rightarrow> \<not> regno > index
     | Some PHY_READCOUNT_EQ_SKIP \<Rightarrow> \<not> index + 2 \<ge> sz
     | Some PHY_COMP_EQ_SKIPN \<Rightarrow> \<not> index + 1 + regno \<ge> sz
     | Some PHY_COMP_NEQ_SKIPN \<Rightarrow> \<not> index + 1 + regno \<ge> sz
     | Some PHY_SKIPN \<Rightarrow> \<not> index + 1 + regno \<ge> sz
     | Some _ \<Rightarrow> True)"

fun fw_data_ok_from :: "nat \<Rightarrow> nat \<Rightarrow> u32 list \<Rightarrow> bool" where
  "fw_data_ok_from sz index [] = True"
| "fw_data_ok_from sz index (a # rest) =
    (fw_action_ok sz index a \<and> fw_data_ok_from sz (index + 1) rest)"

definition rtl8125_fw_data_ok :: "rtl8125_fw \<Rightarrow> bool" where
  "rtl8125_fw_data_ok rtl_fw = fw_data_ok_from (pa_size rtl_fw) 0 (pa_code rtl_fw)"

subsection \<open>Interpreter\<close>

record fw_machine =
  fw_index :: u64
  predata :: u32
  fw_count :: u32
  on_mac :: bool

text \<open>
  One pass through the loop body and the \<open>index++\<close>; \<open>None\<close> is the \<open>break\<close> on a
  zero action. The index is a 64-bit \<open>size_t\<close>, so a jump that goes too far back
  would wrap.
\<close>

definition fw_step :: "rtl8125_fw \<Rightarrow> u32 \<Rightarrow> fw_machine \<Rightarrow> fw_machine option hwm" where
  "fw_step rtl_fw action m =
    (let data = fw_data action; regno = fw_regno action; i = fw_index m;
         rd = (if on_mac m then mac_mcu_read rtl_fw else phy_read rtl_fw);
         wr = (if on_mac m then mac_mcu_write rtl_fw else phy_write rtl_fw);
         next = (\<lambda>m' j. ret (Some (m'\<lparr>fw_index := j + 1\<rparr>)))
     in if action = 0 then ret None
        else case fw_opcode action of
          None \<Rightarrow> next m i
        | Some PHY_READ \<Rightarrow> do { v \<leftarrow> rd (ucast regno); next (m\<lparr>predata := v, fw_count := fw_count m + 1\<rparr>) i }
        | Some PHY_DATA_OR \<Rightarrow> next (m\<lparr>predata := predata m OR data\<rparr>) i
        | Some PHY_DATA_AND \<Rightarrow> next (m\<lparr>predata := predata m AND data\<rparr>) i
        | Some PHY_BJMPN \<Rightarrow> next m (i - (ucast regno + 1))
        | Some PHY_MDIO_CHG \<Rightarrow> next (m\<lparr>on_mac := (data \<noteq> 0)\<rparr>) i
        | Some PHY_CLEAR_READCOUNT \<Rightarrow> next (m\<lparr>fw_count := 0\<rparr>) i
        | Some PHY_WRITE \<Rightarrow> do { wr (ucast regno) (ucast data); next m i }
        | Some PHY_READCOUNT_EQ_SKIP \<Rightarrow> next m (if fw_count m = data then i + 1 else i)
        | Some PHY_COMP_EQ_SKIPN \<Rightarrow> next m (if predata m = data then i + ucast regno else i)
        | Some PHY_COMP_NEQ_SKIPN \<Rightarrow> next m (if predata m \<noteq> data then i + ucast regno else i)
        | Some PHY_WRITE_PREVIOUS \<Rightarrow> do { wr (ucast regno) (ucast (predata m)); next m i }
        | Some PHY_SKIPN \<Rightarrow> next m (i + ucast regno)
        | Some PHY_DELAY_MS \<Rightarrow> do { mdelay (unat data); next m i })"

text \<open>\<open>Some (Some m)\<close>: the loop ended; \<open>Some None\<close>: it read outside the code.\<close>

fun fw_loop :: "nat \<Rightarrow> rtl8125_fw \<Rightarrow> fw_machine \<Rightarrow> fw_machine option option hwm" where
  "fw_loop 0 rtl_fw m = ret None"
| "fw_loop (Suc fuel) rtl_fw m =
    (if unat (fw_index m) < pa_size rtl_fw then
       (if unat (fw_index m) < length (pa_code rtl_fw) then do {
          r \<leftarrow> fw_step rtl_fw (pa_code rtl_fw ! unat (fw_index m)) m;
          (case r of None \<Rightarrow> ret (Some (Some m)) | Some m' \<Rightarrow> fw_loop fuel rtl_fw m')
        } else ret (Some None))
     else ret (Some (Some m)))"

definition fw_machine_init :: fw_machine where
  "fw_machine_init = \<lparr>fw_index = 0, predata = 0, fw_count = 0, on_mac = False\<rparr>"

definition rtl8125_fw_write_firmware :: "nat \<Rightarrow> rtl8125_fw \<Rightarrow> fw_machine option option hwm" where
  "rtl8125_fw_write_firmware fuel rtl_fw = fw_loop fuel rtl_fw fw_machine_init"


subsection \<open>Safety of accepted programs\<close>

definition fw_wf :: "rtl8125_fw \<Rightarrow> bool" where
  "fw_wf fw \<longleftrightarrow> pa_size fw = length (pa_code fw) \<and> pa_size fw < 2 ^ 32"

lemma fw_regno_bound: "unat (fw_regno a) < 4096"
proof -
  have "fw_regno a = drop_bit 16 a AND 0xfff"
    unfolding fw_regno_def by (simp only: drop_bit_and) simp
  moreover have "(0xfff :: u32) = mask 12" by (simp add: mask_eq_exp_minus_1)
  ultimately show ?thesis
    using unat_and_mask_eq_mod [of "drop_bit 16 a" 12] by simp
qed

lemma fw_data_ok_nth:
  "fw_data_ok_from sz k code \<Longrightarrow> i < length code \<Longrightarrow> fw_action_ok sz (k + i) (code ! i)"
proof (induction code arbitrary: k i)
  case (Cons a code)
  then show ?case using Cons.IH [of "Suc k" "i - 1"] by (cases i) auto
qed simp

text \<open>The index after one step.\<close>

definition fw_target :: "u32 \<Rightarrow> u64 \<Rightarrow> u64 \<Rightarrow> bool" where
  "fw_target a i j \<longleftrightarrow> j = i + 1 \<or>
     (fw_opcode a = Some PHY_READCOUNT_EQ_SKIP \<and> j = i + 1 + 1) \<or>
     (fw_opcode a \<in> {Some PHY_COMP_EQ_SKIPN, Some PHY_COMP_NEQ_SKIPN, Some PHY_SKIPN} \<and> j = i + ucast (fw_regno a) + 1)"

lemma fw_step_index:
  assumes "fst (run (fw_step fw a m) s) = Some m'"
  shows "if fw_opcode a = Some PHY_BJMPN then fw_index m' = fw_index m - ucast (fw_regno a)
    else fw_target a (fw_index m) (fw_index m')"
  using assms unfolding fw_step_def Let_def
  by (auto simp: fw_target_def fst_run_bind simp del: run_state_bind split: option.splits rtl_fw_opcode.splits if_splits)

lemma fw_step_in_range:
  assumes wf: "fw_wf fw" and ok: "rtl8125_fw_data_ok fw" and i: "unat (fw_index m) < pa_size fw"
    and st: "fst (run (fw_step fw (pa_code fw ! unat (fw_index m)) m) s) = Some m'"
  shows "unat (fw_index m') \<le> pa_size fw"
    and "fw_opcode (pa_code fw ! unat (fw_index m)) \<noteq> Some PHY_BJMPN \<Longrightarrow> unat (fw_index m) < unat (fw_index m')"
proof -
  let ?i = "fw_index m" and ?a = "pa_code fw ! unat (fw_index m)"
  let ?r = "unat (fw_regno ?a)"
  have a: "fw_action_ok (pa_size fw) (unat ?i) ?a"
    using ok wf i fw_data_ok_nth [of "pa_size fw" 0 "pa_code fw" "unat ?i"]
    by (simp add: rtl8125_fw_data_ok_def fw_wf_def)
  have sz: "pa_size fw < 2 ^ 32" using wf by (simp add: fw_wf_def)
  have r: "?r < 4096" by (rule fw_regno_bound)
  have p1: "unat (?i + 1) = unat ?i + 1" "unat (?i + 1 + 1) = unat ?i + 2"
    "unat (?i + ucast (fw_regno ?a) + 1) = unat ?i + ?r + 1"
    using i sz r by (simp_all add: unat_word_ariths unat_ucast_wider)
  have t: "unat ?i < unat j \<and> unat j \<le> pa_size fw" if "fw_target ?a ?i j" for j
    using that a i p1 unfolding fw_target_def fw_action_ok_def Let_def
    by (elim disjE conjE) auto
  have b: "unat (?i - ucast (fw_regno ?a)) \<le> pa_size fw" if "fw_opcode ?a = Some PHY_BJMPN"
  proof -
    have "?r \<le> unat ?i" using a that by (simp add: fw_action_ok_def)
    then have "ucast (fw_regno ?a) \<le> ?i" by (simp add: word_le_nat_alt unat_ucast_wider)
    then show ?thesis using i by (simp add: unat_sub)
  qed
  show "unat (fw_index m') \<le> pa_size fw"
    using fw_step_index [OF st] t b by (auto split: if_splits)
  show "fw_opcode ?a \<noteq> Some PHY_BJMPN \<Longrightarrow> unat ?i < unat (fw_index m')"
    using fw_step_index [OF st] t by auto
qed

lemma fw_loop_in_range:
  assumes "fw_wf fw" "rtl8125_fw_data_ok fw" "unat (fw_index m) \<le> pa_size fw"
  shows "fst (run (fw_loop fuel fw m) s) \<noteq> Some None"
  using assms
proof (induction fuel arbitrary: m s)
  case (Suc fuel)
  show ?case
  proof (cases "unat (fw_index m) < pa_size fw")
    case True
    let ?st = "run (fw_step fw (pa_code fw ! unat (fw_index m)) m) s"
    have "fst (run (fw_loop fuel fw m') (snd ?st)) \<noteq> Some None" if "fst ?st = Some m'" for m'
      using Suc.prems fw_step_in_range(1) [OF Suc.prems(1,2) True that] by (intro Suc.IH)
    then show ?thesis
      using True Suc.prems
      by (auto simp: fst_run_bind fw_wf_def simp del: run_state_bind split: option.splits)
  qed simp
qed simp


lemma fw_loop_terminates:
  assumes "fw_wf fw" "rtl8125_fw_data_ok fw" "unat (fw_index m) \<le> pa_size fw"
    and "\<forall>a \<in> set (pa_code fw). fw_opcode a \<noteq> Some PHY_BJMPN"
    and "pa_size fw - unat (fw_index m) < fuel"
  shows "\<exists>m'. fst (run (fw_loop fuel fw m) s) = Some (Some m')"
  using assms
proof (induction fuel arbitrary: m s)
  case (Suc fuel)
  show ?case
  proof (cases "unat (fw_index m) < pa_size fw")
    case True
    let ?a = "pa_code fw ! unat (fw_index m)"
    let ?st = "run (fw_step fw ?a m) s"
    have nb: "fw_opcode ?a \<noteq> Some PHY_BJMPN"
      using Suc.prems(1,4) True by (simp add: fw_wf_def)
    have "\<exists>m''. fst (run (fw_loop fuel fw m') (snd ?st)) = Some (Some m'')" if "fst ?st = Some m'" for m'
      using Suc.prems fw_step_in_range [OF Suc.prems(1,2) True that] nb by (intro Suc.IH) auto
    then show ?thesis
      using True Suc.prems
      by (auto simp: fst_run_bind fw_wf_def simp del: run_state_bind split: option.splits)
  qed simp
qed simp

text \<open>
  (C27) An accepted program without backward jumps runs to its end: one pass
  per instruction is enough fuel, whatever the PHY answers.
\<close>

theorem fw_straight_line_terminates:
  assumes "fw_wf fw" "rtl8125_fw_data_ok fw"
    and "\<forall>a \<in> set (pa_code fw). fw_opcode a \<noteq> Some PHY_BJMPN"
  shows "\<exists>m. fst (run (rtl8125_fw_write_firmware (pa_size fw + 1) fw) s) = Some (Some m)"
  unfolding rtl8125_fw_write_firmware_def
  using assms by (intro fw_loop_terminates) (simp_all add: fw_machine_init_def)


definition sample_fw :: "u32 list \<Rightarrow> rtl8125_fw" where
  "sample_fw code = \<lparr>phy_write = (\<lambda>_ _. skip), phy_read = (\<lambda>_. ret 0), mac_mcu_write = (\<lambda>_ _. skip),
     mac_mcu_read = (\<lambda>_. ret 0), fw_blob = [], fw_name = [], fw_version = [],
     pa_code = code, pa_size = length code\<rparr>"

text \<open>Read, compare and skip one instruction, write, delay.\<close>

definition sample_code :: "u32 list" where
  "sample_code = [0x00100000, 0xa0010000, 0x80110001, 0xe0000001]"

lemma sample_fw_ok: "fw_wf (sample_fw sample_code) \<and> rtl8125_fw_data_ok (sample_fw sample_code)"
  by (simp add: sample_fw_def sample_code_def fw_wf_def rtl8125_fw_data_ok_def fw_action_ok_def
      fw_opcode_def fw_data_def fw_regno_def)


theorem fw_straight_line_terminates_witness:
  "\<forall>s. \<exists>m. fst (run (rtl8125_fw_write_firmware 5 (sample_fw sample_code)) s) = Some (Some m)"
proof
  fix s
  have "\<forall>a \<in> set (pa_code (sample_fw sample_code)). fw_opcode a \<noteq> Some PHY_BJMPN"
    by (simp add: sample_fw_def sample_code_def fw_opcode_def)
  note r = fw_straight_line_terminates [OF conjunct1 [OF sample_fw_ok] conjunct2 [OF sample_fw_ok] this, of s]
  have "pa_size (sample_fw sample_code) + 1 = 5" by (simp add: sample_fw_def sample_code_def)
  with r show "\<exists>m. fst (run (rtl8125_fw_write_firmware 5 (sample_fw sample_code)) s) = Some (Some m)"
    by (simp only:)
qed

text \<open>
  (C40) The program check does not exclude endless loops: the one-word program
  whose instruction jumps back by zero is accepted, and the interpreter runs on
  it forever.
\<close>

theorem fw_check_admits_endless_loop:
  "rtl8125_fw_data_ok (sample_fw [0x30000000]) \<and>
   fst (run (rtl8125_fw_write_firmware fuel (sample_fw [0x30000000])) s) = None"
proof
  show "rtl8125_fw_data_ok (sample_fw [0x30000000])"
    by (simp add: sample_fw_def rtl8125_fw_data_ok_def fw_action_ok_def fw_opcode_def fw_data_def fw_regno_def)
  have step: "fw_step fw 0x30000000 m = ret (Some m)" for fw m
    by (cases m) (simp add: fw_step_def fw_opcode_def fw_regno_def fw_data_def)
  have "fst (run (fw_loop fuel (sample_fw [0x30000000]) m) s) = None" if "fw_index m = 0" for m
    using that
  proof (induction fuel)
    case (Suc fuel)
    then show ?case by (simp add: sample_fw_def step)
  qed simp
  then show "fst (run (rtl8125_fw_write_firmware fuel (sample_fw [0x30000000])) s) = None"
    by (simp add: rtl8125_fw_write_firmware_def fw_machine_init_def)
qed


subsection \<open>Container\<close>

lemma strscpy_loop_bounds:
  "strscpy_loop src count = Some (d, big) \<Longrightarrow>
     length d \<le> count \<and> (if big then length d = count else d \<noteq> [] \<and> last d = 0)"
proof (induction src count arbitrary: d big rule: strscpy_loop.induct)
  case (3 c src count)
  show ?case
  proof (cases "c = 0")
    case False
    then obtain d' where "strscpy_loop src count = Some (d', big)" "d = c # d'"
      using 3(2) by auto
    with 3(1) [OF False this(1)] show ?thesis by auto
  qed (use 3 in auto)
qed simp_all

lemma strscpy_terminated:
  assumes "strscpy src count = Some (d, big)" "0 < count"
  shows "d \<noteq> [] \<and> last d = 0 \<and> length d \<le> count"
proof -
  obtain d' big' where l: "strscpy_loop src count = Some (d', big')"
    using assms by (auto simp: strscpy_def split: option.splits if_splits)
  note b = strscpy_loop_bounds [OF l]
  show ?thesis
  proof (cases big')
    case True
    with b assms(2) have ne: "d' \<noteq> []" by auto
    with True assms l have "d = d'[length d' - 1 := 0]"
      by (simp add: strscpy_def split: if_splits)
    with ne b show ?thesis by (simp add: last_conv_nth)
  next
    case False
    with assms l b show ?thesis by (simp add: strscpy_def split: if_splits)
  qed
qed

text \<open>
  (C28) When the container check accepts a blob, the instruction words it hands
  to the interpreter lie completely inside the blob, their count is the stated
  size, and the version string is terminated and fits its buffer.
\<close>

theorem fw_format_ok_window:
  assumes "rtl8125_fw_format_ok fw = (True, fw')"
  shows "\<exists>start. start + FW_OPCODE_SIZE * pa_size fw' \<le> length (fw_blob fw) \<and>
    pa_code fw' = fw_words (fw_blob fw) start (pa_size fw') \<and> pa_size fw' = length (pa_code fw') \<and>
    fw_version fw' \<noteq> [] \<and> last (fw_version fw') = 0 \<and> length (fw_version fw') \<le> RTL8125_VER_SIZE"
proof (cases "le32 (fw_blob fw) 0 = 0")
  case True
  let ?d = "fw_blob fw"
  let ?start = "unat (le32 ?d (4 + RTL8125_VER_SIZE))" and ?sz = "unat (le32 ?d (4 + RTL8125_VER_SIZE + 4))"
  obtain v b where r: "strscpy (drop 4 ?d) RTL8125_VER_SIZE = Some (v, b)"
      "fw' = fw\<lparr>fw_version := v, pa_code := fw_words ?d ?start ?sz, pa_size := ?sz\<rparr>"
      "?start \<le> length ?d" "?sz \<le> (length ?d - ?start) div FW_OPCODE_SIZE"
    using assms True by (auto simp: rtl8125_fw_format_ok_def Let_def not_less split: if_splits option.splits)
  have "FW_OPCODE_SIZE * ?sz \<le> length ?d - ?start"
    using r(4) by (metis div_times_less_eq_dividend le_trans mult.commute mult_le_mono1)
  then show ?thesis
    using r strscpy_terminated [OF r(1)]
    by (intro exI [of _ ?start]) (simp add: fw_words_def RTL8125_VER_SIZE_def)
next
  case False
  let ?d = "fw_blob fw" and ?n = "length (fw_blob fw) div FW_OPCODE_SIZE"
  obtain v b where r: "strscpy (fw_name fw @ [0]) RTL8125_VER_SIZE = Some (v, b)"
      "fw' = fw\<lparr>fw_version := v, pa_code := fw_words ?d 0 ?n, pa_size := ?n\<rparr>"
    using assms False by (auto simp: rtl8125_fw_format_ok_def Let_def split: if_splits option.splits)
  show ?thesis
    using r strscpy_terminated [OF r(1)]
    by (intro exI [of _ 0]) (simp add: fw_words_def RTL8125_VER_SIZE_def)
qed

definition sample_blob :: "u8 list" where
  "sample_blob = [1, 0, 0, 0x80, 2, 0, 0, 0x80]"

theorem fw_format_ok_window_witness:
  "\<exists>fw'. rtl8125_fw_format_ok ((sample_fw [])\<lparr>fw_blob := sample_blob\<rparr>) = (True, fw') \<and>
     pa_size fw' = 2 \<and> last (fw_version fw') = 0"
proof -
  let ?fw = "(sample_fw [])\<lparr>fw_blob := sample_blob\<rparr>"
  have "strscpy [0 :: u8] RTL8125_VER_SIZE = Some ([0], False)"
    by (simp add: strscpy_def RTL8125_VER_SIZE_def numeral_eq_Suc)
  then obtain fw' where r: "rtl8125_fw_format_ok ?fw = (True, fw')" and n: "pa_size fw' = 2"
    by (simp add: rtl8125_fw_format_ok_def Let_def sample_fw_def sample_blob_def le32_def FW_OPCODE_SIZE_def)
  from fw_format_ok_window [OF r] r n show ?thesis by blast
qed

end
