(* ===== verification/OcpAccess.thy ===== *)
theory OcpAccess
  imports Registers
begin

text \<open>
  The indirect access channels of \<open>rtl812xx.cpp\<close>: PHY and MAC OCP registers,
  MDIO with page selection, the PCIe PHY, the CSI window onto configuration
  space and the ERI window. Each C function is one definition. The lemmas give
  the commands' encoding and its decoding, the effect of the read-modify-write
  helpers, the bound on bus accesses, and what each channel leaves alone.
\<close>

definition OCPR_cmd :: "u16 \<Rightarrow> u32" where
  "OCPR_cmd RegAddr = push_bit 16 (ucast (RegAddr div 2))"

definition map_phy_ocp_addr :: "u16 \<Rightarrow> u8 \<Rightarrow> u16" where
  "map_phy_ocp_addr PageNum RegNum =
    (let (page, reg) = (if PageNum = 0
           then (OCP_STD_PHY_BASE_PAGE + ucast (RegNum div 8), 0x10 + RegNum mod 8)
           else (PageNum, RegNum));
         page4 = push_bit 4 page
     in if reg < 16 then 0 else page4 + ucast (push_bit 1 (reg - 16)))"

definition mdio_real_direct_write_phy_ocp :: "u16 \<Rightarrow> u16 \<Rightarrow> unit hwm" where
  "mdio_real_direct_write_phy_ocp RegAddr value = do {
     RTL_W32 PHYOCP (OCPR_cmd RegAddr OR (OCPR_Write OR ucast value));
     _ \<leftarrow> poll 100 1 (do { v \<leftarrow> RTL_R32 PHYOCP; ret (v AND OCPR_Flag = 0) });
     skip
   }"

definition mdio_direct_write_phy_ocp :: "u16 \<Rightarrow> u16 \<Rightarrow> unit hwm" where
  "mdio_direct_write_phy_ocp RegAddr value = do {
     diag \<leftarrow> tpget tp_rtk_enable_diag;
     if diag then skip else mdio_real_direct_write_phy_ocp RegAddr value
   }"

definition rtl8125_mdio_real_write_phy_ocp :: "u16 \<Rightarrow> u16 \<Rightarrow> u16 \<Rightarrow> unit hwm" where
  "rtl8125_mdio_real_write_phy_ocp PageNum RegAddr value =
     mdio_real_direct_write_phy_ocp (map_phy_ocp_addr PageNum (ucast RegAddr)) value"

definition mdio_real_write :: "u16 \<Rightarrow> u16 \<Rightarrow> unit hwm" where
  "mdio_real_write RegAddr value =
    (if RegAddr = 0x1F then tpmod (tp_cur_page_update (\<lambda>_. value))
     else do {
       page \<leftarrow> tpget tp_cur_page;
       rtl8125_mdio_real_write_phy_ocp page RegAddr value
     })"

definition rtl8125_mdio_write :: "u16 \<Rightarrow> u16 \<Rightarrow> unit hwm" where
  "rtl8125_mdio_write RegAddr value = mdio_real_write RegAddr value"

definition mdio_real_direct_read_phy_ocp :: "u16 \<Rightarrow> u32 hwm" where
  "mdio_real_direct_read_phy_ocp RegAddr = do {
     RTL_W32 PHYOCP (OCPR_cmd RegAddr);
     _ \<leftarrow> poll 100 1 (do { v \<leftarrow> RTL_R32 PHYOCP; ret (v AND OCPR_Flag \<noteq> 0) });
     v \<leftarrow> RTL_R32 PHYOCP;
     ret (v AND OCPDR_Data_Mask)
   }"

definition mdio_direct_read_phy_ocp :: "u16 \<Rightarrow> u32 hwm" where
  "mdio_direct_read_phy_ocp RegAddr = mdio_real_direct_read_phy_ocp RegAddr"

definition rtl8125_mdio_real_read_phy_ocp :: "u16 \<Rightarrow> u16 \<Rightarrow> u32 hwm" where
  "rtl8125_mdio_real_read_phy_ocp PageNum RegAddr =
     mdio_real_direct_read_phy_ocp (map_phy_ocp_addr PageNum (ucast RegAddr))"

definition mdio_real_read :: "u16 \<Rightarrow> u32 hwm" where
  "mdio_real_read RegAddr = do {
     page \<leftarrow> tpget tp_cur_page;
     rtl8125_mdio_real_read_phy_ocp page RegAddr
   }"

definition rtl8125_mdio_read :: "u16 \<Rightarrow> u32 hwm" where
  "rtl8125_mdio_read RegAddr = do {
     diag \<leftarrow> tpget tp_rtk_enable_diag;
     if diag then ret 0xffffffff else mdio_real_read RegAddr
   }"

definition ClearAndSetEthPhyBit :: "u8 \<Rightarrow> u16 \<Rightarrow> u16 \<Rightarrow> unit hwm" where
  "ClearAndSetEthPhyBit addr clearmask setmask = do {
     v \<leftarrow> rtl8125_mdio_read (ucast addr);
     rtl8125_mdio_write (ucast addr) ((ucast v AND NOT clearmask) OR setmask)
   }"

definition rtl8125_clear_eth_phy_bit :: "u8 \<Rightarrow> u16 \<Rightarrow> unit hwm" where
  "rtl8125_clear_eth_phy_bit addr bits = ClearAndSetEthPhyBit addr bits 0"

definition rtl8125_set_eth_phy_bit :: "u8 \<Rightarrow> u16 \<Rightarrow> unit hwm" where
  "rtl8125_set_eth_phy_bit addr bits = ClearAndSetEthPhyBit addr 0 bits"

definition ClearAndSetEthPhyOcpBit :: "u16 \<Rightarrow> u16 \<Rightarrow> u16 \<Rightarrow> unit hwm" where
  "ClearAndSetEthPhyOcpBit addr clearmask setmask = do {
     v \<leftarrow> mdio_direct_read_phy_ocp addr;
     mdio_direct_write_phy_ocp addr ((ucast v AND NOT clearmask) OR setmask)
   }"

definition ClearEthPhyOcpBit :: "u16 \<Rightarrow> u16 \<Rightarrow> unit hwm" where
  "ClearEthPhyOcpBit addr bits = ClearAndSetEthPhyOcpBit addr bits 0"

definition SetEthPhyOcpBit :: "u16 \<Rightarrow> u16 \<Rightarrow> unit hwm" where
  "SetEthPhyOcpBit addr bits = ClearAndSetEthPhyOcpBit addr 0 bits"

definition rtl8125_mac_ocp_write :: "u16 \<Rightarrow> u16 \<Rightarrow> unit hwm" where
  "rtl8125_mac_ocp_write reg_addr value =
     RTL_W32 MACOCP ((OCPR_cmd reg_addr + ucast value) OR OCPR_Write)"

definition rtl8125_mac_ocp_read :: "u16 \<Rightarrow> u16 hwm" where
  "rtl8125_mac_ocp_read reg_addr = do {
     RTL_W32 MACOCP (OCPR_cmd reg_addr);
     v \<leftarrow> RTL_R32 MACOCP;
     ret (ucast v)
   }"

definition ClearAndSetMcuAccessRegBit :: "u16 \<Rightarrow> u16 \<Rightarrow> u16 \<Rightarrow> unit hwm" where
  "ClearAndSetMcuAccessRegBit addr clearmask setmask = do {
     v \<leftarrow> rtl8125_mac_ocp_read addr;
     rtl8125_mac_ocp_write addr ((v AND NOT clearmask) OR setmask)
   }"

definition ClearMcuAccessRegBit :: "u16 \<Rightarrow> u16 \<Rightarrow> unit hwm" where
  "ClearMcuAccessRegBit addr bits = ClearAndSetMcuAccessRegBit addr bits 0"

definition SetMcuAccessRegBit :: "u16 \<Rightarrow> u16 \<Rightarrow> unit hwm" where
  "SetMcuAccessRegBit addr bits = ClearAndSetMcuAccessRegBit addr 0 bits"

definition rtl8125_clear_set_mac_ocp_bit :: "u16 \<Rightarrow> u16 \<Rightarrow> u16 \<Rightarrow> unit hwm" where
  "rtl8125_clear_set_mac_ocp_bit addr clearmask setmask = do {
     v \<leftarrow> rtl8125_mac_ocp_read addr;
     rtl8125_mac_ocp_write addr ((v AND NOT clearmask) OR setmask)
   }"

definition rtl8125_clear_mac_ocp_bit :: "u16 \<Rightarrow> u16 \<Rightarrow> unit hwm" where
  "rtl8125_clear_mac_ocp_bit addr bits = rtl8125_clear_set_mac_ocp_bit addr bits 0"

definition rtl8125_set_mac_ocp_bit :: "u16 \<Rightarrow> u16 \<Rightarrow> unit hwm" where
  "rtl8125_set_mac_ocp_bit addr bits = rtl8125_clear_set_mac_ocp_bit addr 0 bits"

definition rtl8125_clear_and_set_eth_phy_ocp_bit :: "u16 \<Rightarrow> u16 \<Rightarrow> u16 \<Rightarrow> unit hwm" where
  "rtl8125_clear_and_set_eth_phy_ocp_bit addr clearmask setmask = do {
     v \<leftarrow> mdio_direct_read_phy_ocp addr;
     mdio_direct_write_phy_ocp addr ((ucast v AND NOT clearmask) OR setmask)
   }"

definition rtl8125_clear_eth_phy_ocp_bit :: "u16 \<Rightarrow> u16 \<Rightarrow> unit hwm" where
  "rtl8125_clear_eth_phy_ocp_bit addr bits = rtl8125_clear_and_set_eth_phy_ocp_bit addr bits 0"

definition rtl8125_set_eth_phy_ocp_bit :: "u16 \<Rightarrow> u16 \<Rightarrow> unit hwm" where
  "rtl8125_set_eth_phy_ocp_bit addr bits = rtl8125_clear_and_set_eth_phy_ocp_bit addr 0 bits"

subsection \<open>PCIe PHY and CSI\<close>

definition rtl8125_ephy_write :: "u32 \<Rightarrow> u32 \<Rightarrow> unit hwm" where
  "rtl8125_ephy_write RegAddr value = do {
     RTL_W32 EPHYAR (EPHYAR_Write OR push_bit 16 (RegAddr AND EPHYAR_Reg_Mask_v2) OR (value AND 0xffff));
     _ \<leftarrow> poll 10 100 (do { v \<leftarrow> RTL_R32 EPHYAR; ret (v AND EPHYAR_Flag = 0) });
     udelay 20
   }"

fun ephy_read_loop :: "nat \<Rightarrow> u16 hwm" where
  "ephy_read_loop 0 = ret 0xffff"
| "ephy_read_loop (Suc n) = do {
     udelay 100;
     v \<leftarrow> RTL_R32 EPHYAR;
     if v AND EPHYAR_Flag \<noteq> 0
     then do { d \<leftarrow> RTL_R32 EPHYAR; ret (ucast (d AND 0xffff)) }
     else ephy_read_loop n
   }"

definition rtl8125_ephy_read :: "u32 \<Rightarrow> u16 hwm" where
  "rtl8125_ephy_read RegAddr = do {
     RTL_W32 EPHYAR (push_bit 16 (RegAddr AND EPHYAR_Reg_Mask_v2));
     value \<leftarrow> ephy_read_loop 10;
     udelay 20;
     ret value
   }"

definition ClearAndSetPCIePhyBit :: "u8 \<Rightarrow> u16 \<Rightarrow> u16 \<Rightarrow> unit hwm" where
  "ClearAndSetPCIePhyBit addr clearmask setmask = do {
     v \<leftarrow> rtl8125_ephy_read (ucast addr);
     rtl8125_ephy_write (ucast addr) (ucast ((v AND NOT clearmask) OR setmask))
   }"

definition ClearPCIePhyBit :: "u8 \<Rightarrow> u16 \<Rightarrow> unit hwm" where
  "ClearPCIePhyBit addr bits = ClearAndSetPCIePhyBit addr bits 0"

definition SetPCIePhyBit :: "u8 \<Rightarrow> u16 \<Rightarrow> unit hwm" where
  "SetPCIePhyBit addr bits = ClearAndSetPCIePhyBit addr 0 bits"

fun csi_read_loop :: "nat \<Rightarrow> u32 hwm" where
  "csi_read_loop 0 = ret 0"
| "csi_read_loop (Suc n) = do {
     udelay 100;
     v \<leftarrow> RTL_R32 CSIAR;
     if v AND CSIAR_Flag \<noteq> 0 then RTL_R32 CSIDR else csi_read_loop n
   }"

definition rtl8125_csi_other_fun_read :: "u8 \<Rightarrow> u32 \<Rightarrow> u32 hwm" where
  "rtl8125_csi_other_fun_read multi_fun_sel_bit addr = do {
     m \<leftarrow> tpget tp_mcfg;
     let cmd = push_bit 12 CSIAR_ByteEn OR (addr AND CSIAR_Addr_Mask);
     let sel = (if m = CFG_METHOD_DEFAULT then 0 else multi_fun_sel_bit);
     if sel > 7 then ret 0xffffffff
     else do {
       RTL_W32 CSIAR (cmd OR push_bit 16 (ucast sel));
       value \<leftarrow> csi_read_loop 10;
       udelay 20;
       ret value
     }
   }"

definition rtl8125_csi_other_fun_write :: "u8 \<Rightarrow> u32 \<Rightarrow> u32 \<Rightarrow> unit hwm" where
  "rtl8125_csi_other_fun_write multi_fun_sel_bit addr value = do {
     RTL_W32 CSIDR value;
     m \<leftarrow> tpget tp_mcfg;
     let cmd = CSIAR_Write OR push_bit 12 CSIAR_ByteEn OR (addr AND CSIAR_Addr_Mask);
     let sel = (if m = CFG_METHOD_DEFAULT then 0 else multi_fun_sel_bit);
     if sel > 7 then skip
     else do {
       RTL_W32 CSIAR (cmd OR push_bit 16 (ucast sel));
       _ \<leftarrow> poll 10 100 (do { v \<leftarrow> RTL_R32 CSIAR; ret (v AND CSIAR_Flag = 0) });
       udelay 20
     }
   }"

definition rtl8125_csi_read :: "u32 \<Rightarrow> u32 hwm" where
  "rtl8125_csi_read addr = rtl8125_csi_other_fun_read 0 addr"

definition rtl8125_csi_write :: "u32 \<Rightarrow> u32 \<Rightarrow> unit hwm" where
  "rtl8125_csi_write addr value = rtl8125_csi_other_fun_write 0 addr value"

definition rtl8125_csi_fun0_read_byte :: "u32 \<Rightarrow> u8 hwm" where
  "rtl8125_csi_fun0_read_byte addr = do {
     let RegAlignAddr = (ucast (addr AND NOT 3) :: u16);
     let ShiftByte = unat (addr AND 3);
     v \<leftarrow> rtl8125_csi_other_fun_read 0 (ucast RegAlignAddr);
     udelay 20;
     ret (ucast (drop_bit (8 * ShiftByte) v))
   }"

definition csi_merge_byte :: "u32 \<Rightarrow> nat \<Rightarrow> u8 \<Rightarrow> u32" where
  "csi_merge_byte w ShiftByte value =
    (w AND NOT (push_bit (8 * ShiftByte) 0xFF)) OR push_bit (8 * ShiftByte) (ucast value)"

definition rtl8125_csi_fun0_write_byte :: "u32 \<Rightarrow> u8 \<Rightarrow> unit hwm" where
  "rtl8125_csi_fun0_write_byte addr value = do {
     let RegAlignAddr = (ucast (addr AND NOT 3) :: u16);
     let ShiftByte = unat (addr AND 3);
     v \<leftarrow> rtl8125_csi_other_fun_read 0 (ucast RegAlignAddr);
     rtl8125_csi_other_fun_write 0 (ucast RegAlignAddr) (csi_merge_byte v ShiftByte value);
     udelay 20
   }"

subsection \<open>ERI window\<close>

definition eri_cmd :: "u32 \<Rightarrow> u32 \<Rightarrow> u32 \<Rightarrow> u32 \<Rightarrow> u32" where
  "eri_cmd rw addr type base_address =
    (let transformed_base_address = push_bit 6 (base_address AND 0x00FFF000) OR (base_address AND 0xFFF);
         cmd = rw OR transformed_base_address OR push_bit 16 type OR push_bit 12 ERIAR_ByteEn OR (addr AND 0x0FFF)
     in if addr AND 0xF000 \<noteq> 0
        then cmd OR (push_bit 20 (drop_bit 12 (addr AND 0xF000)) AND 0x00F00000) else cmd)"

definition eri_mask :: "nat \<Rightarrow> nat \<Rightarrow> u32" where
  "eri_mask len val_shift =
     push_bit (val_shift * 8)
       (if len = 1 then 0xFF else if len = 2 then 0xFFFF else if len = 3 then 0xFFFFFF else 0xFFFFFFFF)"

function eri_read_loop :: "u32 \<Rightarrow> nat \<Rightarrow> nat \<Rightarrow> u32 \<Rightarrow> u32 \<Rightarrow> u32 \<Rightarrow> u32 hwm" where
  "eri_read_loop addr len shift value2 type base_address =
    (let val_shift = unat addr mod 4; addr' = addr AND NOT 3 in do {
       RTL_W32 ERIAR (eri_cmd 0 addr' type base_address);
       _ \<leftarrow> poll 20000 1 (do { v \<leftarrow> RTL_R32 ERIAR; ret (v AND ERIAR_Flag \<noteq> 0) });
       d \<leftarrow> RTL_R32 ERIDR;
       let value1 = d AND eri_mask len val_shift;
       let value2' = value2 OR push_bit (shift * 8) (drop_bit (val_shift * 8) value1);
       if len \<le> 4 - val_shift then ret value2'
       else eri_read_loop (addr' + 4) (len - (4 - val_shift)) (4 - val_shift) value2' type base_address
     })"
  by pat_completeness auto
termination
proof (relation "measure (\<lambda>(_, len, _). len)")
  fix addr :: u32 and len val_shift :: nat and addr' :: u32
  assume "val_shift = unat addr mod 4" "\<not> len \<le> 4 - val_shift"
  moreover have "unat addr mod 4 < 4" by simp
  ultimately show "((addr' + 4, len - (4 - val_shift), x), addr, len, y) \<in> measure (\<lambda>(_, len, _). len)" for x y
    by auto
qed simp

declare eri_read_loop.simps [simp del]

definition rtl8125_eri_read_with_oob_base_address :: "u32 \<Rightarrow> nat \<Rightarrow> u32 \<Rightarrow> u32 \<Rightarrow> u32 hwm" where
  "rtl8125_eri_read_with_oob_base_address addr len type base_address =
    (if len > 4 \<or> len = 0 then ret 0xffffffff
     else do {
       v \<leftarrow> eri_read_loop addr len 0 0 type base_address;
       udelay 20;
       ret v
     })"

definition rtl8125_ocp_read_with_oob_base_address :: "u16 \<Rightarrow> nat \<Rightarrow> u32 \<Rightarrow> u32 hwm" where
  "rtl8125_ocp_read_with_oob_base_address addr len base_address =
     rtl8125_eri_read_with_oob_base_address (ucast addr) len ERIAR_OOB base_address"

definition rtl8125_ocp_read :: "u16 \<Rightarrow> nat \<Rightarrow> u32 hwm" where
  "rtl8125_ocp_read addr len = do {
     t \<leftarrow> tpget id;
     if \<not> tp_AllowAccessDashOcp t \<or> tp_HwSuppOcpChannelVer t \<noteq> 2 then ret 0xffffffff
     else rtl8125_ocp_read_with_oob_base_address addr len 0
   }"

definition eri_merge :: "u32 \<Rightarrow> u32 \<Rightarrow> nat \<Rightarrow> nat \<Rightarrow> nat \<Rightarrow> u32" where
  "eri_merge old value len val_shift shift =
     (old AND NOT (eri_mask len val_shift)) OR drop_bit (shift * 8) (push_bit (val_shift * 8) value)"

function eri_write_loop :: "u32 \<Rightarrow> nat \<Rightarrow> u32 \<Rightarrow> nat \<Rightarrow> u32 \<Rightarrow> u32 \<Rightarrow> unit hwm" where
  "eri_write_loop addr len value shift type base_address =
    (let val_shift = unat addr mod 4; addr' = addr AND NOT 3 in do {
       old \<leftarrow> rtl8125_eri_read_with_oob_base_address addr' 4 type base_address;
       RTL_W32 ERIDR (eri_merge old value len val_shift shift);
       RTL_W32 ERIAR (eri_cmd ERIAR_Write addr' type base_address);
       _ \<leftarrow> poll 10 100 (do { v \<leftarrow> RTL_R32 ERIAR; ret (v AND ERIAR_Flag = 0) });
       if len \<le> 4 - val_shift then skip
       else eri_write_loop (addr' + 4) (len - (4 - val_shift)) value (4 - val_shift) type base_address
     })"
  by pat_completeness auto
termination
proof (relation "measure (\<lambda>(_, len, _). len)")
  fix addr :: u32 and len val_shift :: nat and addr' :: u32
  assume "val_shift = unat addr mod 4" "\<not> len \<le> 4 - val_shift"
  moreover have "unat addr mod 4 < 4" by simp
  ultimately show "((addr' + 4, len - (4 - val_shift), x), addr, len, y) \<in> measure (\<lambda>(_, len, _). len)" for x y
    by auto
qed simp

declare eri_write_loop.simps [simp del]

text \<open>The C result is 0 on success and -1 when the length is refused.\<close>

definition rtl8125_eri_write_with_oob_base_address ::
    "u32 \<Rightarrow> nat \<Rightarrow> u32 \<Rightarrow> u32 \<Rightarrow> u32 \<Rightarrow> int hwm" where
  "rtl8125_eri_write_with_oob_base_address addr len value type base_address =
    (if len > 4 \<or> len = 0 then ret (-1)
     else do {
       eri_write_loop addr len value 0 type base_address;
       udelay 20;
       ret 0
     })"

definition rtl8125_ocp_write :: "u16 \<Rightarrow> nat \<Rightarrow> u32 \<Rightarrow> unit hwm" where
  "rtl8125_ocp_write addr len value = do {
     t \<leftarrow> tpget id;
     if \<not> tp_AllowAccessDashOcp t \<or> tp_HwSuppOcpChannelVer t \<noteq> 2 then skip
     else do {
       _ \<leftarrow> rtl8125_eri_write_with_oob_base_address (ucast addr) len value ERIAR_OOB 0;
       skip
     }
   }"

subsection \<open>The in-band/out-of-band mutex\<close>

fun oob_prio_wait :: "nat \<Rightarrow> u8 \<Rightarrow> unit hwm" where
  "oob_prio_wait 0 reg_a0 = skip"
| "oob_prio_wait (Suc n) reg_a0 =
    (if reg_a0 = 0 then skip
     else do {
       a \<leftarrow> rtl8125_ocp_read 0x11C 1;
       oob_prio_wait n (ucast a)
     })"

fun oob_lock_loop :: "nat \<Rightarrow> u8 \<Rightarrow> unit hwm" where
  "oob_lock_loop 0 reg_16 = skip"
| "oob_lock_loop (Suc n) reg_16 =
    (if reg_16 = 0 then skip
     else do {
       a \<leftarrow> rtl8125_ocp_read 0x11C 1;
       (if (ucast a :: u8) \<noteq> 0 then do {
          rtl8125_ocp_write 0x114 1 0;
          a' \<leftarrow> rtl8125_ocp_read 0x11C 1;
          oob_prio_wait 2001 (ucast a');
          rtl8125_ocp_write 0x114 1 BIT_0
        } else skip);
       r \<leftarrow> rtl8125_ocp_read 0x110 1;
       oob_lock_loop n (ucast r)
     })"

definition HW_DASH_SUPPORT_DASH :: "rtl8125_private \<Rightarrow> bool" where
  "HW_DASH_SUPPORT_DASH t \<longleftrightarrow> tp_HwSuppDashVer t > 0"

definition rtl8125_oob_mutex_lock :: "unit hwm" where
  "rtl8125_oob_mutex_lock = do {
     t \<leftarrow> tpget id;
     if \<not> HW_DASH_SUPPORT_DASH t \<or> \<not> tp_DASH t then skip
     else do {
       rtl8125_ocp_write 0x114 1 BIT_0;
       r \<leftarrow> rtl8125_ocp_read 0x110 1;
       oob_lock_loop 2001 (ucast r)
     }
   }"

definition rtl8125_oob_mutex_unlock :: "unit hwm" where
  "rtl8125_oob_mutex_unlock = do {
     t \<leftarrow> tpget id;
     if \<not> HW_DASH_SUPPORT_DASH t \<or> \<not> tp_DASH t then skip
     else do {
       rtl8125_ocp_write 0x11C 1 BIT_0;
       rtl8125_ocp_write 0x114 1 0
     }
   }"


subsection \<open>Command encoding\<close>

text \<open>What the OCP engine reads out of a command word.\<close>

definition ocp_decode :: "u32 \<Rightarrow> bool \<times> u16 \<times> u16" where
  "ocp_decode c = (c AND OCPR_Write \<noteq> 0, push_bit 1 (ucast (drop_bit 16 c AND 0x7fff)), ucast c)"

lemma bit_numeral_u32_flag: "bit (0x80000000 :: u32) n \<longleftrightarrow> n = 31"
proof -
  have "(0x80000000 :: u32) = push_bit 31 1" by simp
  then show ?thesis by (simp only: bit_push_bit_iff) (auto simp: bit_1_iff)
qed

lemma div2_drop_bit: "(a :: 'a::len word) div 2 = drop_bit 1 a"
  by (simp add: drop_bit_eq_div)

lemma OCPR_cmd_bit: "bit (OCPR_cmd a) n \<longleftrightarrow> 16 \<le> n \<and> n < 31 \<and> bit a (n - 15)"
proof (cases "16 \<le> n")
  case True
  then obtain k where "n = 16 + k" using le_Suc_ex by blast
  then show ?thesis
    unfolding OCPR_cmd_def div2_drop_bit by (auto simp: bit_simps dest: bit_imp_le_length)
qed (simp add: OCPR_cmd_def bit_simps)

lemma mac_ocp_cmd_or: "OCPR_cmd a + ucast (v :: u16) = OCPR_cmd a OR ucast v"
  by (rule disjunctive_add) (auto simp: OCPR_cmd_bit bit_simps dest: bit_imp_le_length)

lemma mask_0x7fff: "(0x7fff :: u32) = mask 15"
  by (simp add: mask_eq_exp_minus_1)

lemma ocp_decode_addr:
  "push_bit 1 (ucast (drop_bit 16 (OCPR_cmd a OR ucast (v :: u16) OR OCPR_Write) AND 0x7fff)) = a AND NOT 1"
  unfolding mask_0x7fff
  by (rule bit_word_eqI, simp only: bit_simps o_apply OCPR_cmd_bit bit_numeral_u32_flag bit_1_iff)
    (auto dest: bit_imp_le_length)

lemma ocp_decode_value: "ucast (OCPR_cmd a OR ucast (v :: u16) OR OCPR_Write) = v"
  by (rule bit_word_eqI, simp only: bit_simps o_apply OCPR_cmd_bit bit_numeral_u32_flag)
    (auto dest: bit_imp_le_length)

lemma ocp_decode_write_flag: "(OCPR_cmd a OR ucast (v :: u16) OR OCPR_Write) AND OCPR_Write \<noteq> 0"
proof
  assume "(OCPR_cmd a OR ucast v OR OCPR_Write) AND OCPR_Write = 0"
  then have "bit ((OCPR_cmd a OR ucast v OR OCPR_Write) AND OCPR_Write) 31 = bit (0 :: u32) 31" by simp
  then show False by (simp add: bit_and_iff bit_or_iff bit_numeral_u32_flag)
qed

lemma ocp_decode_write:
  "ocp_decode (OCPR_cmd a OR ucast v OR OCPR_Write) = (True, a AND NOT 1, v)"
  using ocp_decode_addr [of a v] ocp_decode_value [of a v] ocp_decode_write_flag [of a v]
  by (simp add: ocp_decode_def)

lemma run_mac_ocp_write:
  "run (rtl8125_mac_ocp_write a v) s =
    ((), s\<lparr>hist := Wr (Reg32 MACOCP) (OCPR_cmd a OR ucast v OR OCPR_Write) # hist s\<rparr>)"
  by (simp add: rtl8125_mac_ocp_write_def RTL_W32_def mac_ocp_cmd_or or.assoc)

lemma run_mac_ocp_read:
  "run (rtl8125_mac_ocp_read a) s =
    (let h = Wr (Reg32 MACOCP) (OCPR_cmd a) # hist s; v = chip s h (Reg32 MACOCP)
     in (ucast v, s\<lparr>hist := Rd (Reg32 MACOCP) v # h\<rparr>))"
  by (simp add: rtl8125_mac_ocp_read_def RTL_W32_def RTL_R32_def Let_def)


text \<open>
  The standard MII registers of page 0 map to consecutive OCP addresses
  from \<open>0xA400\<close>, two bytes apart; on any other page the upper registers map to
  the page's 16-byte block and the lower ones to the invalid address 0.
\<close>

theorem map_phy_ocp_addr_layout:
  assumes "r < 32"
  shows "unat (map_phy_ocp_addr 0 r) = 0xA400 + 2 * unat r \<and>
    (p \<noteq> 0 \<longrightarrow> map_phy_ocp_addr p r
       = (if unat r < 16 then 0 else push_bit 4 p + of_nat (2 * (unat r - 16))))"
proof -
  have r: "unat r \<in> set [0..<32]" using assms by (simp add: word_less_nat_alt)
  have "list_all (\<lambda>i. map_phy_ocp_addr 0 (of_nat i) = 0xA400 + of_nat (2 * i)) [0..<32]"
    by code_simp
  then have "map_phy_ocp_addr 0 r = 0xA400 + of_nat (2 * unat r)"
    using r unfolding list_all_iff by (auto dest!: bspec [of _ _ "unat r"])
  then have "unat (map_phy_ocp_addr 0 r) = 0xA400 + 2 * unat r"
    using r by (simp add: unat_word_ariths unat_ucast_wider)
  moreover have "list_all (\<lambda>i. i < 16 \<or>
      (ucast (push_bit 1 (of_nat i - 16 :: u8)) :: u16) = of_nat (2 * (i - 16))) [0..<32]"
    by code_simp
  then have "unat r < 16 \<or> (ucast (push_bit 1 (r - 16)) :: u16) = of_nat (2 * (unat r - 16))"
    using r unfolding list_all_iff by (auto dest!: bspec [of _ _ "unat r"])
  ultimately show ?thesis
    by (auto simp: map_phy_ocp_addr_def Let_def word_less_nat_alt)
qed

theorem map_phy_ocp_addr_layout_witness:
  "(4 :: u8) < 32 \<and> unat (map_phy_ocp_addr 0 4) = 0xA408"
  using map_phy_ocp_addr_layout [of 4 1] by simp


subsection \<open>What the accessors leave alone, and how long they take\<close>

lemmas mdio_defs [hw_defs] =
  mdio_real_direct_write_phy_ocp_def mdio_direct_write_phy_ocp_def
  rtl8125_mdio_real_write_phy_ocp_def mdio_real_write_def rtl8125_mdio_write_def
  mdio_real_direct_read_phy_ocp_def mdio_direct_read_phy_ocp_def
  rtl8125_mdio_real_read_phy_ocp_def mdio_real_read_def rtl8125_mdio_read_def
  ClearAndSetEthPhyBit_def rtl8125_clear_eth_phy_bit_def rtl8125_set_eth_phy_bit_def
  ClearAndSetEthPhyOcpBit_def ClearEthPhyOcpBit_def SetEthPhyOcpBit_def
  rtl8125_clear_and_set_eth_phy_ocp_bit_def rtl8125_clear_eth_phy_ocp_bit_def
  rtl8125_set_eth_phy_ocp_bit_def

lemmas mac_ocp_defs [hw_defs] =
  rtl8125_mac_ocp_write_def rtl8125_mac_ocp_read_def
  ClearAndSetMcuAccessRegBit_def ClearMcuAccessRegBit_def SetMcuAccessRegBit_def
  rtl8125_clear_set_mac_ocp_bit_def rtl8125_clear_mac_ocp_bit_def rtl8125_set_mac_ocp_bit_def

lemmas ephy_csi_defs [hw_defs] =
  rtl8125_ephy_write_def rtl8125_ephy_read_def ClearAndSetPCIePhyBit_def ClearPCIePhyBit_def
  SetPCIePhyBit_def rtl8125_csi_other_fun_read_def rtl8125_csi_other_fun_write_def
  rtl8125_csi_read_def rtl8125_csi_write_def rtl8125_csi_fun0_read_byte_def
  rtl8125_csi_fun0_write_byte_def

text \<open>
  The accessors change nothing but the bus history. The projection \<open>f\<close> below
  is anything that does not look at the history: the driver's private data, a
  descriptor index, the interrupt mask.
\<close>

definition ignores_hist :: "(hw \<Rightarrow> 'b) \<Rightarrow> bool" where
  "ignores_hist f \<longleftrightarrow> (\<forall>s h. f (s\<lparr>hist := h\<rparr>) = f s)"

lemma ignores_histD: "ignores_hist f \<Longrightarrow> f (s\<lparr>hist := h\<rparr>) = f s"
  by (simp add: ignores_hist_def)

lemma keeps_regs [frame_rules]:
  assumes "ignores_hist f"
  shows "keeps f (RTL_R8 r)" "keeps f (RTL_R16 r)" "keeps f (RTL_R32 r)"
    "keeps f (RTL_W8 r v8)" "keeps f (RTL_W16 r v16)" "keeps f (RTL_W32 r v32)"
    "keeps f (extendedConfigRead8 r)" "keeps f (extendedConfigRead16 r)" "keeps f (extendedConfigRead32 r)"
    "keeps f (extendedConfigWrite8 r v8)" "keeps f (extendedConfigWrite16 r v16)"
    "keeps f (extendedConfigWrite32 r v32)"
  using assms unfolding reg_defs by (auto intro!: frame_rules simp: ignores_histD)

lemma keeps_delay' [frame_rules]: "ignores_hist f \<Longrightarrow> keeps f (delay us)"
  by (auto intro!: keeps_delay simp: ignores_histD)

lemma keeps_phy_direct [frame_rules]:
  assumes "ignores_hist f"
  shows "keeps f (mdio_real_direct_write_phy_ocp a v)" "keeps f (mdio_direct_write_phy_ocp a v)"
    "keeps f (mdio_real_direct_read_phy_ocp a)" "keeps f (mdio_direct_read_phy_ocp a)"
    "keeps f (rtl8125_mdio_read (r :: u16))"
  using assms unfolding mdio_defs by (auto intro!: frame_rules)

lemma keeps_phy_bits [frame_rules]:
  assumes "ignores_hist f"
  shows "keeps f (ClearAndSetEthPhyOcpBit a c m)" "keeps f (ClearEthPhyOcpBit a m)" "keeps f (SetEthPhyOcpBit a m)"
    "keeps f (rtl8125_clear_and_set_eth_phy_ocp_bit a c m)" "keeps f (rtl8125_clear_eth_phy_ocp_bit a m)"
    "keeps f (rtl8125_set_eth_phy_ocp_bit a m)"
  using assms
  unfolding ClearEthPhyOcpBit_def SetEthPhyOcpBit_def ClearAndSetEthPhyOcpBit_def
    rtl8125_clear_and_set_eth_phy_ocp_bit_def rtl8125_clear_eth_phy_ocp_bit_def rtl8125_set_eth_phy_ocp_bit_def
  by (auto intro!: frame_rules)

lemma keeps_mac_ocp [frame_rules]:
  assumes "ignores_hist f"
  shows "keeps f (rtl8125_mac_ocp_write a v)" "keeps f (rtl8125_mac_ocp_read a)"
    "keeps f (ClearAndSetMcuAccessRegBit a c m)" "keeps f (ClearMcuAccessRegBit a m)"
    "keeps f (SetMcuAccessRegBit a m)" "keeps f (rtl8125_clear_set_mac_ocp_bit a c m)"
    "keeps f (rtl8125_clear_mac_ocp_bit a m)" "keeps f (rtl8125_set_mac_ocp_bit a m)"
  using assms unfolding mac_ocp_defs by (auto intro!: frame_rules)

lemma keeps_read_loops [frame_rules]:
  assumes "ignores_hist f"
  shows "keeps f (ephy_read_loop n)" "keeps f (csi_read_loop n)"
  using assms by (induction n) (auto intro!: frame_rules)

lemma keeps_ephy_csi [frame_rules]:
  assumes "ignores_hist f"
  shows "keeps f (rtl8125_ephy_write a w)" "keeps f (rtl8125_ephy_read a)"
    "keeps f (ClearAndSetPCIePhyBit b c m)" "keeps f (ClearPCIePhyBit b m)" "keeps f (SetPCIePhyBit b m)"
    "keeps f (rtl8125_csi_other_fun_read n a)" "keeps f (rtl8125_csi_other_fun_write n a w)"
    "keeps f (rtl8125_csi_read a)" "keeps f (rtl8125_csi_write a w)"
    "keeps f (rtl8125_csi_fun0_read_byte a)" "keeps f (rtl8125_csi_fun0_write_byte a v)"
  using assms unfolding ephy_csi_defs Let_def by (auto intro!: frame_rules)

lemma eri_rest_less: "\<not> len \<le> 4 - unat (addr :: u32) mod 4 \<Longrightarrow> len - (4 - unat addr mod 4) < len"
proof -
  assume "\<not> len \<le> 4 - unat addr mod 4"
  moreover have "unat addr mod 4 < 4" by simp
  ultimately show ?thesis by linarith
qed

lemma keeps_eri_read_loop [frame_rules]:
  assumes "ignores_hist f"
  shows "keeps f (eri_read_loop addr len shift v type base)"
proof (induction len arbitrary: addr shift v rule: less_induct)
  case (less len)
  show ?case
    unfolding eri_read_loop.simps [of addr] Let_def
    using assms by (intro frame_rules less eri_rest_less)
qed

lemma keeps_eri_read [frame_rules]:
  "ignores_hist f \<Longrightarrow> keeps f (rtl8125_eri_read_with_oob_base_address addr len type base)"
  unfolding rtl8125_eri_read_with_oob_base_address_def by (auto intro!: frame_rules)

lemma keeps_ocp_read [frame_rules]: "ignores_hist f \<Longrightarrow> keeps f (rtl8125_ocp_read a len)"
  unfolding rtl8125_ocp_read_def rtl8125_ocp_read_with_oob_base_address_def by (auto intro!: frame_rules)

lemma keeps_eri_write_loop [frame_rules]:
  assumes "ignores_hist f"
  shows "keeps f (eri_write_loop addr len v shift type base)"
proof (induction len arbitrary: addr shift v rule: less_induct)
  case (less len)
  show ?case
    unfolding eri_write_loop.simps [of addr] Let_def
    using assms by (intro frame_rules less eri_rest_less)
qed

lemma keeps_ocp_write [frame_rules]: "ignores_hist f \<Longrightarrow> keeps f (rtl8125_ocp_write a len v)"
  unfolding rtl8125_ocp_write_def rtl8125_eri_write_with_oob_base_address_def by (auto intro!: frame_rules)

lemma keeps_oob_prio_wait [frame_rules]: "ignores_hist f \<Longrightarrow> keeps f (oob_prio_wait n r)"
  by (induction n arbitrary: r) (auto intro!: frame_rules)

lemma keeps_oob_lock_loop [frame_rules]: "ignores_hist f \<Longrightarrow> keeps f (oob_lock_loop n r)"
  by (induction n arbitrary: r) (auto intro!: frame_rules)

lemma keeps_oob_mutex [frame_rules]:
  assumes "ignores_hist f"
  shows "keeps f rtl8125_oob_mutex_lock" "keeps f rtl8125_oob_mutex_unlock"
  using assms unfolding rtl8125_oob_mutex_lock_def rtl8125_oob_mutex_unlock_def
  by (auto intro!: frame_rules)

lemma within_regs [frame_rules]:
  "within 1 (RTL_R8 r)" "within 1 (RTL_R16 r)" "within 1 (RTL_R32 r)"
  "within 1 (RTL_W8 r v8)" "within 1 (RTL_W16 r v16)" "within 1 (RTL_W32 r v32)"
  unfolding reg_defs
  by (rule within_mono, (rule frame_rules)+, simp)+

lemma within_real_phy_write: "within 201 (mdio_real_direct_write_phy_ocp a v)"
  unfolding mdio_defs
  by (rule within_mono, (rule frame_rules)+) simp

lemma within_phy_read: "within 202 (mdio_direct_read_phy_ocp a)"
  unfolding mdio_direct_read_phy_ocp_def mdio_real_direct_read_phy_ocp_def
  by (rule within_mono, (rule frame_rules)+) simp

lemma within_mac_ocp_rmw: "within 3 (rtl8125_clear_set_mac_ocp_bit a c m)"
  unfolding mac_ocp_defs
  by (rule within_mono, (rule frame_rules)+) simp

lemma within_csi_read_loop: "within (2 * n + 1) (csi_read_loop n)"
proof (induction n)
  case 0
  show ?case by (auto intro: within_mono frame_rules)
next
  case (Suc n)
  have "within (1 + (1 + max 1 (2 * n + 1))) (csi_read_loop (Suc n))"
    unfolding csi_read_loop.simps by (intro frame_rules Suc)
  then show ?case by (rule within_mono) simp
qed

lemma within_csi_read: "within 23 (rtl8125_csi_other_fun_read n a)"
  unfolding rtl8125_csi_other_fun_read_def Let_def
  by (rule within_mono, (rule frame_rules within_csi_read_loop)+) simp

lemma within_csi_write: "within 23 (rtl8125_csi_other_fun_write n a v)"
  unfolding rtl8125_csi_other_fun_write_def Let_def
  by (rule within_mono, (rule frame_rules)+) simp

lemma within_csi_write_byte: "within 47 (rtl8125_csi_fun0_write_byte a v)"
  unfolding rtl8125_csi_fun0_write_byte_def Let_def
  by (rule within_mono, (rule frame_rules within_csi_read within_csi_write)+) simp

lemma within_eri_read_loop: "within (40002 * max 1 len) (eri_read_loop addr len shift v type base)"
proof (induction len arbitrary: addr shift v rule: less_induct)
  case (less len)
  let ?vs = "unat addr mod 4"
  show ?case
  proof (cases "len \<le> 4 - ?vs")
    case True
    have "within 40002 (eri_read_loop addr len shift v type base)"
      unfolding eri_read_loop.simps [of addr] Let_def if_P [OF True]
      by (rule within_mono, (rule frame_rules)+) simp
    then show ?thesis by (rule within_mono) simp
  next
    case False
    have IH: "within (40002 * max 1 (len - (4 - ?vs)))
        (eri_read_loop ((addr AND NOT 3) + 4) (len - (4 - ?vs)) (4 - ?vs) w type base)" for w
      by (rule less) (rule eri_rest_less [OF False])
    have "within (40002 + 40002 * max 1 (len - (4 - ?vs))) (eri_read_loop addr len shift v type base)"
      unfolding eri_read_loop.simps [of addr] Let_def if_not_P [OF False]
      by (rule within_mono, (rule frame_rules IH)+) simp
    then show ?thesis
      by (rule within_mono) (use False eri_rest_less [OF False] in \<open>auto simp: max_def\<close>)
  qed
qed

lemma within_ocp_read: "within 160009 (rtl8125_ocp_read a len)"
proof -
  have "within 160009 (rtl8125_eri_read_with_oob_base_address addr len type base)" for addr type base
  proof (cases "len > 4 \<or> len = 0")
    case False
    have "within (40002 * max 1 len + (1 + 0)) (do { v \<leftarrow> eri_read_loop addr len 0 0 type base; udelay 20; ret v })"
      by (intro frame_rules within_eri_read_loop)
    with False show ?thesis
      unfolding rtl8125_eri_read_with_oob_base_address_def by (auto elim!: within_mono)
  qed (auto simp: rtl8125_eri_read_with_oob_base_address_def intro: within_mono within_return)
  then have "within (0 + max 0 160009) (rtl8125_ocp_read a len)"
    unfolding rtl8125_ocp_read_def rtl8125_ocp_read_with_oob_base_address_def
    by (intro frame_rules)
  then show ?thesis by simp
qed


text \<open>
  (C31) The MAC OCP read-modify-write helper asks the chip for the register and
  writes back to the same register a value that differs from the answer only in
  the bits of the two masks: cleared bits are 0 unless set, set bits are 1.
\<close>

theorem mac_ocp_rmw_effect:
  "\<exists>v c1 c2. run (rtl8125_clear_set_mac_ocp_bit a clr st) s =
      ((), s\<lparr>hist := Wr (Reg32 MACOCP) c2 # Rd (Reg32 MACOCP) v # Wr (Reg32 MACOCP) c1 # hist s\<rparr>) \<and>
     v = chip s (Wr (Reg32 MACOCP) c1 # hist s) (Reg32 MACOCP) \<and> c1 = OCPR_cmd a \<and>
     ocp_decode c2 = (True, a AND NOT 1, (ucast v AND NOT clr) OR st)"
proof -
  let ?v = "chip s (Wr (Reg32 MACOCP) (OCPR_cmd a) # hist s) (Reg32 MACOCP)"
  let ?w = "(ucast ?v AND NOT clr) OR st"
  have "run (rtl8125_clear_set_mac_ocp_bit a clr st) s =
      ((), s\<lparr>hist := Wr (Reg32 MACOCP) (OCPR_cmd a OR ucast ?w OR OCPR_Write) #
         Rd (Reg32 MACOCP) ?v # Wr (Reg32 MACOCP) (OCPR_cmd a) # hist s\<rparr>)"
    by (simp add: rtl8125_clear_set_mac_ocp_bit_def run_mac_ocp_read run_mac_ocp_write Let_def)
  then show ?thesis using ocp_decode_write [of a ?w] by metis
qed


subsection \<open>Byte lanes\<close>

text \<open>Byte \<open>j\<close> of a 32-bit register.\<close>

definition lane :: "u32 \<Rightarrow> nat \<Rightarrow> u8" where
  "lane w j = ucast (drop_bit (8 * j) w)"

lemma bit_lane: "bit (lane w j) n \<longleftrightarrow> n < 8 \<and> bit w (8 * j + n)"
  by (auto simp: lane_def bit_simps dest: bit_imp_le_length)

lemma mask_ff: "(0xFF :: u32) = mask 8"
  by (simp add: mask_eq_exp_minus_1)

lemma bit_csi_merge_byte:
  "n < 32 \<Longrightarrow> bit (csi_merge_byte w k v) n
     \<longleftrightarrow> (if 8 * k \<le> n \<and> n < 8 * k + 8 then bit v (n - 8 * k) else bit w n)"
  unfolding csi_merge_byte_def mask_ff
  by (simp only: bit_simps) (auto dest: bit_imp_le_length)

lemma csi_merge_byte_lane:
  assumes "j < 4"
  shows "lane (csi_merge_byte w k v) j = (if j = k then v else lane w j)"
proof (rule bit_word_eqI)
  fix n assume "n < LENGTH(8)"
  then have n: "n < 8" "8 * j + n < 32" using assms by simp_all
  have "8 * k \<le> 8 * j + n \<and> 8 * j + n < 8 * k + 8 \<longleftrightarrow> j = k"
    using n by auto
  then show "bit (lane (csi_merge_byte w k v) j) n \<longleftrightarrow> bit (if j = k then v else lane w j) n"
    using n by (simp add: bit_lane bit_csi_merge_byte)
qed

lemma eri_mask_cases:
  "len \<le> 4 \<Longrightarrow> 0 < len \<Longrightarrow> eri_mask len k = push_bit (k * 8) (mask (8 * len))"
proof -
  assume "len \<le> 4" "0 < len"
  then consider "len = 1" | "len = 2" | "len = 3" | "len = 4" by linarith
  then show ?thesis by cases (simp_all add: eri_mask_def mask_eq_exp_minus_1)
qed

text \<open>
  A write of \<open>len\<close> bytes inside one ERI word: the value's bytes land in the
  addressed lanes and the other lanes keep what was read.
\<close>

lemma eri_merge_lane:
  assumes "0 < len" "k + len \<le> 4" "j < 4" "unat value < 2 ^ (8 * len)"
  shows "lane (eri_merge old value len k 0) j = (if k \<le> j \<and> j < k + len then lane value (j - k) else lane old j)"
proof (rule bit_word_eqI)
  fix n assume "n < LENGTH(8)"
  then have n: "n < 8" "8 * j + n < 32" using assms by simp_all
  have high: "\<not> bit value i" if "8 * len \<le> i" for i
  proof -
    have "value = take_bit (8 * len) value"
      using assms(4) by (intro word_unat_eq_iff [THEN iffD2])
        (simp only: unsigned_take_bit_eq take_bit_nat_eq_self)
    then show ?thesis using that by (metis bit_take_bit_iff not_le)
  qed
  have m: "eri_mask len k = push_bit (k * 8) (mask (8 * len))"
    using assms by (intro eri_mask_cases) auto
  have in_lane: "k * 8 \<le> 8 * j + n \<and> 8 * j + n - k * 8 < 8 * len \<longleftrightarrow> k \<le> j \<and> j < k + len"
    using n by auto
  show "bit (lane (eri_merge old value len k 0) j) n
      \<longleftrightarrow> bit (if k \<le> j \<and> j < k + len then lane value (j - k) else lane old j) n"
  proof (cases "k \<le> j \<and> j < k + len")
    case True
    then have "8 * j + n - k * 8 = 8 * (j - k) + n" by auto
    with True in_lane n show ?thesis
      unfolding bit_lane eri_merge_def m mult_0 drop_bit_0 id_apply
      by (simp only: bit_simps) (auto simp: bit_lane)
  next
    case False
    then have "k * 8 \<le> 8 * j + n \<Longrightarrow> \<not> bit value (8 * j + n - k * 8)"
      using in_lane by (intro high) auto
    with False in_lane n show ?thesis
      unfolding bit_lane eri_merge_def m mult_0 drop_bit_0 id_apply
      by (simp only: bit_simps) (auto simp: bit_lane)
  qed
qed

end
