(* ===== verification/NicOps.thy ===== *)
theory NicOps
  imports OcpAccess
begin

text \<open>
  The operations of \<open>rtl812xx.cpp\<close> that stop, reset and gate the NIC: link
  options, the PHY-disable mode, quiescing and soft reset, timers and interrupt
  mitigation, PHY reset, the PCIe power-saving switches, and the exit from
  out-of-band operation. Each C function is one definition; a
  \<open>switch\<close> over the chip generation is a membership test in its case labels.
\<close>

subsection \<open>Read-modify-write helpers\<close>

text \<open>The pattern \<open>RTL_W8(tp, r, f(RTL_R8(tp, r)))\<close> and its MAC OCP form.\<close>

definition rmw8 :: "u16 \<Rightarrow> (u8 \<Rightarrow> u8) \<Rightarrow> unit hwm" where
  "rmw8 r f = do { v \<leftarrow> RTL_R8 r; RTL_W8 r (f v) }"

definition rmw32 :: "u16 \<Rightarrow> (u32 \<Rightarrow> u32) \<Rightarrow> unit hwm" where
  "rmw32 r f = do { v \<leftarrow> RTL_R32 r; RTL_W32 r (f v) }"

definition mac_rmw :: "u16 \<Rightarrow> (u16 \<Rightarrow> u16) \<Rightarrow> unit hwm" where
  "mac_rmw a f = do { v \<leftarrow> rtl8125_mac_ocp_read a; rtl8125_mac_ocp_write a (f v) }"

definition phy_rmw :: "u16 \<Rightarrow> (u16 \<Rightarrow> u16) \<Rightarrow> unit hwm" where
  "phy_rmw a f = do { v \<leftarrow> mdio_direct_read_phy_ocp a; mdio_direct_write_phy_ocp a (f (ucast v)) }"

abbreviation mcfg_is :: "mcfg set \<Rightarrow> bool hwm" where
  "mcfg_is S \<equiv> tpget (\<lambda>t. tp_mcfg t \<in> S)"

subsection \<open>Link options\<close>

definition rtl8125_aspm_is_safe :: "bool hwm" where
  "rtl8125_aspm_is_safe = do { v \<leftarrow> rtl8125_mac_ocp_read 0xc0b2; ret (v AND 0xf \<noteq> 0) }"

definition rtl8125_is_autoneg_mode_valid :: "u32 \<Rightarrow> bool" where
  "rtl8125_is_autoneg_mode_valid autoneg \<longleftrightarrow> autoneg \<in> {ucast AUTONEG_ENABLE, ucast AUTONEG_DISABLE}"

definition rtl8125_is_speed_mode_valid :: "u32 \<Rightarrow> bool" where
  "rtl8125_is_speed_mode_valid speed \<longleftrightarrow>
     speed \<in> {SPEED_10000, SPEED_5000, SPEED_2500, SPEED_1000, SPEED_100, SPEED_10}"

definition rtl8125_is_duplex_mode_valid :: "u8 \<Rightarrow> bool" where
  "rtl8125_is_duplex_mode_valid duplex \<longleftrightarrow> duplex \<in> {DUPLEX_FULL, DUPLEX_HALF}"

text \<open>The fall-through \<open>switch\<close> on the speed accumulates the advertised modes.\<close>

definition link_adv :: "u32 \<Rightarrow> u64" where
  "link_adv speed =
    (if speed = SPEED_10000 then ADVERTISED_10000baseT_Full else 0) OR
    (if speed \<in> {SPEED_10000, SPEED_5000} then RTK_ADVERTISED_5000baseX_Full else 0) OR
    (if speed \<in> {SPEED_10000, SPEED_5000, SPEED_2500} then ADVERTISED_2500baseX_Full else 0) OR
    (ADVERTISED_10baseT_Half OR ADVERTISED_10baseT_Full OR
     ADVERTISED_100baseT_Half OR ADVERTISED_100baseT_Full OR
     ADVERTISED_1000baseT_Half OR ADVERTISED_1000baseT_Full)"

definition link_option :: "u8 \<Rightarrow> u32 \<Rightarrow> u8 \<Rightarrow> u32 \<Rightarrow> rtl8125_private \<Rightarrow> rtl8125_private" where
  "link_option autoneg speed duplex fc t =
    (let speed = (if rtl8125_is_speed_mode_valid speed then speed else SPEED_10000);
         duplex = (if rtl8125_is_duplex_mode_valid duplex then duplex else DUPLEX_FULL);
         autoneg = (if rtl8125_is_autoneg_mode_valid (ucast autoneg) then autoneg else AUTONEG_ENABLE);
         speed = min speed (tp_HwSuppMaxPhyLinkSpeed t)
     in t\<lparr>tp_autoneg := autoneg, tp_speed := speed, tp_duplex := duplex, tp_advertising := link_adv speed, tp_fcpause := fc\<rparr>)"

definition rtl8125_set_link_option :: "u8 \<Rightarrow> u32 \<Rightarrow> u8 \<Rightarrow> u32 \<Rightarrow> unit hwm" where
  "rtl8125_set_link_option autoneg speed duplex fc = tpmod (link_option autoneg speed duplex fc)"

subsection \<open>Gates and the PHY-disable mode\<close>

definition rtl8125_enable_rxdvgate :: "unit hwm" where
  "rtl8125_enable_rxdvgate = rmw8 0xF2 (\<lambda>v. v OR BIT_3)"

definition rtl8125_disable_rxdvgate :: "unit hwm" where
  "rtl8125_disable_rxdvgate = rmw8 0xF2 (\<lambda>v. v AND NOT BIT_3)"

definition rtl8125_is_gpio_low :: "bool hwm" where
  "rtl8125_is_gpio_low = do { v \<leftarrow> rtl8125_mac_ocp_read 0xDC04; ret (v AND BIT_13 = 0) }"

definition rtl8125_is_phy_disable_mode_enabled :: "bool hwm" where
  "rtl8125_is_phy_disable_mode_enabled = do { v \<leftarrow> RTL_R8 0xF2; ret (v AND BIT_5 \<noteq> 0) }"

definition rtl8125_is_in_phy_disable_mode :: "bool hwm" where
  "rtl8125_is_in_phy_disable_mode = do {
     e \<leftarrow> rtl8125_is_phy_disable_mode_enabled;
     if e then rtl8125_is_gpio_low else ret False
   }"

definition rtl8125_enable_phy_disable_mode :: "unit hwm" where
  "rtl8125_enable_phy_disable_mode = do {
     v \<leftarrow> tpget tp_HwSuppCheckPhyDisableModeVer;
     whenM (v = 3) (rmw8 0xF2 (\<lambda>v. v OR BIT_5))
   }"

definition rtl8125_disable_phy_disable_mode :: "unit hwm" where
  "rtl8125_disable_phy_disable_mode = do {
     v \<leftarrow> tpget tp_HwSuppCheckPhyDisableModeVer;
     whenM (v = 3) (rmw8 0xF2 (\<lambda>v. v AND NOT BIT_5));
     mdelay 1
   }"

subsection \<open>Quiesce and reset\<close>

abbreviation "fifo_empty_bits \<equiv> Txfifo_empty OR Rxfifo_empty"
abbreviation "miti_idle_bits \<equiv> (BIT_0 OR BIT_1 OR BIT_8 :: u16)"

definition rtl8125_wait_txrx_fifo_empty :: "unit hwm" where
  "rtl8125_wait_txrx_fifo_empty = do {
     _ \<leftarrow> poll 3000 50 (do { v \<leftarrow> RTL_R8 MCUCmd_reg; ret (v AND fifo_empty_bits = fifo_empty_bits) });
     g \<leftarrow> mcfg_is {CFG_METHOD_4, CFG_METHOD_5, CFG_METHOD_7, CFG_METHOD_8, CFG_METHOD_9, CFG_METHOD_10,
       CFG_METHOD_11, CFG_METHOD_12, CFG_METHOD_13, CFG_METHOD_31, CFG_METHOD_32, CFG_METHOD_33,
       CFG_METHOD_41, CFG_METHOD_42};
     whenM g (do {
       _ \<leftarrow> poll 3000 50 (do { v \<leftarrow> RTL_R16 IntrMitigate; ret (v AND miti_idle_bits = miti_idle_bits) });
       skip
     })
   }"

definition rtl8125_irq_mask_and_ack :: "unit hwm" where
  "rtl8125_irq_mask_and_ack = do {
     RTL_W32 IMR0_8125 0x0000;
     rmw32 ISR0_8125 (\<lambda>v. v)
   }"

definition rtl8125_disable_rx_packet_filter :: "unit hwm" where
  "rtl8125_disable_rx_packet_filter = rmw32 RxConfig (\<lambda>v. v AND
     NOT (AcceptErr OR AcceptRunt OR AcceptBroadcast OR AcceptMulticast OR AcceptMyPhys OR AcceptAllPhys))"

definition rtl8125_stop_all_request :: "bool hwm" where
  "rtl8125_stop_all_request = do {
     rmw8 ChipCmd (\<lambda>v. v OR StopReq);
     old \<leftarrow> mcfg_is {CFG_METHOD_2, CFG_METHOD_3, CFG_METHOD_6};
     if old then poll 20 10 (do { v \<leftarrow> RTL_R8 ChipCmd; ret (v AND StopReq = 0) })
     else do { udelay 200; ret True }
   }"

definition rtl8125_nic_reset :: "unit hwm" where
  "rtl8125_nic_reset = do {
     rtl8125_disable_rx_packet_filter;
     rtl8125_enable_rxdvgate;
     _ \<leftarrow> rtl8125_stop_all_request;
     rtl8125_wait_txrx_fifo_empty;
     rmw8 ChipCmd (\<lambda>v. v AND (CmdTxEnb OR CmdRxEnb));
     RTL_W8 ChipCmd CmdReset;
     _ \<leftarrow> poll 100 100 (do { v \<leftarrow> RTL_R8 ChipCmd; ret (v AND CmdReset = 0) });
     RTL_W32 RxConfig (push_bit 8 5)
   }"

definition rtl8125_hw_clear_timer_int :: "unit hwm" where
  "rtl8125_hw_clear_timer_int = do {
     RTL_W32 TIMER_INT0_8125 0x0000;
     RTL_W32 TIMER_INT1_8125 0x0000;
     RTL_W32 TIMER_INT2_8125 0x0000;
     RTL_W32 TIMER_INT3_8125 0x0000
   }"

definition rtl8125_hw_reset :: "unit hwm" where
  "rtl8125_hw_reset = do {
     rtl8125_irq_mask_and_ack;
     rtl8125_hw_clear_timer_int;
     rtl8125_nic_reset
   }"

definition rtl8125_hw_clear_int_miti :: "unit hwm" where
  "rtl8125_hw_clear_int_miti = do {
     RTL_W8 INT_CFG0_8125 0x00;
     v \<leftarrow> tpget tp_HwSuppIntMitiVer;
     if v \<in> {3, 6} then for_each [0..<0x40] (\<lambda>i. RTL_W32 (0xA00 + 4 * of_nat i) 0x0000)
     else if v \<in> {4, 5} then do {
       for_each [0..<0x20] (\<lambda>i. RTL_W32 (0xA00 + 4 * of_nat i) 0x0000);
       RTL_W16 INT_CFG1_8125 0x0000
     } else skip
   }"

definition rtl8125_hw_set_timer_int_8125 :: "u32 \<Rightarrow> u8 \<Rightarrow> unit hwm" where
  "rtl8125_hw_set_timer_int_8125 message_id timer_intmiti_val = do {
     v \<leftarrow> tpget tp_HwSuppIntMitiVer;
     if v = 4 then
       (if message_id < 16 then RTL_W8 (INT_MITI_V2_0_RX + 8 * ucast message_id) timer_intmiti_val
        else if message_id = 16 then RTL_W8 INT_MITI_V2_0_TX timer_intmiti_val
        else if message_id = 18 then RTL_W8 INT_MITI_V2_1_TX timer_intmiti_val
        else skip)
     else skip
   }"

subsection \<open>Link state and PHY reset\<close>

text \<open>\<open>UINT_MAX\<close> is compared with a 16-bit value widened to 32 bits.\<close>

definition rtl8125_xmii_link_ok :: "bool hwm" where
  "rtl8125_xmii_link_ok = do {
     v \<leftarrow> RTL_R16 PHYstatus;
     let status = (ucast v :: u32);
     if status = 0xffffffff then ret False else ret (status AND 0x02 \<noteq> 0)
   }"

definition rtl8125_xmii_reset_pending :: "u32 hwm" where
  "rtl8125_xmii_reset_pending = do {
     rtl8125_mdio_write 0x1f 0x0000;
     v \<leftarrow> rtl8125_mdio_read MII_BMCR;
     ret (v AND ucast BMCR_RESET)
   }"

fun phy_reset_loop :: "nat \<Rightarrow> bool hwm" where
  "phy_reset_loop 0 = ret False"
| "phy_reset_loop (Suc n) = do {
     v \<leftarrow> rtl8125_mdio_read MII_BMCR;
     if v AND ucast BMCR_RESET = 0 then ret True
     else do { mdelay 1; phy_reset_loop n }
   }"

text \<open>The C result is 0 on completion and -1 on timeout.\<close>

definition rtl8125_wait_phy_reset_complete :: "bool hwm" where
  "rtl8125_wait_phy_reset_complete = phy_reset_loop 2500"

definition rtl8125_xmii_reset_enable :: "unit hwm" where
  "rtl8125_xmii_reset_enable = do {
     d \<leftarrow> rtl8125_is_in_phy_disable_mode;
     if d then skip
     else do {
       rtl8125_mdio_write 0x1f 0x0000;
       a \<leftarrow> rtl8125_mdio_read MII_ADVERTISE;
       rtl8125_mdio_write MII_ADVERTISE
         (ucast a AND NOT (ADVERTISE_10HALF OR ADVERTISE_10FULL OR ADVERTISE_100HALF OR ADVERTISE_100FULL));
       g \<leftarrow> rtl8125_mdio_read MII_CTRL1000;
       rtl8125_mdio_write MII_CTRL1000 (ucast g AND NOT (ADVERTISE_1000HALF OR ADVERTISE_1000FULL));
       phy_rmw 0xA5D4 (\<lambda>v. v AND NOT (RTK_ADVERTISE_2500FULL OR RTK_ADVERTISE_5000FULL));
       rtl8125_mdio_write MII_BMCR (BMCR_RESET OR BMCR_ANENABLE);
       _ \<leftarrow> rtl8125_wait_phy_reset_complete;
       skip
     }
   }"

end
