(* ===== verification/PhyPatch.thy ===== *)
theory PhyPatch
  imports NicOps
begin

text \<open>
  PHY microcode support and PCIe PHY tuning (\<open>rtl812xx.cpp\<close>): the patch
  request handshake, the patch key lock, the interpreter of a RAM code table
  and the generation-specific PCIe PHY settings. The RAM code tables
  themselves are arguments of the interpreter. The lemmas show that the
  handshakes end, what a RAM code table writes, and that the extended PCIe PHY
  addresses of the RTL8127 collapse in the address mask of the register write.
\<close>

subsection \<open>Microcode version\<close>

definition rtl8125_get_hw_phy_mcu_code_ver :: "u16 hwm" where
  "rtl8125_get_hw_phy_mcu_code_ver = do {
     mdio_direct_write_phy_ocp 0xA436 0x801E;
     v \<leftarrow> mdio_direct_read_phy_ocp 0xA438;
     ret (ucast v)
   }"

definition rtl8125_check_hw_phy_mcu_code_ver :: "bool hwm" where
  "rtl8125_check_hw_phy_mcu_code_ver = do {
     v \<leftarrow> rtl8125_get_hw_phy_mcu_code_ver;
     tpmod (\<lambda>t. t\<lparr>tp_hw_ram_code_ver := v\<rparr>);
     t \<leftarrow> tpget id;
     let same = (tp_hw_ram_code_ver t = tp_sw_ram_code_ver t);
     tpmod (\<lambda>t. t\<lparr>tp_HwHasWrRamCodeToMicroP := same\<rparr>);
     ret same
   }"

definition rtl8125_write_hw_phy_mcu_code_ver :: "unit hwm" where
  "rtl8125_write_hw_phy_mcu_code_ver = do {
     g \<leftarrow> mcfg_is {CFG_METHOD_2, CFG_METHOD_3, CFG_METHOD_4, CFG_METHOD_5, CFG_METHOD_41, CFG_METHOD_42};
     whenM g (do {
       v \<leftarrow> tpget tp_sw_ram_code_ver;
       mdio_direct_write_phy_ocp 0xA436 0x801E;
       mdio_direct_write_phy_ocp 0xA438 v;
       tpmod (\<lambda>t. t\<lparr>tp_hw_ram_code_ver := v\<rparr>)
     })
   }"

subsection \<open>Patch key and patch request\<close>

fun patch_key :: "mcfg \<Rightarrow> u16 option" where
  "patch_key CFG_METHOD_2 = Some 0x8600"
| "patch_key CFG_METHOD_3 = Some 0x8601"
| "patch_key CFG_METHOD_4 = Some 0x3700"
| "patch_key CFG_METHOD_5 = Some 0x3701"
| "patch_key _ = None"

definition rtl8125_acquire_phy_mcu_patch_key_lock :: "unit hwm" where
  "rtl8125_acquire_phy_mcu_patch_key_lock = do {
     m \<leftarrow> tpget tp_mcfg;
     case patch_key m of None \<Rightarrow> skip
     | Some PatchKey \<Rightarrow> do {
         mdio_direct_write_phy_ocp 0xA436 0x8024;
         mdio_direct_write_phy_ocp 0xA438 PatchKey;
         mdio_direct_write_phy_ocp 0xA436 0xB82E;
         mdio_direct_write_phy_ocp 0xA438 0x0001
       }
   }"

definition rtl8125_release_phy_mcu_patch_key_lock :: "unit hwm" where
  "rtl8125_release_phy_mcu_patch_key_lock = do {
     g \<leftarrow> mcfg_is {CFG_METHOD_2, CFG_METHOD_3, CFG_METHOD_4, CFG_METHOD_5};
     whenM g (do {
       mdio_direct_write_phy_ocp 0xA436 0x0000;
       mdio_direct_write_phy_ocp 0xA438 0x0000;
       ClearEthPhyOcpBit 0xB82E BIT_0;
       mdio_direct_write_phy_ocp 0xA436 0x8024;
       mdio_direct_write_phy_ocp 0xA438 0x0000
     })
   }"

text \<open>
  The wait loops read the status register, pause 100 us, and stop on the
  wanted value or after 1000 rounds; the result tells which.
\<close>

fun phy_status_wait :: "nat \<Rightarrow> (u16 \<Rightarrow> bool) \<Rightarrow> bool hwm" where
  "phy_status_wait 0 ok = ret False"
| "phy_status_wait (Suc n) ok = do {
     v \<leftarrow> mdio_direct_read_phy_ocp 0xB800;
     udelay 100;
     if ok (ucast v) then ret True else phy_status_wait n ok
   }"

definition rtl8125_wait_phy_mcu_patch_request_ready :: "bool hwm" where
  "rtl8125_wait_phy_mcu_patch_request_ready = phy_status_wait 1000 (\<lambda>v. v AND BIT_6 = BIT_6)"

definition rtl8125_set_phy_mcu_patch_request :: "bool hwm" where
  "rtl8125_set_phy_mcu_patch_request = do {
     rtl8125_set_eth_phy_ocp_bit 0xB820 BIT_4;
     phy_status_wait 1000 (\<lambda>v. v AND BIT_6 \<noteq> 0)
   }"

definition rtl8125_clear_phy_mcu_patch_request :: "bool hwm" where
  "rtl8125_clear_phy_mcu_patch_request = do {
     rtl8125_clear_eth_phy_ocp_bit 0xB820 BIT_4;
     phy_status_wait 1000 (\<lambda>v. v AND BIT_6 = 0)
   }"

subsection \<open>RAM code tables\<close>

fun ram_code_loop :: "u16 list \<Rightarrow> unit hwm" where
  "ram_code_loop (addr # val # rest) =
    (if addr = 0xFFFF \<and> val = 0xFFFF then skip
     else do { mdio_direct_write_phy_ocp addr val; ram_code_loop rest })"
| "ram_code_loop _ = skip"

definition rtl8125_set_phy_mcu_ram_code :: "u16 list \<Rightarrow> unit hwm" where
  "rtl8125_set_phy_mcu_ram_code ramcode =
    (if odd (length ramcode) then skip else ram_code_loop ramcode)"

text \<open>One table written under the patch request, as the RTL8127 sequences do.\<close>

definition patched_ram_code :: "u16 list \<Rightarrow> unit hwm" where
  "patched_ram_code ramcode = do {
     _ \<leftarrow> rtl8125_set_phy_mcu_patch_request;
     rtl8125_set_phy_mcu_ram_code ramcode;
     _ \<leftarrow> rtl8125_clear_phy_mcu_patch_request;
     skip
   }"

definition rtl8127_set_phy_mcu_8127a_tc :: "u16 list \<Rightarrow> unit hwm" where
  "rtl8127_set_phy_mcu_8127a_tc tc_1 = patched_ram_code tc_1"

definition rtl8127_set_phy_mcu_8127a_1 :: "u16 list \<Rightarrow> u16 list \<Rightarrow> unit hwm" where
  "rtl8127_set_phy_mcu_8127a_1 code_1 code_2 = do {
     patched_ram_code code_1;
     patched_ram_code code_2
   }"

text \<open>
  The generation's microcode routine is the argument \<open>set_phy_mcu\<close>: the
  tables it writes are vendor data.
\<close>

definition rtl8125_init_hw_phy_mcu :: "(mcfg \<Rightarrow> unit hwm) \<Rightarrow> unit hwm" where
  "rtl8125_init_hw_phy_mcu set_phy_mcu = do {
     t \<leftarrow> tpget id;
     if tp_NotWrRamCodeToMicroP t then skip
     else do {
       done \<leftarrow> (if tp_mcfg t \<ge> CFG_METHOD_31 then rtl8125_check_hw_phy_mcu_code_ver
                else ret (tp_HwHasWrRamCodeToMicroP t));
       if done then skip
       else do {
         dis \<leftarrow> (if tp_HwSuppCheckPhyDisableModeVer t > 0 then rtl8125_is_in_phy_disable_mode else ret False);
         whenM dis rtl8125_disable_phy_disable_mode;
         set_phy_mcu (tp_mcfg t);
         whenM dis rtl8125_enable_phy_disable_mode;
         rtl8125_write_hw_phy_mcu_code_ver;
         rtl8125_mdio_write 0x1F 0x0000;
         tpmod (\<lambda>t. t\<lparr>tp_HwHasWrRamCodeToMicroP := True\<rparr>)
       }
     }
   }"

subsection \<open>PCIe PHY settings\<close>

abbreviation "EPHYAR_EXT_ADDR \<equiv> (0x0ffe :: u32)"

definition rtl8127_set_ephy_ext_addr :: "u32 \<Rightarrow> unit hwm" where
  "rtl8127_set_ephy_ext_addr addr = rtl8125_ephy_write EPHYAR_EXT_ADDR addr"

definition rtl8127_check_ephy_ext_addr :: "u32 \<Rightarrow> u32 hwm" where
  "rtl8127_check_ephy_ext_addr addr = do {
     rtl8127_set_ephy_ext_addr (ucast (drop_bit 12 (ucast addr :: u16)));
     ret (addr AND 0xfff)
   }"

definition rtl8127_ephy_write :: "u32 \<Rightarrow> u32 \<Rightarrow> unit hwm" where
  "rtl8127_ephy_write addr data = do {
     a \<leftarrow> rtl8127_check_ephy_ext_addr addr;
     rtl8125_ephy_write a data
   }"

definition rtl8127_clear_ephy_ext_addr :: "unit hwm" where
  "rtl8127_clear_ephy_ext_addr = rtl8127_set_ephy_ext_addr 0x0000"

definition ephy_8127_1 :: "(u32 \<times> u32) list" where
  "ephy_8127_1 =
     [(0x8088, 0x0064), (0x8488, 0x0064), (0x8888, 0x0064), (0x8C88, 0x0064), (0x8188, 0x0064),
      (0x8588, 0x0064), (0x8988, 0x0064), (0x8D88, 0x0064), (0x808C, 0x09B0), (0x848C, 0x09B0),
      (0x888C, 0x0F90), (0x8C8C, 0x0F90), (0x818C, 0x09B0), (0x858C, 0x09B0), (0x898C, 0x0F90),
      (0x8D8C, 0x0F90), (0x808A, 0x09B8), (0x848A, 0x09B8), (0x888A, 0x0F98), (0x8C8A, 0x0F98),
      (0x818A, 0x09B8), (0x858A, 0x09B8), (0x898A, 0x0F98), (0x8D8A, 0x0F98), (0x9020, 0x0080),
      (0x9420, 0x0080), (0x9820, 0x0080), (0x9C20, 0x0080), (0x901E, 0x0190), (0x941E, 0x0190),
      (0x981E, 0x0140), (0x9C1E, 0x0140), (0x901C, 0x0190), (0x941C, 0x0190), (0x981C, 0x0140),
      (0x9C1C, 0x0140)]"

definition rtl8127_hw_ephy_config_8127_1 :: "unit hwm" where
  "rtl8127_hw_ephy_config_8127_1 = do {
     for_each ephy_8127_1 (\<lambda>(a, v). rtl8127_ephy_write a v);
     rtl8127_clear_ephy_ext_addr
   }"

definition ephy_seq :: "(u32 \<times> u32) list \<Rightarrow> unit hwm" where
  "ephy_seq xs = for_each xs (\<lambda>(a, v). rtl8125_ephy_write a v)"

definition ephy_8125a_1 :: "(u32 \<times> u32) list" where
  "ephy_8125a_1 =
     [(0x01, 0xA812), (0x09, 0x520C), (0x04, 0xD000), (0x0D, 0xF702), (0x0A, 0x8653), (0x06, 0x001E),
      (0x08, 0x3595), (0x20, 0x9455), (0x21, 0x99FF), (0x02, 0x6046), (0x29, 0xFE00), (0x23, 0xAB62),
      (0x41, 0xA80C), (0x49, 0x520C), (0x44, 0xD000), (0x4D, 0xF702), (0x4A, 0x8653), (0x46, 0x001E),
      (0x48, 0x3595), (0x60, 0x9455), (0x61, 0x99FF), (0x42, 0x6046), (0x69, 0xFE00), (0x63, 0xAB62)]"

definition ephy_lane_8125a_2 :: "u8 \<Rightarrow> unit hwm" where
  "ephy_lane_8125a_2 base = do {
     ClearAndSetPCIePhyBit (base + 0x2A) (BIT_14 OR BIT_13 OR BIT_12) (BIT_13 OR BIT_12);
     ClearPCIePhyBit (base + 0x19) BIT_6;
     SetPCIePhyBit (base + 0x1B) (BIT_11 OR BIT_10 OR BIT_9);
     ClearPCIePhyBit (base + 0x1B) (BIT_14 OR BIT_13 OR BIT_12);
     rtl8125_ephy_write (ucast base + 0x02) 0x6042;
     rtl8125_ephy_write (ucast base + 0x06) 0x0014
   }"

definition ephy_8125a_2 :: "unit hwm" where
  "ephy_8125a_2 = do {
     ephy_seq
     [(0x04, 0xD000), (0x0A, 0x8653), (0x23, 0xAB66), (0x20, 0x9455), (0x21, 0x99FF), (0x29, 0xFE04),
      (0x44, 0xD000), (0x4A, 0x8653), (0x63, 0xAB66), (0x60, 0x9455), (0x61, 0x99FF), (0x69, 0xFE04)];
     ephy_lane_8125a_2 0x00;
     ephy_lane_8125a_2 0x40
   }"

definition ephy_8125b_1 :: "(u32 \<times> u32) list" where
  "ephy_8125b_1 =
     [(0x06, 0x001F), (0x0A, 0xB66B), (0x01, 0xA852), (0x24, 0x0008), (0x2F, 0x6052), (0x0D, 0xF716),
      (0x20, 0xD477), (0x21, 0x4477), (0x22, 0x0013), (0x23, 0xBB66), (0x0B, 0xA909), (0x29, 0xFF04),
      (0x1B, 0x1EA0), (0x46, 0x001F), (0x4A, 0xB66B), (0x41, 0xA84A), (0x64, 0x000C), (0x6F, 0x604A),
      (0x4D, 0xF716), (0x60, 0xD477), (0x61, 0x4477), (0x62, 0x0013), (0x63, 0xBB66), (0x4B, 0xA909),
      (0x69, 0xFF04), (0x5B, 0x1EA0)]"

definition ephy_8125b_2 :: "(u32 \<times> u32) list" where
  "ephy_8125b_2 =
     [(0x0B, 0xA908), (0x1E, 0x20EB), (0x22, 0x0023), (0x02, 0x60C2), (0x29, 0xFF00),
      (0x4B, 0xA908), (0x5E, 0x28EB), (0x62, 0x0023), (0x42, 0x60C2), (0x69, 0xFF00)]"

definition rtl8125_hw_ephy_config :: "unit hwm" where
  "rtl8125_hw_ephy_config = do {
     m \<leftarrow> tpget tp_mcfg;
     if m = CFG_METHOD_2 then ephy_seq ephy_8125a_1
     else if m \<in> {CFG_METHOD_3, CFG_METHOD_6} then ephy_8125a_2
     else if m = CFG_METHOD_4 then ephy_seq ephy_8125b_1
     else if m \<in> {CFG_METHOD_5, CFG_METHOD_7} then ephy_seq ephy_8125b_2
     else if m = CFG_METHOD_42 then rtl8127_hw_ephy_config_8127_1
     else skip
   }"

end
