(* ===== verification/NicPower.thy ===== *)
theory NicPower
  imports PhyPatch
begin

text \<open>
  PCIe power management and the parameters for the D3 state
  (\<open>rtl812xx.cpp\<close>): EEE plus, the performance patch, LTR set-up through PCI
  offset 0x99, the L1 exit mask, the CLKREQ/ASPM switches behind the
  configuration lock, and \<open>rtl8125_hw_d3_para\<close>. \<open>PAGE_SIZE\<close> is a constant of the
  build and an argument here.
\<close>

definition rtl8125_issue_offset_99_event :: "unit hwm" where
  "rtl8125_issue_offset_99_event = do {
     g \<leftarrow> mcfg_is {CFG_METHOD_2, CFG_METHOD_3, CFG_METHOD_4, CFG_METHOD_5};
     whenM g (mac_rmw 0xE09A (\<lambda>v. v OR BIT_0))
   }"

text \<open>The C result is 0 or \<open>-EOPNOTSUPP\<close>.\<close>

definition eee_plus_supported :: "bool hwm" where
  "eee_plus_supported = mcfg_is {CFG_METHOD_2, CFG_METHOD_3, CFG_METHOD_4, CFG_METHOD_5, CFG_METHOD_41, CFG_METHOD_42}"

abbreviation "EOPNOTSUPP \<equiv> (102 :: int)"

definition rtl8125_enable_eee_plus :: "int hwm" where
  "rtl8125_enable_eee_plus = do {
     g \<leftarrow> eee_plus_supported;
     if g then do { mac_rmw 0xE080 (\<lambda>v. v OR BIT_1); ret 0 } else ret (- EOPNOTSUPP)
   }"

definition rtl8125_disable_eee_plus :: "int hwm" where
  "rtl8125_disable_eee_plus = do {
     g \<leftarrow> eee_plus_supported;
     if g then do { mac_rmw 0xE080 (\<lambda>v. v AND NOT BIT_1); ret 0 } else ret (- EOPNOTSUPP)
   }"

definition rtl8125_set_pfm_patch :: "bool \<Rightarrow> unit hwm" where
  "rtl8125_set_pfm_patch enable = do {
     r \<leftarrow> tpget tp_RequiredPfmPatch;
     if \<not> r then skip
     else if enable then do {
       rtl8125_set_mac_ocp_bit 0xD3F0 BIT_0;
       rtl8125_set_mac_ocp_bit 0xD3F2 BIT_0;
       rtl8125_set_mac_ocp_bit 0xE85A BIT_6
     } else do {
       rtl8125_clear_mac_ocp_bit 0xD3F0 BIT_0;
       rtl8125_clear_mac_ocp_bit 0xD3F2 BIT_0;
       rtl8125_clear_mac_ocp_bit 0xE85A BIT_6
     }
   }"

definition rtl8125_set_radm_fifo_prot :: "bool \<Rightarrow> unit hwm" where
  "rtl8125_set_radm_fifo_prot enable = do {
     m \<leftarrow> tpget tp_mcfg;
     whenM (m = CFG_METHOD_42) (RTL_W16 RADMFIFO_PROTECT (if enable then 0x2001 else 0))
   }"

definition rtl8125_disable_ocp_phy_power_saving :: "unit hwm" where
  "rtl8125_disable_ocp_phy_power_saving = do {
     g \<leftarrow> mcfg_is {CFG_METHOD_2, CFG_METHOD_3, CFG_METHOD_6};
     whenM g (do {
       val \<leftarrow> mdio_direct_read_phy_ocp 0xC416;
       whenM ((ucast val :: u16) \<noteq> 0x0500) (do {
         _ \<leftarrow> rtl8125_set_phy_mcu_patch_request;
         mdio_direct_write_phy_ocp 0xC416 0x0000;
         mdio_direct_write_phy_ocp 0xC416 0x0500;
         _ \<leftarrow> rtl8125_clear_phy_mcu_patch_request;
         skip
       })
     })
   }"

definition rtl8125_wait_ll_share_fifo_ready :: "unit hwm" where
  "rtl8125_wait_ll_share_fifo_ready = do {
     _ \<leftarrow> poll 10 100 (do { v \<leftarrow> RTL_R16 0xD2; ret (v AND BIT_9 \<noteq> 0) });
     skip
   }"

subsection \<open>Offsets 0x99 and 0x180\<close>

definition rtl8125_disable_pci_offset_99 :: "unit hwm" where
  "rtl8125_disable_pci_offset_99 = do {
     mac_rmw 0xE032 (\<lambda>v. v AND NOT (BIT_0 OR BIT_1));
     rtl8125_csi_fun0_write_byte 0x99 0x00
   }"

definition offset_99_bits :: "u8 \<Rightarrow> u16 \<Rightarrow> u16" where
  "offset_99_bits org v =
    (let v1 = v AND NOT (BIT_0 OR BIT_1);
         v2 = (if org AND (BIT_5 OR BIT_6) \<noteq> 0 then v1 OR BIT_1 else v1)
     in if org AND BIT_2 \<noteq> 0 then v2 OR BIT_0 else v2)"

definition rtl8125_enable_pci_offset_99 :: "unit hwm" where
  "rtl8125_enable_pci_offset_99 = do {
     org \<leftarrow> tpget tp_org_pci_offset_99;
     rtl8125_csi_fun0_write_byte 0x99 org;
     mac_rmw 0xE032 (offset_99_bits org)
   }"

text \<open>The LTR messages of a generation, in the order they are written.\<close>

fun ltr_table :: "mcfg \<Rightarrow> (u16 \<times> u16) list" where
  "ltr_table m =
    (if m \<in> {CFG_METHOD_32, CFG_METHOD_33} then
       [(0xCDD2, 0x8C09), (0xCDD8, 0x9003), (0xCDD4, 0x9003), (0xCDDA, 0x9003), (0xCDD6, 0x9003), (0xCDDC, 0x9003),
        (0xCDE8, 0x887A), (0xCDEA, 0x9003), (0xCDEC, 0x8C09), (0xCDEE, 0x9003), (0xCDF0, 0x8A62), (0xCDF2, 0x9003),
        (0xCDF4, 0x883E), (0xCDF6, 0x9003)]
     else if m \<in> {CFG_METHOD_41, CFG_METHOD_42} then
       [(0xCDD2, 0x8C17), (0xCDD8, 0x9003), (0xCDD4, 0x9003), (0xCDDA, 0x9003), (0xCDD6, 0x9003), (0xCDDC, 0x9003),
        (0xCDE8, 0x8C08), (0xCDEA, 0x9003), (0xCDEC, 0x8C12), (0xCDEE, 0x9003), (0xCDF0, 0x8C2E), (0xCDF2, 0x9003),
        (0xCDF4, 0x8892), (0xCDF6, 0x9003), (0xCDF4, 0x8849), (0xCDF6, 0x9003)]
     else
       [(0xCDD2, 0x889C), (0xCDD8, 0x9003), (0xCDD4, 0x8C30), (0xCDDA, 0x9003), (0xCDD6, 0x9003), (0xCDDC, 0x9003),
        (0xCDE8, 0x883E), (0xCDEA, 0x9003), (0xCDEC, 0x889C), (0xCDEE, 0x9003), (0xCDF0, 0x8C09), (0xCDF2, 0x9003)])"

definition rtl8125_init_pci_offset_99 :: "unit hwm" where
  "rtl8125_init_pci_offset_99 = do {
     m \<leftarrow> tpget tp_mcfg;
     rtl8125_mac_ocp_write 0xCDD0 0x9003;
     rtl8125_set_mac_ocp_bit 0xE034 (BIT_15 OR BIT_14);
     for_each (ltr_table m) (\<lambda>(a, v). rtl8125_mac_ocp_write a v);
     rtl8125_set_mac_ocp_bit 0xE032 BIT_14;
     rtl8125_set_mac_ocp_bit 0xE0A2 BIT_0;
     rtl8125_enable_pci_offset_99
   }"

definition rtl8125_disable_pci_offset_180 :: "unit hwm" where
  "rtl8125_disable_pci_offset_180 = rtl8125_clear_mac_ocp_bit 0xE092 0x00FF"

definition rtl8125_enable_pci_offset_180 :: "unit hwm" where
  "rtl8125_enable_pci_offset_180 = do {
     rtl8125_clear_mac_ocp_bit 0xE094 0xFF00;
     rtl8125_clear_set_mac_ocp_bit 0xE092 0x00FF BIT_2
   }"

definition rtl8125_init_pci_offset_180 :: "unit hwm" where
  "rtl8125_init_pci_offset_180 = rtl8125_enable_pci_offset_180"

definition rtl8125_set_pci_99_exit_driver_para :: "unit hwm" where
  "rtl8125_set_pci_99_exit_driver_para = do {
     org \<leftarrow> tpget tp_org_pci_offset_99;
     whenM (org AND BIT_2 \<noteq> 0) rtl8125_issue_offset_99_event;
     rtl8125_disable_pci_offset_99
   }"

subsection \<open>Configuration lock and ASPM\<close>

definition rtl8125_enable_cfg9346_write :: "unit hwm" where
  "rtl8125_enable_cfg9346_write = rmw8 Cfg9346 (\<lambda>v. v OR Cfg9346_Unlock)"

definition rtl8125_disable_cfg9346_write :: "unit hwm" where
  "rtl8125_disable_cfg9346_write = rmw8 Cfg9346 (\<lambda>v. v AND NOT Cfg9346_Unlock)"

abbreviation "exit_l1_bits \<equiv> (BIT_7 OR BIT_8 OR BIT_9 OR BIT_10 OR BIT_11 OR BIT_12 :: u16)"

definition rtl8125_enable_exit_l1_mask :: "unit hwm" where
  "rtl8125_enable_exit_l1_mask = SetMcuAccessRegBit 0xC0AC exit_l1_bits"

definition rtl8125_disable_exit_l1_mask :: "unit hwm" where
  "rtl8125_disable_exit_l1_mask = ClearMcuAccessRegBit 0xC0AC exit_l1_bits"

definition set_bit8 :: "bool \<Rightarrow> u8 \<Rightarrow> u8 \<Rightarrow> u8" where
  "set_bit8 enable b v = (if enable then v OR b else v AND NOT b)"

definition rtl8125_enable_force_clkreq :: "bool \<Rightarrow> unit hwm" where
  "rtl8125_enable_force_clkreq enable = rmw8 0xF1 (set_bit8 enable BIT_7)"

definition rtl8125_enable_aspm_clkreq_lock :: "bool \<Rightarrow> unit hwm" where
  "rtl8125_enable_aspm_clkreq_lock enable = do {
     c \<leftarrow> RTL_R8 Cfg9346;
     let unlock_cfg_wr = (c AND Cfg9346_EEM_MASK \<noteq> Cfg9346_Unlock);
     whenM unlock_cfg_wr rtl8125_enable_cfg9346_write;
     g \<leftarrow> mcfg_is {CFG_METHOD_32, CFG_METHOD_33, CFG_METHOD_41, CFG_METHOD_42};
     (if g then rmw8 INT_CFG0_8125 (set_bit8 enable BIT_3) else rmw8 Config2 (set_bit8 enable BIT_7));
     rmw8 Config5 (set_bit8 enable BIT_0);
     whenM unlock_cfg_wr rtl8125_disable_cfg9346_write
   }"

definition rtl8125_set_reg_oobs_en_sel :: "bool \<Rightarrow> unit hwm" where
  "rtl8125_set_reg_oobs_en_sel enable = do {
     g \<leftarrow> mcfg_is {CFG_METHOD_10, CFG_METHOD_11, CFG_METHOD_12, CFG_METHOD_13};
     whenM g (if enable then rtl8125_set_mac_ocp_bit 0xD434 BIT_1 else rtl8125_clear_mac_ocp_bit 0xD434 BIT_1)
   }"

definition rtl8125_hw_d3_para :: "u16 \<Rightarrow> unit hwm" where
  "rtl8125_hw_d3_para page_size = do {
     RTL_W16 RxMaxSize page_size;
     rtl8125_enable_force_clkreq False;
     rtl8125_enable_aspm_clkreq_lock False;
     rtl8125_disable_exit_l1_mask;
     rtl8125_set_pci_99_exit_driver_para;
     g \<leftarrow> mcfg_is {CFG_METHOD_2, CFG_METHOD_3, CFG_METHOD_6};
     whenM g rtl8125_disable_ocp_phy_power_saving;
     rtl8125_disable_rxdvgate;
     rtl8125_clear_mac_ocp_bit 0xEA84 (BIT_1 OR BIT_0);
     new \<leftarrow> mcfg_is {CFG_METHOD_31, CFG_METHOD_32, CFG_METHOD_33, CFG_METHOD_41, CFG_METHOD_42};
     whenM (\<not> new) (rtl8125_set_reg_oobs_en_sel False);
     rtl8125_set_radm_fifo_prot True
   }"

subsection \<open>Addresses, link layer and receive size\<close>

definition rtl8125_get_bios_setting :: "unit hwm" where
  "rtl8125_get_bios_setting = do {
     v \<leftarrow> RTL_R32 TimeInt2;
     tpmod (\<lambda>t. t\<lparr>tp_bios_setting := v\<rparr>)
   }"

definition rtl8125_set_bios_setting :: "unit hwm" where
  "rtl8125_set_bios_setting = do {
     v \<leftarrow> tpget tp_bios_setting;
     RTL_W32 TimeInt2 v
   }"

definition rar_low :: "u8 list \<Rightarrow> u32" where
  "rar_low addr = ucast (addr ! 0) OR push_bit 8 (ucast (addr ! 1)) OR
     push_bit 16 (ucast (addr ! 2)) OR push_bit 24 (ucast (addr ! 3))"

definition rar_high :: "u8 list \<Rightarrow> u32" where
  "rar_high addr = ucast (addr ! 4) OR push_bit 8 (ucast (addr ! 5))"

definition rtl8125_rar_set :: "u8 list \<Rightarrow> unit hwm" where
  "rtl8125_rar_set addr = do {
     rtl8125_enable_cfg9346_write;
     RTL_W32 MAC0 (rar_low addr);
     RTL_W32 MAC4 (rar_high addr);
     rtl8125_disable_cfg9346_write
   }"

definition rtl8125_get_l1off_cap_bits :: "u8 hwm" where
  "rtl8125_get_l1off_cap_bits = do {
     g \<leftarrow> mcfg_is {CFG_METHOD_4, CFG_METHOD_5, CFG_METHOD_7, CFG_METHOD_8, CFG_METHOD_9, CFG_METHOD_10,
       CFG_METHOD_11, CFG_METHOD_12, CFG_METHOD_13, CFG_METHOD_31, CFG_METHOD_32, CFG_METHOD_33,
       CFG_METHOD_41, CFG_METHOD_42};
     let l1offCapBits = (BIT_0 OR BIT_1 :: u8);
     ret (if g then l1offCapBits OR (BIT_2 OR BIT_3) else l1offCapBits)
   }"

definition rtl8125_set_l1_l0s_entry_latency :: "unit hwm" where
  "rtl8125_set_l1_l0s_entry_latency = do {
     csi \<leftarrow> rtl8125_csi_read 0x70c;
     rtl8125_csi_write 0x70c ((csi AND 0xc0ffffff) OR push_bit 24 (0x27 AND 0x3f))
   }"

definition rtl8126_disable_l1_timeout :: "unit hwm" where
  "rtl8126_disable_l1_timeout = do {
     csi \<leftarrow> rtl8125_csi_read 0x890;
     rtl8125_csi_write 0x890 (csi AND NOT BIT_0)
   }"

definition rms_value :: "mcfg \<Rightarrow> u16 \<Rightarrow> u16" where
  "rms_value m rms =
    (if m \<in> {CFG_METHOD_8, CFG_METHOD_9, CFG_METHOD_10, CFG_METHOD_11, CFG_METHOD_12, CFG_METHOD_13,
       CFG_METHOD_31, CFG_METHOD_32, CFG_METHOD_33, CFG_METHOD_41, CFG_METHOD_42}
     then rms OR AcceppVlanPhys else rms AND NOT AcceppVlanPhys)"

definition rtl8125_set_rms :: "u16 \<Rightarrow> unit hwm" where
  "rtl8125_set_rms rms = do {
     m \<leftarrow> tpget tp_mcfg;
     RTL_W16 RxMaxSize (rms_value m rms)
   }"

end
