(* ===== verification/NicWol.thy ===== *)
theory NicWol
  imports NicPower
begin

text \<open>
  Wake-on-LAN, PHY power and the reduced link speed of the sleeping machine
  (\<open>rtl812xx.cpp\<close>).
\<close>

abbreviation "WAKE_ANY \<equiv> WAKE_PHY OR WAKE_MAGIC OR WAKE_UCAST OR WAKE_BCAST OR WAKE_MCAST"
abbreviation "D0_SPEED_UP_SPEED_DISABLE \<equiv> (0 :: u8)"
abbreviation "D0_SPEED_UP_SPEED_1000 \<equiv> (1 :: u8)"
abbreviation "D0_SPEED_UP_SPEED_2500 \<equiv> (2 :: u8)"
abbreviation "D0_SPEED_UP_SPEED_5000 \<equiv> (3 :: u8)"
abbreviation "D0_SPEED_UP_SPEED_10000 \<equiv> (4 :: u8)"
abbreviation "WOL_ENABLED \<equiv> (1 :: u8)"

subsection \<open>Wake events\<close>

definition rtl8125_enable_magic_packet :: "unit hwm" where
  "rtl8125_enable_magic_packet = do {
     v \<leftarrow> tpget tp_HwSuppMagicPktVer;
     whenM (v = WAKEUP_MAGIC_PACKET_V3) (mac_rmw 0xC0B6 (\<lambda>v. v OR BIT_0))
   }"

definition rtl8125_disable_magic_packet :: "unit hwm" where
  "rtl8125_disable_magic_packet = do {
     v \<leftarrow> tpget tp_HwSuppMagicPktVer;
     whenM (v = WAKEUP_MAGIC_PACKET_V3) (mac_rmw 0xC0B6 (\<lambda>v. v AND NOT BIT_0))
   }"

definition rtl8125_enable_linkchg_wakeup :: "unit hwm" where
  "rtl8125_enable_linkchg_wakeup = do {
     rmw8 Config3 (\<lambda>v. v OR LinkUp);
     ClearAndSetMcuAccessRegBit 0xE0C6 (BIT_3 OR BIT_2) (BIT_4 OR BIT_1 OR BIT_0)
   }"

definition rtl8125_disable_linkchg_wakeup :: "unit hwm" where
  "rtl8125_disable_linkchg_wakeup = do {
     rmw8 Config3 (\<lambda>v. v AND NOT LinkUp);
     v \<leftarrow> rtl8125_mac_ocp_read 0xE0C6;
     whenM (v AND BIT_0 = 0) (rtl8125_clear_set_mac_ocp_bit 0xE0C6 (BIT_5 OR BIT_3 OR BIT_2 OR BIT_1) BIT_4)
   }"

definition rtl8125_get_hw_wol :: "u32 hwm" where
  "rtl8125_get_hw_wol = do {
     c1 \<leftarrow> RTL_R8 Config1;
     if c1 AND PMEnable = 0 then ret 0
     else do {
       c3 \<leftarrow> RTL_R8 Config3;
       ver \<leftarrow> tpget tp_HwSuppMagicPktVer;
       magic \<leftarrow> (if ver = WAKEUP_MAGIC_PACKET_V3
         then do { m \<leftarrow> rtl8125_mac_ocp_read 0xC0B6; ret (m AND BIT_0 \<noteq> 0) } else ret False);
       c5 \<leftarrow> RTL_R8 Config5;
       ret ((if c3 AND LinkUp \<noteq> 0 then WAKE_PHY else 0) OR (if magic then WAKE_MAGIC else 0) OR
            (if c5 AND UWF \<noteq> 0 then WAKE_UCAST else 0) OR (if c5 AND BWF \<noteq> 0 then WAKE_BCAST else 0) OR
            (if c5 AND MWF \<noteq> 0 then WAKE_MCAST else 0))
     }
   }"

text \<open>The \<open>cfg\<close> table without its last row, which the loop bound leaves out.\<close>

definition wol_cfg :: "(u32 \<times> u16 \<times> u8) list" where
  "wol_cfg =
     [(WAKE_PHY, Config3, LinkUp), (WAKE_UCAST, Config5, UWF), (WAKE_BCAST, Config5, BWF),
      (WAKE_MCAST, Config5, MWF), (WAKE_ANY, Config5, LanWake)]"

definition rtl8125_set_hw_wol :: "u32 \<Rightarrow> unit hwm" where
  "rtl8125_set_hw_wol wolopts = do {
     (if wolopts AND WAKE_MAGIC \<noteq> 0 then rtl8125_enable_magic_packet else rtl8125_disable_magic_packet);
     rtl8125_enable_cfg9346_write;
     for_each wol_cfg (\<lambda>(opt, reg, msk).
       rmw8 reg (\<lambda>v. if wolopts AND opt \<noteq> 0 then (v AND NOT msk) OR msk else v AND NOT msk));
     (if wolopts AND WAKE_PHY \<noteq> 0 then rtl8125_enable_linkchg_wakeup else rtl8125_disable_linkchg_wakeup);
     rtl8125_disable_cfg9346_write
   }"

subsection \<open>Speed-up on the way back to D0\<close>

definition HW_SUPPORT_D0_SPEED_UP :: "rtl8125_private \<Rightarrow> bool" where
  "HW_SUPPORT_D0_SPEED_UP t \<longleftrightarrow> tp_HwSuppD0SpeedUpVer t > 0"

definition d0_speed_bits :: "u8 \<Rightarrow> u16" where
  "d0_speed_bits s =
    (if s = D0_SPEED_UP_SPEED_2500 then BIT_7 else if s = D0_SPEED_UP_SPEED_5000 then BIT_8
     else if s = D0_SPEED_UP_SPEED_10000 then BIT_7 OR BIT_8 else 0)"

definition rtl8125_enable_d0_speedup :: "unit hwm" where
  "rtl8125_enable_d0_speedup = do {
     t \<leftarrow> tpget id;
     if \<not> HW_SUPPORT_D0_SPEED_UP t \<or> tp_D0SpeedUpSpeed t = D0_SPEED_UP_SPEED_DISABLE then skip
     else do {
       whenM (tp_HwSuppD0SpeedUpVer t = 1 \<or> tp_HwSuppD0SpeedUpVer t = 2) (do {
         rtl8125_clear_set_mac_ocp_bit 0xE10A (BIT_10 OR BIT_9 OR BIT_8 OR BIT_7) (d0_speed_bits (tp_D0SpeedUpSpeed t));
         let fc = (if tp_HwSuppD0SpeedUpVer t = 2 then BIT_15 OR BIT_14 OR BIT_13 else BIT_15 OR BIT_14);
         rtl8125_clear_set_mac_ocp_bit 0xE860 fc (if tp_fcpause t = rtl8125_fc_full then fc else 0)
       });
       rmw8 0xD0 (\<lambda>v. v OR BIT_3)
     }
   }"

definition rtl8125_disable_d0_speedup :: "unit hwm" where
  "rtl8125_disable_d0_speedup = do {
     t \<leftarrow> tpget id;
     whenM (HW_SUPPORT_D0_SPEED_UP t) (rmw8 0xD0 (\<lambda>v. v AND NOT BIT_3))
   }"

definition d0_speed_of :: "u8 \<Rightarrow> u32 \<Rightarrow> u8" where
  "d0_speed_of autoneg speed =
    (if autoneg = AUTONEG_ENABLE then
       (if speed = SPEED_10000 then D0_SPEED_UP_SPEED_10000
        else if speed = SPEED_5000 then D0_SPEED_UP_SPEED_5000
        else if speed = SPEED_2500 then D0_SPEED_UP_SPEED_2500
        else if speed = SPEED_1000 then D0_SPEED_UP_SPEED_1000
        else D0_SPEED_UP_SPEED_DISABLE)
     else D0_SPEED_UP_SPEED_DISABLE)"

definition rtl8125_set_d0_speedup_speed :: "unit hwm" where
  "rtl8125_set_d0_speedup_speed =
     tpmod (\<lambda>t. if HW_SUPPORT_D0_SPEED_UP t then t\<lparr>tp_D0SpeedUpSpeed := d0_speed_of (tp_autoneg t) (tp_speed t)\<rparr> else t)"

subsection \<open>PHY power\<close>

fun ups_wait :: "nat \<Rightarrow> u16 \<Rightarrow> unit hwm" where
  "ups_wait 0 PhyState = skip"
| "ups_wait (Suc n) PhyState = do {
     v \<leftarrow> mdio_direct_read_phy_ocp 0xA420;
     mdelay 1;
     if (ucast v :: u16) AND 0x7 \<noteq> PhyState then ups_wait n PhyState else skip
   }"

definition rtl8125_wait_phy_ups_resume :: "u16 \<Rightarrow> unit hwm" where
  "rtl8125_wait_phy_ups_resume PhyState = do {
     g \<leftarrow> mcfg_is {CFG_METHOD_2, CFG_METHOD_3, CFG_METHOD_4, CFG_METHOD_5, CFG_METHOD_41, CFG_METHOD_42};
     whenM g (ups_wait 100 PhyState)
   }"

definition rtl8125_phy_power_up :: "unit hwm" where
  "rtl8125_phy_power_up = do {
     d \<leftarrow> rtl8125_is_in_phy_disable_mode;
     if d then skip
     else do {
       rtl8125_mdio_write 0x1F 0x0000;
       rtl8125_mdio_write MII_BMCR BMCR_ANENABLE;
       rtl8125_wait_phy_ups_resume 3
     }
   }"

definition rtl8125_phy_power_down :: "unit hwm" where
  "rtl8125_phy_power_down = do {
     rtl8125_mdio_write 0x1F 0x0000;
     rtl8125_mdio_write MII_BMCR (BMCR_ANENABLE OR BMCR_PDOWN)
   }"

definition rtl8125_phy_restart_nway :: "unit hwm" where
  "rtl8125_phy_restart_nway = do {
     d \<leftarrow> rtl8125_is_in_phy_disable_mode;
     if d then skip
     else do {
       rtl8125_mdio_write 0x1F 0x0000;
       rtl8125_mdio_write MII_BMCR (BMCR_ANENABLE OR BMCR_ANRESTART)
     }
   }"

definition force_bmcr :: "u32 \<Rightarrow> u8 \<Rightarrow> u16 option" where
  "force_bmcr speed duplex =
    (if speed = SPEED_10 \<and> duplex = DUPLEX_HALF then Some 0
     else if speed = SPEED_10 \<and> duplex = DUPLEX_FULL then Some (0 OR BMCR_FULLDPLX)
     else if speed = SPEED_100 \<and> duplex = DUPLEX_HALF then Some BMCR_SPEED100
     else if speed = SPEED_100 \<and> duplex = DUPLEX_FULL then Some (BMCR_SPEED100 OR BMCR_FULLDPLX)
     else None)"

definition rtl8125_phy_setup_force_mode :: "u32 \<Rightarrow> u8 \<Rightarrow> unit hwm" where
  "rtl8125_phy_setup_force_mode speed duplex = do {
     d \<leftarrow> rtl8125_is_in_phy_disable_mode;
     if d then skip
     else case force_bmcr speed duplex of None \<Rightarrow> skip
       | Some bmcr \<Rightarrow> do {
           rtl8125_mdio_write 0x1F 0x0000;
           rtl8125_mdio_write MII_BMCR bmcr
         }
   }"

definition rtl8125_powerup_pll :: "unit hwm" where
  "rtl8125_powerup_pll = do {
     rmw8 PMCH (\<lambda>v. v OR BIT_7 OR BIT_6);
     keep \<leftarrow> tpget tp_resume_not_chg_speed;
     if keep then skip else rtl8125_phy_power_up
   }"

subsection \<open>The link speed of a sleeping machine\<close>

definition rtl8125_keep_wol_link_speed :: "u8 \<Rightarrow> bool hwm" where
  "rtl8125_keep_wol_link_speed from_suspend = do {
     t \<leftarrow> tpget id;
     if from_suspend \<noteq> 0 then do {
       ok \<leftarrow> rtl8125_xmii_link_ok;
       ret (ok \<and> tp_wol_opts t AND WAKE_PHY \<noteq> 0)
     } else ret (tp_resume_not_chg_speed t)
   }"

definition rtl8125_disable_giga_lite :: "unit hwm" where
  "rtl8125_disable_giga_lite = do {
     ClearEthPhyOcpBit 0xA428 BIT_9;
     g \<leftarrow> mcfg_is {CFG_METHOD_31, CFG_METHOD_32, CFG_METHOD_33, CFG_METHOD_41, CFG_METHOD_42};
     if g then ClearEthPhyOcpBit 0xA5EA (BIT_0 OR BIT_1 OR BIT_2) else ClearEthPhyOcpBit 0xA5EA BIT_0
   }"

abbreviation "adv_10_100 \<equiv> (ADVERTISE_10HALF OR ADVERTISE_10FULL OR ADVERTISE_100HALF OR ADVERTISE_100FULL :: u32)"

definition adv_slow :: "u64 \<Rightarrow> u32" where
  "adv_slow adv =
     (if adv AND ADVERTISED_10baseT_Half \<noteq> 0 then ADVERTISE_10HALF else 0) OR
     (if adv AND ADVERTISED_10baseT_Full \<noteq> 0 then ADVERTISE_10FULL else 0) OR
     (if adv AND ADVERTISED_100baseT_Half \<noteq> 0 then ADVERTISE_100HALF else 0) OR
     (if adv AND ADVERTISED_100baseT_Full \<noteq> 0 then ADVERTISE_100FULL else 0)"

text \<open>
  The slowest mode both sides support, as the bits it adds to the three
  advertisement registers; \<open>None\<close> is the \<open>goto exit\<close>.
\<close>

definition wol_mode :: "u64 \<Rightarrow> u16 \<Rightarrow> u16 \<Rightarrow> u16 \<Rightarrow> (u32 \<times> u32 \<times> u32) option" where
  "wol_mode adv anlpar gbsr status_2500 =
    (if adv AND ADVERTISED_10baseT_Half \<noteq> 0 \<and> anlpar AND 0x0020 \<noteq> 0 then Some (ADVERTISE_10HALF, 0, 0)
     else if adv AND ADVERTISED_10baseT_Full \<noteq> 0 \<and> anlpar AND 0x0040 \<noteq> 0 then Some (ADVERTISE_10FULL, 0, 0)
     else if adv AND ADVERTISED_100baseT_Half \<noteq> 0 \<and> anlpar AND 0x0080 \<noteq> 0 then Some (ADVERTISE_100HALF, 0, 0)
     else if adv AND ADVERTISED_100baseT_Full \<noteq> 0 \<and> anlpar AND 0x0100 \<noteq> 0 then Some (ADVERTISE_100FULL, 0, 0)
     else if adv AND ADVERTISED_1000baseT_Half \<noteq> 0 \<and> gbsr AND 0x0400 \<noteq> 0 then Some (0, ADVERTISE_1000HALF, 0)
     else if adv AND ADVERTISED_1000baseT_Full \<noteq> 0 \<and> gbsr AND 0x0800 \<noteq> 0 then Some (0, ADVERTISE_1000FULL, 0)
     else if adv AND ADVERTISED_2500baseX_Full \<noteq> 0 \<and> status_2500 AND 0x20 \<noteq> 0 then Some (0, 0, RTK_ADVERTISE_2500FULL)
     else if adv AND RTK_ADVERTISED_5000baseX_Full \<noteq> 0 \<and> status_2500 AND 0x40 \<noteq> 0 then Some (0, 0, RTK_ADVERTISE_5000FULL)
     else if adv AND ADVERTISED_10000baseT_Full \<noteq> 0 \<and> status_2500 AND 0x800 \<noteq> 0 then Some (0, 0, RTK_ADVERTISE_10000FULL)
     else None)"

definition wol_choice :: "u64 \<Rightarrow> u16 \<Rightarrow> u16 \<Rightarrow> u16 \<Rightarrow> u16 \<Rightarrow> (u32 \<times> u32 \<times> u32) option" where
  "wol_choice adv aner anlpar gbsr status_2500 =
    (if aner OR anlpar OR gbsr OR status_2500 = 0
     then (if adv_slow adv = 0 then None else Some (adv_slow adv, 0, 0))
     else if aner AND 0x0001 = 0 then None
     else wol_mode adv anlpar gbsr status_2500)"

definition wol_partner :: "(u16 \<times> u16 \<times> u16 \<times> u16) hwm" where
  "wol_partner = do {
     t \<leftarrow> tpget id;
     ok \<leftarrow> rtl8125_xmii_link_ok;
     if ok then do {
       aner \<leftarrow> rtl8125_mdio_read MII_EXPANSION;
       anlpar \<leftarrow> rtl8125_mdio_read MII_LPA;
       gbsr \<leftarrow> rtl8125_mdio_read MII_STAT1000;
       status_2500 \<leftarrow> mdio_direct_read_phy_ocp 0xA5D6;
       ret (ucast aner, ucast anlpar, ucast gbsr, ucast status_2500)
     } else ret (tp_phy_reg_aner t, tp_phy_reg_anlpar t, tp_phy_reg_gbsr t, tp_phy_reg_status_2500 t)
   }"

text \<open>The result is \<open>auto_nego\<close>, as the exit path leaves it.\<close>

definition rtl8125_set_wol_link_speed :: "u32 hwm" where
  "rtl8125_set_wol_link_speed = do {
     t \<leftarrow> tpget id;
     if tp_autoneg t \<noteq> AUTONEG_ENABLE then ret 0
     else do {
       rtl8125_mdio_write 0x1F 0x0000;
       a \<leftarrow> rtl8125_mdio_read MII_ADVERTISE;
       let auto_nego = a AND NOT adv_10_100;
       g \<leftarrow> rtl8125_mdio_read MII_CTRL1000;
       let giga_ctrl = g AND NOT (ADVERTISE_1000HALF OR ADVERTISE_1000FULL);
       c \<leftarrow> mdio_direct_read_phy_ocp 0xA5D4;
       let ctrl_2500 = c AND NOT (RTK_ADVERTISE_2500FULL OR RTK_ADVERTISE_5000FULL);
       (aner, anlpar, gbsr, status_2500) \<leftarrow> wol_partner;
       case wol_choice (tp_advertising t) aner anlpar gbsr status_2500 of
         None \<Rightarrow> ret auto_nego
       | Some (m10, m1000, m2500) \<Rightarrow> do {
           let auto_nego = (if tp_DASH t then auto_nego OR m10 OR adv_10_100 else auto_nego OR m10);
           rtl8125_mdio_write MII_ADVERTISE (ucast auto_nego);
           rtl8125_mdio_write MII_CTRL1000 (ucast (giga_ctrl OR m1000));
           mdio_direct_write_phy_ocp 0xA5D4 (ucast (ctrl_2500 OR m2500));
           rtl8125_disable_giga_lite;
           rtl8125_phy_restart_nway;
           ret auto_nego
         }
     }
   }"

definition rtl8125_powerdown_pll :: "unit hwm" where
  "rtl8125_powerdown_pll = do {
     tpmod (\<lambda>t. t\<lparr>tp_check_keep_link_speed := False\<rparr>);
     t \<leftarrow> tpget id;
     if tp_wol_enabled t = WOL_ENABLED \<or> tp_DASH t then do {
       rtl8125_set_hw_wol (tp_wol_opts t);
       rtl8125_enable_cfg9346_write;
       rmw8 Config2 (\<lambda>v. v OR PMSTS_En);
       rtl8125_disable_cfg9346_write;
       keep \<leftarrow> rtl8125_keep_wol_link_speed (tp_wol_enabled t);
       (if keep then tpmod (\<lambda>t. t\<lparr>tp_check_keep_link_speed := True\<rparr>)
        else do {
          whenM (tp_D0SpeedUpSpeed t \<noteq> D0_SPEED_UP_SPEED_DISABLE) (do {
            rtl8125_enable_d0_speedup;
            tpmod (\<lambda>t. t\<lparr>tp_check_keep_link_speed := True\<rparr>)
          });
          auto_nego \<leftarrow> rtl8125_set_wol_link_speed;
          whenM (tp_RequiredPfmPatch t)
            (rtl8125_set_pfm_patch (auto_nego AND (ADVERTISE_10HALF OR ADVERTISE_10FULL) \<noteq> 0))
        });
       rmw32 RxConfig (\<lambda>v. v OR AcceptBroadcast OR AcceptMulticast OR AcceptMyPhys)
     } else do {
       rtl8125_phy_power_down;
       whenM (\<not> tp_HwIcVerUnknown t) (rmw8 PMCH (\<lambda>v. v AND NOT BIT_7));
       rmw8 0xF2 (\<lambda>v. v AND NOT BIT_6)
     }
   }"

end
