(* ===== verification/NicOob.thy ===== *)
theory NicOob
  imports NicWol
begin

text \<open>
  Energy Efficient Ethernet, the DASH management channel and the exit from
  out-of-band operation (\<open>rtl812xx.cpp\<close>). The advertisement translations
  are the inline functions of \<open>linux/mdio.h\<close> and \<open>rtl812xx.h\<close>.
\<close>

subsection \<open>Energy Efficient Ethernet\<close>

abbreviation "MDIO_EEE_100TX \<equiv> (0x0002 :: u16)"
abbreviation "MDIO_EEE_1000T \<equiv> (0x0004 :: u16)"
abbreviation "MDIO_EEE_10GT \<equiv> (0x0008 :: u16)"
abbreviation "MDIO_EEE_1000KX \<equiv> (0x0010 :: u16)"
abbreviation "MDIO_EEE_10GKX4 \<equiv> (0x0020 :: u16)"
abbreviation "MDIO_EEE_10GKR \<equiv> (0x0040 :: u16)"
abbreviation "MDIO_EEE_2_5GT \<equiv> (0x0001 :: u16)"
abbreviation "MDIO_EEE_5GT \<equiv> (0x0002 :: u16)"

definition ethtool_adv_to_mmd_eee_adv_t :: "u32 \<Rightarrow> u16" where
  "ethtool_adv_to_mmd_eee_adv_t adv =
     (if adv AND 0x8 \<noteq> 0 then MDIO_EEE_100TX else 0) OR
     (if adv AND 0x20 \<noteq> 0 then MDIO_EEE_1000T else 0) OR
     (if adv AND 0x1000 \<noteq> 0 then MDIO_EEE_10GT else 0) OR
     (if adv AND 0x20000 \<noteq> 0 then MDIO_EEE_1000KX else 0) OR
     (if adv AND 0x40000 \<noteq> 0 then MDIO_EEE_10GKX4 else 0) OR
     (if adv AND 0x80000 \<noteq> 0 then MDIO_EEE_10GKR else 0)"

definition rtl8125_ethtool_adv_to_mmd_eee_adv_cap2_t :: "u32 \<Rightarrow> u32" where
  "rtl8125_ethtool_adv_to_mmd_eee_adv_cap2_t adv = (if adv AND 0x8000 \<noteq> 0 then ucast MDIO_EEE_2_5GT else 0)"

definition rtl8125_is_adv_eee_enabled :: "bool hwm" where
  "rtl8125_is_adv_eee_enabled = do {
     g \<leftarrow> mcfg_is {CFG_METHOD_10, CFG_METHOD_11, CFG_METHOD_12};
     if g then ret False
     else do { v \<leftarrow> mdio_direct_read_phy_ocp 0xA430; ret (v AND BIT_15 \<noteq> 0) }
   }"

definition rtl812x_disable_adv_eee :: "unit hwm" where
  "rtl812x_disable_adv_eee = do {
     lock \<leftarrow> rtl8125_is_adv_eee_enabled;
     whenM lock (do { _ \<leftarrow> rtl8125_set_phy_mcu_patch_request; skip });
     rtl8125_clear_mac_ocp_bit 0xE052 BIT_0;
     rtl8125_clear_eth_phy_ocp_bit 0xA442 (BIT_12 OR BIT_13);
     rtl8125_clear_eth_phy_ocp_bit 0xA430 BIT_15;
     whenM lock (do { _ \<leftarrow> rtl8125_clear_phy_mcu_patch_request; skip })
   }"

definition rtl8125_disable_adv_eee :: "unit hwm" where
  "rtl8125_disable_adv_eee = do {
     m \<leftarrow> tpget tp_mcfg;
     whenM (m < CFG_METHOD_31) rtl8125_oob_mutex_lock;
     rtl812x_disable_adv_eee;
     whenM (m < CFG_METHOD_31) rtl8125_oob_mutex_unlock
   }"

definition HW_SUPP_PHY_LINK_SPEED_5000M :: "rtl8125_private \<Rightarrow> bool" where
  "HW_SUPP_PHY_LINK_SPEED_5000M t \<longleftrightarrow> tp_HwSuppMaxPhyLinkSpeed t \<ge> 5000"

definition eee_tail :: "unit hwm" where
  "eee_tail = do {
     rtl8125_clear_eth_phy_ocp_bit 0xA6D8 BIT_4;
     rtl8125_clear_eth_phy_ocp_bit 0xA428 BIT_7;
     rtl8125_clear_eth_phy_ocp_bit 0xA4A2 BIT_9
   }"

definition rtl8125_enable_eee :: "int hwm" where
  "rtl8125_enable_eee = do {
     t \<leftarrow> tpget id;
     let cap1 = ethtool_adv_to_mmd_eee_adv_t (eee_advertised (tp_eee t));
     let cap2 = (ucast (rtl8125_ethtool_adv_to_mmd_eee_adv_cap2_t (eee_advertised (tp_eee t))) :: u16);
     r \<leftarrow> (if tp_mcfg t \<in> {CFG_METHOD_2, CFG_METHOD_3, CFG_METHOD_6} then do {
            rtl8125_set_mac_ocp_bit 0xE040 (BIT_1 OR BIT_0);
            rtl8125_set_mac_ocp_bit 0xEB62 (BIT_2 OR BIT_1);
            rtl8125_set_eth_phy_ocp_bit 0xA432 BIT_4;
            rtl8125_clear_and_set_eth_phy_ocp_bit 0xA5D0 (MDIO_EEE_100TX OR MDIO_EEE_1000T) cap1;
            rtl8125_clear_eth_phy_ocp_bit 0xA6D4 MDIO_EEE_2_5GT;
            eee_tail;
            ret 0
          } else if tp_mcfg t \<in> {CFG_METHOD_4, CFG_METHOD_5, CFG_METHOD_7, CFG_METHOD_8, CFG_METHOD_9, CFG_METHOD_10,
              CFG_METHOD_11, CFG_METHOD_12, CFG_METHOD_13, CFG_METHOD_31, CFG_METHOD_32, CFG_METHOD_33} then do {
            rtl8125_set_mac_ocp_bit 0xE040 (BIT_1 OR BIT_0);
            rtl8125_set_eth_phy_ocp_bit 0xA432 BIT_4;
            rtl8125_clear_and_set_eth_phy_ocp_bit 0xA5D0 (MDIO_EEE_100TX OR MDIO_EEE_1000T) cap1;
            rtl8125_clear_and_set_eth_phy_ocp_bit 0xA6D4
              (if HW_SUPP_PHY_LINK_SPEED_5000M t then MDIO_EEE_2_5GT OR MDIO_EEE_5GT else MDIO_EEE_2_5GT) cap2;
            eee_tail;
            ret 0
          } else if tp_mcfg t \<in> {CFG_METHOD_41, CFG_METHOD_42} then do {
            rtl8125_set_mac_ocp_bit 0xE040 (BIT_1 OR BIT_0);
            rtl8125_clear_and_set_eth_phy_ocp_bit 0xA5D0 (MDIO_EEE_100TX OR MDIO_EEE_1000T OR MDIO_EEE_10GT) cap1;
            rtl8125_clear_and_set_eth_phy_ocp_bit 0xA6D4 (MDIO_EEE_2_5GT OR MDIO_EEE_5GT) cap2;
            eee_tail;
            ret 0
          } else ret (- EOPNOTSUPP));
     rtl8125_disable_adv_eee;
     ret r
   }"

definition rtl8125_disable_eee :: "int hwm" where
  "rtl8125_disable_eee = do {
     t \<leftarrow> tpget id;
     r \<leftarrow> (if tp_mcfg t \<in> {CFG_METHOD_2, CFG_METHOD_3, CFG_METHOD_6} then do {
            rtl8125_clear_mac_ocp_bit 0xE040 (BIT_1 OR BIT_0);
            rtl8125_clear_mac_ocp_bit 0xEB62 (BIT_2 OR BIT_1);
            rtl8125_clear_eth_phy_ocp_bit 0xA432 BIT_4;
            rtl8125_clear_eth_phy_ocp_bit 0xA5D0 (MDIO_EEE_100TX OR MDIO_EEE_1000T);
            rtl8125_clear_eth_phy_ocp_bit 0xA6D4 BIT_0;
            eee_tail;
            ret 0
          } else if tp_mcfg t \<in> {CFG_METHOD_4, CFG_METHOD_5, CFG_METHOD_7, CFG_METHOD_8, CFG_METHOD_9, CFG_METHOD_10,
              CFG_METHOD_11, CFG_METHOD_12, CFG_METHOD_13} then do {
            rtl8125_clear_mac_ocp_bit 0xE040 (BIT_1 OR BIT_0);
            rtl8125_set_eth_phy_ocp_bit 0xA432 BIT_4;
            rtl8125_clear_eth_phy_ocp_bit 0xA5D0 (MDIO_EEE_100TX OR MDIO_EEE_1000T);
            rtl8125_clear_eth_phy_ocp_bit 0xA6D4
              (if HW_SUPP_PHY_LINK_SPEED_5000M t then MDIO_EEE_2_5GT OR MDIO_EEE_5GT else MDIO_EEE_2_5GT);
            eee_tail;
            ret 0
          } else if tp_mcfg t \<in> {CFG_METHOD_41, CFG_METHOD_42} then do {
            rtl8125_clear_mac_ocp_bit 0xE040 (BIT_1 OR BIT_0);
            rtl8125_clear_eth_phy_ocp_bit 0xA5D0 (MDIO_EEE_100TX OR MDIO_EEE_1000T OR MDIO_EEE_10GT);
            rtl8125_clear_eth_phy_ocp_bit 0xA6D4 (MDIO_EEE_2_5GT OR MDIO_EEE_5GT);
            eee_tail;
            ret 0
          } else ret (- EOPNOTSUPP));
     rtl8125_disable_adv_eee;
     ret r
   }"

subsection \<open>UPS\<close>

definition rtl8125_clear_phy_ups_reg :: "unit hwm" where
  "rtl8125_clear_phy_ups_reg = do {
     g \<leftarrow> mcfg_is {CFG_METHOD_4, CFG_METHOD_5, CFG_METHOD_7, CFG_METHOD_8, CFG_METHOD_9, CFG_METHOD_10,
       CFG_METHOD_11, CFG_METHOD_12, CFG_METHOD_13, CFG_METHOD_31, CFG_METHOD_32, CFG_METHOD_33,
       CFG_METHOD_41, CFG_METHOD_42};
     whenM g (rtl8125_clear_eth_phy_ocp_bit 0xA466 BIT_0);
     rtl8125_clear_eth_phy_ocp_bit 0xA468 (BIT_3 OR BIT_1)
   }"

definition rtl8125_is_ups_resume :: "bool hwm" where
  "rtl8125_is_ups_resume = do { v \<leftarrow> rtl8125_mac_ocp_read 0xD42C; ret (v AND BIT_8 \<noteq> 0) }"

definition rtl8125_clear_ups_resume_bit :: "unit hwm" where
  "rtl8125_clear_ups_resume_bit = rtl8125_clear_mac_ocp_bit 0xD42C BIT_8"

subsection \<open>DASH\<close>

abbreviation "OOB_CMD_DRIVER_START \<equiv> (0x05 :: u32)"
abbreviation "OOB_CMD_DRIVER_STOP \<equiv> (0x06 :: u32)"
abbreviation "IB2SOC_SET \<equiv> (0x0010 :: u16)"
abbreviation "IB2SOC_DATA \<equiv> (0x0014 :: u16)"
abbreviation "IB2SOC_CMD \<equiv> (0x0018 :: u16)"

definition HW_DASH_SUPPORT_CMAC :: "rtl8125_private \<Rightarrow> bool" where
  "HW_DASH_SUPPORT_CMAC t \<longleftrightarrow> tp_HwSuppDashVer t = 2 \<or> tp_HwSuppDashVer t = 3"

definition HW_DASH_SUPPORT_IPC2 :: "rtl8125_private \<Rightarrow> bool" where
  "HW_DASH_SUPPORT_IPC2 t \<longleftrightarrow> tp_HwSuppDashVer t = 4"

definition rtl8125_notify_dash_oob_cmac :: "u32 \<Rightarrow> unit hwm" where
  "rtl8125_notify_dash_oob_cmac cmd = do {
     t \<leftarrow> tpget id;
     if \<not> HW_DASH_SUPPORT_CMAC t then skip
     else do {
       rtl8125_ocp_write 0x180 4 cmd;
       val \<leftarrow> rtl8125_ocp_read 0x30 4;
       rtl8125_ocp_write 0x30 4 (val OR BIT_0)
     }
   }"

definition rtl8125_notify_dash_oob_ipc2 :: "u32 \<Rightarrow> unit hwm" where
  "rtl8125_notify_dash_oob_ipc2 cmd = do {
     t \<leftarrow> tpget id;
     if \<not> HW_DASH_SUPPORT_IPC2 t then skip
     else do {
       rtl8125_ocp_write IB2SOC_DATA 4 cmd;
       rtl8125_ocp_write IB2SOC_CMD 4 0x00;
       rtl8125_ocp_write IB2SOC_SET 4 0x01
     }
   }"

definition rtl8125_notify_dash_oob :: "u32 \<Rightarrow> unit hwm" where
  "rtl8125_notify_dash_oob cmd = do {
     t \<leftarrow> tpget id;
     if HW_DASH_SUPPORT_CMAC t then rtl8125_notify_dash_oob_cmac cmd
     else if HW_DASH_SUPPORT_IPC2 t then rtl8125_notify_dash_oob_ipc2 cmd
     else skip
   }"

text \<open>The C result: -1 without DASH, 1 when the firmware answered, 0 on timeout.\<close>

definition rtl8125_wait_dash_fw_ready :: "int hwm" where
  "rtl8125_wait_dash_fw_ready = do {
     d \<leftarrow> tpget tp_DASH;
     if \<not> d then ret (-1)
     else do {
       ok \<leftarrow> poll 10 10000 (do { v \<leftarrow> rtl8125_ocp_read 0x124 1; ret (v AND BIT_0 \<noteq> 0) });
       ret (if ok then 1 else 0)
     }
   }"

definition dash_notify_wait :: "u32 \<Rightarrow> unit hwm" where
  "dash_notify_wait cmd = do {
     a \<leftarrow> tpget tp_AllowAccessDashOcp;
     if \<not> a then skip
     else do {
       rtl8125_notify_dash_oob cmd;
       _ \<leftarrow> rtl8125_wait_dash_fw_ready;
       skip
     }
   }"

definition rtl8125_driver_start :: "unit hwm" where
  "rtl8125_driver_start = dash_notify_wait OOB_CMD_DRIVER_START"

definition rtl8125_driver_stop :: "unit hwm" where
  "rtl8125_driver_stop = dash_notify_wait OOB_CMD_DRIVER_STOP"

subsection \<open>Out-of-band\<close>

definition rtl8125_enable_now_is_oob :: "unit hwm" where
  "rtl8125_enable_now_is_oob = rmw8 MCUCmd_reg (\<lambda>v. v OR Now_is_oob)"

definition rtl8125_disable_now_is_oob :: "unit hwm" where
  "rtl8125_disable_now_is_oob = rmw8 MCUCmd_reg (\<lambda>v. v AND NOT Now_is_oob)"

definition rtl8125_exit_oob :: "unit hwm" where
  "rtl8125_exit_oob = do {
     rtl8125_disable_rx_packet_filter;
     t \<leftarrow> tpget id;
     whenM (HW_DASH_SUPPORT_DASH t) rtl8125_driver_start;
     rtl8125_mac_ocp_write 0xC0BC 0x00FF;
     rtl8125_nic_reset;
     rtl8125_disable_now_is_oob;
     mac_rmw 0xE8DE (\<lambda>v. v AND NOT BIT_14);
     rtl8125_wait_ll_share_fifo_ready;
     rtl8125_mac_ocp_write 0xC0AA 0x07D0;
     rtl8125_mac_ocp_write 0xC0A6 0x01B5;
     rtl8125_mac_ocp_write 0xC01E 0x5555;
     rtl8125_wait_ll_share_fifo_ready;
     ups \<leftarrow> rtl8125_is_ups_resume;
     whenM ups (do {
       rtl8125_wait_phy_ups_resume 2;
       rtl8125_clear_ups_resume_bit;
       rtl8125_clear_phy_ups_reg
     })
   }"

subsection \<open>Capabilities read from the chip\<close>

definition rtl8125_is_allow_access_dash_ocp :: "bool hwm" where
  "rtl8125_is_allow_access_dash_ocp = do {
     t \<leftarrow> tpget id;
     if \<not> HW_DASH_SUPPORT_DASH t then ret False
     else if tp_mcfg t \<in> {CFG_METHOD_2, CFG_METHOD_3} then do {
       v \<leftarrow> rtl8125_mac_ocp_read 0xd460;
       ret (\<not> (v = 0xffff \<or> v AND BIT_0 = 0))
     } else if tp_mcfg t \<in> {CFG_METHOD_8, CFG_METHOD_9} then do {
       v \<leftarrow> rtl8125_mac_ocp_read 0xd4c0;
       ret (\<not> (v = 0xffff \<or> v AND BIT_3 \<noteq> 0))
     } else ret True
   }"

definition HW_DASH_SUPPORT_GET_FIRMWARE_VERSION :: "rtl8125_private \<Rightarrow> bool" where
  "HW_DASH_SUPPORT_GET_FIRMWARE_VERSION t \<longleftrightarrow> tp_HwSuppDashVer t \<in> {2, 3, 4}"

definition rtl8125_get_dash_fw_ver :: "u32 hwm" where
  "rtl8125_get_dash_fw_ver = do {
     t \<leftarrow> tpget id;
     if HW_DASH_SUPPORT_GET_FIRMWARE_VERSION t then rtl8125_ocp_read 0x120 4 else ret 0xffffffff
   }"

definition rtl8125_check_dash_type4 :: "bool hwm" where
  "rtl8125_check_dash_type4 = do {
     t \<leftarrow> tpget id;
     if \<not> tp_AllowAccessDashOcp t \<or> \<not> HW_DASH_SUPPORT_IPC2 t then ret False
     else do { v \<leftarrow> rtl8125_ocp_read 0x128 1; ret (v AND BIT_0 \<noteq> 0) }
   }"

definition rtl8125_check_dash :: "bool hwm" where
  "rtl8125_check_dash = do {
     t \<leftarrow> tpget id;
     d \<leftarrow> (if HW_DASH_SUPPORT_DASH t then rtl8125_check_dash_type4 else ret False);
     if d then do { ver \<leftarrow> rtl8125_get_dash_fw_ver; ret (\<not> (ver = 0 \<or> ver = 0xffffffff)) }
     else ret False
   }"

text \<open>The fuse values are indexed below the array's 32 entries.\<close>

definition fuse_fixup :: "u8 \<Rightarrow> u16 list \<Rightarrow> u16 list" where
  "fuse_fixup ver f =
    (if ver = 4 then f[3 := f ! 3 OR 0xF000, 7 := f ! 7 OR 0x03FF, 4 := 0xffff, 5 := 0xffff, 6 := 0xffff]
     else if ver = 5 then f[30 := 0xffff, 31 := 0xffff]
     else f)"

definition rtl8125_backup_phy_fuse_dout_v4 :: "bool hwm" where
  "rtl8125_backup_phy_fuse_dout_v4 = do {
     for_each [0..<32] (\<lambda>i. do {
       rtl8125_clear_and_set_eth_phy_ocp_bit 0xA460 0x001F (of_nat i);
       v \<leftarrow> mdio_direct_read_phy_ocp 0xA462;
       tpmod (\<lambda>t. t\<lparr>tp_BackupPhyFuseDout := (tp_BackupPhyFuseDout t)[i := ucast v]\<rparr>)
     });
     tpmod (\<lambda>t. t\<lparr>tp_BackupPhyFuseDout := fuse_fixup (tp_HwSuppEsdVer t) (tp_BackupPhyFuseDout t)\<rparr>);
     ret True
   }"

definition rtl8125_backup_phy_fuse_dout :: "bool hwm" where
  "rtl8125_backup_phy_fuse_dout = do {
     v \<leftarrow> tpget tp_HwSuppEsdVer;
     if v = 4 \<or> v = 5 then rtl8125_backup_phy_fuse_dout_v4 else ret False
   }"

definition rtl8125_setup_mqs_reg :: "unit hwm" where
  "rtl8125_setup_mqs_reg = tpmod (\<lambda>t.
     if tp_HwSuppTxNoCloseVer t \<in> {4, 5} then t\<lparr>tp_HwCloPtrReg := HW_CLO_PTR0_8126, tp_SwTailPtrReg := SW_TAIL_PTR0_8126\<rparr>
     else if tp_HwSuppTxNoCloseVer t = 6 then t\<lparr>tp_HwCloPtrReg := HW_CLO_PTR0_8125BP, tp_SwTailPtrReg := SW_TAIL_PTR0_8125BP\<rparr>
     else t\<lparr>tp_HwCloPtrReg := HW_CLO_PTR0_8125, tp_SwTailPtrReg := SW_TAIL_PTR0_8125\<rparr>)"

end
