(* ===== verification/McuPatch.thy ===== *)
theory McuPatch
  imports NicOob
begin

text \<open>
  The MAC microcode patches (\<open>rtl812xx.cpp\<close>): disabling the break points, the
  paged write of a patch into the MCU RAM, the version stamp, the patch of
  each chip generation, and the hardware initialisation that loads them.
\<close>

subsection \<open>Loading a patch\<close>

definition rtl8125_hw_disable_mac_mcu_bps :: "unit hwm" where
  "rtl8125_hw_disable_mac_mcu_bps = do {
     rtl8125_enable_aspm_clkreq_lock False;
     rtl8125_mac_ocp_write 0xFC48 0x0000;
     for_each [0..<16] (\<lambda>i. rtl8125_mac_ocp_write (0xFC28 + 2 * of_nat i) 0x0000);
     delay 3000;
     rtl8125_mac_ocp_write 0xFC26 0x0000
   }"

definition rtl8125_switch_mac_mcu_ram_code_page :: "u16 \<Rightarrow> unit hwm" where
  "rtl8125_switch_mac_mcu_ram_code_page page =
     mac_rmw 0xE446 (\<lambda>v. (v AND NOT (BIT_1 OR BIT_0)) OR (page AND (BIT_1 OR BIT_0)))"

text \<open>The loop shifts \<open>ver\<close> out; what is left of it is stored afterwards.\<close>

fun set_ver_loop :: "nat list \<Rightarrow> u64 \<Rightarrow> u64 hwm" where
  "set_ver_loop [] ver = ret ver"
| "set_ver_loop (i # is) ver = do {
     rtl8125_mac_ocp_write (0xF9F8 + 6 - of_nat i) (ucast ver);
     set_ver_loop is (drop_bit 16 ver)
   }"

definition rtl8125_set_hw_mcu_patch_code_ver :: "u64 \<Rightarrow> unit hwm" where
  "rtl8125_set_hw_mcu_patch_code_ver ver = do {
     rtl8125_switch_mac_mcu_ram_code_page 2;
     ver \<leftarrow> set_ver_loop [0, 2, 4, 6] ver;
     rtl8125_switch_mac_mcu_ram_code_page 0;
     tpmod (\<lambda>t. t\<lparr>tp_hw_mcu_patch_code_ver := ver\<rparr>)
   }"

fun get_ver_loop :: "nat list \<Rightarrow> u64 \<Rightarrow> u64 hwm" where
  "get_ver_loop [] ver = ret ver"
| "get_ver_loop (i # is) ver = do {
     v \<leftarrow> rtl8125_mac_ocp_read (0xF9F8 + of_nat i);
     get_ver_loop is (push_bit 16 ver OR ucast v)
   }"

definition rtl8125_get_hw_mcu_patch_code_ver :: "u64 hwm" where
  "rtl8125_get_hw_mcu_patch_code_ver = do {
     rtl8125_switch_mac_mcu_ram_code_page 2;
     ver \<leftarrow> get_ver_loop [0, 2, 4, 6] 0;
     rtl8125_switch_mac_mcu_ram_code_page 0;
     ret ver
   }"

definition rtl8125_get_bin_mcu_patch_code_ver :: "u16 list \<Rightarrow> u64" where
  "rtl8125_get_bin_mcu_patch_code_ver entry =
    (if length entry < 4 then 0
     else foldl (\<lambda>ver i. push_bit 16 ver OR ucast (entry ! (length entry - 4 + i))) 0 [0, 1, 2, 3])"

definition rtl812x_write_mac_mcu_ram_code :: "u16 list \<Rightarrow> unit hwm" where
  "rtl812x_write_mac_mcu_ram_code entry =
     for_each [0..<length entry] (\<lambda>i. rtl8125_mac_ocp_write (0xF800 + of_nat i * 2) (entry ! i))"

definition rtl812x_write_mac_mcu_ram_code_with_page :: "u16 list \<Rightarrow> u16 \<Rightarrow> unit hwm" where
  "rtl812x_write_mac_mcu_ram_code_with_page entry page_size =
    (if page_size = 0 then skip
     else for_each [0..<length entry] (\<lambda>i. do {
       let offset = i mod unat page_size;
       whenM (offset = 0) (rtl8125_switch_mac_mcu_ram_code_page (of_nat (i div unat page_size)));
       rtl8125_mac_ocp_write (0xF800 + of_nat offset * 2) (entry ! i)
     }))"

definition HW_SUPPORT_MAC_MCU :: "rtl8125_private \<Rightarrow> bool" where
  "HW_SUPPORT_MAC_MCU t \<longleftrightarrow> tp_HwSuppMacMcuVer t > 0"

definition rtl8125_write_mac_mcu_ram_code :: "u16 list \<Rightarrow> unit hwm" where
  "rtl8125_write_mac_mcu_ram_code entry = do {
     t \<leftarrow> tpget id;
     if \<not> HW_SUPPORT_MAC_MCU t \<or> entry = [] then skip
     else do {
       (if tp_MacMcuPageSize t > 0 then rtl812x_write_mac_mcu_ram_code_with_page entry (tp_MacMcuPageSize t)
        else rtl812x_write_mac_mcu_ram_code entry);
       whenM (tp_bin_mcu_patch_code_ver t > 0) (rtl8125_set_hw_mcu_patch_code_ver (tp_bin_mcu_patch_code_ver t))
     }
   }"

text \<open>The common start of the stamped patches: load only when the versions differ.\<close>

definition load_mac_mcu :: "u16 list \<Rightarrow> unit hwm" where
  "load_mac_mcu code = do {
     tpmod (\<lambda>t. t\<lparr>tp_bin_mcu_patch_code_ver := rtl8125_get_bin_mcu_patch_code_ver code\<rparr>);
     t \<leftarrow> tpget id;
     whenM (tp_hw_mcu_patch_code_ver t \<noteq> tp_bin_mcu_patch_code_ver t) (rtl8125_write_mac_mcu_ram_code code)
   }"

definition mac_seq :: "(u16 \<times> u16) list \<Rightarrow> unit hwm" where
  "mac_seq xs = for_each xs (\<lambda>(a, v). rtl8125_mac_ocp_write a v)"

subsection \<open>The patch of each generation\<close>

definition rtl8125_set_mac_mcu_8125a_1 :: "unit hwm" where
  "rtl8125_set_mac_mcu_8125a_1 = rtl8125_hw_disable_mac_mcu_bps"

definition mcu_patch_code_8125a_2 :: "u16 list" where
  "mcu_patch_code_8125a_2 = [
      0xE008, 0xE01E, 0xE02E, 0xE054, 0xE057, 0xE059, 0xE0C2, 0xE0CB, 0x9996, 0x49D1, 0xF005, 0x49D4, 0xF10A,
      0x49D8, 0xF108, 0xC00F, 0x7100, 0x209C, 0x249C, 0xC009, 0x9900, 0xE004, 0xC006, 0x1900, 0x9900, 0xC602,
      0xBE00, 0x5A48, 0xE0C2, 0x0004, 0xE10A, 0xC60F, 0x73C4, 0x49B3, 0xF106, 0x73C2, 0xC608, 0xB406, 0xC609,
      0xFF80, 0xC605, 0xB406, 0xC605, 0xFF80, 0x0544, 0x0568, 0xE906, 0xCDE8, 0xC724, 0xC624, 0x9EE2, 0x1E01,
      0x9EE0, 0x76E0, 0x49E0, 0xF1FE, 0x76E6, 0x486D, 0x4868, 0x9EE4, 0x1E03, 0x9EE0, 0x76E0, 0x49E0, 0xF1FE,
      0xC615, 0x9EE2, 0x1E01, 0x9EE0, 0x76E0, 0x49E0, 0xF1FE, 0x76E6, 0x486F, 0x9EE4, 0x1E03, 0x9EE0, 0x76E0,
      0x49E0, 0xF1FE, 0x7196, 0xC702, 0xBF00, 0x5A44, 0xEB0E, 0x0070, 0x00C3, 0x1BC0, 0xC602, 0xBE00, 0x0E26,
      0xC602, 0xBE00, 0x0EBA, 0x1501, 0xF02A, 0x1500, 0xF15D, 0xC661, 0x75C8, 0x49D5, 0xF00A, 0x49D6, 0xF008,
      0x49D7, 0xF006, 0x49D8, 0xF004, 0x75D2, 0x49D9, 0xF150, 0xC553, 0x77A0, 0x75C8, 0x4855, 0x4856, 0x4857,
      0x4858, 0x48DA, 0x48DB, 0x49FE, 0xF002, 0x485A, 0x49FF, 0xF002, 0x485B, 0x9DC8, 0x75D2, 0x4859, 0x9DD2,
      0xC643, 0x75C0, 0x49D4, 0xF033, 0x49D0, 0xF137, 0xE030, 0xC63A, 0x75C8, 0x49D5, 0xF00E, 0x49D6, 0xF00C,
      0x49D7, 0xF00A, 0x49D8, 0xF008, 0x75D2, 0x49D9, 0xF005, 0xC62E, 0x75C0, 0x49D7, 0xF125, 0xC528, 0x77A0,
      0xC627, 0x75C8, 0x4855, 0x4856, 0x4857, 0x4858, 0x48DA, 0x48DB, 0x49FE, 0xF002, 0x485A, 0x49FF, 0xF002,
      0x485B, 0x9DC8, 0x75D2, 0x4859, 0x9DD2, 0xC616, 0x75C0, 0x4857, 0x9DC0, 0xC613, 0x75C0, 0x49DA, 0xF003,
      0x49D0, 0xF107, 0xC60B, 0xC50E, 0x48D9, 0x9DC0, 0x4859, 0x9DC0, 0xC608, 0xC702, 0xBF00, 0x3AE0, 0xE860,
      0xB400, 0xB5D4, 0xE908, 0xE86C, 0x1200, 0xC409, 0x6780, 0x48F1, 0x8F80, 0xC404, 0xC602, 0xBE00, 0x10AA,
      0xC010, 0xEA7C, 0xC602, 0xBE00, 0x0000]"

definition rtl8125_set_mac_mcu_8125a_2 :: "unit hwm" where
  "rtl8125_set_mac_mcu_8125a_2 = do {
     rtl8125_hw_disable_mac_mcu_bps;
     rtl812x_write_mac_mcu_ram_code mcu_patch_code_8125a_2;
     mac_seq [
        (0xFC26, 0x8000), (0xFC2A, 0x0540), (0xFC2E, 0x0E24), (0xFC30, 0x0EB8), (0xFC32, 0x3A5C),
        (0xFC34, 0x10A8), (0xFC48, 0x007A)]
   }"

definition rtl8125_set_mac_mcu_8125b_1 :: "unit hwm" where
  "rtl8125_set_mac_mcu_8125b_1 = rtl8125_hw_disable_mac_mcu_bps"

definition mcu_patch_code_8125b_2 :: "u16 list" where
  "mcu_patch_code_8125b_2 = [
      0xE008, 0xE013, 0xE01E, 0xE02F, 0xE035, 0xE04F, 0xE053, 0xE055, 0x740A, 0x4846, 0x4847, 0x9C0A, 0xC607,
      0x74C0, 0x48C6, 0x9CC0, 0xC602, 0xBE00, 0x13F0, 0xE054, 0x72CA, 0x4826, 0x4827, 0x9ACA, 0xC607, 0x72C0,
      0x48A6, 0x9AC0, 0xC602, 0xBE00, 0x081C, 0xE054, 0xC60F, 0x74C4, 0x49CC, 0xF109, 0xC60C, 0x74CA, 0x48C7,
      0x9CCA, 0xC609, 0x74C0, 0x4846, 0x9CC0, 0xC602, 0xBE00, 0x2494, 0xE092, 0xE0C0, 0xE054, 0x7420, 0x48C0,
      0x9C20, 0x7444, 0xC602, 0xBE00, 0x12DC, 0x733A, 0x21B5, 0x25BC, 0x1304, 0xF111, 0x1B12, 0x1D2A, 0x3168,
      0x3ADA, 0x31AB, 0x1A00, 0x9AC0, 0x1300, 0xF1FB, 0x7620, 0x236E, 0x276F, 0x1A3C, 0x22A1, 0x41B5, 0x9EE2,
      0x76E4, 0x486F, 0x9EE4, 0xC602, 0xBE00, 0x4A26, 0x733A, 0x49BB, 0xC602, 0xBE00, 0x47A2, 0xC602, 0xBE00,
      0x0000, 0xC602, 0xBE00, 0x0000]"

definition rtl8125_set_mac_mcu_8125b_2 :: "unit hwm" where
  "rtl8125_set_mac_mcu_8125b_2 = do {
     rtl8125_hw_disable_mac_mcu_bps;
     rtl812x_write_mac_mcu_ram_code mcu_patch_code_8125b_2;
     mac_seq [
        (0xFC26, 0x8000), (0xFC28, 0x13E6), (0xFC2A, 0x0812), (0xFC2C, 0x248C), (0xFC2E, 0x12DA),
        (0xFC30, 0x4A20), (0xFC32, 0x47A0), (0xFC48, 0x003F)]
   }"

definition mcu_patch_code_8125bp_1 :: "u16 list" where
  "mcu_patch_code_8125bp_1 = [
      0xE010, 0xE014, 0xE027, 0xE04A, 0xE04D, 0xE050, 0xE052, 0xE054, 0xE056, 0xE058, 0xE05A, 0xE05C, 0xE05E,
      0xE060, 0xE062, 0xE064, 0x1BC8, 0x46EB, 0xC302, 0xBB00, 0x0F14, 0xC211, 0x400A, 0xF00A, 0xC20F, 0x400A,
      0xF007, 0x73A4, 0xC20C, 0x400A, 0xF102, 0x48B0, 0x9B20, 0x1B00, 0x9BA0, 0xC602, 0xBE00, 0x4364, 0xE6E0,
      0xE6E2, 0xC01C, 0xB406, 0x1000, 0xF016, 0xC61F, 0x400E, 0xF012, 0x218E, 0x25BE, 0x1300, 0xF007, 0x7340,
      0xC618, 0x400E, 0xF102, 0x48B0, 0x8320, 0xB400, 0x2402, 0x1000, 0xF003, 0x7342, 0x8322, 0xB000, 0xE007,
      0x7322, 0x9B42, 0x7320, 0x9B40, 0x0300, 0x0300, 0xB006, 0xC302, 0xBB00, 0x413E, 0xE6E0, 0xC01C, 0x49D1,
      0xC602, 0xBE00, 0x3F94, 0x49D1, 0xC602, 0xBE00, 0x4030, 0xC602, 0xBE00, 0x3FDA, 0xC102, 0xB900, 0x401A,
      0xC102, 0xB900, 0x0000, 0xC002, 0xB800, 0x0000, 0xC602, 0xBE00, 0x0000, 0xC602, 0xBE00, 0x0000, 0xC602,
      0xBE00, 0x0000, 0xC602, 0xBE00, 0x0000, 0xC602, 0xBE00, 0x0000, 0xC602, 0xBE00, 0x0000, 0xC602, 0xBE00,
      0x0000, 0x6936, 0x0A18, 0x0C02, 0x0D21]"

definition rtl8125_set_mac_mcu_8125bp_1 :: "unit hwm" where
  "rtl8125_set_mac_mcu_8125bp_1 = do {
     load_mac_mcu mcu_patch_code_8125bp_1;
     mac_seq [
        (0xFC26, 0x8000), (0xFC28, 0x0f10), (0xFC2A, 0x435c), (0xFC2C, 0x4112), (0xFC2E, 0x3F92),
        (0xFC30, 0x402E), (0xFC32, 0x3FD6), (0xFC34, 0x4018), (0xFC48, 0x007F)]
   }"

definition mcu_patch_code_8125bp_2 :: "u16 list" where
  "mcu_patch_code_8125bp_2 = [
      0xE010, 0xE033, 0xE046, 0xE04A, 0xE04D, 0xE050, 0xE054, 0xE056, 0xE058, 0xE05A, 0xE05C, 0xE05E, 0xE060,
      0xE062, 0xE064, 0xE066, 0xB406, 0x1000, 0xF016, 0xC61F, 0x400E, 0xF012, 0x218E, 0x25BE, 0x1300, 0xF007,
      0x7340, 0xC618, 0x400E, 0xF102, 0x48B0, 0x8320, 0xB400, 0x2402, 0x1000, 0xF003, 0x7342, 0x8322, 0xB000,
      0xE007, 0x7322, 0x9B42, 0x7320, 0x9B40, 0x0300, 0x0300, 0xB006, 0xC302, 0xBB00, 0x4168, 0xE6E0, 0xC01C,
      0xC211, 0x400A, 0xF00A, 0xC20F, 0x400A, 0xF007, 0x73A4, 0xC20C, 0x400A, 0xF102, 0x48B0, 0x9B20, 0x1B00,
      0x9BA0, 0xC602, 0xBE00, 0x4392, 0xE6E0, 0xE6E2, 0xC01C, 0x4166, 0x9CF6, 0xC002, 0xB800, 0x143C, 0x49D1,
      0xC602, 0xBE00, 0x3FC4, 0x49D1, 0xC602, 0xBE00, 0x405A, 0xC104, 0xC202, 0xBA00, 0x22E6, 0xD116, 0xC602,
      0xBE00, 0x0000, 0xC102, 0xB900, 0x0000, 0xC002, 0xB800, 0x0000, 0xC602, 0xBE00, 0x0000, 0xC602, 0xBE00,
      0x0000, 0xC602, 0xBE00, 0x0000, 0xC602, 0xBE00, 0x0000, 0xC602, 0xBE00, 0x0000, 0xC602, 0xBE00, 0x0000,
      0xC602, 0xBE00, 0x0000, 0x6936, 0x0119, 0x030E, 0x0B18]"

definition rtl8125_set_mac_mcu_8125bp_2 :: "unit hwm" where
  "rtl8125_set_mac_mcu_8125bp_2 = do {
     load_mac_mcu mcu_patch_code_8125bp_2;
     mac_seq [
        (0xFC26, 0x8000), (0xFC28, 0x413C), (0xFC2A, 0x438A), (0xFC2C, 0x143A), (0xFC2E, 0x3FC2),
        (0xFC30, 0x4058), (0xFC32, 0x22E4), (0xFC48, 0x003F)]
   }"

definition mcu_patch_code_8125d_1 :: "u16 list" where
  "mcu_patch_code_8125d_1 = [
      0xE010, 0xE014, 0xE018, 0xE01A, 0xE01C, 0xE01E, 0xE020, 0xE022, 0xE024, 0xE026, 0xE028, 0xE02A, 0xE02C,
      0xE02E, 0xE030, 0xE032, 0x4166, 0x9CF6, 0xC002, 0xB800, 0x14A4, 0xC104, 0xC202, 0xBA00, 0x2378, 0xD116,
      0xC602, 0xBE00, 0x0000, 0xC602, 0xBE00, 0x0000, 0xC602, 0xBE00, 0x0000, 0xC602, 0xBE00, 0x0000, 0xC602,
      0xBE00, 0x0000, 0xC602, 0xBE00, 0x0000, 0xC602, 0xBE00, 0x0000, 0xC602, 0xBE00, 0x0000, 0xC602, 0xBE00,
      0x0000, 0xC602, 0xBE00, 0x0000, 0xC602, 0xBE00, 0x0000, 0xC602, 0xBE00, 0x0000, 0xC602, 0xBE00, 0x0000,
      0xC602, 0xBE00, 0x0000, 0x0000, 0x0000, 0x0000, 0x0000, 0x0000, 0x0000, 0x0000, 0x0000, 0x0000, 0x0000,
      0x0000, 0x0000, 0x0000, 0x0000, 0x0000, 0x0000, 0x0000, 0x0000, 0x0000, 0x0000, 0x0000, 0x0000, 0x0000,
      0x0000, 0x0000, 0x0000, 0x0000, 0x0000, 0x0000, 0x0000, 0x0000, 0x0000, 0x0000, 0x0000, 0x0000, 0x0000,
      0x0000, 0x0000, 0x0000, 0x0000, 0x0000, 0x0000, 0x0000, 0x0000, 0x0000, 0x0000, 0x0000, 0x0000, 0x0000,
      0x0000, 0x0000, 0x0000, 0x0000, 0x0000, 0x0000, 0x0000, 0x0000, 0x0000, 0x0000, 0x0000, 0x0000, 0x0000,
      0x0000, 0x0000, 0x0000, 0x0000, 0x0000, 0x0000, 0x0000, 0x0000, 0x0000, 0x0000, 0x0000, 0x0000, 0x0000,
      0x0000, 0x0000, 0x0000, 0x0000, 0x0000, 0x0000, 0x0000, 0x0000, 0x0000, 0x0000, 0x0000, 0x0000, 0x0000,
      0x0000, 0x0000, 0x0000, 0x0000, 0x0000, 0x0000, 0x0000, 0x0000, 0x0000, 0x0000, 0x0000, 0x0000, 0x0000,
      0x0000, 0x0000, 0x0000, 0x0000, 0x0000, 0x0000, 0x0000, 0x0000, 0x0000, 0x0000, 0x0000, 0x0000, 0x0000,
      0x0000, 0x0000, 0x0000, 0x0000, 0x0000, 0x0000, 0x0000, 0x0000, 0x0000, 0x0000, 0x0000, 0x0000, 0x0000,
      0x0000, 0x0000, 0x0000, 0x0000, 0x0000, 0x0000, 0x0000, 0x0000, 0x0000, 0x0000, 0x0000, 0x0000, 0x0000,
      0x0000, 0x0000, 0x0000, 0x0000, 0x0000, 0x0000, 0x0000, 0x0000, 0x0000, 0x0000, 0x0000, 0x0000, 0x0000,
      0x0000, 0x0000, 0x0000, 0x0000, 0x0000, 0x0000, 0x0000, 0x0000, 0x0000, 0x0000, 0x0000, 0x0000, 0x0000,
      0x0000, 0x0000, 0x0000, 0x0000, 0x0000, 0x0000, 0x0000, 0x0000, 0x0000, 0x0000, 0x0000, 0x0000, 0x0000,
      0x0000, 0x0000, 0x0000, 0x0000, 0x0000, 0x0000, 0x0000, 0x0000, 0x0000, 0x0000, 0x0000, 0x0000, 0x0000,
      0x0000, 0x0000, 0x0000, 0x0000, 0x0000, 0x0000, 0x0000, 0x0000, 0x0000, 0x0000, 0x0000, 0x0000, 0x0000,
      0x0000, 0x0000, 0x0000, 0x0000, 0x0000, 0x0000, 0x0000, 0x0000, 0x0000, 0x0000, 0x0000, 0x0000, 0x0000,
      0x0000, 0x0000, 0x0000, 0x0000, 0x0000, 0x0000, 0x0000, 0x0000, 0x0000, 0x0000, 0x0000, 0x0000, 0x0000,
      0x0000, 0x0000, 0x0000, 0x0000, 0x0000, 0x0000, 0x0000, 0x0000, 0x0000, 0x0000, 0x0000, 0x0000, 0x0000,
      0x0000, 0x0000, 0x0000, 0x0000, 0x0000, 0x0000, 0x0000, 0x0000, 0x0000, 0x0000, 0x0000, 0x0000, 0x0000,
      0x0000, 0x0000, 0x0000, 0x0000, 0x0000, 0x0000, 0x0000, 0x0000, 0x0000, 0x0000, 0x0000, 0x0000, 0x0000,
      0x0000, 0x0000, 0x0000, 0x0000, 0x0000, 0x0000, 0x0000, 0x0000, 0x0000, 0x0000, 0x0000, 0x0000, 0x0000,
      0x0000, 0x0000, 0x0000, 0x0000, 0x0000, 0x0000, 0x0000, 0x0000, 0x0000, 0x0000, 0x0000, 0x0000, 0x0000,
      0x0000, 0x0000, 0x0000, 0x0000, 0x0000, 0x0000, 0x0000, 0x0000, 0x0000, 0x0000, 0x0000, 0x0000, 0x0000,
      0x0000, 0x0000, 0x0000, 0x0000, 0x0000, 0x0000, 0x0000, 0x0000, 0x0000, 0x0000, 0x0000, 0x0000, 0x0000,
      0x0000, 0x0000, 0x0000, 0x0000, 0x0000, 0x0000, 0x0000, 0x0000, 0x0000, 0x0000, 0x0000, 0x0000, 0x0000,
      0x0000, 0x0000, 0x0000, 0x0000, 0x0000, 0x0000, 0x0000, 0x0000, 0x0000, 0x0000, 0x0000, 0x0000, 0x0000,
      0x0000, 0x0000, 0x0000, 0x0000, 0x0000, 0x0000, 0x0000, 0x0000, 0x0000, 0x0000, 0x0000, 0x0000, 0x0000,
      0x0000, 0x0000, 0x0000, 0x0000, 0x0000, 0x0000, 0x0000, 0x0000, 0x0000, 0x0000, 0x0000, 0x0000, 0x0000,
      0x0000, 0x0000, 0x0000, 0x0000, 0x0000, 0x0000, 0x0000, 0x0000, 0x0000, 0x0000, 0x0000, 0x0000, 0x0000,
      0x0000, 0x0000, 0x0000, 0x0000, 0x0000, 0x0000, 0x0000, 0x0000, 0x0000, 0x0000, 0x0000, 0x0000, 0x0000,
      0x0000, 0x0000, 0x0000, 0x0000, 0x0000, 0x0000, 0x0000, 0x0000, 0x0000, 0x0000, 0x0000, 0x0000, 0x0000,
      0x0000, 0x0000, 0x0000, 0x0000, 0x0000, 0x0000, 0x0000, 0x0000, 0x0000, 0x0000, 0x0000, 0x0000, 0x0000,
      0x0000, 0x0000, 0x0000, 0x0000, 0x0000, 0x0000, 0x0000, 0x0000, 0x0000, 0x0000, 0x0000, 0x0000, 0x0000,
      0x0000, 0x0000, 0x0000, 0x0000, 0x0000, 0x0000, 0x0000, 0x0000, 0x0000, 0x0000, 0x0000, 0x0000, 0x0000,
      0x0000, 0x0000, 0x0000, 0x0000, 0x0000, 0x0000, 0x0000, 0x0000, 0x0000, 0x0000, 0x0000, 0x0000, 0x0000,
      0x0000, 0x0000, 0x0000, 0x0000, 0x0000, 0x0000, 0x0000, 0x0000, 0x0000, 0x0000, 0x0000, 0x0000, 0x0000,
      0x0000, 0x0000, 0x0000, 0x0000, 0x0000, 0x0000, 0x0000, 0x0000, 0x0000, 0x0000, 0x0000, 0x0000, 0x0000,
      0x0000, 0x0000, 0x0000, 0x0000, 0x0000, 0x0000, 0x0000, 0x0000, 0x0000, 0x0000, 0x0000, 0x0000, 0x0000,
      0x0000, 0x0000, 0x0000, 0x0000, 0x0000, 0x0000, 0x0000, 0x0000, 0x0000, 0x0000, 0x0000, 0x0000, 0x0000,
      0x0000, 0x0000, 0x0000, 0x0000, 0x0000, 0x0000, 0x0000, 0x0000, 0x0000, 0x0000, 0x0000, 0x0000, 0x0000,
      0x0000, 0x0000, 0x0000, 0x0000, 0x0000, 0x0000, 0x0000, 0x0000, 0x0000, 0x0000, 0x0000, 0x0000, 0x0000,
      0x0000, 0x0000, 0x0000, 0x0000, 0x0000, 0x0000, 0x0000, 0x0000, 0x0000, 0x0000, 0x0000, 0x0000, 0x0000,
      0x0000, 0x0000, 0x0000, 0x0000, 0x0000, 0x0000, 0x0000, 0x0000, 0x0000, 0x0000, 0x0000, 0x0000, 0x0000,
      0x0000, 0x0000, 0x0000, 0x0000, 0x0000, 0x0000, 0x0000, 0x0000, 0x0000, 0x0000, 0x0000, 0x0000, 0x0000,
      0x0000, 0x0000, 0x0000, 0x0000, 0x0000, 0x0000, 0x0000, 0x0000, 0x0000, 0x0000, 0x0000, 0x0000, 0x0000,
      0x0000, 0x0000, 0x0000, 0x0000, 0x0000, 0x0000, 0x0000, 0x0000, 0x0000, 0x0000, 0x0000, 0x0000, 0x0000,
      0x0000, 0x0000, 0x0000, 0x0000, 0x0000, 0x0000, 0x0000, 0x0000, 0x0000, 0x0000, 0x0000, 0x0000, 0x0000,
      0x0000, 0x0000, 0x0000, 0x0000, 0x0000, 0x0000, 0x0000, 0x0000, 0x0000, 0x0000, 0x0000, 0x0000, 0x0000,
      0x0000, 0x0000, 0x0000, 0x0000, 0x0000, 0x0000, 0x0000, 0x0000, 0x0000, 0x0000, 0x0000, 0x0000, 0x0000,
      0x0000, 0x0000, 0x0000, 0x0000, 0x0000, 0x0000, 0x0000, 0x0000, 0x0000, 0x0000, 0x0000, 0x0000, 0x0000,
      0x0000, 0x0000, 0x0000, 0x0000, 0x0000, 0x0000, 0x0000, 0x0000, 0x0000, 0x0000, 0x0000, 0x0000, 0x0000,
      0x0000, 0x0000, 0x0000, 0x0000, 0x0000, 0x0000, 0x0000, 0x0000, 0x0000, 0x0000, 0x0000, 0x0000, 0x0000,
      0x0000, 0x0000, 0x0000, 0x0000, 0x0000, 0x0000, 0x0000, 0x0000, 0x0000, 0x0000, 0x6938, 0x0A19, 0x030E,
      0x0B2B]"

definition rtl8125_set_mac_mcu_8125d_1 :: "unit hwm" where
  "rtl8125_set_mac_mcu_8125d_1 = do {
     load_mac_mcu mcu_patch_code_8125d_1;
     mac_seq [
        (0xFC26, 0x8000), (0xFC28, 0x14A2), (0xFC2A, 0x2376), (0xFC48, 0x0003)]
   }"

definition mcu_patch_code_8125d_2 :: "u16 list" where
  "mcu_patch_code_8125d_2 = [
      0xE010, 0xE014, 0xE016, 0xE018, 0xE01A, 0xE01C, 0xE01E, 0xE020, 0xE022, 0xE024, 0xE026, 0xE028, 0xE02A,
      0xE02C, 0xE02E, 0xE030, 0xC104, 0xC202, 0xBA00, 0x2384, 0xD116, 0xC602, 0xBE00, 0x0000, 0xC602, 0xBE00,
      0x0000, 0xC602, 0xBE00, 0x0000, 0xC602, 0xBE00, 0x0000, 0xC602, 0xBE00, 0x0000, 0xC602, 0xBE00, 0x0000,
      0xC602, 0xBE00, 0x0000, 0xC602, 0xBE00, 0x0000, 0xC602, 0xBE00, 0x0000, 0xC602, 0xBE00, 0x0000, 0xC602,
      0xBE00, 0x0000, 0xC602, 0xBE00, 0x0000, 0xC602, 0xBE00, 0x0000, 0xC602, 0xBE00, 0x0000, 0xC602, 0xBE00,
      0x0000, 0x0000, 0x0000, 0x0000, 0x0000, 0x0000, 0x0000, 0x0000, 0x0000, 0x0000, 0x0000, 0x0000, 0x0000,
      0x0000, 0x0000, 0x0000, 0x0000, 0x0000, 0x0000, 0x0000, 0x0000, 0x0000, 0x0000, 0x0000, 0x0000, 0x0000,
      0x0000, 0x0000, 0x0000, 0x0000, 0x0000, 0x0000, 0x0000, 0x0000, 0x0000, 0x0000, 0x0000, 0x0000, 0x0000,
      0x0000, 0x0000, 0x0000, 0x0000, 0x0000, 0x0000, 0x0000, 0x0000, 0x0000, 0x0000, 0x0000, 0x0000, 0x0000,
      0x0000, 0x0000, 0x0000, 0x0000, 0x0000, 0x0000, 0x0000, 0x0000, 0x0000, 0x0000, 0x0000, 0x0000, 0x0000,
      0x0000, 0x0000, 0x0000, 0x0000, 0x0000, 0x0000, 0x0000, 0x0000, 0x0000, 0x0000, 0x0000, 0x0000, 0x0000,
      0x0000, 0x0000, 0x0000, 0x0000, 0x0000, 0x0000, 0x0000, 0x0000, 0x0000, 0x0000, 0x0000, 0x0000, 0x0000,
      0x0000, 0x0000, 0x0000, 0x0000, 0x0000, 0x0000, 0x0000, 0x0000, 0x0000, 0x0000, 0x0000, 0x0000, 0x0000,
      0x0000, 0x0000, 0x0000, 0x0000, 0x0000, 0x0000, 0x0000, 0x0000, 0x0000, 0x0000, 0x0000, 0x0000, 0x0000,
      0x0000, 0x0000, 0x0000, 0x0000, 0x0000, 0x0000, 0x0000, 0x0000, 0x0000, 0x0000, 0x0000, 0x0000, 0x0000,
      0x0000, 0x0000, 0x0000, 0x0000, 0x0000, 0x0000, 0x0000, 0x0000, 0x0000, 0x0000, 0x0000, 0x0000, 0x0000,
      0x0000, 0x0000, 0x0000, 0x0000, 0x0000, 0x0000, 0x0000, 0x0000, 0x0000, 0x0000, 0x0000, 0x0000, 0x0000,
      0x0000, 0x0000, 0x0000, 0x0000, 0x0000, 0x0000, 0x0000, 0x0000, 0x0000, 0x0000, 0x0000, 0x0000, 0x0000,
      0x0000, 0x0000, 0x0000, 0x0000, 0x0000, 0x0000, 0x0000, 0x0000, 0x0000, 0x0000, 0x0000, 0x0000, 0x0000,
      0x0000, 0x0000, 0x0000, 0x0000, 0x0000, 0x0000, 0x0000, 0x0000, 0x0000, 0x0000, 0x0000, 0x0000, 0x0000,
      0x0000, 0x0000, 0x0000, 0x0000, 0x0000, 0x0000, 0x0000, 0x0000, 0x0000, 0x0000, 0x0000, 0x0000, 0x0000,
      0x0000, 0x0000, 0x0000, 0x0000, 0x0000, 0x0000, 0x0000, 0x0000, 0x0000, 0x0000, 0x0000, 0x0000, 0x0000,
      0x0000, 0x0000, 0x0000, 0x0000, 0x0000, 0x0000, 0x0000, 0x0000, 0x0000, 0x0000, 0x0000, 0x0000, 0x0000,
      0x0000, 0x0000, 0x0000, 0x0000, 0x0000, 0x0000, 0x0000, 0x0000, 0x0000, 0x0000, 0x0000, 0x0000, 0x0000,
      0x0000, 0x0000, 0x0000, 0x0000, 0x0000, 0x0000, 0x0000, 0x0000, 0x0000, 0x0000, 0x0000, 0x0000, 0x0000,
      0x0000, 0x0000, 0x0000, 0x0000, 0x0000, 0x0000, 0x0000, 0x0000, 0x0000, 0x0000, 0x0000, 0x0000, 0x0000,
      0x0000, 0x0000, 0x0000, 0x0000, 0x0000, 0x0000, 0x0000, 0x0000, 0x0000, 0x0000, 0x0000, 0x0000, 0x0000,
      0x0000, 0x0000, 0x0000, 0x0000, 0x0000, 0x0000, 0x0000, 0x0000, 0x0000, 0x0000, 0x0000, 0x0000, 0x0000,
      0x0000, 0x0000, 0x0000, 0x0000, 0x0000, 0x0000, 0x0000, 0x0000, 0x0000, 0x0000, 0x0000, 0x0000, 0x0000,
      0x0000, 0x0000, 0x0000, 0x0000, 0x0000, 0x0000, 0x0000, 0x0000, 0x0000, 0x0000, 0x0000, 0x0000, 0x0000,
      0x0000, 0x0000, 0x0000, 0x0000, 0x0000, 0x0000, 0x0000, 0x0000, 0x0000, 0x0000, 0x0000, 0x0000, 0x0000,
      0x0000, 0x0000, 0x0000, 0x0000, 0x0000, 0x0000, 0x0000, 0x0000, 0x0000, 0x0000, 0x0000, 0x0000, 0x0000,
      0x0000, 0x0000, 0x0000, 0x0000, 0x0000, 0x0000, 0x0000, 0x0000, 0x0000, 0x0000, 0x0000, 0x0000, 0x0000,
      0x0000, 0x0000, 0x0000, 0x0000, 0x0000, 0x0000, 0x0000, 0x0000, 0x0000, 0x0000, 0x0000, 0x0000, 0x0000,
      0x0000, 0x0000, 0x0000, 0x0000, 0x0000, 0x0000, 0x0000, 0x0000, 0x0000, 0x0000, 0x0000, 0x0000, 0x0000,
      0x0000, 0x0000, 0x0000, 0x0000, 0x0000, 0x0000, 0x0000, 0x0000, 0x0000, 0x0000, 0x0000, 0x0000, 0x0000,
      0x0000, 0x0000, 0x0000, 0x0000, 0x0000, 0x0000, 0x0000, 0x0000, 0x0000, 0x0000, 0x0000, 0x0000, 0x0000,
      0x0000, 0x0000, 0x0000, 0x0000, 0x0000, 0x0000, 0x0000, 0x0000, 0x0000, 0x0000, 0x0000, 0x0000, 0x0000,
      0x0000, 0x0000, 0x0000, 0x0000, 0x0000, 0x0000, 0x0000, 0x0000, 0x0000, 0x0000, 0x0000, 0x0000, 0x0000,
      0x0000, 0x0000, 0x0000, 0x0000, 0x0000, 0x0000, 0x0000, 0x0000, 0x0000, 0x0000, 0x0000, 0x0000, 0x0000,
      0x0000, 0x0000, 0x0000, 0x0000, 0x0000, 0x0000, 0x0000, 0x0000, 0x0000, 0x0000, 0x0000, 0x0000, 0x0000,
      0x0000, 0x0000, 0x0000, 0x0000, 0x0000, 0x0000, 0x0000, 0x0000, 0x0000, 0x0000, 0x0000, 0x0000, 0x0000,
      0x0000, 0x0000, 0x0000, 0x0000, 0x0000, 0x0000, 0x0000, 0x0000, 0x0000, 0x0000, 0x0000, 0x0000, 0x0000,
      0x0000, 0x0000, 0x0000, 0x0000, 0x0000, 0x0000, 0x0000, 0x0000, 0x0000, 0x0000, 0x0000, 0x0000, 0x0000,
      0x0000, 0x0000, 0x0000, 0x0000, 0x0000, 0x0000, 0x0000, 0x0000, 0x0000, 0x0000, 0x0000, 0x0000, 0x0000,
      0x0000, 0x0000, 0x0000, 0x0000, 0x0000, 0x0000, 0x0000, 0x0000, 0x0000, 0x0000, 0x0000, 0x0000, 0x0000,
      0x0000, 0x0000, 0x0000, 0x0000, 0x0000, 0x0000, 0x0000, 0x0000, 0x0000, 0x0000, 0x0000, 0x0000, 0x0000,
      0x0000, 0x0000, 0x0000, 0x0000, 0x0000, 0x0000, 0x0000, 0x0000, 0x0000, 0x0000, 0x0000, 0x0000, 0x0000,
      0x0000, 0x0000, 0x0000, 0x0000, 0x0000, 0x0000, 0x0000, 0x0000, 0x0000, 0x0000, 0x0000, 0x0000, 0x0000,
      0x0000, 0x0000, 0x0000, 0x0000, 0x0000, 0x0000, 0x0000, 0x0000, 0x0000, 0x0000, 0x0000, 0x0000, 0x0000,
      0x0000, 0x0000, 0x0000, 0x0000, 0x0000, 0x0000, 0x0000, 0x0000, 0x0000, 0x0000, 0x0000, 0x0000, 0x0000,
      0x0000, 0x0000, 0x0000, 0x0000, 0x0000, 0x0000, 0x0000, 0x0000, 0x0000, 0x0000, 0x0000, 0x0000, 0x0000,
      0x0000, 0x0000, 0x0000, 0x0000, 0x0000, 0x0000, 0x0000, 0x0000, 0x0000, 0x0000, 0x0000, 0x0000, 0x0000,
      0x0000, 0x0000, 0x0000, 0x0000, 0x0000, 0x0000, 0x0000, 0x0000, 0x0000, 0x0000, 0x0000, 0x0000, 0x0000,
      0x0000, 0x0000, 0x0000, 0x0000, 0x0000, 0x0000, 0x0000, 0x0000, 0x0000, 0x0000, 0x0000, 0x0000, 0x0000,
      0x0000, 0x0000, 0x0000, 0x0000, 0x0000, 0x0000, 0x0000, 0x0000, 0x0000, 0x0000, 0x0000, 0x0000, 0x0000,
      0x0000, 0x0000, 0x0000, 0x0000, 0x0000, 0x0000, 0x0000, 0x0000, 0x0000, 0x0000, 0x0000, 0x0000, 0x0000,
      0x0000, 0x0000, 0x0000, 0x0000, 0x0000, 0x0000, 0x0000, 0x0000, 0x0000, 0x0000, 0x0000, 0x0000, 0x0000,
      0x0000, 0x0000, 0x0000, 0x0000, 0x0000, 0x0000, 0x0000, 0x0000, 0x0000, 0x0000, 0x6938, 0x0A19, 0x030E,
      0x0B2F]"

definition rtl8125_set_mac_mcu_8125d_2 :: "unit hwm" where
  "rtl8125_set_mac_mcu_8125d_2 = do {
     load_mac_mcu mcu_patch_code_8125d_2;
     mac_seq [
        (0xFC26, 0x8000), (0xFC28, 0x2382), (0xFC48, 0x0001)]
   }"

definition mcu_patch_code_8125cp_1 :: "u16 list" where
  "mcu_patch_code_8125cp_1 = [
      0xE010, 0xE014, 0xE016, 0xE018, 0xE01A, 0xE01C, 0xE01E, 0xE020, 0xE022, 0xE024, 0xE026, 0xE028, 0xE02A,
      0xE02C, 0xE02E, 0xE030, 0xC104, 0xC202, 0xBA00, 0x2438, 0xD116, 0xC602, 0xBE00, 0x0000, 0xC602, 0xBE00,
      0x0000, 0xC602, 0xBE00, 0x0000, 0xC602, 0xBE00, 0x0000, 0xC602, 0xBE00, 0x0000, 0xC602, 0xBE00, 0x0000,
      0xC602, 0xBE00, 0x0000, 0xC602, 0xBE00, 0x0000, 0xC602, 0xBE00, 0x0000, 0xC602, 0xBE00, 0x0000, 0xC602,
      0xBE00, 0x0000, 0xC602, 0xBE00, 0x0000, 0xC602, 0xBE00, 0x0000, 0xC602, 0xBE00, 0x0000, 0xC602, 0xBE00,
      0x0000, 0x7023, 0x0019, 0x031A, 0x0E20]"

definition rtl8125_set_mac_mcu_8125cp_1 :: "unit hwm" where
  "rtl8125_set_mac_mcu_8125cp_1 = do {
     load_mac_mcu mcu_patch_code_8125cp_1;
     mac_seq [
        (0xFC26, 0x8000), (0xFC28, 0x2436), (0xFC48, 0x0001)]
   }"

definition mcu_patch_code_8126a_1 :: "u16 list" where
  "mcu_patch_code_8126a_1 = [
      0xE010, 0xE019, 0xE01B, 0xE01D, 0xE01F, 0xE021, 0xE023, 0xE025, 0xE027, 0xE029, 0xE02B, 0xE02D, 0xE02F,
      0xE031, 0xE033, 0xE035, 0x48C0, 0x9C66, 0x7446, 0x4840, 0x48C1, 0x48C2, 0x9C46, 0xC402, 0xBC00, 0x0AD6,
      0xC602, 0xBE00, 0x0000, 0xC602, 0xBE00, 0x0000, 0xC602, 0xBE00, 0x0000, 0xC602, 0xBE00, 0x0000, 0xC602,
      0xBE00, 0x0000, 0xC602, 0xBE00, 0x0000, 0xC602, 0xBE00, 0x0000, 0xC602, 0xBE00, 0x0000, 0xC602, 0xBE00,
      0x0000, 0xC602, 0xBE00, 0x0000, 0xC602, 0xBE00, 0x0000, 0xC602, 0xBE00, 0x0000, 0xC602, 0xBE00, 0x0000,
      0xC602, 0xBE00, 0x0000, 0xC602, 0xBE00, 0x0000]"

definition rtl8126_set_mac_mcu_8126a_1 :: "unit hwm" where
  "rtl8126_set_mac_mcu_8126a_1 = do {
     rtl8125_write_mac_mcu_ram_code mcu_patch_code_8126a_1;
     mac_seq [
        (0xFC26, 0x8000), (0xFC28, 0x0AAA), (0xFC48, 0x0001)]
   }"

definition mcu_patch_code_8126a_2 :: "u16 list" where
  "mcu_patch_code_8126a_2 = [
      0xE010, 0xE02C, 0xE04E, 0xE0A4, 0xE0A8, 0xE0AB, 0xE0AE, 0xE0B1, 0xE0B5, 0xE0B7, 0xE0B9, 0xE0BB, 0xE0BD,
      0xE0BF, 0xE0C1, 0xE0C3, 0xC716, 0xC616, 0x9EE0, 0xC616, 0x65C0, 0x1500, 0xF009, 0xC714, 0x66E0, 0x41B5,
      0x8EE0, 0xC611, 0x75C0, 0x4858, 0x9DC0, 0xC707, 0xC608, 0x9EE0, 0xC608, 0xC502, 0xBD00, 0x0100, 0xE86C,
      0xE000, 0xA000, 0xB404, 0xB430, 0xC070, 0xE926, 0xC2FE, 0x400A, 0xF11A, 0x63A4, 0x1A00, 0x49B0, 0xF002,
      0x4820, 0x49B1, 0xF002, 0x4821, 0x49B2, 0xF002, 0x4822, 0x49B3, 0xF002, 0x4823, 0xC411, 0x6380, 0x48B0,
      0x8B80, 0x6320, 0x41DA, 0x8B20, 0x6380, 0x4830, 0x8B80, 0xE003, 0x73A4, 0x9B20, 0xC302, 0xBB00, 0x4A18,
      0xC070, 0xE022, 0xC054, 0x7102, 0x4992, 0xF149, 0x4893, 0x9902, 0x1B1F, 0xC74E, 0x72E0, 0x2521, 0x48A5,
      0x0B01, 0x1C4F, 0x9C00, 0x2121, 0x1D01, 0x41AA, 0x2521, 0x9DE0, 0x4856, 0x9DE0, 0x1CCF, 0xE839, 0x48D6,
      0x9DE0, 0x7102, 0x4996, 0xF1FE, 0x4814, 0x9902, 0x1CFF, 0x0C01, 0x1400, 0xF00C, 0x7102, 0x4996, 0xF0FB,
      0x7102, 0x4990, 0xF0FE, 0x1C1F, 0xE826, 0x7102, 0x4992, 0xF004, 0x4813, 0x9902, 0xE01D, 0x1300, 0xF104,
      0x4817, 0x9902, 0xE018, 0x4894, 0x9902, 0x4995, 0xF00B, 0x121F, 0xF0F3, 0x131E, 0xF003, 0x4998, 0xF0EF,
      0x0201, 0x4818, 0x9902, 0xE7C9, 0x1200, 0xF0E9, 0x4998, 0xF002, 0x1B01, 0x0A01, 0x4898, 0x9902, 0xE7C0,
      0xC00A, 0xC606, 0xBE00, 0x0C01, 0x1400, 0xF1FE, 0xFF80, 0x2362, 0xD456, 0xD404, 0xE400, 0x4166, 0x9CF6,
      0xC002, 0xB800, 0x14A6, 0x49D1, 0xC602, 0xBE00, 0x4160, 0x49D1, 0xC602, 0xBE00, 0x41E6, 0x49D1, 0xC602,
      0xBE00, 0x4282, 0xC104, 0xC202, 0xBA00, 0x234C, 0xD116, 0xC602, 0xBE00, 0x0000, 0xC602, 0xBE00, 0x0000,
      0xC602, 0xBE00, 0x0000, 0xC602, 0xBE00, 0x0000, 0xC602, 0xBE00, 0x0000, 0xC602, 0xBE00, 0x0000, 0xC602,
      0xBE00, 0x0000, 0xC602, 0xBE00, 0x0000, 0x6847, 0x0019, 0x041C, 0x1322]"

definition rtl8126_set_mac_mcu_8126a_2 :: "unit hwm" where
  "rtl8126_set_mac_mcu_8126a_2 = do {
     load_mac_mcu mcu_patch_code_8126a_2;
     mac_seq [
        (0xFC26, 0x8000), (0xFC2C, 0x2360), (0xFC2E, 0x14A4), (0xFC30, 0x415E), (0xFC32, 0x41E4),
        (0xFC34, 0x4280), (0xFC36, 0x234A), (0xFC48, 0x00FC)]
   }"

definition mcu_patch_code_8126a_3 :: "u16 list" where
  "mcu_patch_code_8126a_3 = [
      0xE00A, 0xE026, 0xE048, 0xE04C, 0xE04F, 0xE052, 0xE055, 0xE0AB, 0xE0F8, 0xE141, 0xC716, 0xC616, 0x9EE0,
      0xC616, 0x65C0, 0x1500, 0xF009, 0xC714, 0x66E0, 0x41B5, 0x8EE0, 0xC611, 0x75C0, 0x4858, 0x9DC0, 0xC707,
      0xC608, 0x9EE0, 0xC608, 0xC502, 0xBD00, 0x0100, 0xE86C, 0xE000, 0xA000, 0xB404, 0xB430, 0xC070, 0xE926,
      0xC2FE, 0x400A, 0xF11A, 0x63A4, 0x1A00, 0x49B0, 0xF002, 0x4820, 0x49B1, 0xF002, 0x4821, 0x49B2, 0xF002,
      0x4822, 0x49B3, 0xF002, 0x4823, 0xC411, 0x6380, 0x48B0, 0x8B80, 0x6320, 0x41DA, 0x8B20, 0x6380, 0x4830,
      0x8B80, 0xE003, 0x73A4, 0x9B20, 0xC302, 0xBB00, 0x55E2, 0xC070, 0xE022, 0x4166, 0x9CF6, 0xC602, 0xBE00,
      0x14A6, 0x49D1, 0xC602, 0xBE00, 0x4178, 0x49D1, 0xC602, 0xBE00, 0x41FE, 0x49D1, 0xC602, 0xBE00, 0x429A,
      0xC74B, 0x76E2, 0xC54A, 0x402E, 0xF034, 0x76E0, 0x402E, 0xF006, 0xC503, 0xC403, 0xBC00, 0xC0BC, 0x0AAE,
      0x76F0, 0x1601, 0xF023, 0xC741, 0x1E04, 0x9EE0, 0x1E40, 0x9EE4, 0xC63D, 0x9EE8, 0xC73D, 0x76E0, 0x4863,
      0x9EE0, 0xC73A, 0x76E0, 0x48EA, 0x48EB, 0x9EE0, 0xC736, 0x1E01, 0x9EE2, 0xC72D, 0x76E0, 0x486F, 0x9EE0,
      0xC72D, 0x76E0, 0x48E3, 0x9EE0, 0xC728, 0x1E0E, 0x9EE0, 0xC71D, 0x1E01, 0x9EE4, 0xE00D, 0x1E00, 0x9EF0,
      0x1E05, 0xC715, 0x9EE0, 0xE00A, 0x1E00, 0x9EE2, 0xC614, 0x75CC, 0x48D2, 0x9DCC, 0x1E04, 0xC70B, 0x9EE0,
      0xB000, 0xB001, 0xB002, 0xB003, 0xB004, 0xB005, 0xB006, 0xB007, 0xFFC0, 0xE428, 0xD3C0, 0xBEEF, 0x5B4A,
      0xDC46, 0xE0CC, 0xE84E, 0xC0A2, 0x0100, 0xC010, 0xE85A, 0xE812, 0xC0B4, 0xC5F4, 0x74A0, 0xC6F3, 0x4026,
      0xF107, 0x74A2, 0xC6EF, 0x4026, 0xF107, 0xC6ED, 0xBE00, 0x753A, 0xC602, 0xBE00, 0x5A3A, 0x7520, 0x49DE,
      0xF102, 0xE7F9, 0xC6A1, 0x67C6, 0x7520, 0x22D2, 0x26DD, 0x1500, 0xF002, 0xE7F1, 0x7532, 0x26D5, 0x0530,
      0x0D6C, 0xC42D, 0x308D, 0x7540, 0x4025, 0xF11E, 0x7542, 0x4025, 0xF11B, 0x7544, 0x4025, 0xF118, 0xC423,
      0x7546, 0x4025, 0xF114, 0x7548, 0x4025, 0xF111, 0x754A, 0x4025, 0xF10E, 0xC5C0, 0xC4C0, 0x9CA2, 0xC6C0,
      0x75CC, 0x4852, 0x9DCC, 0xC6B8, 0x1D7D, 0x9DC2, 0x1D01, 0x9DC0, 0xE7C9, 0xC40B, 0x7546, 0x4025, 0xF1FC,
      0x7548, 0x4025, 0xF1F9, 0x754A, 0x4025, 0xF1F6, 0xE7C0, 0xFFFF, 0xEEEE, 0xC2A6, 0x7340, 0xC2A5, 0x4013,
      0xF013, 0xC2AC, 0x7340, 0x4835, 0x9B40, 0xC240, 0x7358, 0x48B7, 0x48B2, 0x9B58, 0x7346, 0x48B7, 0x48B2,
      0x9B46, 0x7340, 0x48B7, 0x48B2, 0x9B40, 0xE012, 0xC29A, 0x7340, 0x48B5, 0x9B40, 0xC22E, 0x7358, 0x4837,
      0x4832, 0x9B58, 0x7346, 0x4837, 0x4832, 0x9B46, 0x7340, 0x4837, 0x4832, 0x9B40, 0xC283, 0x7340, 0x49BF,
      0xF010, 0xC21B, 0x7344, 0x1300, 0xF104, 0x1B00, 0xC217, 0x9B40, 0x1B01, 0xC213, 0x9B44, 0xC213, 0x734C,
      0x48B7, 0x9B4C, 0xE008, 0xC20C, 0x1B00, 0x9B44, 0xC20B, 0x734C, 0x4837, 0x9B4C, 0xC204, 0xC302, 0xBB00,
      0x2384, 0xE092, 0xD3C0, 0xE428, 0xDC46, 0xC104, 0xC202, 0xBA00, 0x234C, 0xD116, 0x6847, 0x0119, 0x041C,
      0x1134]"

definition rtl8126_set_mac_mcu_8126a_3 :: "unit hwm" where
  "rtl8126_set_mac_mcu_8126a_3 = do {
     load_mac_mcu mcu_patch_code_8126a_3;
     mac_seq [
        (0xFC26, 0x8000), (0xFC2C, 0x14A4), (0xFC2E, 0x4176), (0xFC30, 0x41FC), (0xFC32, 0x4298),
        (0xFC3A, 0x234A), (0xFC48, 0x023C)]
   }"

definition mcu_patch_code_8127a_tc :: "u16 list" where
  "mcu_patch_code_8127a_tc = [
      0xE010, 0xE019, 0xE01B, 0xE01D, 0xE029, 0xE02C, 0xE0E1, 0xE192, 0xE194, 0xE196, 0xE198, 0xE19A, 0xE19C,
      0xE19E, 0xE1A0, 0xE1A2, 0xC008, 0x7100, 0x4897, 0x9900, 0xC005, 0xC602, 0xBE00, 0x3D8E, 0xD428, 0xD400,
      0xC602, 0xBE00, 0x0000, 0xC502, 0xBD00, 0x0000, 0x48C3, 0x4847, 0x48C1, 0x8CF8, 0x74F8, 0x74F8, 0x74F8,
      0x4842, 0x8CF8, 0x1E10, 0xC502, 0xBD00, 0x14BA, 0x1E10, 0xC502, 0xBD00, 0x14EE, 0xC643, 0x76C0, 0x49E1,
      0xF13F, 0xC140, 0x7720, 0x49E0, 0xF003, 0x1B00, 0xE00A, 0x49E2, 0xF003, 0x1B04, 0xE006, 0x49E4, 0xF003,
      0x1B08, 0xE002, 0x1B0C, 0x21B8, 0x1A0E, 0x44DA, 0xE893, 0x481C, 0xE884, 0xE001, 0x49E0, 0xF003, 0x1B00,
      0xE00A, 0x49E2, 0xF003, 0x1B04, 0xE006, 0x49E4, 0xF003, 0x1B08, 0xE002, 0x1B0C, 0x21B8, 0x1A12, 0x44DA,
      0xE87F, 0x481F, 0xE870, 0xE001, 0x49E0, 0xF003, 0x1B00, 0xE00A, 0x49E2, 0xF003, 0x1B04, 0xE006, 0x49E4,
      0xF003, 0x1B08, 0xE002, 0x1B0C, 0x21B8, 0x1A1C, 0x44DA, 0xE86B, 0x481F, 0xE85C, 0xE004, 0xE04F, 0xDD98,
      0xD450, 0x49E0, 0xF003, 0x1B00, 0xE00A, 0x49E2, 0xF003, 0x1B04, 0xE006, 0x49E4, 0xF003, 0x1B08, 0xE002,
      0x1B0C, 0x21B8, 0x1A0E, 0x44DA, 0xE854, 0x489E, 0x481F, 0xE844, 0xE001, 0x1908, 0xE83E, 0x49E0, 0xF003,
      0x1B00, 0xE00A, 0x49E2, 0xF003, 0x1B04, 0xE006, 0x49E4, 0xF003, 0x1B08, 0xE002, 0x1B0C, 0x21B8, 0x1A8A,
      0x44DA, 0xE83D, 0x4813, 0xE82E, 0x49F9, 0xF106, 0x4838, 0xE837, 0x4813, 0xE828, 0xE001, 0x49E0, 0xF003,
      0x1B00, 0xE00A, 0x49E2, 0xF003, 0x1B04, 0xE006, 0x49E4, 0xF003, 0x1B08, 0xE002, 0x1B0C, 0x21B8, 0x1A84,
      0x44DA, 0xE823, 0x4890, 0x4811, 0xE813, 0x49F9, 0xF106, 0x4838, 0xE81C, 0x4890, 0x4811, 0xE80C, 0xC207,
      0x7440, 0xC602, 0xBE00, 0x14CC, 0x0FFE, 0xDE20, 0xE092, 0xC3FD, 0xE802, 0xFF80, 0xC0FB, 0x7202, 0x49AE,
      0xF1FE, 0x9900, 0x44D3, 0x4413, 0x482F, 0x9A02, 0x7202, 0x49AE, 0xF1FE, 0xFF80, 0xC0EE, 0x7202, 0x49AE,
      0xF1FE, 0x44D3, 0x4413, 0x48AF, 0x9A02, 0x7202, 0x49AE, 0xF1FE, 0x7100, 0xFF80, 0xB401, 0xB402, 0xB404,
      0xB407, 0xC61F, 0x76C0, 0x49E1, 0xF164, 0xC11C, 0x7720, 0x1906, 0xE88A, 0x1B0C, 0x21B8, 0x1A40, 0x44DA,
      0xE895, 0x4810, 0xE886, 0x190C, 0xE881, 0x1B08, 0x21B8, 0x1A26, 0x44DA, 0xE88C, 0x4890, 0x4891, 0xE87C,
      0x49F9, 0xF107, 0x4898, 0x4899, 0xE877, 0xE003, 0xDD98, 0xD450, 0x1908, 0xE86F, 0x49E0, 0xF003, 0x1B00,
      0xE00A, 0x49E2, 0xF003, 0x1B04, 0xE006, 0x49E2, 0xF003, 0x1B08, 0xE002, 0x1B0C, 0x21B8, 0x1A5C, 0x44DA,
      0xE86E, 0x4897, 0x4898, 0x4819, 0x481A, 0xE85C, 0x49F9, 0xF109, 0x4838, 0xE865, 0x4897, 0x4898, 0x4819,
      0x481A, 0xE853, 0xE001, 0x190A, 0xE84D, 0x1B00, 0xE85B, 0x44E1, 0x4838, 0xE858, 0x44E9, 0x1908, 0xE845,
      0x49E0, 0xF003, 0x1B00, 0xE00A, 0x49E2, 0xF003, 0x1B04, 0xE006, 0x49E4, 0xF003, 0x1B08, 0xE002, 0x1B0C,
      0x21B8, 0x1A86, 0x44DA, 0xE844, 0x44CC, 0xE835, 0x49F9, 0xF108, 0x4838, 0xE83E, 0x44CD, 0xE82F, 0xE003,
      0xE021, 0xFFC0, 0x190A, 0xE827, 0x1B00, 0x4839, 0xE834, 0x249A, 0x1C00, 0x44E1, 0x1909, 0xE81F, 0x49E0,
      0xF003, 0x1B00, 0xE00A, 0x49E2, 0xF003, 0x1B04, 0xE006, 0x49E4, 0xF003, 0x1B08, 0xE002, 0x1B0C, 0x21B8,
      0x1A1A, 0x44DA, 0xE81E, 0xC5E4, 0x414D, 0x418C, 0xE80D, 0xB007, 0xB004, 0xB002, 0xB001, 0xC602, 0xBE00,
      0x14B2, 0x0FFE, 0xDE20, 0xC3FE, 0xE802, 0xFF80, 0xC0FC, 0x7202, 0x49AE, 0xF1FE, 0x9900, 0x44D3, 0x4413,
      0x482F, 0x9A02, 0x7202, 0x49AE, 0xF1FE, 0xFF80, 0xC0EF, 0x7202, 0x49AE, 0xF1FE, 0x44D3, 0x4413, 0x48AF,
      0x9A02, 0x7202, 0x49AE, 0xF1FE, 0x7100, 0xFF80, 0xC502, 0xBD00, 0x0000, 0xC502, 0xBD00, 0x0000, 0xC502,
      0xBD00, 0x0000, 0xC302, 0xBB00, 0x0000, 0xC602, 0xBE00, 0x0000, 0xC102, 0xB900, 0x0000, 0xC102, 0xB900,
      0x0000, 0xC602, 0xBE00, 0x0000, 0xC602, 0xBE00, 0x0000, 0x1332, 0x0018, 0x0C05, 0x140D]"

definition rtl8127_set_mac_mcu_8127a_tc :: "unit hwm" where
  "rtl8127_set_mac_mcu_8127a_tc = do {
     load_mac_mcu mcu_patch_code_8127a_tc;
     mac_seq [
        (0xFC26, 0x8000), (0xFC2E, 0x14B8), (0xFC30, 0x14EC), (0xFC48, 0x0018)]
   }"

definition mcu_patch_code_8127a_1 :: "u16 list" where
  "mcu_patch_code_8127a_1 = [
      0xE010, 0xE023, 0xE036, 0xE049, 0xE05C, 0xE075, 0xE0B1, 0xE117, 0xE11B, 0xE11D, 0xE11F, 0xE121, 0xE123,
      0xE125, 0xE127, 0xE129, 0x7020, 0xB405, 0xB404, 0xC50F, 0x74A0, 0xC50E, 0x4025, 0xF005, 0x4850, 0x4025,
      0xF002, 0xE002, 0x4809, 0xB004, 0xB005, 0xC502, 0xBD00, 0x1522, 0xD006, 0x0004, 0x7760, 0xB405, 0xB404,
      0xC50F, 0x74A0, 0xC50E, 0x4025, 0xF005, 0x4850, 0x4025, 0xF002, 0xE002, 0x4879, 0xB004, 0xB005, 0xC002,
      0xB800, 0x41E2, 0xD006, 0x0004, 0x7160, 0xB405, 0xB404, 0xC50F, 0x74A0, 0xC50E, 0x4025, 0xF005, 0x4850,
      0x4025, 0xF002, 0xE002, 0x4819, 0xB004, 0xB005, 0xC302, 0xBB00, 0x508E, 0xD006, 0x0004, 0x7720, 0xB405,
      0xB404, 0xC50F, 0x74A0, 0xC50E, 0x4025, 0xF005, 0x4850, 0x4025, 0xF002, 0xE002, 0x4879, 0xB004, 0xB005,
      0xC102, 0xB900, 0x50F8, 0xD006, 0x0004, 0x61A9, 0xB403, 0xB404, 0xC313, 0x7460, 0xC312, 0x4023, 0xF005,
      0x4830, 0x4023, 0xF002, 0xE003, 0x4997, 0xF003, 0xC00A, 0xE002, 0xC009, 0xB004, 0xB003, 0xC102, 0xB900,
      0x34FC, 0xD006, 0x0004, 0x02AF, 0x041F, 0xB407, 0xB406, 0xB405, 0xB404, 0xB403, 0xB402, 0xB401, 0xB400,
      0x49D2, 0xF116, 0xC62F, 0x77C0, 0x49F9, 0xF020, 0x49FA, 0xF11E, 0x49F2, 0xF102, 0xE01B, 0x48F2, 0x9FC0,
      0xC625, 0x75C2, 0x4852, 0x9DC2, 0xC122, 0x7020, 0x4801, 0x4802, 0x9820, 0xE00F, 0xC61A, 0x77C0, 0x49F2,
      0xF10B, 0xC618, 0x77C0, 0x49F2, 0xF007, 0x48F2, 0x9FC0, 0xC611, 0x75C2, 0x48D2, 0x9DC2, 0xB000, 0xB001,
      0xB002, 0xB003, 0xB004, 0xB005, 0xB006, 0xB007, 0x9D6C, 0xC502, 0xBD00, 0x0168, 0xE024, 0xC010, 0xD410,
      0xD460, 0xB407, 0xB406, 0xB405, 0xB404, 0xB403, 0xB402, 0xB401, 0xB400, 0xC152, 0x7020, 0x4981, 0xF043,
      0xC050, 0x7100, 0xB401, 0xC14C, 0x489E, 0x481D, 0x9900, 0xC24A, 0x7340, 0x49B7, 0xF135, 0xC144, 0x9900,
      0xC245, 0x7340, 0xC447, 0x401C, 0xF109, 0x734C, 0x1301, 0xF12B, 0xC343, 0x9B40, 0xC33E, 0x9B40, 0xE022,
      0xC63A, 0x77C0, 0x48F4, 0x48F5, 0x48F9, 0x48FA, 0x9FC0, 0xC231, 0x7344, 0x48B4, 0x9B44, 0xC22E, 0x7340,
      0x4830, 0x48B1, 0x4832, 0x483C, 0x48BD, 0x48BE, 0x48BF, 0x9B40, 0xC223, 0xC32A, 0x9B48, 0xC327, 0x9B46,
      0xC324, 0x9B40, 0xC321, 0x9B42, 0xC31E, 0x9B40, 0xE005, 0xC113, 0x7020, 0x4881, 0x9820, 0xB001, 0xC010,
      0x9900, 0xB000, 0xB001, 0xB002, 0xB003, 0xB004, 0xB005, 0xB006, 0xB007, 0x2125, 0xC102, 0xB900, 0x1A6C,
      0xD410, 0xC000, 0xE86C, 0xB600, 0xB800, 0xB40A, 0xE024, 0x5A00, 0x5A81, 0x0073, 0x5A80, 0x0042, 0x0001,
      0xC104, 0xC202, 0xBA00, 0x1A2E, 0xC896, 0xC302, 0xBB00, 0x0000, 0xC002, 0xB800, 0x0000, 0xC002, 0xB800,
      0x0000, 0xC502, 0xBD00, 0x0000, 0xC102, 0xB900, 0x0000, 0xC102, 0xB900, 0x0000, 0xC602, 0xBE00, 0x0000,
      0xC602, 0xBE00, 0x0000, 0x6961, 0x0019, 0x050C, 0x140C]"

definition rtl8127_set_mac_mcu_8127a_1 :: "unit hwm" where
  "rtl8127_set_mac_mcu_8127a_1 = do {
     load_mac_mcu mcu_patch_code_8127a_1;
     mac_seq [
        (0xFC26, 0x8000), (0xFC28, 0x1520), (0xFC2A, 0x41E0), (0xFC2C, 0x508C), (0xFC2E, 0x50F6),
        (0xFC30, 0x34FA), (0xFC32, 0x0166), (0xFC34, 0x1A6A), (0xFC36, 0x1A2C), (0xFC48, 0x00FF)]
   }"

subsection \<open>Hardware initialisation\<close>

definition set_mac_mcu :: "mcfg \<Rightarrow> unit hwm" where
  "set_mac_mcu m =
    (if m \<in> {CFG_METHOD_3, CFG_METHOD_6} then rtl8125_set_mac_mcu_8125a_2
     else if m \<in> {CFG_METHOD_5, CFG_METHOD_7} then rtl8125_set_mac_mcu_8125b_2
     else if m = CFG_METHOD_8 then rtl8125_set_mac_mcu_8125bp_1
     else if m = CFG_METHOD_9 then rtl8125_set_mac_mcu_8125bp_2
     else if m = CFG_METHOD_10 then rtl8125_set_mac_mcu_8125d_1
     else if m \<in> {CFG_METHOD_11, CFG_METHOD_13} then rtl8125_set_mac_mcu_8125d_2
     else if m = CFG_METHOD_12 then rtl8125_set_mac_mcu_8125cp_1
     else if m = CFG_METHOD_31 then rtl8126_set_mac_mcu_8126a_1
     else if m = CFG_METHOD_32 then rtl8126_set_mac_mcu_8126a_2
     else if m = CFG_METHOD_33 then rtl8126_set_mac_mcu_8126a_3
     else if m = CFG_METHOD_41 then rtl8127_set_mac_mcu_8127a_tc
     else if m = CFG_METHOD_42 then rtl8127_set_mac_mcu_8127a_1
     else skip)"

definition rtl8125_hw_mac_mcu_config :: "unit hwm" where
  "rtl8125_hw_mac_mcu_config = do {
     n \<leftarrow> tpget tp_NotWrMcuPatchCode;
     if n then skip
     else do {
       rtl8125_hw_disable_mac_mcu_bps;
       ver \<leftarrow> rtl8125_get_hw_mcu_patch_code_ver;
       tpmod (\<lambda>t. t\<lparr>tp_hw_mcu_patch_code_ver := ver\<rparr>);
       m \<leftarrow> tpget tp_mcfg;
       set_mac_mcu m
     }
   }"

definition rtl8125_hw_init :: "unit hwm" where
  "rtl8125_hw_init = do {
     g \<leftarrow> mcfg_is {CFG_METHOD_2, CFG_METHOD_3, CFG_METHOD_4, CFG_METHOD_5};
     whenM g (do {
       rtl8125_enable_cfg9346_write;
       rmw8 Config5 (\<lambda>v. v AND NOT BIT_0);
       rmw8 Config2 (\<lambda>v. v AND NOT BIT_7);
       rtl8125_disable_cfg9346_write;
       rmw8 0xF1 (\<lambda>v. v AND NOT BIT_7)
     });
     whenM g (mac_rmw 0xD40A (\<lambda>v. v AND NOT BIT_4));
     rtl8125_hw_mac_mcu_config;
     whenM g rtl8125_disable_ocp_phy_power_saving;
     csi \<leftarrow> rtl8125_csi_read 0x108;
     rtl8125_csi_write 0x108 (csi OR 0x100000);
     rtl8125_enable_cfg9346_write;
     rtl8125_disable_linkchg_wakeup;
     rtl8125_disable_cfg9346_write;
     rtl8125_disable_magic_packet;
     rtl8125_disable_d0_speedup;
     rtl8125_enable_magic_packet
   }"

end
