(* ===== verification/Fiber.thy ===== *)
theory Fiber
  imports McuPatch
begin

text \<open>
  The SerDes PHY of the fiber variant RTL8127ATF (\<open>rtl8127_fiber.cpp\<close>):
  the indirect SerDes accesses, the 1G and 10G capability settings and the
  detection of the variant.
\<close>

abbreviation "R8127_SDS_8127_CMD \<equiv> (0x2348 :: u16)"
abbreviation "R8127_SDS_8127_ADDR \<equiv> (0x234A :: u16)"
abbreviation "R8127_SDS_8127_DATA_IN \<equiv> (0x234C :: u16)"
abbreviation "R8127_SDS_8127_DATA_OUT \<equiv> (0x234E :: u16)"
abbreviation "FIBER_MODE_RTL8127ATF \<equiv> (1 :: u32)"

definition R8127_MAKE_SDS_8127_ADDR :: "u16 \<Rightarrow> u16 \<Rightarrow> u16 \<Rightarrow> u16" where
  "R8127_MAKE_SDS_8127_ADDR index page reg = push_bit 11 index OR push_bit 5 page OR reg"

fun sds_wait :: "nat \<Rightarrow> bool hwm" where
  "sds_wait 0 = ret False"
| "sds_wait (Suc n) = do {
     v \<leftarrow> RTL_R16 R8127_SDS_8127_CMD;
     if v AND BIT_0 \<noteq> 0 then do { udelay 1; sds_wait n } else ret True
   }"

definition rtl8127_wait_8127_sds_cmd_done :: "bool hwm" where
  "rtl8127_wait_8127_sds_cmd_done = sds_wait 100"

definition rtl8127_sds_phy_read_8127 :: "u16 \<Rightarrow> u16 \<Rightarrow> u16 \<Rightarrow> u16 hwm" where
  "rtl8127_sds_phy_read_8127 index page reg = do {
     RTL_W16 R8127_SDS_8127_ADDR (R8127_MAKE_SDS_8127_ADDR index page reg);
     RTL_W16 R8127_SDS_8127_CMD BIT_0;
     ok \<leftarrow> rtl8127_wait_8127_sds_cmd_done;
     if ok then RTL_R16 R8127_SDS_8127_DATA_OUT else ret 0xffff
   }"

definition rtl8127_sds_phy_write_8127 :: "u16 \<Rightarrow> u16 \<Rightarrow> u16 \<Rightarrow> u16 \<Rightarrow> unit hwm" where
  "rtl8127_sds_phy_write_8127 index page reg val = do {
     RTL_W16 R8127_SDS_8127_DATA_IN val;
     RTL_W16 R8127_SDS_8127_ADDR (R8127_MAKE_SDS_8127_ADDR index page reg);
     RTL_W16 R8127_SDS_8127_CMD (BIT_0 OR BIT_1);
     _ \<leftarrow> rtl8127_wait_8127_sds_cmd_done;
     skip
   }"

definition rtl8127_clear_and_set_sds_phy_bit :: "u16 \<Rightarrow> u16 \<Rightarrow> u16 \<Rightarrow> u16 \<Rightarrow> u16 \<Rightarrow> unit hwm" where
  "rtl8127_clear_and_set_sds_phy_bit index page addr clearmask setmask = do {
     v \<leftarrow> rtl8127_sds_phy_read_8127 index page addr;
     rtl8127_sds_phy_write_8127 index page addr ((v AND NOT clearmask) OR setmask)
   }"

definition rtl8127_clear_sds_phy_bit :: "u16 \<Rightarrow> u16 \<Rightarrow> u16 \<Rightarrow> u16 \<Rightarrow> unit hwm" where
  "rtl8127_clear_sds_phy_bit index page addr bits = rtl8127_clear_and_set_sds_phy_bit index page addr bits 0"

definition rtl8127_set_sds_phy_bit :: "u16 \<Rightarrow> u16 \<Rightarrow> u16 \<Rightarrow> u16 \<Rightarrow> unit hwm" where
  "rtl8127_set_sds_phy_bit index page addr bits = rtl8127_clear_and_set_sds_phy_bit index page addr 0 bits"

definition rtl8127_sds_phy_reset_8127 :: "unit hwm" where
  "rtl8127_sds_phy_reset_8127 = do {
     rmw8 0x2350 (\<lambda>v. v AND NOT BIT_0);
     udelay 1;
     RTL_W16 0x233A 0x801F;
     rmw8 0x2350 (\<lambda>v. v OR BIT_0);
     udelay 10
   }"

definition rtl8127_sds_phy_reset :: "unit hwm" where
  "rtl8127_sds_phy_reset = do {
     v \<leftarrow> tpget tp_HwFiberModeVer;
     whenM (v = FIBER_MODE_RTL8127ATF) rtl8127_sds_phy_reset_8127
   }"

text \<open>The settings both capability routines end with; \<open>c466\<close> selects the rate.\<close>

definition sds_mode :: "u16 \<Rightarrow> u16 \<Rightarrow> u16 \<Rightarrow> unit hwm" where
  "sds_mode mode sel c466 = do {
     RTL_W16 0x233A mode;
     v \<leftarrow> RTL_R16 0x233E;
     RTL_W16 0x233E ((v AND (BIT_13 OR BIT_12 OR BIT_1 OR BIT_0)) OR sel);
     mdio_direct_write_phy_ocp 0xC40A 0x0;
     mdio_direct_write_phy_ocp 0xC466 c466;
     mdio_direct_write_phy_ocp 0xC808 0x0;
     mdio_direct_write_phy_ocp 0xC80A 0x0;
     rtl8125_clear_and_set_eth_phy_ocp_bit 0xC804 0x000F 0x000C
   }"

definition rtl8127_set_sds_phy_caps_1g_8127 :: "unit hwm" where
  "rtl8127_set_sds_phy_caps_1g_8127 = do {
     rtl8127_set_sds_phy_bit 0 1 31 BIT_3;
     rtl8127_clear_and_set_sds_phy_bit 0 2 0 (BIT_13 OR BIT_12 OR BIT_6) (BIT_12 OR BIT_6);
     sds_mode 0x8004 BIT_1 0x0
   }"

definition rtl8127_sds_phy_exit_1g_8127 :: "unit hwm" where
  "rtl8127_sds_phy_exit_1g_8127 = do {
     rtl8127_clear_sds_phy_bit 0 1 31 BIT_3;
     rtl8127_clear_and_set_sds_phy_bit 0 2 0 (BIT_13 OR BIT_12 OR BIT_6) BIT_6;
     rtl8127_sds_phy_reset
   }"

definition rtl8127_set_sds_phy_caps_10g_8127 :: "unit hwm" where
  "rtl8127_set_sds_phy_caps_10g_8127 = sds_mode 0x801A BIT_12 0x3"

definition rtl8127_set_sds_phy_caps_8127 :: "unit hwm" where
  "rtl8127_set_sds_phy_caps_8127 = do {
     rtl8127_sds_phy_exit_1g_8127;
     speed \<leftarrow> tpget tp_speed;
     if speed = SPEED_10000 then rtl8127_set_sds_phy_caps_10g_8127
     else if speed = SPEED_1000 then rtl8127_set_sds_phy_caps_1g_8127
     else skip
   }"

definition rtl8127_set_sds_phy_caps :: "unit hwm" where
  "rtl8127_set_sds_phy_caps = do {
     v \<leftarrow> tpget tp_HwFiberModeVer;
     whenM (v = FIBER_MODE_RTL8127ATF) rtl8127_set_sds_phy_caps_8127
   }"

definition rtl8127_hw_sds_phy_config :: "unit hwm" where
  "rtl8127_hw_sds_phy_config = rtl8127_set_sds_phy_caps"

definition rtl8127_hw_fiber_phy_config :: "unit hwm" where
  "rtl8127_hw_fiber_phy_config = do {
     v \<leftarrow> tpget tp_HwFiberModeVer;
     whenM (v = FIBER_MODE_RTL8127ATF) rtl8127_hw_sds_phy_config
   }"

definition HW_FIBER_MODE_ENABLED :: "rtl8125_private \<Rightarrow> bool" where
  "HW_FIBER_MODE_ENABLED t \<longleftrightarrow> tp_HwFiberModeVer t > 0"

definition rtl8127_check_fiber_mode_support :: "bool hwm" where
  "rtl8127_check_fiber_mode_support = do {
     m \<leftarrow> tpget tp_mcfg;
     whenM (m = CFG_METHOD_42) (do {
       v \<leftarrow> rtl8125_mac_ocp_read 0xD006;
       whenM ((ucast v :: u8) = 0x07) (tpmod (\<lambda>t. t\<lparr>tp_HwFiberModeVer := FIBER_MODE_RTL8127ATF\<rparr>))
     });
     tpget HW_FIBER_MODE_ENABLED
   }"

end
