(* ===== verification/PhyConfig.thy ===== *)
theory PhyConfig
  imports Fiber
begin

text \<open>
  The PHY parameter tables of each chip generation and the PHY configuration
  that applies them (\<open>rtl812xx.cpp\<close>). A run of register writes and
  read-modify-writes is a list of operations; the functions of the code are
  sequences of such lists, patch requests and conditional blocks. The build of
  the driver loads no firmware file, so \<open>tp->rtl_fw\<close> is null.
\<close>

subsection \<open>PHY operations\<close>

text \<open>
  \<open>PW\<close> is \<open>mdio_direct_write_phy_ocp\<close>; \<open>PM a c s\<close> clears \<open>c\<close> and sets \<open>s\<close>,
  which is what the set, clear and clear-and-set helpers do.
\<close>

datatype phy_op = PW u16 u16 | PM u16 u16 u16

fun phy_exec :: "phy_op \<Rightarrow> unit hwm" where
  "phy_exec (PW a v) = mdio_direct_write_phy_ocp a v"
| "phy_exec (PM a c s) = rtl8125_clear_and_set_eth_phy_ocp_bit a c s"

definition phy_seq :: "phy_op list \<Rightarrow> unit hwm" where
  "phy_seq ops = for_each ops phy_exec"

definition phy_if_ram :: "phy_op list \<Rightarrow> unit hwm" where
  "phy_if_ram ops = do {
     r \<leftarrow> tpget tp_HwHasWrRamCodeToMicroP;
     whenM r (phy_seq ops)
   }"

definition rtl8125_enable_phy_aldps :: "unit hwm" where
  "rtl8125_enable_phy_aldps = SetEthPhyOcpBit 0xA430 BIT_2"

definition phy_aldps_if_l1 :: "unit hwm" where
  "phy_aldps_if_l1 = do {
     t \<leftarrow> tpget id;
     whenM (tp_aspm t AND 2 \<noteq> 0 \<and> tp_HwHasWrRamCodeToMicroP t) rtl8125_enable_phy_aldps
   }"

definition rtl8125_tgphy_irq_mask_and_ack :: "unit hwm" where
  "rtl8125_tgphy_irq_mask_and_ack = do {
     g \<leftarrow> mcfg_is {CFG_METHOD_2, CFG_METHOD_42};
     whenM g (do {
       mdio_direct_write_phy_ocp 0xA4D2 0x0000;
       _ \<leftarrow> mdio_direct_read_phy_ocp 0xA4D4;
       skip
     })
   }"

text \<open>The calibration values of a board with swapped pairs are exchanged.\<close>

definition phy_read :: "u16 \<Rightarrow> u16 \<Rightarrow> u16 hwm" where
  "phy_read a m = do { v \<leftarrow> mdio_direct_read_phy_ocp a; ret (ucast v AND m) }"

definition adccal_read :: "u16 \<Rightarrow> u16 hwm" where
  "adccal_read sel = do { ClearAndSetEthPhyOcpBit 0xD068 0x0018 sel; phy_read 0xD06A 0x07FF }"

definition adccal_write :: "u16 \<Rightarrow> u16 \<Rightarrow> unit hwm" where
  "adccal_write sel v = do { ClearAndSetEthPhyOcpBit 0xD068 0x0018 sel; ClearAndSetEthPhyOcpBit 0xD06A 0x07FF v }"

definition phy_mdi_swap :: "unit hwm" where
  "phy_mdi_swap = do {
     r \<leftarrow> tpget tp_RequirePhyMdiSwapPatch;
     whenM r (do {
       ClearAndSetEthPhyOcpBit 0xD068 0x0007 0x0001;
       a0 \<leftarrow> adccal_read 0x0000;
       a1 \<leftarrow> adccal_read 0x0008;
       a2 \<leftarrow> adccal_read 0x0010;
       a3 \<leftarrow> adccal_read 0x0018;
       adccal_write 0x0000 a3;
       adccal_write 0x0008 a2;
       adccal_write 0x0010 a1;
       adccal_write 0x0018 a0;
       x0 \<leftarrow> phy_read 0xBD5A 0x001F;
       x1 \<leftarrow> phy_read 0xBD5A 0x1F00;
       x2 \<leftarrow> phy_read 0xBD5C 0x001F;
       x3 \<leftarrow> phy_read 0xBD5C 0x1F00;
       c0 \<leftarrow> phy_read 0xBC18 0x001F;
       c1 \<leftarrow> phy_read 0xBC18 0x1F00;
       c2 \<leftarrow> phy_read 0xBC1A 0x001F;
       c3 \<leftarrow> phy_read 0xBC1A 0x1F00;
       ClearAndSetEthPhyOcpBit 0xBD5A 0x001F (drop_bit 8 x3);
       ClearAndSetEthPhyOcpBit 0xBD5A 0x1F00 (push_bit 8 x2);
       ClearAndSetEthPhyOcpBit 0xBD5C 0x001F (drop_bit 8 x1);
       ClearAndSetEthPhyOcpBit 0xBD5C 0x1F00 (push_bit 8 x0);
       ClearAndSetEthPhyOcpBit 0xBC18 0x001F (drop_bit 8 c3);
       ClearAndSetEthPhyOcpBit 0xBC18 0x1F00 (push_bit 8 c2);
       ClearAndSetEthPhyOcpBit 0xBC1A 0x001F (drop_bit 8 c1);
       ClearAndSetEthPhyOcpBit 0xBC1A 0x1F00 (push_bit 8 c0)
     })
   }"

subsection \<open>The tables\<close>

definition phy_8125a_1_1 :: "phy_op list" where
  "phy_8125a_1_1 = [
      PM 0xAD40 0x03FF 0x0084, PM 0xAD4E 0 0x0010, PM 0xAD16 0x03FF 0x0006, PM 0xAD32 0x003F 0x0006,
      PM 0xAC08 0x1000 0, PM 0xAC08 0x0100 0, PM 0xAC8A 0xF000 0x7000, PM 0xAD18 0 0x0400, PM 0xAD1A 0 0x03FF,
      PM 0xAD1C 0 0x03FF, PW 0xA436 0x80EA, PM 0xA438 0xFF00 0xC400, PW 0xA436 0x80EB, PM 0xA438 0x0700 0x0300,
      PW 0xA436 0x80F8, PM 0xA438 0xFF00 0x1C00, PW 0xA436 0x80F1, PM 0xA438 0xFF00 0x3000, PW 0xA436 0x80FE,
      PM 0xA438 0xFF00 0xA500, PW 0xA436 0x8102, PM 0xA438 0xFF00 0x5000, PW 0xA436 0x8105,
      PM 0xA438 0xFF00 0x3300, PW 0xA436 0x8100, PM 0xA438 0xFF00 0x7000, PW 0xA436 0x8104,
      PM 0xA438 0xFF00 0xF000, PW 0xA436 0x8106, PM 0xA438 0xFF00 0x6500, PW 0xA436 0x80DC,
      PM 0xA438 0xFF00 0xED00, PW 0xA436 0x80DF, PM 0xA438 0 0x0100, PW 0xA436 0x80E1, PM 0xA438 0x0100 0,
      PM 0xBF06 0x003F 0x0038, PW 0xA436 0x819F, PW 0xA438 0xD0B6, PW 0xBC34 0x5555, PM 0xBF0A 0x0E00 0x0A00,
      PM 0xA5C0 0x0400 0, PM 0xA442 0 0x0800]"

definition rtl8125_hw_phy_config_8125a_1 :: "unit hwm" where
  "rtl8125_hw_phy_config_8125a_1 = do {
     phy_seq phy_8125a_1_1;
     phy_aldps_if_l1
   }"

definition phy_8125a_2_1 :: "phy_op list" where
  "phy_8125a_2_1 = [
      PM 0xAD4E 0 0x0010, PM 0xAD16 0x03FF 0x03FF, PM 0xAD32 0x003F 0x0006, PM 0xAC08 0x1000 0,
      PM 0xAC08 0x0100 0, PM 0xACC0 0x0003 0x0002, PM 0xAD40 0x00E0 0x0040, PM 0xAD40 0x0007 0x0004,
      PM 0xAC14 0x0080 0, PM 0xAC80 0x0300 0, PM 0xAC5E 0x0007 0x0002, PW 0xAD4C 0x00A8, PW 0xAC5C 0x01FF,
      PM 0xAC8A 0x00F0 0x0030, PW 0xB87C 0x8157, PM 0xB87E 0xFF00 0x0500, PW 0xB87C 0x8159,
      PM 0xB87E 0xFF00 0x0700, PW 0xB87C 0x80A2, PW 0xB87E 0x0153, PW 0xB87C 0x809C, PW 0xB87E 0x0153,
      PW 0xA436 0x81B3, PW 0xA438 0x0043, PW 0xA438 0x00A7, PW 0xA438 0x00D6, PW 0xA438 0x00EC,
      PW 0xA438 0x00F6, PW 0xA438 0x00FB, PW 0xA438 0x00FD, PW 0xA438 0x00FF, PW 0xA438 0x00BB,
      PW 0xA438 0x0058, PW 0xA438 0x0029, PW 0xA438 0x0013, PW 0xA438 0x0009, PW 0xA438 0x0004,
      PW 0xA438 0x0002, PW 0xA438 0x0000, PW 0xA438 0x0000, PW 0xA438 0x0000, PW 0xA438 0x0000,
      PW 0xA438 0x0000, PW 0xA438 0x0000, PW 0xA438 0x0000, PW 0xA438 0x0000, PW 0xA438 0x0000,
      PW 0xA438 0x0000, PW 0xA438 0x0000, PW 0xA438 0x0000, PW 0xA438 0x0000, PW 0xA438 0x0000,
      PW 0xA438 0x0000, PW 0xA438 0x0000, PW 0xA438 0x0000, PW 0xA438 0x0000, PW 0xA438 0x0000,
      PW 0xA438 0x0000, PW 0xA438 0x0000, PW 0xA438 0x0000, PW 0xA438 0x0000, PW 0xA438 0x0000,
      PW 0xA438 0x0000, PW 0xA436 0x8257, PW 0xA438 0x020F, PW 0xA436 0x80EA, PW 0xA438 0x7843]"

definition phy_8125a_2_2 :: "phy_op list" where
  "phy_8125a_2_2 = [
      PM 0xB896 0x0001 0, PM 0xB892 0xFF00 0, PW 0xB88E 0xC091, PW 0xB890 0x6E12, PW 0xB88E 0xC092,
      PW 0xB890 0x1214, PW 0xB88E 0xC094, PW 0xB890 0x1516, PW 0xB88E 0xC096, PW 0xB890 0x171B,
      PW 0xB88E 0xC098, PW 0xB890 0x1B1C, PW 0xB88E 0xC09A, PW 0xB890 0x1F1F, PW 0xB88E 0xC09C,
      PW 0xB890 0x2021, PW 0xB88E 0xC09E, PW 0xB890 0x2224, PW 0xB88E 0xC0A0, PW 0xB890 0x2424,
      PW 0xB88E 0xC0A2, PW 0xB890 0x2424, PW 0xB88E 0xC0A4, PW 0xB890 0x2424, PW 0xB88E 0xC018,
      PW 0xB890 0x0AF2, PW 0xB88E 0xC01A, PW 0xB890 0x0D4A, PW 0xB88E 0xC01C, PW 0xB890 0x0F26,
      PW 0xB88E 0xC01E, PW 0xB890 0x118D, PW 0xB88E 0xC020, PW 0xB890 0x14F3, PW 0xB88E 0xC022,
      PW 0xB890 0x175A, PW 0xB88E 0xC024, PW 0xB890 0x19C0, PW 0xB88E 0xC026, PW 0xB890 0x1C26,
      PW 0xB88E 0xC089, PW 0xB890 0x6050, PW 0xB88E 0xC08A, PW 0xB890 0x5F6E, PW 0xB88E 0xC08C,
      PW 0xB890 0x6E6E, PW 0xB88E 0xC08E, PW 0xB890 0x6E6E, PW 0xB88E 0xC090, PW 0xB890 0x6E12,
      PM 0xB896 0 0x0001]"

definition phy_8125a_2_3 :: "phy_op list" where
  "phy_8125a_2_3 = [
      PM 0xD068 0 0x2000, PW 0xA436 0x81A2, PM 0xA438 0 0x0100, PM 0xB54C 0xFF00 0xDB00, PM 0xA454 0x0001 0,
      PM 0xA5D4 0 0x0020, PM 0xAD4E 0x0010 0, PM 0xA86A 0x0001 0, PM 0xA442 0 0x0800]"

definition rtl8125_hw_phy_config_8125a_2 :: "unit hwm" where
  "rtl8125_hw_phy_config_8125a_2 = do {
     phy_seq phy_8125a_2_1;
     do { _ \<leftarrow> rtl8125_set_phy_mcu_patch_request; skip };
     phy_seq phy_8125a_2_2;
     do { _ \<leftarrow> rtl8125_clear_phy_mcu_patch_request; skip };
     phy_seq phy_8125a_2_3;
     phy_mdi_swap;
     phy_aldps_if_l1
   }"

definition phy_8125b_1_1 :: "phy_op list" where
  "phy_8125b_1_1 = [
      PM 0xA442 0 0x0800, PM 0xBC08 0 0x000C]"

definition phy_8125b_1_2 :: "phy_op list" where
  "phy_8125b_1_2 = [
      PW 0xB87C 0x8560, PW 0xB87E 0x19CC, PW 0xB87C 0x8562, PW 0xB87E 0x19CC, PW 0xB87C 0x8564,
      PW 0xB87E 0x19CC, PW 0xB87C 0x8566, PW 0xB87E 0x147D, PW 0xB87C 0x8568, PW 0xB87E 0x147D,
      PW 0xB87C 0x856A, PW 0xB87E 0x147D]"

definition phy_8125b_1_3 :: "phy_op list" where
  "phy_8125b_1_3 = [
      PM 0xACDA 0xFF00 0xFF00, PM 0xACDE 0xF000 0xF000, PW 0xB87C 0x80D6, PW 0xB87E 0x2801, PW 0xB87C 0x80F2,
      PW 0xB87E 0x2801, PW 0xB87C 0x80F4, PW 0xB87E 0x6077, PW 0xB506 0x01E7, PW 0xAC8C 0x0FFC,
      PW 0xAC46 0xB7B4, PW 0xAC50 0x0FBC, PW 0xAC3C 0x9240, PW 0xAC4E 0x0DB4, PW 0xACC6 0x0707,
      PW 0xACC8 0xA0D3, PW 0xAD08 0x0007, PW 0xB87C 0x8013, PW 0xB87E 0x0700, PW 0xB87C 0x8FB9,
      PW 0xB87E 0x2801, PW 0xB87C 0x8FBA, PW 0xB87E 0x0100, PW 0xB87C 0x8FBC, PW 0xB87E 0x1900,
      PW 0xB87C 0x8FBE, PW 0xB87E 0xE100, PW 0xB87C 0x8FC0, PW 0xB87E 0x0800, PW 0xB87C 0x8FC2,
      PW 0xB87E 0xE500, PW 0xB87C 0x8FC4, PW 0xB87E 0x0F00, PW 0xB87C 0x8FC6, PW 0xB87E 0xF100,
      PW 0xB87C 0x8FC8, PW 0xB87E 0x0400, PW 0xB87C 0x8FCA, PW 0xB87E 0xF300, PW 0xB87C 0x8FCC,
      PW 0xB87E 0xFD00, PW 0xB87C 0x8FCE, PW 0xB87E 0xFF00, PW 0xB87C 0x8FD0, PW 0xB87E 0xFB00,
      PW 0xB87C 0x8FD2, PW 0xB87E 0x0100, PW 0xB87C 0x8FD4, PW 0xB87E 0xF400, PW 0xB87C 0x8FD6,
      PW 0xB87E 0xFF00, PW 0xB87C 0x8FD8, PW 0xB87E 0xF600, PW 0xB87C 0x813D, PW 0xB87E 0x390E,
      PW 0xB87C 0x814F, PW 0xB87E 0x790E, PW 0xB87C 0x80B0, PW 0xB87E 0x0F31, PM 0xBF4C 0 0x0002,
      PM 0xBCCA 0 0x0300, PW 0xB87C 0x8141, PW 0xB87E 0x320E, PW 0xB87C 0x8153, PW 0xB87E 0x720E,
      PM 0xA432 0x0040 0, PW 0xB87C 0x8529, PW 0xB87E 0x050E, PW 0xA436 0x816C, PW 0xA438 0xC4A0,
      PW 0xA436 0x8170, PW 0xA438 0xC4A0, PW 0xA436 0x8174, PW 0xA438 0x04A0, PW 0xA436 0x8178,
      PW 0xA438 0x04A0, PW 0xA436 0x817C, PW 0xA438 0x0719]"

definition phy_8125b_1_4 :: "phy_op list" where
  "phy_8125b_1_4 = [
      PW 0xBF4A 0x001B, PW 0xB87C 0x8033, PW 0xB87E 0x7C13, PW 0xB87C 0x8037, PW 0xB87E 0x7C13,
      PW 0xB87C 0x803B, PW 0xB87E 0xFC32, PW 0xB87C 0x803F, PW 0xB87E 0x7C13, PW 0xB87C 0x8043,
      PW 0xB87E 0x7C13, PW 0xB87C 0x8047, PW 0xB87E 0x7C13, PW 0xB87C 0x8145, PW 0xB87E 0x370E,
      PW 0xB87C 0x8157, PW 0xB87E 0x770E, PW 0xB87C 0x8169, PW 0xB87E 0x0D0A, PW 0xB87C 0x817B,
      PW 0xB87E 0x1D0A, PW 0xA436 0x8217, PM 0xA438 0xFF00 0x5000, PW 0xA436 0x821A, PM 0xA438 0xFF00 0x5000,
      PW 0xA436 0x80DA, PW 0xA438 0x0403, PW 0xA436 0x80DC, PM 0xA438 0xFF00 0x1000, PW 0xA436 0x80B3,
      PW 0xA438 0x0384, PW 0xA436 0x80B7, PW 0xA438 0x2007, PW 0xA436 0x80BA, PM 0xA438 0xFF00 0x6C00,
      PW 0xA436 0x80B5, PW 0xA438 0xF009, PW 0xA436 0x80BD, PM 0xA438 0xFF00 0x9F00, PW 0xA436 0x80C7,
      PW 0xA438 0xF083, PW 0xA436 0x80DD, PW 0xA438 0x03F0, PW 0xA436 0x80DF, PM 0xA438 0xFF00 0x1000,
      PW 0xA436 0x80CB, PW 0xA438 0x2007, PW 0xA436 0x80CE, PM 0xA438 0xFF00 0x6C00, PW 0xA436 0x80C9,
      PW 0xA438 0x8009, PW 0xA436 0x80D1, PM 0xA438 0xFF00 0x8000, PW 0xA436 0x80A3, PW 0xA438 0x200A,
      PW 0xA436 0x80A5, PW 0xA438 0xF0AD, PW 0xA436 0x809F, PW 0xA438 0x6073, PW 0xA436 0x80A1,
      PW 0xA438 0x000B, PW 0xA436 0x80A9, PM 0xA438 0xFF00 0xC000]"

definition phy_8125b_1_5 :: "phy_op list" where
  "phy_8125b_1_5 = [
      PM 0xB896 0x0001 0, PM 0xB892 0xFF00 0, PW 0xB88E 0xC23E, PW 0xB890 0x0000, PW 0xB88E 0xC240,
      PW 0xB890 0x0103, PW 0xB88E 0xC242, PW 0xB890 0x0507, PW 0xB88E 0xC244, PW 0xB890 0x090B,
      PW 0xB88E 0xC246, PW 0xB890 0x0C0E, PW 0xB88E 0xC248, PW 0xB890 0x1012, PW 0xB88E 0xC24A,
      PW 0xB890 0x1416, PM 0xB896 0 0x0001]"

definition phy_8125b_1_6 :: "phy_op list" where
  "phy_8125b_1_6 = [
      PM 0xA86A 0 0x0001, PM 0xA6F0 0 0x0001, PW 0xBFA0 0xD70D, PW 0xBFA2 0x4100, PW 0xBFA4 0xE868,
      PW 0xBFA6 0xDC59, PW 0xB54C 0x3C18, PM 0xBFA4 0x0020 0, PW 0xA436 0x817D, PM 0xA438 0 0x1000]"

definition rtl8125_hw_phy_config_8125b_1 :: "unit hwm" where
  "rtl8125_hw_phy_config_8125b_1 = do {
     phy_seq phy_8125b_1_1;
     phy_if_ram [PW 0xA436 0x8FFF, PM 0xA438 0xFF00 0x0400];
     phy_seq phy_8125b_1_2;
     phy_if_ram [PW 0xB87C 0x8FFE, PW 0xB87E 0x0907];
     phy_seq phy_8125b_1_3;
     phy_if_ram [PW 0xA436 0x8FF4, PW 0xA438 0x0400, PW 0xA436 0x8FF1, PW 0xA438 0x0404];
     phy_seq phy_8125b_1_4;
     do { _ \<leftarrow> rtl8125_set_phy_mcu_patch_request; skip };
     phy_seq phy_8125b_1_5;
     do { _ \<leftarrow> rtl8125_clear_phy_mcu_patch_request; skip };
     phy_seq phy_8125b_1_6;
     phy_aldps_if_l1
   }"

definition phy_8125b_2_1 :: "phy_op list" where
  "phy_8125b_2_1 = [
      PM 0xA442 0 0x0800, PM 0xAC46 0x00F0 0x0090, PM 0xAD30 0x0003 0x0001, PW 0xB87C 0x80F5, PW 0xB87E 0x760E,
      PW 0xB87C 0x8107, PW 0xB87E 0x360E, PW 0xB87C 0x8551, PM 0xB87E 0xFF00 0x0800, PM 0xBF00 0xE000 0xA000,
      PM 0xBF46 0x0F00 0x0300, PW 0xA436 0x8044, PW 0xA438 0x2417, PW 0xA436 0x804A, PW 0xA438 0x2417,
      PW 0xA436 0x8050, PW 0xA438 0x2417, PW 0xA436 0x8056, PW 0xA438 0x2417, PW 0xA436 0x805C,
      PW 0xA438 0x2417, PW 0xA436 0x8062, PW 0xA438 0x2417, PW 0xA436 0x8068, PW 0xA438 0x2417,
      PW 0xA436 0x806E, PW 0xA438 0x2417, PW 0xA436 0x8074, PW 0xA438 0x2417, PW 0xA436 0x807A,
      PW 0xA438 0x2417, PM 0xA4CA 0 0x0040, PM 0xBF84 0xE000 0xA000, PW 0xA436 0x8170, PM 0xA438 0x2700 0xD800]"

definition rtl8125_hw_phy_config_8125b_2 :: "unit hwm" where
  "rtl8125_hw_phy_config_8125b_2 = do {
     phy_seq phy_8125b_2_1;
     phy_aldps_if_l1
   }"

definition phy_8125bp_1_1 :: "phy_op list" where
  "phy_8125bp_1_1 = [
      PM 0xA442 0 0x0800, PM 0xA80C 0x4000 0x8C00, PW 0xA436 0x8010, PM 0xA438 0x0800 0, PW 0xB87C 0x8088,
      PM 0xB87E 0xFF00 0x9000, PW 0xB87C 0x808F, PM 0xB87E 0xFF00 0x9000, PW 0xA436 0x8174,
      PM 0xA438 0x2000 0x1800]"

definition rtl8125_hw_phy_config_8125bp_1 :: "unit hwm" where
  "rtl8125_hw_phy_config_8125bp_1 = do {
     phy_seq phy_8125bp_1_1;
     phy_aldps_if_l1
   }"

definition phy_8125bp_2_1 :: "phy_op list" where
  "phy_8125bp_2_1 = [
      PM 0xA442 0 0x0800, PW 0xA436 0x8010, PM 0xA438 0x0800 0, PW 0xB87C 0x8088, PM 0xB87E 0xFF00 0x9000,
      PW 0xB87C 0x808F, PM 0xB87E 0xFF00 0x9000, PW 0xA436 0x8174, PM 0xA438 0x2000 0x1800]"

definition rtl8125_hw_phy_config_8125bp_2 :: "unit hwm" where
  "rtl8125_hw_phy_config_8125bp_2 = do {
     phy_seq phy_8125bp_2_1;
     phy_aldps_if_l1
   }"

definition phy_8125cp_1_1 :: "phy_op list" where
  "phy_8125cp_1_1 = [
      PM 0xA442 0 0x0800, PM 0xAD0E 0x007F 0x000B, PM 0xAD78 0 0x0010, PW 0xA436 0x81B8, PW 0xA438 0x00B4,
      PW 0xA436 0x81BA, PW 0xA438 0x00E4, PW 0xA436 0x81C5, PW 0xA438 0x0104, PW 0xA436 0x81D0, PW 0xA438 0x054D]"

definition rtl8125_hw_phy_config_8125cp_1 :: "unit hwm" where
  "rtl8125_hw_phy_config_8125cp_1 = do {
     rtl8125_tgphy_irq_mask_and_ack;
     phy_seq phy_8125cp_1_1;
     phy_aldps_if_l1
   }"

definition phy_8125d_1_1 :: "phy_op list" where
  "phy_8125d_1_1 = [
      PM 0xA442 0 0x0800]"

definition phy_8125d_1_2 :: "phy_op list" where
  "phy_8125d_1_2 = [
      PM 0xBF96 0 0x8000, PM 0xBF94 0x0007 0x0005, PM 0xBF8E 0x3C00 0x2800, PM 0xBCD8 0xC000 0x4000,
      PM 0xBCD8 0 0xC000, PM 0xBCD8 0xC000 0x4000, PM 0xBC80 0x001F 0x0004, PM 0xBC82 0 0xE000,
      PM 0xBC82 0 0x1C00, PM 0xBC80 0x001F 0x0005, PM 0xBC82 0x00E0 0x0040, PM 0xBC82 0 0x001C,
      PM 0xBCD8 0xC000 0, PM 0xBCD8 0xC000 0x8000, PM 0xBCD8 0xC000 0, PM 0xBD70 0x0100 0, PM 0xA466 0 0x0002,
      PW 0xA436 0x836A, PM 0xA438 0xFF00 0]"

definition phy_8125d_1_3 :: "phy_op list" where
  "phy_8125d_1_3 = [
      PW 0xB87C 0x832C, PM 0xB87E 0xFF00 0x0500, PM 0xB106 0x0700 0x0100, PM 0xB206 0x0700 0x0200,
      PM 0xB306 0x0700 0x0300, PW 0xB87C 0x80CB, PM 0xB87E 0xFF00 0x0300, PW 0xBCF4 0x0000, PW 0xBCF6 0x0000,
      PW 0xBC12 0x0000, PW 0xB87C 0x844D, PM 0xB87E 0xFF00 0x0200]"

definition phy_8125d_1_4 :: "phy_op list" where
  "phy_8125d_1_4 = [
      PM 0xAC7E 0x01FC 0x00B4, PW 0xB87C 0x8105, PM 0xB87E 0xFF00 0x7A00, PW 0xB87C 0x8117,
      PM 0xB87E 0xFF00 0x3A00, PW 0xB87C 0x8103, PM 0xB87E 0xFF00 0x7400, PW 0xB87C 0x8115,
      PM 0xB87E 0xFF00 0x3400, PM 0xAD40 0x0030 0, PM 0xAD66 0x000F 0x0007, PM 0xAD68 0xF000 0x8000,
      PM 0xAD68 0x0F00 0x0500, PM 0xAD68 0x000F 0x0002, PM 0xAD6A 0xF000 0x7000, PW 0xAC50 0x01E8,
      PW 0xA436 0x81FA, PM 0xA438 0xFF00 0x5400, PM 0xA864 0x00F0 0x00C0, PM 0xA42C 0x00FF 0x0002,
      PW 0xA436 0x80E1, PM 0xA438 0xFF00 0x0F00, PW 0xA436 0x80DE, PM 0xA438 0xF000 0x0700, PM 0xA846 0 0x0080,
      PW 0xA436 0x80BA, PW 0xA438 0x8A04, PW 0xA436 0x80BD, PM 0xA438 0xFF00 0xCA00, PW 0xA436 0x80B7,
      PM 0xA438 0xFF00 0xB300, PW 0xA436 0x80CE, PW 0xA438 0x8A04, PW 0xA436 0x80D1, PM 0xA438 0xFF00 0xCA00,
      PW 0xA436 0x80CB, PM 0xA438 0xFF00 0xBB00, PW 0xA436 0x80A6, PW 0xA438 0x4909, PW 0xA436 0x80A8,
      PW 0xA438 0x05B8, PW 0xA436 0x8200, PM 0xA438 0xFF00 0x5800, PW 0xA436 0x8FF1, PW 0xA438 0x7078,
      PW 0xA436 0x8FF3, PW 0xA438 0x5D78, PW 0xA436 0x8FF5, PW 0xA438 0x7862, PW 0xA436 0x8FF7,
      PM 0xA438 0xFF00 0x1400]"

definition phy_8125d_1_5 :: "phy_op list" where
  "phy_8125d_1_5 = [
      PM 0xBC3A 0x000F 0x0006, PW 0xA436 0x8064, PM 0xA438 0x0700 0, PW 0xA436 0x8067, PM 0xA438 0x0700 0,
      PW 0xA436 0x806A, PM 0xA438 0x0700 0, PW 0xA436 0x806D, PM 0xA438 0x0700 0, PW 0xA436 0x8070,
      PM 0xA438 0x0700 0, PW 0xA436 0x8073, PM 0xA438 0x0700 0, PW 0xA436 0x8076, PM 0xA438 0x0700 0,
      PW 0xA436 0x8079, PM 0xA438 0x0700 0, PW 0xA436 0x807C, PM 0xA438 0x0700 0, PW 0xA436 0x807F,
      PM 0xA438 0x0700 0, PM 0xBFA0 0xFF70 0x5500, PW 0xBFA2 0x9D00, PW 0xA436 0x8165, PM 0xA438 0x0700 0x0200]"

definition phy_8125d_1_6 :: "phy_op list" where
  "phy_8125d_1_6 = [
      PW 0xA436 0x8018, PM 0xA438 0xFF00 0x1700]"

definition phy_8125d_1_7 :: "phy_op list" where
  "phy_8125d_1_7 = [
      PM 0xA4E0 0x8000 0, PM 0xA5D4 0x0020 0, PM 0xA654 0x0800 0, PM 0xA430 0 0x1001, PM 0xA442 0 0x0080]"

definition rtl8125_hw_phy_config_8125d_1 :: "unit hwm" where
  "rtl8125_hw_phy_config_8125d_1 = do {
     phy_seq phy_8125d_1_1;
     do { _ \<leftarrow> rtl8125_set_phy_mcu_patch_request; skip };
     phy_seq phy_8125d_1_2;
     do { _ \<leftarrow> rtl8125_clear_phy_mcu_patch_request; skip };
     phy_seq phy_8125d_1_3;
     phy_if_ram [PW 0xB87C 0x8FEB, PM 0xB87E 0xFF00 0x0100, PW 0xB87C 0x8FE9, PM 0xB87E 0xFF00 0x0600];
     phy_seq phy_8125d_1_4;
     phy_if_ram [PW 0xA436 0x814C, PW 0xA438 0x8455, PW 0xA436 0x814E, PW 0xA438 0x84A6, PW 0xA436 0x8163, PM 0xA438 0xFF00 0x0600, PW 0xA436 0x816A, PM 0xA438 0xFF00 0x0500, PW 0xA436 0x8171, PM 0xA438 0xFF00 0x1F00];
     phy_seq phy_8125d_1_5;
     phy_if_ram [PW 0xA436 0x8019, PM 0xA438 0 0x0100, PW 0xA436 0x8FE3, PW 0xA438 0x0005, PW 0xA438 0x0000, PW 0xA438 0x00ED, PW 0xA438 0x0502, PW 0xA438 0x0B00, PW 0xA438 0xD401, PM 0xA438 0xFF00 0x2900];
     phy_seq phy_8125d_1_6;
     phy_if_ram [PW 0xA436 0x815B, PM 0xA438 0xFF00 0x1700];
     phy_seq phy_8125d_1_7;
     phy_aldps_if_l1
   }"

definition phy_8125d_2_1 :: "phy_op list" where
  "phy_8125d_2_1 = [
      PM 0xA442 0 0x0800]"

definition phy_8125d_2_2 :: "phy_op list" where
  "phy_8125d_2_2 = [
      PM 0xBCD8 0xC000 0x4000, PM 0xBCD8 0 0xC000, PM 0xBCD8 0xC000 0x4000, PM 0xBC80 0x001F 0x0004,
      PM 0xBC82 0 0xE000, PM 0xBC82 0 0x1C00, PM 0xBC80 0x001F 0x0005, PM 0xBC82 0x00E0 0x0040,
      PM 0xBC82 0 0x001C, PM 0xBCD8 0xC000 0, PM 0xBCD8 0xC000 0x8000, PM 0xBCD8 0xC000 0]"

definition phy_8125d_2_3 :: "phy_op list" where
  "phy_8125d_2_3 = [
      PM 0xAC7E 0x01FC 0x00B4, PW 0xB87C 0x8105, PM 0xB87E 0xFF00 0x7A00, PW 0xB87C 0x8117,
      PM 0xB87E 0xFF00 0x3A00, PW 0xB87C 0x8103, PM 0xB87E 0xFF00 0x7400, PW 0xB87C 0x8115,
      PM 0xB87E 0xFF00 0x3400, PW 0xB87C 0x8FEB, PM 0xB87E 0xFF00 0x0500, PW 0xB87C 0x8FEA,
      PM 0xB87E 0xFF00 0x0700, PW 0xB87C 0x80D6, PM 0xB87E 0xFF00 0xEF00, PM 0xA5D4 0x0020 0,
      PM 0xA654 0x0800 0, PM 0xA448 0x0400 0, PM 0xA586 0x0400 0, PM 0xA430 0 0x1001, PM 0xA442 0 0x0080]"

definition rtl8125_hw_phy_config_8125d_2 :: "unit hwm" where
  "rtl8125_hw_phy_config_8125d_2 = do {
     phy_seq phy_8125d_2_1;
     do { _ \<leftarrow> rtl8125_set_phy_mcu_patch_request; skip };
     phy_seq phy_8125d_2_2;
     do { _ \<leftarrow> rtl8125_clear_phy_mcu_patch_request; skip };
     phy_seq phy_8125d_2_3;
     phy_aldps_if_l1
   }"

definition phy_8126a_1_1 :: "phy_op list" where
  "phy_8126a_1_1 = [
      PM 0xA442 0 0x0800]"

definition rtl8126_hw_phy_config_8126a_1 :: "unit hwm" where
  "rtl8126_hw_phy_config_8126a_1 = do {
     phy_seq phy_8126a_1_1;
     phy_aldps_if_l1
   }"

definition phy_8126a_2_1 :: "phy_op list" where
  "phy_8126a_2_1 = [
      PM 0xA442 0 0x0800, PW 0xA436 0x80BF, PM 0xA438 0xFF00 0xED00, PW 0xA436 0x80CD, PM 0xA438 0xFF00 0x1000,
      PW 0xA436 0x80D1, PM 0xA438 0xFF00 0xC800, PW 0xA436 0x80D4, PM 0xA438 0xFF00 0xC800, PW 0xA436 0x80E1,
      PW 0xA438 0x10CC, PW 0xA436 0x80E5, PW 0xA438 0x4F0C, PW 0xA436 0x8387, PM 0xA438 0xFF00 0x4700,
      PM 0xA80C 0x00C0 0x0080, PM 0xAC90 0x0010 0, PM 0xAD2C 0x8000 0, PW 0xB87C 0x8321,
      PM 0xB87E 0xFF00 0x1100, PM 0xACF8 0 0x000C, PW 0xA436 0x8183, PM 0xA438 0xFF00 0x5900,
      PM 0xAD94 0 0x0020, PM 0xA654 0x0800 0, PM 0xB648 0 0x4000, PW 0xB87C 0x839E, PM 0xB87E 0xFF00 0x2F00,
      PW 0xB87C 0x83F2, PM 0xB87E 0xFF00 0x0800, PM 0xADA0 0 0x0002, PW 0xB87C 0x80F3, PM 0xB87E 0xFF00 0x9900,
      PW 0xB87C 0x8126, PM 0xB87E 0xFF00 0xC100, PW 0xB87C 0x893A, PW 0xB87E 0x8080, PW 0xB87C 0x8647,
      PM 0xB87E 0xFF00 0xE600, PW 0xB87C 0x862C, PM 0xB87E 0xFF00 0x1200, PW 0xB87C 0x864A,
      PM 0xB87E 0xFF00 0xE600, PW 0xB87C 0x80A0, PW 0xB87E 0xBCBC, PW 0xB87C 0x805E, PW 0xB87E 0xBCBC,
      PW 0xB87C 0x8056, PW 0xB87E 0x3077, PW 0xB87C 0x8058, PM 0xB87E 0xFF00 0x5A00, PW 0xB87C 0x8098,
      PW 0xB87E 0x3077, PW 0xB87C 0x809A, PM 0xB87E 0xFF00 0x5A00, PW 0xB87C 0x8052, PW 0xB87E 0x3733,
      PW 0xB87C 0x8094, PW 0xB87E 0x3733, PW 0xB87C 0x807F, PW 0xB87E 0x7C75, PW 0xB87C 0x803D,
      PW 0xB87E 0x7C75, PW 0xB87C 0x8036, PM 0xB87E 0xFF00 0x3000, PW 0xB87C 0x8078, PM 0xB87E 0xFF00 0x3000,
      PW 0xB87C 0x8031]"

definition phy_8126a_2_2 :: "phy_op list" where
  "phy_8126a_2_2 = [
      PM 0xB87E 0xFF00 0x3300, PW 0xB87C 0x8073, PM 0xB87E 0xFF00 0x3300, PM 0xAE06 0xFC00 0x7C00,
      PW 0xB87C 0x89D1, PW 0xB87E 0x0004, PW 0xA436 0x8FBD, PM 0xA438 0xFF00 0x0A00, PW 0xA436 0x8FBE,
      PW 0xA438 0x0D09, PW 0xB87C 0x89CD, PW 0xB87E 0x0F0F, PW 0xB87C 0x89CF, PW 0xB87E 0x0F0F,
      PW 0xB87C 0x83A4, PW 0xB87E 0x6600, PW 0xB87C 0x83A6, PW 0xB87E 0x6601, PW 0xB87C 0x83C0,
      PW 0xB87E 0x6600, PW 0xB87C 0x83C2, PW 0xB87E 0x6601, PW 0xB87C 0x8414, PW 0xB87E 0x6600,
      PW 0xB87C 0x8416, PW 0xB87E 0x6601, PW 0xB87C 0x83F8, PW 0xB87E 0x6600, PW 0xB87C 0x83FA, PW 0xB87E 0x6601]"

definition phy_8126a_2_3 :: "phy_op list" where
  "phy_8126a_2_3 = [
      PM 0xBD96 0x1F00 0x1000, PM 0xBF1C 0x0007 0x0007, PM 0xBFBE 0x8000 0, PM 0xBF40 0x0380 0x0280,
      PM 0xBF90 0x0080 0x0060, PM 0xBF90 0x0010 0x000C]"

definition phy_8126a_2_4 :: "phy_op list" where
  "phy_8126a_2_4 = [
      PW 0xA436 0x843B, PM 0xA438 0xFF00 0x2000, PW 0xA436 0x843D, PM 0xA438 0xFF00 0x2000, PM 0xB516 0x007F 0,
      PM 0xBF80 0x0030 0, PW 0xA436 0x8188, PW 0xA438 0x0044, PW 0xA438 0x00A8, PW 0xA438 0x00D6,
      PW 0xA438 0x00EC, PW 0xA438 0x00F6, PW 0xA438 0x00FC, PW 0xA438 0x00FE, PW 0xA438 0x00FE,
      PW 0xA438 0x00BC, PW 0xA438 0x0058, PW 0xA438 0x002A, PW 0xB87C 0x8015, PM 0xB87E 0xFF00 0x0800,
      PW 0xB87C 0x8FFD, PM 0xB87E 0xFF00 0x0000, PW 0xB87C 0x8FFF, PM 0xB87E 0xFF00 0x7F00, PW 0xB87C 0x8FFB,
      PM 0xB87E 0xFF00 0x0100, PW 0xB87C 0x8FE9, PW 0xB87E 0x0002, PW 0xB87C 0x8FEF, PW 0xB87E 0x00A5,
      PW 0xB87C 0x8FF1, PW 0xB87E 0x0106, PW 0xB87C 0x8FE1, PW 0xB87E 0x0102, PW 0xB87C 0x8FE3,
      PM 0xB87E 0xFF00 0x0400, PM 0xA654 0 0x0800, PM 0xA65A 0x0003 0, PW 0xAC3A 0x5851,
      PM 0xAC3C 0xD000 0x2000, PM 0xAC42 0x0200 0x01C0, PM 0xAC3E 0xE000 0, PM 0xAC42 0x0038 0,
      PM 0xAC42 0x0002 0x0005, PW 0xAC1A 0x00DB, PW 0xADE4 0x01B5, PM 0xAD9C 0x0C00 0, PW 0xB87C 0x814B,
      PM 0xB87E 0xFF00 0x1100, PW 0xB87C 0x814D, PM 0xB87E 0xFF00 0x1100, PW 0xB87C 0x814F,
      PM 0xB87E 0xFF00 0x0B00, PW 0xB87C 0x8142, PM 0xB87E 0xFF00 0x0100, PW 0xB87C 0x8144,
      PM 0xB87E 0xFF00 0x0100, PW 0xB87C 0x8150, PM 0xB87E 0xFF00 0x0100, PW 0xB87C 0x8118,
      PM 0xB87E 0xFF00 0x0700, PW 0xB87C 0x811A, PM 0xB87E 0xFF00 0x0700, PW 0xB87C 0x811C,
      PM 0xB87E 0xFF00 0x0500, PW 0xB87C 0x810F]"

definition phy_8126a_2_5 :: "phy_op list" where
  "phy_8126a_2_5 = [
      PM 0xB87E 0xFF00 0x0100, PW 0xB87C 0x8111, PM 0xB87E 0xFF00 0x0100, PW 0xB87C 0x811D,
      PM 0xB87E 0xFF00 0x0100, PM 0xAC36 0 0x1000, PM 0xAD1C 0x0100 0, PM 0xADE8 0xFFC0 0x1400,
      PW 0xB87C 0x864B, PM 0xB87E 0xFF00 0x9D00, PW 0xA436 0x8F97, PW 0xA438 0x003F, PW 0xA438 0x3F02,
      PW 0xA438 0x023C, PW 0xA438 0x3B0A, PW 0xA438 0x1C00, PW 0xA438 0x0000, PW 0xA438 0x0000,
      PW 0xA438 0x0000, PW 0xA438 0x0000, PM 0xAD9C 0 0x0020, PW 0xB87C 0x8122, PM 0xB87E 0xFF00 0x0C00,
      PW 0xB87C 0x82C8, PW 0xB87E 0x03ED, PW 0xB87E 0x03FF, PW 0xB87E 0x0009, PW 0xB87E 0x03FE,
      PW 0xB87E 0x000B, PW 0xB87E 0x0021, PW 0xB87E 0x03F7, PW 0xB87E 0x03B8, PW 0xB87E 0x03E0,
      PW 0xB87E 0x0049, PW 0xB87E 0x0049, PW 0xB87E 0x03E0, PW 0xB87E 0x03B8, PW 0xB87E 0x03F7,
      PW 0xB87E 0x0021, PW 0xB87E 0x000B, PW 0xB87E 0x03FE, PW 0xB87E 0x0009, PW 0xB87E 0x03FF,
      PW 0xB87E 0x03ED, PW 0xB87C 0x80EF, PM 0xB87E 0xFF00 0x0C00, PW 0xB87C 0x82A0, PW 0xB87E 0x000E,
      PW 0xB87E 0x03FE, PW 0xB87E 0x03ED, PW 0xB87E 0x0006, PW 0xB87E 0x001A, PW 0xB87E 0x03F1,
      PW 0xB87E 0x03D8, PW 0xB87E 0x0023, PW 0xB87E 0x0054, PW 0xB87E 0x0322, PW 0xB87E 0x00DD,
      PW 0xB87E 0x03AB, PW 0xB87E 0x03DC, PW 0xB87E 0x0027, PW 0xB87E 0x000E, PW 0xB87E 0x03E5,
      PW 0xB87E 0x03F9, PW 0xB87E 0x0012, PW 0xB87E 0x0001, PW 0xB87E 0x03F1, PW 0xA436 0x8018,
      PM 0xA438 0 0x2000, PW 0xB87C 0x8FE4, PM 0xB87E 0xFF00 0x0000, PM 0xB54C 0xFFC0 0x3700]"

definition rtl8126_hw_phy_config_8126a_2 :: "unit hwm" where
  "rtl8126_hw_phy_config_8126a_2 = do {
     phy_seq phy_8126a_2_1;
     phy_seq phy_8126a_2_2;
     do { _ \<leftarrow> rtl8125_set_phy_mcu_patch_request; skip };
     phy_seq phy_8126a_2_3;
     do { _ \<leftarrow> rtl8125_clear_phy_mcu_patch_request; skip };
     phy_seq phy_8126a_2_4;
     phy_seq phy_8126a_2_5;
     phy_aldps_if_l1
   }"

definition phy_8126a_3_1 :: "phy_op list" where
  "phy_8126a_3_1 = [
      PM 0xA442 0 0x0800, PW 0xA436 0x8183, PM 0xA438 0xFF00 0x5900, PM 0xA654 0 0x0800, PM 0xB648 0 0x4000,
      PM 0xAD2C 0 0x8000, PM 0xAD94 0 0x0020, PM 0xADA0 0 0x0002, PM 0xAE06 0xFC00 0x7C00, PW 0xB87C 0x8647,
      PM 0xB87E 0xFF00 0xE600, PW 0xB87C 0x8036, PM 0xB87E 0xFF00 0x3000, PW 0xB87C 0x8078,
      PM 0xB87E 0xFF00 0x3000, PW 0xB87C 0x89E9, PM 0xB87E 0 0xFF00, PW 0xB87C 0x8FFD, PM 0xB87E 0xFF00 0x0100,
      PW 0xB87C 0x8FFE, PM 0xB87E 0xFF00 0x0200, PW 0xB87C 0x8FFF, PM 0xB87E 0xFF00 0x0400, PW 0xA436 0x8018,
      PM 0xA438 0xFF00 0x7700, PW 0xA436 0x8F9C, PW 0xA438 0x0005, PW 0xA438 0x0000, PW 0xA438 0x00ED,
      PW 0xA438 0x0502, PW 0xA438 0x0B00, PW 0xA438 0xD401, PW 0xA436 0x8FA8, PM 0xA438 0xFF00 0x2900,
      PW 0xB87C 0x814B, PM 0xB87E 0xFF00 0x1100, PW 0xB87C 0x814D, PM 0xB87E 0xFF00 0x1100, PW 0xB87C 0x814F,
      PM 0xB87E 0xFF00 0x0B00, PW 0xB87C 0x8142, PM 0xB87E 0xFF00 0x0100, PW 0xB87C 0x8144,
      PM 0xB87E 0xFF00 0x0100, PW 0xB87C 0x8150, PM 0xB87E 0xFF00 0x0100, PW 0xB87C 0x8118,
      PM 0xB87E 0xFF00 0x0700, PW 0xB87C 0x811A, PM 0xB87E 0xFF00 0x0700, PW 0xB87C 0x811C,
      PM 0xB87E 0xFF00 0x0500, PW 0xB87C 0x810F, PM 0xB87E 0xFF00 0x0100, PW 0xB87C 0x8111,
      PM 0xB87E 0xFF00 0x0100, PW 0xB87C 0x811D, PM 0xB87E 0xFF00 0x0100, PM 0xAD1C 0 0x0100]"

definition phy_8126a_3_2 :: "phy_op list" where
  "phy_8126a_3_2 = [
      PM 0xADE8 0xFFC0 0x1400, PW 0xB87C 0x864B, PM 0xB87E 0xFF00 0x9D00, PW 0xB87C 0x862C,
      PM 0xB87E 0xFF00 0x1200, PW 0xA436 0x8566, PW 0xA438 0x003F, PW 0xA438 0x3F02, PW 0xA438 0x023C,
      PW 0xA438 0x3B0A, PW 0xA438 0x1C00, PW 0xA438 0x0000, PW 0xA438 0x0000, PW 0xA438 0x0000,
      PW 0xA438 0x0000, PM 0xAD9C 0 0x0020, PW 0xB87C 0x8122, PM 0xB87E 0xFF00 0x0C00, PW 0xB87C 0x82C8,
      PW 0xB87E 0x03ED, PW 0xB87E 0x03FF, PW 0xB87E 0x0009, PW 0xB87E 0x03FE, PW 0xB87E 0x000B,
      PW 0xB87E 0x0021, PW 0xB87E 0x03F7, PW 0xB87E 0x03B8, PW 0xB87E 0x03E0, PW 0xB87E 0x0049,
      PW 0xB87E 0x0049, PW 0xB87E 0x03E0, PW 0xB87E 0x03B8, PW 0xB87E 0x03F7, PW 0xB87E 0x0021,
      PW 0xB87E 0x000B, PW 0xB87E 0x03FE, PW 0xB87E 0x0009, PW 0xB87E 0x03FF, PW 0xB87E 0x03ED,
      PW 0xB87C 0x80EF, PM 0xB87E 0xFF00 0x0C00, PW 0xB87C 0x82A0, PW 0xB87E 0x000E, PW 0xB87E 0x03FE,
      PW 0xB87E 0x03ED, PW 0xB87E 0x0006, PW 0xB87E 0x001A, PW 0xB87E 0x03F1, PW 0xB87E 0x03D8,
      PW 0xB87E 0x0023, PW 0xB87E 0x0054, PW 0xB87E 0x0322, PW 0xB87E 0x00DD, PW 0xB87E 0x03AB,
      PW 0xB87E 0x03DC, PW 0xB87E 0x0027, PW 0xB87E 0x000E, PW 0xB87E 0x03E5, PW 0xB87E 0x03F9,
      PW 0xB87E 0x0012, PW 0xB87E 0x0001, PW 0xB87E 0x03F1, PM 0xA430 0 0x0003, PM 0xB54C 0xFFC0 0x3700,
      PM 0xB648 0 0x0040, PW 0xB87C 0x8082, PM 0xB87E 0xFF00 0x5D00, PW 0xB87C 0x807C, PM 0xB87E 0xFF00 0x5000,
      PW 0xB87C 0x809D, PM 0xB87E 0xFF00 0x5000]"

definition rtl8126_hw_phy_config_8126a_3 :: "unit hwm" where
  "rtl8126_hw_phy_config_8126a_3 = do {
     phy_seq phy_8126a_3_1;
     phy_seq phy_8126a_3_2;
     phy_aldps_if_l1
   }"

definition phy_8127a_tc_1_1 :: "phy_op list" where
  "phy_8127a_tc_1_1 = [
      PM 0xA442 0 0x0800, PW 0xA436 0x815E, PM 0xA438 0xFF00 0x8600, PW 0xA436 0x8169, PM 0xA438 0xFF00 0x8600,
      PW 0xA436 0x8174, PM 0xA438 0xFF00 0xA100, PW 0xA436 0x83BF, PM 0xA438 0xFF00 0x5A00, PW 0xA436 0x83C5,
      PM 0xA438 0xFF00 0x5A00, PW 0xA436 0x83CB, PM 0xA438 0xFF00 0x8B00, PW 0xB87C 0x8238,
      PM 0xB87E 0xC000 0x4000, PW 0xB87C 0x823A, PM 0xB87E 0xFF00 0xA000, PW 0xA436 0x8148,
      PM 0xA438 0xFF00 0x0100, PW 0xA436 0x84AD, PM 0xA438 0xFF00 0x0C00, PW 0xA436 0x84B2,
      PM 0xA438 0xFF00 0x0800, PW 0xA436 0x84B7, PM 0xA438 0xFF00 0x1400, PW 0xA436 0x84BC, PW 0xA438 0x0040,
      PW 0xA436 0x84C0, PW 0xA438 0x00D6, PW 0xA436 0x84BE, PW 0xA438 0x00A0, PW 0xA436 0x84AE,
      PW 0xA438 0x0C0C, PW 0xA436 0x84B0, PW 0xA438 0x0C0C, PW 0xBD7A 0xAAAA, PW 0xBCE0 0x6666,
      PW 0xB87C 0x85FC, PW 0xB87E 0x0AAA, PW 0xB87C 0x85FF, PW 0xB87E 0x0AAA, PM 0xAC32 0x0008 0,
      PM 0xAC32 0x0800 0, PM 0xADDC 0x3FFF 0x2000, PW 0xB87C 0x8111, PM 0xB87E 0x0F00 0x0F00, PW 0xB87C 0x80E9,
      PM 0xB87E 0x0F00 0x0F00, PM 0xAEC4 0xFF00 0x4600, PM 0xAC56 0x0007 0x0005, PW 0xB87C 0x825B,
      PM 0xB87E 0x0F00 0x0D00, PW 0xB87C 0x8283, PW 0xB87E 0x0334, PW 0xB87C 0x8289, PM 0xB87E 0xFF00 0x5600,
      PW 0xADB8 0x0190, PM 0xAE3A 0x00FF 0x0026, PM 0xAE4A 0x0FF0 0x0150, PM 0xAEC2 0 0x1000, PW 0xAE22 0x0352]"

definition phy_8127a_tc_1_2 :: "phy_op list" where
  "phy_8127a_tc_1_2 = [
      PW 0xAEC0 0x00FA, PW 0xB87C 0x8188, PM 0xB87E 0xFF00 0xF500, PW 0xB87C 0x8203, PM 0xB87E 0xFF00 0xF500,
      PW 0xB87C 0x827E, PM 0xB87E 0xFF00 0xF500, PW 0xB87C 0x81CB, PM 0xB87E 0xFF00 0x1000, PW 0xB87C 0x8246,
      PM 0xB87E 0xFF00 0x1000, PW 0xB87C 0x818A, PM 0xB87E 0xFF00 0xF500, PW 0xB87C 0x8205,
      PM 0xB87E 0xFF00 0xF500, PW 0xB87C 0x8280, PM 0xB87E 0xFF00 0xF500, PW 0xB87C 0x83DD, PM 0xB87E 0 0x0200,
      PW 0xB87C 0x840B, PM 0xB87E 0 0x0200, PW 0xA436 0x83BC, PM 0xA438 0 0x0400, PW 0xA436 0x83BE,
      PM 0xA438 0 0x0400, PW 0xA436 0x83C0, PM 0xA438 0x0700 0x0400, PW 0xA436 0x83C2, PM 0xA438 0 0x0400,
      PW 0xA436 0x83C4, PM 0xA438 0 0x0400, PW 0xA436 0x83C6, PM 0xA438 0x0700 0x0400, PW 0xA436 0x84C2,
      PW 0xA438 0xFEFF, PW 0xA436 0x84C4, PW 0xA438 0x0003, PW 0xA436 0x84C6, PW 0xA438 0x0116,
      PW 0xA436 0x84C8, PM 0xA438 0xFF00 0x6300, PW 0xB87C 0x822A, PW 0xB87E 0x4FFF, PW 0xB87C 0x81AF,
      PW 0xB87E 0x4067, PW 0xB87C 0x8134, PW 0xB87E 0x5069, PW 0xB87C 0x822C, PM 0xB87E 0xFF00 0x1A00,
      PW 0xB87C 0x81B1, PM 0xB87E 0xFF00 0x3A00, PW 0xB87C 0x8136, PM 0xB87E 0xFF00 0x5000, PW 0xB87C 0x810E,
      PM 0xB87E 0xF000 0x9000, PW 0xB87C 0x8114, PM 0xB87E 0xF000 0x9000, PM 0xB63C 0x0200 0, PW 0xB87C 0x80B4,
      PW 0xB87E 0xB63B, PW 0xB87C 0x80E4, PM 0xB87E 0x0F00 0x0700, PW 0xB87C 0x80E5, PM 0xB87E 0xF000 0x7000,
      PW 0xB87C 0x80EA, PM 0xB87E 0x0F00 0x0500, PW 0xB87C 0x80EB, PM 0xB87E 0xF000 0x5000]"

definition phy_8127a_tc_1_3 :: "phy_op list" where
  "phy_8127a_tc_1_3 = [
      PW 0xB87C 0x8291, PW 0xB87E 0x0416, PW 0xB87C 0x8015, PM 0xB87E 0 0x0800, PW 0xB87C 0x895E,
      PW 0xB87E 0x01A0, PW 0xB87C 0x8960, PW 0xB87E 0x01A0, PW 0xB87C 0x826B, PW 0xB87E 0xF0AF,
      PW 0xB87C 0x81F0, PW 0xB87E 0xF0AF, PW 0xB87C 0x8175, PW 0xB87E 0xF0AF, PW 0xB87C 0x826D,
      PM 0xB87E 0x0F00 0x0100, PW 0xB87C 0x81F2, PM 0xB87E 0x0F00 0x0100, PW 0xB87C 0x8177,
      PM 0xB87E 0x0F00 0x0100, PM 0xAC1C 0x0180 0, PM 0xAC1E 0x3000 0, PW 0xAD96 0xAAFF,
      PM 0xAD98 0x00FF 0x00AA, PM 0xAE38 0x3FFF 0x2554, PM 0xAE3A 0xF000 0xA000, PW 0xB87C 0x8932,
      PM 0xB87E 0x0F00 0x0900, PW 0xB87C 0x892F, PM 0xB87E 0x0F00 0x0900, PW 0xB87C 0x892C,
      PM 0xB87E 0x0F00 0x0900, PW 0xB87C 0x85B6, PM 0xB87E 0 0xFF00, PW 0xB87C 0x85B4, PW 0xB87E 0xFFFF,
      PW 0xB87C 0x8905, PM 0xB87E 0xFF00 0, PW 0xB87C 0x8853, PM 0xB87E 0xFF00 0x2800, PW 0xB87C 0x884B,
      PM 0xB87E 0xFF00 0x3F00, PM 0xBDE6 0x3FFF 0, PM 0xBDE8 0x3FFF 0, PM 0xBF0E 0x0003 0, PW 0xA436 0x8156,
      PM 0xA438 0xFF00 0x1600, PW 0xA436 0x80AB, PM 0xA438 0xFF00 0x7500, PW 0xA436 0x80C3, PW 0xA438 0x090D,
      PW 0xA436 0x80C6, PM 0xA438 0xFF00 0xC600, PW 0xA436 0x80BF, PM 0xA438 0xFF00 0x5500, PW 0xA436 0x8096,
      PM 0xA438 0xFF00 0x4500, PW 0xA436 0x809D, PM 0xA438 0xFF00 0x0200, PW 0xA436 0x809B, PW 0xA438 0xE50A,
      PW 0xA436 0x8099, PW 0xA438 0x9906, PW 0xA436 0x831F, PM 0xA438 0xFF00 0x5000, PM 0xB648 0 0x4000,
      PM 0xA4E0 0x8000 0, PW 0xA436 0x849A, PW 0xA438 0x0004]"

definition phy_8127a_tc_1_4 :: "phy_op list" where
  "phy_8127a_tc_1_4 = [
      PM 0xAC1C 0x0C00 0, PM 0xA42C 0 0x0040, PM 0xACBA 0xFC00 0, PW 0xB87C 0x8122, PM 0xB87E 0xF000 0xC000,
      PW 0xB87C 0x8123, PM 0xB87E 0xF000 0xC000, PW 0xB87C 0x80FA, PM 0xB87E 0xF000 0x2000, PW 0xB87C 0x825B,
      PM 0xB87E 0xF000 0xB000, PW 0xB87C 0x80D2, PM 0xB87E 0xF000 0xD000, PW 0xB87C 0x80D3,
      PM 0xB87E 0xF000 0xD000, PW 0xB87C 0x80C8, PM 0xB87E 0x0F00 0x0200, PW 0xB87C 0x80CA,
      PM 0xB87E 0x0F00 0x0300, PW 0xB87C 0x80E2, PM 0xB87E 0xFF00 0x2300, PW 0xB87C 0x80A9,
      PM 0xB87E 0x0F00 0x0A00, PW 0xB87C 0x80AA, PM 0xB87E 0xF000 0x5000, PW 0xB87C 0x80AB,
      PM 0xB87E 0xF000 0xA000, PW 0xB87C 0x805A, PM 0xB87E 0xF000 0x2000, PW 0xB87C 0x8106, PW 0xB87E 0x40CC,
      PW 0xB87C 0x812C, PW 0xB87E 0x40CC, PW 0xB87C 0x8096, PM 0xB87E 0xFF00 0x7500, PW 0xB87C 0x809C,
      PM 0xB87E 0xFF00 0x6300, PW 0xB87C 0x859E, PM 0xB87E 0xFF00 0x1F00]"

definition rtl8127_hw_phy_config_8127a_tc_1 :: "unit hwm" where
  "rtl8127_hw_phy_config_8127a_tc_1 = do {
     phy_seq phy_8127a_tc_1_1;
     phy_seq phy_8127a_tc_1_2;
     phy_seq phy_8127a_tc_1_3;
     phy_seq phy_8127a_tc_1_4;
     phy_aldps_if_l1
   }"

definition phy_8127a_1_1 :: "phy_op list" where
  "phy_8127a_1_1 = [
      PM 0xA442 0x0800 0, PW 0xA436 0x8415, PM 0xA438 0xFF00 0x9300, PW 0xA436 0x81A3, PM 0xA438 0xFF00 0x0F00,
      PW 0xA436 0x81AE, PM 0xA438 0xFF00 0x0F00, PW 0xA436 0x81B9, PM 0xA438 0xFF00 0xB900, PW 0xB87C 0x83B0,
      PM 0xB87E 0x0E00 0, PW 0xB87C 0x83C5, PM 0xB87E 0x0E00 0, PW 0xB87C 0x83DA, PM 0xB87E 0x0E00 0,
      PW 0xB87C 0x83EF, PM 0xB87E 0x0E00 0, PM 0xBF38 0x01F0 0x0160, PM 0xBF3A 0x001F 0x0014,
      PM 0xBF28 0x6000 0, PM 0xBF2C 0xC000 0, PM 0xBF28 0x1FFF 0x0187, PM 0xBF2A 0x003F 0x0003,
      PW 0xA436 0x8173, PW 0xA438 0x8620, PW 0xA436 0x8175, PW 0xA438 0x8671, PW 0xA436 0x817C,
      PM 0xA438 0 0x2000, PW 0xA436 0x8187, PM 0xA438 0 0x2000, PW 0xA436 0x8192, PM 0xA438 0 0x2000,
      PW 0xA436 0x819D, PM 0xA438 0 0x2000, PW 0xA436 0x81A8, PM 0xA438 0x2000 0, PW 0xA436 0x81B3,
      PM 0xA438 0x2000 0, PW 0xA436 0x81BE, PM 0xA438 0 0x2000, PW 0xA436 0x817D, PM 0xA438 0xFF00 0xA600,
      PW 0xA436 0x8188, PM 0xA438 0xFF00 0xA600, PW 0xA436 0x8193, PM 0xA438 0xFF00 0xA600, PW 0xA436 0x819E,
      PM 0xA438 0xFF00 0xA600, PW 0xA436 0x81A9, PM 0xA438 0xFF00 0x1400, PW 0xA436 0x81B4,
      PM 0xA438 0xFF00 0x1400, PW 0xA436 0x81BF, PM 0xA438 0xFF00 0xA600, PM 0xAEAA 0x0028 0, PW 0xB87C 0x84F0,
      PW 0xB87E 0x201C, PW 0xB87C 0x84F2, PW 0xB87E 0x3117, PW 0xAEC6 0x0000, PW 0xAE20 0xFFFF,
      PW 0xAECE 0xFFFF, PW 0xAED2 0xFFFF, PW 0xAEC8 0x0000, PM 0xAED0 0x0001 0, PW 0xADB8 0x0150,
      PW 0xB87C 0x8197, PM 0xB87E 0xFF00 0x5000, PW 0xB87C 0x8231, PM 0xB87E 0xFF00 0x5000, PW 0xB87C 0x82CB,
      PM 0xB87E 0xFF00 0x5000, PW 0xB87C 0x82CD]"

definition phy_8127a_1_2 :: "phy_op list" where
  "phy_8127a_1_2 = [
      PM 0xB87E 0xFF00 0x5700, PW 0xB87C 0x8233, PM 0xB87E 0xFF00 0x5700, PW 0xB87C 0x8199,
      PM 0xB87E 0xFF00 0x5700, PW 0xB87C 0x815A, PW 0xB87E 0x0150, PW 0xB87C 0x81F4, PW 0xB87E 0x0150,
      PW 0xB87C 0x828E, PW 0xB87E 0x0150, PW 0xB87C 0x81B1, PW 0xB87E 0x0000, PW 0xB87C 0x824B,
      PW 0xB87E 0x0000, PW 0xB87C 0x82E5, PW 0xB87E 0x0000, PW 0xB87C 0x84F7, PM 0xB87E 0xFF00 0x2800,
      PM 0xAEC2 0 0x1000, PW 0xB87C 0x81B3, PM 0xB87E 0xFF00 0xAD00, PW 0xB87C 0x824D, PM 0xB87E 0xFF00 0xAD00,
      PW 0xB87C 0x82E7, PM 0xB87E 0xFF00 0xAD00, PM 0xAE4E 0x000F 0x0001, PW 0xB87C 0x82CE,
      PM 0xB87E 0xF000 0x4000, PW 0xB87C 0x84AC, PW 0xB87E 0x0000, PW 0xB87C 0x84AE, PW 0xB87E 0x0000,
      PW 0xB87C 0x84B0, PW 0xB87E 0xF818, PW 0xB87C 0x84B2, PM 0xB87E 0xFF00 0x6000, PW 0xB87C 0x8FFC,
      PW 0xB87E 0x6008, PW 0xB87C 0x8FFE, PW 0xB87E 0xF450, PW 0xB87C 0x8015, PM 0xB87E 0 0x0200,
      PW 0xB87C 0x8016, PM 0xB87E 0x0800 0, PW 0xB87C 0x8FE6, PM 0xB87E 0xFF00 0x0800, PW 0xB87C 0x8FE4,
      PW 0xB87E 0x2114, PW 0xB87C 0x8647, PW 0xB87E 0xA7B1, PW 0xB87C 0x8649, PW 0xB87E 0xBBCA,
      PW 0xB87C 0x864B, PM 0xB87E 0xFF00 0xDC00, PW 0xB87C 0x8154, PM 0xB87E 0xC000 0x4000, PW 0xB87C 0x8158,
      PM 0xB87E 0xC000 0, PW 0xB87C 0x826C, PW 0xB87E 0xFFFF, PW 0xB87C 0x826E, PW 0xB87E 0xFFFF,
      PW 0xB87C 0x8872, PM 0xB87E 0xFF00 0x0E00, PW 0xA436 0x8012, PM 0xA438 0 0x0800, PW 0xA436 0x8012,
      PM 0xA438 0 0x4000, PM 0xB576 0 0x0001, PW 0xA436 0x834A, PM 0xA438 0xFF00 0x0700, PW 0xB87C 0x8217,
      PM 0xB87E 0x3F00 0x2A00, PW 0xA436 0x81B1, PM 0xA438 0xFF00 0x0B00, PW 0xB87C 0x8FED]"

definition phy_8127a_1_3 :: "phy_op list" where
  "phy_8127a_1_3 = [
      PM 0xB87E 0xFF00 0x4E00, PW 0xB87C 0x88AC, PM 0xB87E 0xFF00 0x2300, PM 0xBF0C 0 0x3800, PW 0xB87C 0x88DE,
      PM 0xB87E 0xFF00 0, PW 0xB87C 0x80B4, PW 0xB87E 0x5195, PW 0xA436 0x8370, PW 0xA438 0x8671,
      PW 0xA436 0x8372, PW 0xA438 0x86C8, PW 0xA436 0x8401, PW 0xA438 0x86C8, PW 0xA436 0x8403,
      PW 0xA438 0x86DA, PW 0xA436 0x8406, PM 0xA438 0x1800 0x1000, PW 0xA436 0x8408, PM 0xA438 0x1800 0x1000,
      PW 0xA436 0x840A, PM 0xA438 0x1800 0x1000, PW 0xA436 0x840C, PM 0xA438 0x1800 0x1000, PW 0xA436 0x840E,
      PM 0xA438 0x1800 0x1000, PW 0xA436 0x8410, PM 0xA438 0x1800 0x1000, PW 0xA436 0x8412,
      PM 0xA438 0x1800 0x1000, PW 0xA436 0x8414, PM 0xA438 0x1800 0x1000, PW 0xA436 0x8416,
      PM 0xA438 0x1800 0x1000, PW 0xA436 0x82BD, PW 0xA438 0x1F40, PM 0xBFB4 0x07FF 0x0328, PW 0xBFB6 0x3E14,
      PW 0xA436 0x81C4, PW 0xA438 0x003B, PW 0xA438 0x0086, PW 0xA438 0x00B7, PW 0xA438 0x00DB,
      PW 0xA438 0x00FE, PW 0xA438 0x00FE, PW 0xA438 0x00FE, PW 0xA438 0x00FE, PW 0xA438 0x00C3,
      PW 0xA438 0x0078, PW 0xA438 0x0047, PW 0xA438 0x0023, PW 0xB87C 0x88D7, PW 0xB87E 0x01A0,
      PW 0xB87C 0x88D9, PW 0xB87E 0x01A0, PW 0xB87C 0x8FFA, PW 0xB87E 0x002A, PW 0xB87C 0x8FEE,
      PW 0xB87E 0xFFDF, PW 0xB87C 0x8FF0, PW 0xB87E 0xFFFF, PW 0xB87C 0x8FF2, PW 0xB87E 0x0A4A,
      PW 0xB87C 0x8FF4, PW 0xB87E 0xAA5A, PW 0xB87C 0x8FF6, PW 0xB87E 0x0A4A, PW 0xB87C 0x8FF8,
      PW 0xB87E 0xAA5A, PW 0xB87C 0x88D5, PM 0xB87E 0xFF00 0x0200, PW 0xA436 0x84BB, PM 0xA438 0xFF00 0x0A00,
      PW 0xA436 0x84C0, PM 0xA438 0xFF00 0x1600, PM 0xA430 0 0x0003]"

definition rtl8127_hw_phy_config_8127a_1 :: "unit hwm" where
  "rtl8127_hw_phy_config_8127a_1 = do {
     rtl8125_tgphy_irq_mask_and_ack;
     phy_seq phy_8127a_1_1;
     phy_seq phy_8127a_1_2;
     phy_seq phy_8127a_1_3;
     phy_aldps_if_l1
   }"

subsection \<open>PHY configuration\<close>

definition rtl8125_set_hw_phy_before_init_phy_mcu :: "unit hwm" where
  "rtl8125_set_hw_phy_before_init_phy_mcu = do {
     m \<leftarrow> tpget tp_mcfg;
     whenM (m = CFG_METHOD_4) (do {
       mdio_direct_write_phy_ocp 0xBF86 0x9000;
       SetEthPhyOcpBit 0xC402 BIT_10;
       ClearEthPhyOcpBit 0xC402 BIT_10;
       _ \<leftarrow> mdio_direct_read_phy_ocp 0xBF86;
       mdio_direct_write_phy_ocp 0xBD86 0x1010;
       mdio_direct_write_phy_ocp 0xBD88 0x1010;
       ClearAndSetEthPhyOcpBit 0xBD4E (BIT_11 OR BIT_10) BIT_11;
       ClearAndSetEthPhyOcpBit 0xBF46 (BIT_11 OR BIT_10 OR BIT_9 OR BIT_8) (BIT_10 OR BIT_9 OR BIT_8)
     })
   }"

definition phy_config :: "mcfg \<Rightarrow> unit hwm" where
  "phy_config m =
    (if m = CFG_METHOD_2 then rtl8125_hw_phy_config_8125a_1
     else if m \<in> {CFG_METHOD_3, CFG_METHOD_6} then rtl8125_hw_phy_config_8125a_2
     else if m = CFG_METHOD_4 then rtl8125_hw_phy_config_8125b_1
     else if m \<in> {CFG_METHOD_5, CFG_METHOD_7} then rtl8125_hw_phy_config_8125b_2
     else if m = CFG_METHOD_8 then rtl8125_hw_phy_config_8125bp_1
     else if m = CFG_METHOD_9 then rtl8125_hw_phy_config_8125bp_2
     else if m = CFG_METHOD_10 then rtl8125_hw_phy_config_8125d_1
     else if m \<in> {CFG_METHOD_11, CFG_METHOD_13} then rtl8125_hw_phy_config_8125d_2
     else if m = CFG_METHOD_12 then rtl8125_hw_phy_config_8125cp_1
     else if m = CFG_METHOD_31 then rtl8126_hw_phy_config_8126a_1
     else if m = CFG_METHOD_32 then rtl8126_hw_phy_config_8126a_2
     else if m = CFG_METHOD_33 then rtl8126_hw_phy_config_8126a_3
     else if m = CFG_METHOD_41 then rtl8127_hw_phy_config_8127a_tc_1
     else if m = CFG_METHOD_42 then rtl8127_hw_phy_config_8127a_1
     else skip)"

definition rtl8125_hw_phy_config :: "(mcfg \<Rightarrow> unit hwm) \<Rightarrow> unit hwm" where
  "rtl8125_hw_phy_config set_phy_mcu = do {
     t \<leftarrow> tpget id;
     if tp_resume_not_chg_speed t then skip
     else do {
       rtl8125_xmii_reset_enable;
       whenM (tp_mcfg t < CFG_METHOD_31) rtl8125_set_hw_phy_before_init_phy_mcu;
       rtl8125_init_hw_phy_mcu set_phy_mcu;
       phy_config (tp_mcfg t);
       rtl8125_clear_eth_phy_ocp_bit 0xA5B4 BIT_15;
       rtl8127_hw_fiber_phy_config;
       rtl8125_mdio_write 0x1F 0x0000;
       t \<leftarrow> tpget id;
       whenM (tp_HwHasWrRamCodeToMicroP t)
         (if eee_enabled (tp_eee t) \<noteq> 0 then do { _ \<leftarrow> rtl8125_enable_eee; skip }
          else do { _ \<leftarrow> rtl8125_disable_eee; skip })
     }
   }"

end
