(* ===== verification/SoftVar.thy ===== *)
theory SoftVar
  imports Fiber
begin

text \<open>
  \<open>rtl8125_init_software_variable\<close>: the capabilities of the identified chip
  generation. Each \<open>switch\<close> of the function is one definition, run in the order
  of the code. The shift of \<open>linkmode_set_bit\<close> is undefined in C from
  bit 32 on; what it yields there is the argument \<open>wide_shift\<close>.
\<close>

abbreviation "RTL8125_MAC_MCU_PAGE_SIZE \<equiv> (256 :: u16)"
abbreviation "kIOPCILinkControlASPMBitsL1 \<equiv> (2 :: u8)"

subsection \<open>DASH and the OCP channel\<close>

definition sv_dash_ver :: "unit hwm" where
  "sv_dash_ver = do {
     m \<leftarrow> tpget tp_mcfg;
     if m \<in> {CFG_METHOD_2, CFG_METHOD_3} then do {
       v \<leftarrow> rtl8125_mac_ocp_read 0xD006;
       whenM ((ucast v :: u8) = 0x02 \<or> (ucast v :: u8) = 0x04) (tpmod (\<lambda>t. t\<lparr>tp_HwSuppDashVer := 2\<rparr>))
     } else if m \<in> {CFG_METHOD_8, CFG_METHOD_9} then tpmod (\<lambda>t. t\<lparr>tp_HwSuppDashVer := 4\<rparr>)
     else if m = CFG_METHOD_42 then do {
       v \<leftarrow> rtl8125_mac_ocp_read 0xD006;
       whenM ((ucast v :: u8) = 0x03) (tpmod (\<lambda>t. t\<lparr>tp_HwSuppDashVer := 4\<rparr>))
     } else tpmod (\<lambda>t. t\<lparr>tp_HwSuppDashVer := 0\<rparr>)
   }"

definition sv_ocp_channel :: "rtl8125_private \<Rightarrow> rtl8125_private" where
  "sv_ocp_channel t =
    (if tp_mcfg t \<in> {CFG_METHOD_2, CFG_METHOD_3, CFG_METHOD_42}
     then (if HW_DASH_SUPPORT_DASH t then t\<lparr>tp_HwSuppOcpChannelVer := 2\<rparr> else t)
     else if tp_mcfg t \<in> {CFG_METHOD_8, CFG_METHOD_9, CFG_METHOD_12} then t\<lparr>tp_HwSuppOcpChannelVer := 2\<rparr>
     else t)"

definition sv_pkg_det :: "unit hwm" where
  "sv_pkg_det = do {
     v \<leftarrow> rtl8125_mac_ocp_read 0xDC00;
     tpmod (\<lambda>t. t\<lparr>tp_HwPkgDet := drop_bit 3 (ucast v) AND 0x07\<rparr>)
   }"

definition sv_pcie_sn :: "rtl8125_private \<Rightarrow> rtl8125_private" where
  "sv_pcie_sn t =
    (let m = tp_mcfg t in
     if m \<in> {CFG_METHOD_2, CFG_METHOD_3, CFG_METHOD_4, CFG_METHOD_5, CFG_METHOD_6, CFG_METHOD_7}
     then t\<lparr>tp_HwPcieSNOffset := 0x16C\<rparr>
     else if m \<in> {CFG_METHOD_8, CFG_METHOD_9, CFG_METHOD_10, CFG_METHOD_11, CFG_METHOD_12, CFG_METHOD_13}
     then t\<lparr>tp_HwPcieSNOffset := 0x168\<rparr>
     else if m \<in> {CFG_METHOD_31, CFG_METHOD_32, CFG_METHOD_33} then t\<lparr>tp_HwPcieSNOffset := 0x174\<rparr>
     else if m \<in> {CFG_METHOD_41, CFG_METHOD_42} then t\<lparr>tp_HwPcieSNOffset := 0x168\<rparr>
     else t)"

definition sv_dash :: "unit hwm" where
  "sv_dash = do {
     d \<leftarrow> rtl8125_check_dash;
     tpmod (\<lambda>t. t\<lparr>tp_DASH := d\<rparr>);
     whenM d (do {
       tpmod (\<lambda>t. t\<lparr>tp_eee := (tp_eee t)\<lparr>eee_enabled := 0\<rparr>\<rparr>);
       v \<leftarrow> rtl8125_get_dash_fw_ver;
       tpmod (\<lambda>t. t\<lparr>tp_DashFirmwareVersion := v\<rparr>)
     })
   }"

subsection \<open>PCIe offsets\<close>

fun offset_180_reg :: "mcfg \<Rightarrow> u32 option" where
  "offset_180_reg m =
    (if m \<in> {CFG_METHOD_2, CFG_METHOD_3, CFG_METHOD_6} then Some 0x264
     else if m \<in> {CFG_METHOD_4, CFG_METHOD_5, CFG_METHOD_7} then Some 0x214
     else if m \<in> {CFG_METHOD_8, CFG_METHOD_9, CFG_METHOD_10, CFG_METHOD_11, CFG_METHOD_13} then Some 0x210
     else if m = CFG_METHOD_12 then Some 0x184
     else if m \<in> {CFG_METHOD_31, CFG_METHOD_32, CFG_METHOD_33} then Some 0x22c
     else if m \<in> {CFG_METHOD_41, CFG_METHOD_42} then Some 0x254
     else None)"

definition sv_pci_offsets :: "unit hwm" where
  "sv_pci_offsets = do {
     t \<leftarrow> tpget id;
     whenM (tp_aspm t AND kIOPCILinkControlASPMBitsL1 \<noteq> 0) (do {
       v \<leftarrow> rtl8125_csi_fun0_read_byte 0x99;
       tpmod (\<lambda>t. t\<lparr>tp_org_pci_offset_99 := v AND NOT (BIT_5 OR BIT_6)\<rparr>);
       case offset_180_reg (tp_mcfg t) of None \<Rightarrow> skip
       | Some r \<Rightarrow> do {
           w \<leftarrow> rtl8125_csi_fun0_read_byte r;
           tpmod (\<lambda>t. t\<lparr>tp_org_pci_offset_180 := w\<rparr>)
         }
     })
   }"

subsection \<open>Speeds, wake-up and descriptors\<close>

fun max_link_speed :: "mcfg \<Rightarrow> u32" where
  "max_link_speed m =
    (if m \<in> {CFG_METHOD_2, CFG_METHOD_3, CFG_METHOD_4, CFG_METHOD_5, CFG_METHOD_8, CFG_METHOD_9, CFG_METHOD_10,
         CFG_METHOD_11, CFG_METHOD_12} then 2500
     else if m \<in> {CFG_METHOD_31, CFG_METHOD_32, CFG_METHOD_33} then 5000
     else if m \<in> {CFG_METHOD_41, CFG_METHOD_42} then 10000
     else 1000)"

definition sv_max_speed :: "rtl8125_private \<Rightarrow> rtl8125_private" where
  "sv_max_speed t = t\<lparr>tp_HwSuppMaxPhyLinkSpeed := max_link_speed (tp_mcfg t)\<rparr>"

definition sv_magic :: "rtl8125_private \<Rightarrow> rtl8125_private" where
  "sv_magic t = t\<lparr>tp_HwSuppMagicPktVer :=
    (if tp_mcfg t \<in> {CFG_METHOD_2, CFG_METHOD_3, CFG_METHOD_4, CFG_METHOD_5, CFG_METHOD_6, CFG_METHOD_7,
        CFG_METHOD_10, CFG_METHOD_11, CFG_METHOD_13, CFG_METHOD_31, CFG_METHOD_32, CFG_METHOD_33,
        CFG_METHOD_41, CFG_METHOD_42}
     then WAKEUP_MAGIC_PACKET_V3 else 0)\<rparr>"

definition sv_esd :: "rtl8125_private \<Rightarrow> rtl8125_private" where
  "sv_esd t = t\<lparr>tp_HwSuppEsdVer :=
    (if tp_mcfg t \<in> {CFG_METHOD_5, CFG_METHOD_7} then 4 else if tp_mcfg t = CFG_METHOD_10 then 5 else 1)\<rparr>"

definition sv_fuse :: "unit hwm" where
  "sv_fuse = do {
     b \<leftarrow> rtl8125_backup_phy_fuse_dout;
     whenM b (tpmod (\<lambda>t. t\<lparr>tp_TestPhyOcpReg := True\<rparr>))
   }"

definition sv_d0 :: "rtl8125_private \<Rightarrow> rtl8125_private" where
  "sv_d0 t =
    (let m = tp_mcfg t;
         t1 = (if m \<in> {CFG_METHOD_3, CFG_METHOD_4, CFG_METHOD_5, CFG_METHOD_6, CFG_METHOD_7, CFG_METHOD_8, CFG_METHOD_9,
                 CFG_METHOD_31, CFG_METHOD_32, CFG_METHOD_33} then t\<lparr>tp_HwSuppD0SpeedUpVer := 1\<rparr>
               else if m \<in> {CFG_METHOD_10, CFG_METHOD_11, CFG_METHOD_12, CFG_METHOD_13, CFG_METHOD_41, CFG_METHOD_42}
               then t\<lparr>tp_HwSuppD0SpeedUpVer := 2\<rparr> else t)
     in t1\<lparr>tp_HwSuppCheckPhyDisableModeVer := 3\<rparr>)"

definition sv_tx_no_close :: "rtl8125_private \<Rightarrow> rtl8125_private" where
  "sv_tx_no_close t =
    (let m = tp_mcfg t in
     if m \<in> {CFG_METHOD_2, CFG_METHOD_3, CFG_METHOD_4, CFG_METHOD_5, CFG_METHOD_6, CFG_METHOD_7}
     then t\<lparr>tp_HwSuppTxNoCloseVer := 3\<rparr>
     else if m \<in> {CFG_METHOD_8, CFG_METHOD_9, CFG_METHOD_10, CFG_METHOD_11, CFG_METHOD_12, CFG_METHOD_13,
         CFG_METHOD_41, CFG_METHOD_42} then t\<lparr>tp_HwSuppTxNoCloseVer := 6\<rparr>
     else if m = CFG_METHOD_31 then t\<lparr>tp_HwSuppTxNoCloseVer := 4\<rparr>
     else if m \<in> {CFG_METHOD_32, CFG_METHOD_33} then t\<lparr>tp_HwSuppTxNoCloseVer := 5\<rparr>
     else t)"

definition sv_desc_mask :: "rtl8125_private \<Rightarrow> rtl8125_private" where
  "sv_desc_mask t =
    (let v = tp_HwSuppTxNoCloseVer t in
     if v \<in> {5, 6} then t\<lparr>tp_MaxTxDescPtrMask := 0x7FFFFFFF\<rparr>
     else if v = 4 then t\<lparr>tp_MaxTxDescPtrMask := 0xFFFFFFFF\<rparr>
     else if v = 3 then t\<lparr>tp_MaxTxDescPtrMask := 0xFFFF\<rparr>
     else t)"

definition sv_lso :: "rtl8125_private \<Rightarrow> rtl8125_private" where
  "sv_lso t = (if tp_mcfg t \<in> {CFG_METHOD_2, CFG_METHOD_3, CFG_METHOD_6} then t\<lparr>tp_RequireLSOPatch := True\<rparr> else t)"

fun ram_code_ver :: "mcfg \<Rightarrow> u16 option" where
  "ram_code_ver CFG_METHOD_2 = Some 0x0b11"
| "ram_code_ver CFG_METHOD_3 = Some 0x0b33"
| "ram_code_ver CFG_METHOD_6 = Some 0x0b33"
| "ram_code_ver CFG_METHOD_4 = Some 0x0b17"
| "ram_code_ver CFG_METHOD_5 = Some 0x0b55"
| "ram_code_ver CFG_METHOD_7 = Some 0x0b55"
| "ram_code_ver CFG_METHOD_8 = Some 0x0013"
| "ram_code_ver CFG_METHOD_9 = Some 0x0001"
| "ram_code_ver CFG_METHOD_10 = Some 0x0027"
| "ram_code_ver CFG_METHOD_11 = Some 0x0031"
| "ram_code_ver CFG_METHOD_13 = Some 0x0031"
| "ram_code_ver CFG_METHOD_12 = Some 0x0010"
| "ram_code_ver CFG_METHOD_31 = Some 0x0023"
| "ram_code_ver CFG_METHOD_32 = Some 0x0033"
| "ram_code_ver CFG_METHOD_33 = Some 0x0060"
| "ram_code_ver CFG_METHOD_41 = Some 0x0015"
| "ram_code_ver CFG_METHOD_42 = Some 0x0036"
| "ram_code_ver CFG_METHOD_DEFAULT = None"

definition sv_ram_code :: "rtl8125_private \<Rightarrow> rtl8125_private" where
  "sv_ram_code t =
    (let t1 = (case ram_code_ver (tp_mcfg t) of None \<Rightarrow> t | Some v \<Rightarrow> t\<lparr>tp_sw_ram_code_ver := v\<rparr>)
     in if tp_HwIcVerUnknown t1 then t1\<lparr>tp_NotWrRamCodeToMicroP := True, tp_NotWrMcuPatchCode := True\<rparr> else t1)"

definition sv_mdi_swap :: "unit hwm" where
  "sv_mdi_swap = do {
     g \<leftarrow> mcfg_is {CFG_METHOD_3, CFG_METHOD_6};
     whenM g (do {
       a \<leftarrow> rtl8125_mac_ocp_read 0xD442;
       whenM (a AND BIT_5 \<noteq> 0) (do {
         b \<leftarrow> mdio_direct_read_phy_ocp 0xD068;
         whenM (b AND BIT_1 \<noteq> 0) (tpmod (\<lambda>t. t\<lparr>tp_RequirePhyMdiSwapPatch := True\<rparr>))
       })
     })
   }"

definition sv_mac_mcu :: "rtl8125_private \<Rightarrow> rtl8125_private" where
  "sv_mac_mcu t = t\<lparr>tp_HwSuppMacMcuVer := 2, tp_MacMcuPageSize := RTL8125_MAC_MCU_PAGE_SIZE\<rparr>"

definition sv_int_miti :: "rtl8125_private \<Rightarrow> rtl8125_private" where
  "sv_int_miti t =
    (let m = tp_mcfg t in
     if m \<in> {CFG_METHOD_2, CFG_METHOD_3, CFG_METHOD_6} then t\<lparr>tp_HwSuppIntMitiVer := 3\<rparr>
     else if m \<in> {CFG_METHOD_4, CFG_METHOD_5, CFG_METHOD_7, CFG_METHOD_31} then t\<lparr>tp_HwSuppIntMitiVer := 4\<rparr>
     else if m \<in> {CFG_METHOD_32, CFG_METHOD_33} then t\<lparr>tp_HwSuppIntMitiVer := 5\<rparr>
     else if m \<in> {CFG_METHOD_8, CFG_METHOD_9, CFG_METHOD_10, CFG_METHOD_11, CFG_METHOD_12, CFG_METHOD_13,
         CFG_METHOD_41, CFG_METHOD_42} then t\<lparr>tp_HwSuppIntMitiVer := 6\<rparr>
     else t)"

definition sv_tcam :: "rtl8125_private \<Rightarrow> rtl8125_private" where
  "sv_tcam t =
    (if tp_mcfg t \<in> {CFG_METHOD_31, CFG_METHOD_32, CFG_METHOD_33, CFG_METHOD_41, CFG_METHOD_42}
     then t\<lparr>tp_HwSuppTcamVer := 2, tp_TcamNotValidReg := 0xA000, tp_TcamValidReg := 0xB000,
            tp_TcamMaAddrcOffset := 0x00, tp_TcamVlanTagOffset := 0x03\<rparr>
     else t\<lparr>tp_HwSuppTcamVer := 1, tp_TcamNotValidReg := 0xA000, tp_TcamValidReg := 0xA800,
            tp_TcamMaAddrcOffset := 448, tp_TcamVlanTagOffset := 496\<rparr>)"

definition sv_pfm :: "rtl8125_private \<Rightarrow> rtl8125_private" where
  "sv_pfm t = (if tp_mcfg t \<in> {CFG_METHOD_10, CFG_METHOD_11, CFG_METHOD_13} then t\<lparr>tp_RequiredPfmPatch := True\<rparr> else t)"

definition sv_rx_desc :: "rtl8125_private \<Rightarrow> rtl8125_private" where
  "sv_rx_desc t = t\<lparr>tp_HwSuppRxDescType :=
    (if tp_mcfg t \<in> {CFG_METHOD_2, CFG_METHOD_3, CFG_METHOD_4, CFG_METHOD_5, CFG_METHOD_6, CFG_METHOD_7, CFG_METHOD_31} then 3
     else if tp_mcfg t \<in> {CFG_METHOD_8, CFG_METHOD_9, CFG_METHOD_10, CFG_METHOD_11, CFG_METHOD_12, CFG_METHOD_13,
        CFG_METHOD_32, CFG_METHOD_33, CFG_METHOD_41, CFG_METHOD_42} then 4
     else 1)\<rparr>"

subsection \<open>Wake-on-LAN, link and EEE defaults\<close>

definition sv_wol :: "unit hwm" where
  "sv_wol = do {
     w \<leftarrow> rtl8125_get_hw_wol;
     tpmod (\<lambda>t. t\<lparr>tp_wol_opts := w, tp_wol_enabled := if w \<noteq> 0 then WOL_ENABLED else 0\<rparr>)
   }"

definition linkmode_set_bit :: "(nat \<Rightarrow> u32) \<Rightarrow> nat \<Rightarrow> u32 \<Rightarrow> u32" where
  "linkmode_set_bit wide_shift nbit dst = dst OR (if nbit < 32 then push_bit nbit 1 else wide_shift nbit)"

definition eee_defaults :: "(nat \<Rightarrow> u32) \<Rightarrow> rtl8125_private \<Rightarrow> rtl8125_private" where
  "eee_defaults wide_shift t =
    (let lset = linkmode_set_bit wide_shift; e0 = tp_eee t;
         on = (if HW_FIBER_MODE_ENABLED t then 0 else 1);
         g2500 = (tp_mcfg t > CFG_METHOD_3 \<and> tp_HwSuppMaxPhyLinkSpeed t \<ge> 2500);
         g5000 = (tp_mcfg t > CFG_METHOD_3 \<and> HW_SUPP_PHY_LINK_SPEED_5000M t);
         sup1 = lset 5 (lset 3 (eee_supported e0));
         adv1 = lset 5 (lset 3 (eee_advertised e0));
         sup2 = (if g2500 then lset 47 sup1 else sup1);
         adv2 = (if g2500 then lset 48 (lset 47 adv1) else adv1);
         sup3 = (if g5000 then lset 48 sup2 else sup2)
     in t\<lparr>tp_eee := e0\<lparr>eee_enabled := on, eee_supported := sup3, eee_advertised := adv2,
          tx_lpi_enabled := on, tx_lpi_timer := 1500 + 14 + 0x20\<rparr>\<rparr>)"

definition sv_eee :: "(nat \<Rightarrow> u32) \<Rightarrow> rtl8125_private \<Rightarrow> rtl8125_private" where
  "sv_eee wide_shift t = (if tp_mcfg t \<noteq> CFG_METHOD_DEFAULT then eee_defaults wide_shift t else t)"

definition rtl8125_init_software_variable :: "(nat \<Rightarrow> u32) \<Rightarrow> unit hwm" where
  "rtl8125_init_software_variable wide_shift = do {
     sv_dash_ver;
     tpmod sv_ocp_channel;
     a \<leftarrow> rtl8125_is_allow_access_dash_ocp;
     tpmod (\<lambda>t. t\<lparr>tp_AllowAccessDashOcp := a\<rparr>);
     sv_pkg_det;
     tpmod sv_pcie_sn;
     sv_dash;
     sv_pci_offsets;
     tpmod sv_max_speed;
     _ \<leftarrow> rtl8127_check_fiber_mode_support;
     tpmod sv_magic;
     tpmod sv_esd;
     sv_fuse;
     tpmod sv_d0;
     tpmod sv_tx_no_close;
     tpmod sv_desc_mask;
     tpmod sv_lso;
     tpmod sv_ram_code;
     _ \<leftarrow> rtl8125_check_hw_phy_mcu_code_ver;
     sv_mdi_swap;
     tpmod sv_mac_mcu;
     rtl8125_setup_mqs_reg;
     tpmod sv_int_miti;
     tpmod sv_tcam;
     tpmod sv_pfm;
     tpmod sv_rx_desc;
     sv_wol;
     rtl8125_set_link_option AUTONEG_ENABLE SPEED_2500 DUPLEX_FULL rtl8125_fc_none;
     tpmod (sv_eee wide_shift)
   }"

end
