(* ===== verification/Eeprom.thy ===== *)
theory Eeprom
  imports Registers
begin

text \<open>
  The bit-banged EEPROM interface (\<open>rtl812x_eeprom.c\<close>): every function of the
  file as a monadic definition over the \<open>Cfg9346\<close> register. The serial EEPROM
  behind the register is not code; what is assumed of it is \<open>eeprom_device\<close>:
  the register reads back what was written, and after a READ command and an
  address has been clocked in, the data-out pin shows the addressed word, most
  significant bit first.
\<close>

abbreviation "Cfg9346_EEDO \<equiv> (0x01 :: u8)"
abbreviation "Cfg9346_EEDI \<equiv> (0x02 :: u8)"
abbreviation "Cfg9346_EESK \<equiv> (0x04 :: u8)"
abbreviation "Cfg9346_EECS \<equiv> (0x08 :: u8)"
abbreviation "Cfg9346_EEM1 \<equiv> (0x80 :: u8)"
abbreviation "EEPROM_TYPE_NONE \<equiv> (0 :: u8)"
abbreviation "EEPROM_TYPE_93C46 \<equiv> (1 :: u8)"
abbreviation "EEPROM_TYPE_93C56 \<equiv> (2 :: u8)"
abbreviation "RTL_EEPROM_READ_OPCODE \<equiv> (6 :: u32)"
abbreviation "RTL_EEPROM_WRITE_OPCODE \<equiv> (5 :: u32)"
abbreviation "RTL_EEPROM_ERASE_OPCODE \<equiv> (7 :: u32)"
abbreviation "RTL_EEPROM_EWEN_OPCODE \<equiv> (19 :: u32)"
abbreviation "RTL_EEPROM_EWDS_OPCODE \<equiv> (16 :: u32)"
abbreviation "RTL_CLOCK_RATE \<equiv> (3 :: nat)"
abbreviation "RxCfg_9356SEL \<equiv> (0x40 :: u32)"

definition rtl8125_raise_clock :: "u8 \<Rightarrow> u8 hwm" where
  "rtl8125_raise_clock x = do {
     let x' = x OR Cfg9346_EESK;
     RTL_W8 Cfg9346 x';
     udelay RTL_CLOCK_RATE;
     ret x'
   }"

definition rtl8125_lower_clock :: "u8 \<Rightarrow> u8 hwm" where
  "rtl8125_lower_clock x = do {
     let x' = x AND NOT Cfg9346_EESK;
     RTL_W8 Cfg9346 x';
     udelay RTL_CLOCK_RATE;
     ret x'
   }"

text \<open>The do-while loop over \<open>mask = 1 << i, ..., 1\<close>; the count is the bits left.\<close>

fun shift_out_loop :: "u32 \<Rightarrow> nat \<Rightarrow> u8 \<Rightarrow> u8 hwm" where
  "shift_out_loop data 0 x = ret x"
| "shift_out_loop data (Suc i) x = do {
     let x1 = (if data AND push_bit i 1 \<noteq> 0 then x OR Cfg9346_EEDI else x AND NOT Cfg9346_EEDI);
     RTL_W8 Cfg9346 x1;
     udelay RTL_CLOCK_RATE;
     x2 \<leftarrow> rtl8125_raise_clock x1;
     x3 \<leftarrow> rtl8125_lower_clock x2;
     shift_out_loop data i x3
   }"

definition rtl8125_shift_out_bits :: "u32 \<Rightarrow> nat \<Rightarrow> unit hwm" where
  "rtl8125_shift_out_bits data count = do {
     r \<leftarrow> RTL_R8 Cfg9346;
     x \<leftarrow> shift_out_loop data count (r AND NOT (Cfg9346_EEDI OR Cfg9346_EEDO));
     RTL_W8 Cfg9346 (x AND NOT Cfg9346_EEDI)
   }"

fun shift_in_loop :: "nat \<Rightarrow> u8 \<Rightarrow> u16 \<Rightarrow> u16 hwm" where
  "shift_in_loop 0 x d = ret d"
| "shift_in_loop (Suc n) x d = do {
     _ \<leftarrow> rtl8125_raise_clock x;
     r \<leftarrow> RTL_R8 Cfg9346;
     let x1 = r AND NOT Cfg9346_EEDI;
     let d1 = (if x1 AND Cfg9346_EEDO \<noteq> 0 then push_bit 1 d OR 1 else push_bit 1 d);
     x2 \<leftarrow> rtl8125_lower_clock x1;
     shift_in_loop n x2 d1
   }"

definition rtl8125_shift_in_bits :: "u16 hwm" where
  "rtl8125_shift_in_bits = do {
     r \<leftarrow> RTL_R8 Cfg9346;
     shift_in_loop 16 (r AND NOT (Cfg9346_EEDI OR Cfg9346_EEDO)) 0
   }"

definition rtl8125_stand_by :: "unit hwm" where
  "rtl8125_stand_by = do {
     r \<leftarrow> RTL_R8 Cfg9346;
     let x = r AND NOT (Cfg9346_EECS OR Cfg9346_EESK);
     RTL_W8 Cfg9346 x;
     udelay RTL_CLOCK_RATE;
     RTL_W8 Cfg9346 (x OR Cfg9346_EECS)
   }"

definition rtl8125_set_eeprom_sel_low :: "unit hwm" where
  "rtl8125_set_eeprom_sel_low = do {
     RTL_W8 Cfg9346 Cfg9346_EEM1;
     RTL_W8 Cfg9346 (Cfg9346_EEM1 OR Cfg9346_EESK);
     udelay 20;
     RTL_W8 Cfg9346 Cfg9346_EEM1
   }"

definition rtl8125_eeprom_cleanup :: "unit hwm" where
  "rtl8125_eeprom_cleanup = do {
     r \<leftarrow> RTL_R8 Cfg9346;
     let x = r AND NOT (Cfg9346_EEDI OR Cfg9346_EECS);
     RTL_W8 Cfg9346 x;
     x1 \<leftarrow> rtl8125_raise_clock x;
     _ \<leftarrow> rtl8125_lower_clock x1;
     skip
   }"

fun cmd_done_loop :: "nat \<Rightarrow> int hwm" where
  "cmd_done_loop 0 = ret (-1)"
| "cmd_done_loop (Suc n) = do {
     x \<leftarrow> RTL_R8 Cfg9346;
     if x AND Cfg9346_EEDO \<noteq> 0 then do { udelay (RTL_CLOCK_RATE * 2 * 3); ret 0 }
     else do { udelay 1; cmd_done_loop n }
   }"

definition rtl8125_eeprom_cmd_done :: "int hwm" where
  "rtl8125_eeprom_cmd_done = do { rtl8125_stand_by; cmd_done_loop 50000 }"

definition eeprom_addr_sz :: "u8 \<Rightarrow> nat" where
  "eeprom_addr_sz t = (if t = EEPROM_TYPE_93C46 then 6 else if t = EEPROM_TYPE_93C56 then 8 else 6)"

definition eeprom_dummy_addr :: "u8 \<Rightarrow> nat" where
  "eeprom_dummy_addr t = (if t = EEPROM_TYPE_93C46 then 4 else if t = EEPROM_TYPE_93C56 then 6 else 4)"

definition rtl8125_eeprom_read_sc :: "u16 \<Rightarrow> u16 hwm" where
  "rtl8125_eeprom_read_sc reg = do {
     t \<leftarrow> tpget tp_eeprom_type;
     if t = EEPROM_TYPE_NONE then ret 0xffff
     else do {
       RTL_W8 Cfg9346 (Cfg9346_EEM1 OR Cfg9346_EECS);
       rtl8125_shift_out_bits RTL_EEPROM_READ_OPCODE 3;
       rtl8125_shift_out_bits (ucast reg) (eeprom_addr_sz t);
       d \<leftarrow> rtl8125_shift_in_bits;
       rtl8125_eeprom_cleanup;
       RTL_W8 Cfg9346 0;
       ret d
     }
   }"

definition eeprom_write_tail :: "u16 \<Rightarrow> nat \<Rightarrow> unit hwm" where
  "eeprom_write_tail reg w_dummy_addr = do {
     rtl8125_stand_by;
     rtl8125_shift_out_bits RTL_EEPROM_EWDS_OPCODE 5;
     rtl8125_shift_out_bits (ucast reg) w_dummy_addr;
     rtl8125_eeprom_cleanup;
     RTL_W8 Cfg9346 0
   }"

definition rtl8125_eeprom_write_sc :: "u16 \<Rightarrow> u16 \<Rightarrow> unit hwm" where
  "rtl8125_eeprom_write_sc reg data = do {
     t \<leftarrow> tpget tp_eeprom_type;
     if t = EEPROM_TYPE_NONE then skip
     else do {
       RTL_W8 Cfg9346 (Cfg9346_EEM1 OR Cfg9346_EECS);
       rtl8125_shift_out_bits RTL_EEPROM_EWEN_OPCODE 5;
       rtl8125_shift_out_bits (ucast reg) (eeprom_dummy_addr t);
       rtl8125_stand_by;
       rtl8125_shift_out_bits RTL_EEPROM_ERASE_OPCODE 3;
       rtl8125_shift_out_bits (ucast reg) (eeprom_addr_sz t);
       e1 \<leftarrow> rtl8125_eeprom_cmd_done;
       if e1 < 0 then skip
       else do {
         rtl8125_stand_by;
         rtl8125_shift_out_bits RTL_EEPROM_WRITE_OPCODE 3;
         rtl8125_shift_out_bits (ucast reg) (eeprom_addr_sz t);
         rtl8125_shift_out_bits (ucast data) 16;
         e2 \<leftarrow> rtl8125_eeprom_cmd_done;
         if e2 < 0 then skip else eeprom_write_tail reg (eeprom_dummy_addr t)
       }
     }
   }"

definition eeprom_probe :: "u16 hwm" where
  "eeprom_probe = do {
     m \<leftarrow> tpget tp_mcfg;
     if m = CFG_METHOD_DEFAULT then ret 0
     else do {
       a \<leftarrow> RTL_R8 0xD2;
       if a AND 0x04 \<noteq> 0 then ret 0
       else do {
         c \<leftarrow> RTL_R32 RxConfig;
         (if c AND RxCfg_9356SEL \<noteq> 0
          then tpmod (\<lambda>t. t\<lparr>tp_eeprom_type := EEPROM_TYPE_93C56, tp_eeprom_len := 256\<rparr>)
          else tpmod (\<lambda>t. t\<lparr>tp_eeprom_type := EEPROM_TYPE_93C46, tp_eeprom_len := 128\<rparr>));
         rtl8125_eeprom_read_sc 0
       }
     }
   }"

definition rtl8125_eeprom_type :: "unit hwm" where
  "rtl8125_eeprom_type = do {
     magic \<leftarrow> eeprom_probe;
     if magic \<noteq> 0x8129 \<and> magic \<noteq> 0x8128
     then tpmod (\<lambda>t. t\<lparr>tp_eeprom_type := EEPROM_TYPE_NONE, tp_eeprom_len := 0\<rparr>)
     else skip
   }"


subsection \<open>The wire\<close>

text \<open>Last value written to \<open>Cfg9346\<close>, and the data-in bits sampled at the rising
  clock edges since the chip was selected. Histories are most recent first.\<close>

fun cfg_last :: "io list \<Rightarrow> u8" where
  "cfg_last [] = 0"
| "cfg_last (Wr (Reg8 r) v # h) = (if r = Cfg9346 then ucast v else cfg_last h)"
| "cfg_last (_ # h) = cfg_last h"

fun serial :: "io list \<Rightarrow> bool list" where
  "serial [] = []"
| "serial (Wr (Reg8 r) v # h) =
    (if r = Cfg9346 then
       (if \<not> bit v 3 then []
        else if bit v 2 \<and> \<not> bit (cfg_last h) 2 then serial h @ [bit v 1] else serial h)
     else serial h)"
| "serial (_ # h) = serial h"

primrec msb_bits :: "nat \<Rightarrow> 'a::len word \<Rightarrow> bool list" where
  "msb_bits 0 d = []"
| "msb_bits (Suc i) d = bit d i # msb_bits i d"

definition eeprom_device :: "nat \<Rightarrow> (u16 \<Rightarrow> u16) \<Rightarrow> chip \<Rightarrow> bool" where
  "eeprom_device sz mem c \<longleftrightarrow>
     (\<forall>h n. 0 < n \<and> n < 8 \<longrightarrow> bit (c h (Reg8 Cfg9346)) n = bit (cfg_last h) n) \<and>
     (\<forall>h a k. k < 16 \<and> serial h = [True, True, False] @ msb_bits sz a @ replicate (Suc k) False \<longrightarrow>
        bit (c h (Reg8 Cfg9346)) 0 = bit (mem (take_bit sz a)) (15 - k))"

lemma flag_set:
  "x OR Cfg9346_EEDI = set_bit 1 x" "x OR Cfg9346_EESK = set_bit 2 x" "x OR Cfg9346_EECS = set_bit 3 x"
  by (simp_all add: set_bit_eq_or)

lemma flag_clear:
  "x AND NOT Cfg9346_EEDI = unset_bit 1 x" "x AND NOT Cfg9346_EESK = unset_bit 2 x"
  "x AND NOT (Cfg9346_EEDI OR Cfg9346_EEDO) = unset_bit 1 (unset_bit 0 x)"
  "x AND NOT (Cfg9346_EECS OR Cfg9346_EESK) = unset_bit 3 (unset_bit 2 x)"
  "x AND NOT (Cfg9346_EEDI OR Cfg9346_EECS) = unset_bit 1 (unset_bit 3 x)"
  by (simp_all add: unset_bit_eq_and_not and.assoc)

lemma flag_test: "x AND Cfg9346_EEDO \<noteq> 0 \<longleftrightarrow> bit x 0"
  by (simp add: bit_iff_and_push_bit_not_eq_0)

lemma data_test: "data AND push_bit i 1 \<noteq> 0 \<longleftrightarrow> bit data i"
  by (simp add: bit_iff_and_push_bit_not_eq_0)

lemmas flags = flag_set flag_clear flag_test data_test

lemma bit_set_u8: "m < 8 \<Longrightarrow> bit (set_bit m (x :: u8)) n \<longleftrightarrow> n = m \<or> bit x n"
  by (auto simp: bit_set_bit_iff)

lemma bit_unset_u8: "bit (unset_bit m (x :: u8)) n \<longleftrightarrow> n \<noteq> m \<and> bit x n"
  by (auto simp: bit_unset_bit_iff)

lemma bit_ucast_8_32: "bit (ucast (x :: u8) :: u32) n \<longleftrightarrow> bit x n"
  by (auto simp: bit_simps dest: bit_imp_le_length)

lemmas wire_simps = bit_set_u8 bit_unset_u8 bit_ucast_8_32

definition clocked :: "bool list \<Rightarrow> hw \<Rightarrow> bool" where
  "clocked w s \<longleftrightarrow> serial (hist s) = w \<and> bit (cfg_last (hist s)) 3 \<and> \<not> bit (cfg_last (hist s)) 2"

lemma ucast_ucast_u8: "ucast (ucast (x :: u8) :: u32) = x"
  by (rule bit_word_eqI) (auto simp: bit_simps)

lemma run_W8_cfg [simp]:
  "run (RTL_W8 Cfg9346 x) s = ((), s\<lparr>hist := Wr (Reg8 Cfg9346) (ucast x) # hist s\<rparr>)"
  by (simp add: RTL_W8_def)

lemma run_R8_cfg [simp]:
  "run (RTL_R8 Cfg9346) s = (ucast (chip s (hist s) (Reg8 Cfg9346)),
     s\<lparr>hist := Rd (Reg8 Cfg9346) (chip s (hist s) (Reg8 Cfg9346)) # hist s\<rparr>)"
  by (simp add: RTL_R8_def)

lemma shift_out_loop_wire:
  assumes "clocked w s" "bit x 3" "\<not> bit x 2"
  shows "case run (shift_out_loop data n x) s of (x', s') \<Rightarrow>
    clocked (w @ msb_bits n data) s' \<and> bit x' 3 \<and> \<not> bit x' 2 \<and> chip s' = chip s \<and> tp s' = tp s"
  using assms
proof (induction n arbitrary: w s x)
  case (Suc n)
  let ?x1 = "if bit data n then set_bit 1 x else unset_bit 1 x"
  let ?s = "s\<lparr>hist := Delay 3 # Wr (Reg8 Cfg9346) (ucast (unset_bit 2 (set_bit 2 ?x1))) # Delay 3 #
     Wr (Reg8 Cfg9346) (ucast (set_bit 2 ?x1)) # Delay 3 # Wr (Reg8 Cfg9346) (ucast ?x1) # hist s\<rparr>"
  have "clocked (w @ [bit data n]) ?s"
    using Suc.prems by (simp add: clocked_def wire_simps ucast_ucast_u8)
  moreover have "bit (unset_bit 2 (set_bit 2 ?x1)) 3" "\<not> bit (unset_bit 2 (set_bit 2 ?x1)) 2"
    using Suc.prems by (simp_all add: wire_simps)
  ultimately have "case run (shift_out_loop data n (unset_bit 2 (set_bit 2 ?x1))) ?s of (x', s') \<Rightarrow>
      clocked ((w @ [bit data n]) @ msb_bits n data) s' \<and> bit x' 3 \<and> \<not> bit x' 2 \<and> chip s' = chip ?s \<and> tp s' = tp ?s"
    by (rule Suc.IH)
  moreover have "run (shift_out_loop data (Suc n) x) s = run (shift_out_loop data n (unset_bit 2 (set_bit 2 ?x1))) ?s"
    unfolding shift_out_loop.simps rtl8125_raise_clock_def rtl8125_lower_clock_def flags Let_def
    by simp
  ultimately show ?case by simp
qed (simp add: clocked_def)


lemma bit_ucast_32_8: "bit (ucast (x :: u32) :: u8) n \<longleftrightarrow> n < 8 \<and> bit x n"
  by (auto simp: bit_simps)

lemma readback:
  assumes "eeprom_device sz mem (chip s)" "0 < n" "n < 8"
  shows "bit (ucast (chip s h (Reg8 Cfg9346)) :: u8) n = bit (cfg_last h) n"
  using assms by (simp add: eeprom_device_def bit_ucast_32_8)

lemma shift_out_bits_wire:
  assumes dev: "eeprom_device sz mem (chip s)" and c: "clocked w s"
  shows "clocked (w @ msb_bits n data) (snd (run (rtl8125_shift_out_bits data n) s)) \<and>
    chip (snd (run (rtl8125_shift_out_bits data n) s)) = chip s \<and>
    tp (snd (run (rtl8125_shift_out_bits data n) s)) = tp s"
proof -
  let ?v = "chip s (hist s) (Reg8 Cfg9346)"
  let ?s = "s\<lparr>hist := Rd (Reg8 Cfg9346) ?v # hist s\<rparr>"
  let ?x = "unset_bit 1 (unset_bit 0 (ucast ?v)) :: u8"
  have "clocked w ?s" using c by (simp add: clocked_def)
  moreover have "bit ?x 3" "\<not> bit ?x 2"
    using c readback [OF dev, of 3] readback [OF dev, of 2] by (simp_all add: wire_simps clocked_def)
  ultimately have L: "case run (shift_out_loop data n ?x) ?s of (x', s') \<Rightarrow>
      clocked (w @ msb_bits n data) s' \<and> bit x' 3 \<and> \<not> bit x' 2 \<and> chip s' = chip ?s \<and> tp s' = tp ?s"
    by (rule shift_out_loop_wire)
  obtain x' s' where r: "run (shift_out_loop data n ?x) ?s = (x', s')" by fastforce
  have "run (rtl8125_shift_out_bits data n) s
      = ((), s'\<lparr>hist := Wr (Reg8 Cfg9346) (ucast (unset_bit 1 x')) # hist s'\<rparr>)"
    unfolding rtl8125_shift_out_bits_def flags using r by simp
  then show ?thesis
    using L r by (simp add: clocked_def wire_simps ucast_ucast_u8)
qed

text \<open>Collecting bits most significant first.\<close>

primrec msb_value :: "u16 \<Rightarrow> bool list \<Rightarrow> u16" where
  "msb_value d [] = d"
| "msb_value d (b # bs) = msb_value (if b then push_bit 1 d OR 1 else push_bit 1 d) bs"

lemma shift_in_loop_wire:
  assumes dev: "eeprom_device sz mem (chip s)"
    and c: "clocked ([True, True, False] @ msb_bits sz a @ replicate k False) s"
    and x: "bit x 3" "\<not> bit x 2" "\<not> bit x 1" and n: "n + k = 16"
  shows "fst (run (shift_in_loop n x d) s) = msb_value d (msb_bits n (mem (take_bit sz a))) \<and>
    chip (snd (run (shift_in_loop n x d) s)) = chip s \<and> tp (snd (run (shift_in_loop n x d) s)) = tp s"
  using assms
proof (induction n arbitrary: k s x d)
  case (Suc n)
  let ?w = "[True, True, False] @ msb_bits sz a @ replicate k False"
  let ?h1 = "Delay 3 # Wr (Reg8 Cfg9346) (ucast (set_bit 2 x)) # hist s"
  let ?v = "chip s ?h1 (Reg8 Cfg9346)"
  let ?x1 = "unset_bit 1 (ucast ?v) :: u8"
  let ?d = "if bit ?x1 0 then push_bit 1 d OR 1 else push_bit 1 d"
  let ?s = "s\<lparr>hist := Delay 3 # Wr (Reg8 Cfg9346) (ucast (unset_bit 2 ?x1)) # Rd (Reg8 Cfg9346) ?v # ?h1\<rparr>"
  have ser: "serial ?h1 = [True, True, False] @ msb_bits sz a @ replicate (Suc k) False"
    using Suc.prems by (simp add: clocked_def wire_simps replicate_append_same)
  have last: "cfg_last ?h1 = set_bit 2 x" by (simp add: ucast_ucast_u8)
  have rb: "bit ?x1 m \<longleftrightarrow> m \<noteq> 1 \<and> bit (set_bit 2 x) m" if "0 < m" "m < 8" for m
    using that readback [OF Suc.prems(1), of m ?h1] last by (simp add: wire_simps)
  have "bit ?v 0 = bit (mem (take_bit sz a)) (15 - k)"
    using Suc.prems(1) ser Suc.prems(6) unfolding eeprom_device_def by (metis add_Suc less_add_Suc2 less_Suc_eq_le)
  moreover have "15 - k = n" using Suc.prems(6) by simp
  ultimately have b0: "bit ?x1 0 \<longleftrightarrow> bit (mem (take_bit sz a)) n"
    by (simp add: wire_simps bit_ucast_32_8)
  have c': "clocked ([True, True, False] @ msb_bits sz a @ replicate (Suc k) False) ?s"
    using ser last rb [of 3] rb [of 2] Suc.prems(3) by (simp add: clocked_def wire_simps ucast_ucast_u8)
  have IH: "fst (run (shift_in_loop n (unset_bit 2 ?x1) ?d) ?s) = msb_value ?d (msb_bits n (mem (take_bit sz a))) \<and>
      chip (snd (run (shift_in_loop n (unset_bit 2 ?x1) ?d) ?s)) = chip ?s \<and>
      tp (snd (run (shift_in_loop n (unset_bit 2 ?x1) ?d) ?s)) = tp ?s"
    using Suc.prems c' rb [of 3] rb [of 1] by (intro Suc.IH [of _ "Suc k"]) (simp_all add: wire_simps)
  moreover have "run (shift_in_loop (Suc n) x d) s = run (shift_in_loop n (unset_bit 2 ?x1) ?d) ?s"
    unfolding shift_in_loop.simps rtl8125_raise_clock_def rtl8125_lower_clock_def flags Let_def
    by simp
  ultimately show ?case using b0 by simp
qed simp

lemma msb_value_snoc:
  "n \<le> 16 \<Longrightarrow> msb_value (drop_bit n v) (msb_bits n v) = (v :: u16)"
proof (induction n)
  case (Suc n)
  have "(if bit v n then push_bit 1 (drop_bit (Suc n) v) OR 1 else push_bit 1 (drop_bit (Suc n) v)) = drop_bit n v"
    (is "?l = _")
  proof (rule bit_word_eqI)
    fix m assume "m < LENGTH(16)"
    show "bit ?l m \<longleftrightarrow> bit (drop_bit n v) m"
      by (cases m; cases "bit v n"; simp only: if_True if_False bit_simps bit_1_iff o_apply)
        (auto dest: bit_imp_le_length)
  qed
  then show ?case using Suc by simp
qed simp

lemma drop_all_u16: "drop_bit 16 (v :: u16) = 0"
  by (rule bit_word_eqI) (auto simp: bit_simps dest: bit_imp_le_length)

lemma unselected_serial: "\<not> bit (cfg_last h) 3 \<Longrightarrow> serial h = []"
  by (induction h rule: serial.induct) (auto simp: bit_ucast_32_8 split: if_splits)

lemma msb_bits_ucast: "msb_bits n (ucast (r :: u16) :: u32) = msb_bits n r"
  by (induction n) (auto simp: bit_simps dest: bit_imp_le_length)

lemma shift_in_bits_value:
  assumes dev: "eeprom_device sz mem (chip s)" and c: "clocked ([True, True, False] @ msb_bits sz a) s"
  shows "fst (run rtl8125_shift_in_bits s) = mem (take_bit sz a)"
proof -
  let ?v = "chip s (hist s) (Reg8 Cfg9346)"
  let ?s = "s\<lparr>hist := Rd (Reg8 Cfg9346) ?v # hist s\<rparr>"
  let ?x = "unset_bit 1 (unset_bit 0 (ucast ?v)) :: u8"
  have c': "clocked ([True, True, False] @ msb_bits sz a @ replicate 0 False) ?s"
    using c by (simp add: clocked_def)
  have "bit ?x 3" "\<not> bit ?x 2" "\<not> bit ?x 1"
    using c readback [OF dev, of 3] readback [OF dev, of 2] by (simp_all add: wire_simps clocked_def)
  then have "fst (run (shift_in_loop 16 ?x 0) ?s) = msb_value 0 (msb_bits 16 (mem (take_bit sz a)))"
    using shift_in_loop_wire [OF _ c', of mem ?x 16 0] dev by simp
  also have "\<dots> = mem (take_bit sz a)"
    using msb_value_snoc [of 16 "mem (take_bit sz a)"] by (simp only: drop_all_u16 le_refl)
  finally show ?thesis
    unfolding rtl8125_shift_in_bits_def flags by simp
qed

text \<open>
  (C26) Reading a word through the bit-banged interface returns the word the
  serial EEPROM holds at the address, for both address widths: the driver
  clocks out the READ opcode and the address most significant bit first and
  reassembles the sixteen data bits in the right order. Afterwards the EEPROM
  is deselected again.
\<close>

theorem eeprom_read_returns_word:
  assumes dev: "eeprom_device (eeprom_addr_sz (tp_eeprom_type (tp s))) mem (chip s)"
    and t: "tp_eeprom_type (tp s) \<noteq> EEPROM_TYPE_NONE"
    and idle: "\<not> bit (cfg_last (hist s)) 3"
  shows "fst (run (rtl8125_eeprom_read_sc reg) s)
      = mem (take_bit (eeprom_addr_sz (tp_eeprom_type (tp s))) reg) \<and>
    cfg_last (hist (snd (run (rtl8125_eeprom_read_sc reg) s))) = 0"
proof -
  let ?sz = "eeprom_addr_sz (tp_eeprom_type (tp s))"
  define s0 where "s0 = s\<lparr>hist := Wr (Reg8 Cfg9346) (ucast (Cfg9346_EEM1 OR Cfg9346_EECS)) # hist s\<rparr>"
  have s0: "clocked [] s0" "chip s0 = chip s"
    using unselected_serial [OF idle] by (simp_all add: s0_def clocked_def)
  define s1 where "s1 = snd (run (rtl8125_shift_out_bits RTL_EEPROM_READ_OPCODE 3) s0)"
  have s1: "clocked ([] @ msb_bits 3 RTL_EEPROM_READ_OPCODE) s1" "chip s1 = chip s"
    using shift_out_bits_wire [of ?sz mem s0 "[]" 3 RTL_EEPROM_READ_OPCODE] dev s0 by (simp_all add: s1_def)
  have op: "[] @ msb_bits 3 RTL_EEPROM_READ_OPCODE = [True, True, False]" by (simp add: numeral_3_eq_3)
  define s2 where "s2 = snd (run (rtl8125_shift_out_bits (ucast reg) ?sz) s1)"
  have s2: "clocked ([True, True, False] @ msb_bits ?sz reg) s2" "chip s2 = chip s"
    using shift_out_bits_wire [of ?sz mem s1 "[True, True, False]" ?sz "ucast reg"] dev s1 op
    by (simp_all add: s2_def msb_bits_ucast)
  have "fst (run (rtl8125_eeprom_read_sc reg) s) = fst (run rtl8125_shift_in_bits s2)"
    using t unfolding rtl8125_eeprom_read_sc_def
    by (simp add: fst_run_bind snd_run_bind del: run_state_bind) (simp add: s0_def s1_def s2_def)
  moreover have "cfg_last (hist (snd (run (rtl8125_eeprom_read_sc reg) s))) = 0"
    using t unfolding rtl8125_eeprom_read_sc_def
    by (simp add: fst_run_bind snd_run_bind del: run_state_bind)
  ultimately show ?thesis
    using shift_in_bits_value [of ?sz mem s2 reg] dev s2 by simp
qed


text \<open>A device whose every word is \<open>0x8129\<close>, the magic number of a programmed EEPROM.\<close>

definition magic_chip :: chip where
  "magic_chip h a =
    (if bit (0x8129 :: u16) (15 - (length (serial h) - 10))
     then ucast (set_bit 0 (cfg_last h)) else ucast (unset_bit 0 (cfg_last h)))"

lemma length_msb_bits [simp]: "length (msb_bits n d) = n"
  by (induction n) simp_all

lemma magic_chip_device: "eeprom_device 6 (\<lambda>_. 0x8129) magic_chip"
  unfolding eeprom_device_def magic_chip_def
  by (auto simp: wire_simps)

definition eeprom_sample :: "hw \<Rightarrow> hw" where
  "eeprom_sample s = s\<lparr>chip := magic_chip, hist := [], tp := (tp s)\<lparr>tp_eeprom_type := EEPROM_TYPE_93C46\<rparr>\<rparr>"

theorem eeprom_read_returns_word_witness:
  "\<forall>s. fst (run (rtl8125_eeprom_read_sc 3) (eeprom_sample s)) = 0x8129"
proof
  fix s
  have "eeprom_addr_sz (tp_eeprom_type (tp (eeprom_sample s))) = 6"
    by (simp add: eeprom_sample_def eeprom_addr_sz_def)
  then show "fst (run (rtl8125_eeprom_read_sc 3) (eeprom_sample s)) = 0x8129"
    using eeprom_read_returns_word [of "eeprom_sample s" "\<lambda>_. 0x8129" 3] magic_chip_device
    by (simp add: eeprom_sample_def)
qed

text \<open>
  An EEPROM that never reports ready: the poll runs out, and the write
  returns early.
\<close>

lemma cmd_done_never:
  assumes "\<And>h. \<not> bit (chip s h (Reg8 Cfg9346)) 0"
  shows "fst (run (cmd_done_loop n) s) = -1 \<and> cfg_last (hist (snd (run (cmd_done_loop n) s))) = cfg_last (hist s)
    \<and> chip (snd (run (cmd_done_loop n) s)) = chip s"
  using assms
proof (induction n arbitrary: s)
  case (Suc n)
  let ?v = "chip s (hist s) (Reg8 Cfg9346)"
  let ?s = "s\<lparr>hist := Delay 1 # Rd (Reg8 Cfg9346) ?v # hist s\<rparr>"
  have "run (cmd_done_loop (Suc n)) s = run (cmd_done_loop n) ?s"
    unfolding cmd_done_loop.simps flags using Suc.prems by (simp add: bit_ucast_32_8)
  then show ?case using Suc.IH [of ?s] Suc.prems by simp
qed simp

lemma chip_shift_out_loop: "chip (snd (run (shift_out_loop d n x) s)) = chip s"
  by (induction n arbitrary: x s)
    (simp_all add: rtl8125_raise_clock_def rtl8125_lower_clock_def Let_def)

lemma chip_shift_out: "chip (snd (run (rtl8125_shift_out_bits d n) s)) = chip s"
  using chip_shift_out_loop
  by (simp add: rtl8125_shift_out_bits_def fst_run_bind snd_run_bind del: run_state_bind)

lemma stand_by_effect:
  "cfg_last (hist (snd (run rtl8125_stand_by s))) = set_bit 3 (unset_bit 3 (unset_bit 2 (ucast (chip s (hist s) (Reg8 Cfg9346)))))
    \<and> chip (snd (run rtl8125_stand_by s)) = chip s"
  unfolding rtl8125_stand_by_def flag_clear
  unfolding flag_set by (simp add: Let_def ucast_ucast_u8)

text \<open>
  (C39) If the EEPROM never signals completion, \<open>rtl8125_eeprom_write_sc\<close> returns
  from the timeout without cleaning up: chip select is still asserted, the
  register is not locked again, and the write-disable command is not sent.
\<close>

theorem eeprom_write_timeout_leaves_selected:
  assumes stuck: "\<And>h. \<not> bit (chip s h (Reg8 Cfg9346)) 0"
    and t: "tp_eeprom_type (tp s) \<noteq> EEPROM_TYPE_NONE"
  shows "bit (cfg_last (hist (snd (run (rtl8125_eeprom_write_sc reg d) s)))) 3"
proof -
  have timeout: "fst (run rtl8125_eeprom_cmd_done q) = -1 \<and>
      bit (cfg_last (hist (snd (run rtl8125_eeprom_cmd_done q)))) 3" if "chip q = chip s" for q
    using that stand_by_effect [of q] cmd_done_never [of "snd (run rtl8125_stand_by q)" 50000] stuck
    unfolding rtl8125_eeprom_cmd_done_def
    by (simp add: fst_run_bind snd_run_bind wire_simps del: run_state_bind cmd_done_loop.simps)
  show ?thesis
    using t stand_by_effect unfolding rtl8125_eeprom_write_sc_def
    by (simp add: fst_run_bind snd_run_bind timeout chip_shift_out del: run_state_bind)
qed

theorem eeprom_write_timeout_leaves_selected_witness:
  "\<forall>s. bit (cfg_last (hist (snd (run (rtl8125_eeprom_write_sc 3 7)
      (s\<lparr>chip := \<lambda>_ _. 0, tp := (tp s)\<lparr>tp_eeprom_type := EEPROM_TYPE_93C46\<rparr>\<rparr>))))) 3"
  using eeprom_write_timeout_leaves_selected
    [of "s\<lparr>chip := \<lambda>_ _. 0, tp := (tp s)\<lparr>tp_eeprom_type := EEPROM_TYPE_93C46\<rparr>\<rparr>" for s] by simp

end
