(* ===== verification/PacketFifo.thy ===== *)
theory PacketFifo
  imports Prelude
begin

text \<open>
  The packet FIFO of the DriverKit driver (\<open>RTL8127Driver.cpp\<close>, \<open>PacketFifo\<close>,
  \<open>fifoPush\<close>, \<open>fifoPop\<close>, \<open>fifoSampleDepth\<close>): the ring of 2048 slots through
  which the interrupt side and the queue actions exchange packets. The
  sequential operations refine a bounded queue; \<open>spsc_step\<close> interleaves the
  individual memory accesses of one producer and one consumer, and
  \<open>mp_step\<close> those of two producers.
\<close>

definition kFifoCapacity :: nat where
  "kFifoCapacity = 2048"

definition kFifoMask :: u32 where
  "kFifoMask = 2047"

record 'p PacketFifo =
  slots :: "'p list"
  fhead :: u32
  ftail :: u32

text \<open>A freshly zeroed FIFO; \<open>null\<close> is the content of an unwritten slot.\<close>

definition fifo_init :: "'p \<Rightarrow> 'p PacketFifo" where
  "fifo_init null = \<lparr>slots = replicate kFifoCapacity null, fhead = 0, ftail = 0\<rparr>"

definition fifoPush :: "'p PacketFifo \<Rightarrow> 'p \<Rightarrow> bool \<times> 'p PacketFifo" where
  "fifoPush f p =
    (let t = ftail f; next = (t + 1) AND kFifoMask in
     if next = fhead f then (False, f)
     else (True, f\<lparr>slots := (slots f)[unat t := p], ftail := next\<rparr>))"

definition fifoPop :: "'p PacketFifo \<Rightarrow> 'p option \<times> 'p PacketFifo" where
  "fifoPop f =
    (let h = fhead f in
     if h = ftail f then (None, f)
     else (Some (slots f ! unat h), f\<lparr>fhead := (h + 1) AND kFifoMask\<rparr>))"

text \<open>
  The three attempts of the diagnostic sampler. Each attempt loads head, tail
  and head again; the loads are the arguments, one triple per attempt.
\<close>

fun fifoSampleDepth :: "(u32 \<times> u32 \<times> u32) list \<Rightarrow> int" where
  "fifoSampleDepth [] = -1"
| "fifoSampleDepth ((h, t, h') # rest) =
    (if h = h' then uint ((t - h) AND kFifoMask) else fifoSampleDepth rest)"

text \<open>Number of queued packets and the queued packets, oldest first.\<close>

definition fifo_depth :: "'p PacketFifo \<Rightarrow> nat" where
  "fifo_depth f = unat ((ftail f - fhead f) AND kFifoMask)"

definition fifo_list :: "'p PacketFifo \<Rightarrow> 'p list" where
  "fifo_list f = ring_window (slots f) (unat (fhead f)) (fifo_depth f)"

definition fifo_inv :: "'p PacketFifo \<Rightarrow> bool" where
  "fifo_inv f \<longleftrightarrow> length (slots f) = kFifoCapacity \<and>
     unat (fhead f) < kFifoCapacity \<and> unat (ftail f) < kFifoCapacity"


subsection \<open>Index arithmetic\<close>

lemma fifo_next: "unat ((i + 1) AND kFifoMask) = (unat i + 1) mod 2048" for i :: u32
  using unat_plus1_and_mask [of 11 i] by (simp add: kFifoMask_def mask_2047)

lemma fifo_next_less: "unat ((i + 1) AND kFifoMask) < 2048" for i :: u32
  by (simp add: fifo_next)

lemma fifo_inv_bounds:
  assumes "fifo_inv f"
  shows "length (slots f) = 2048" "unat (fhead f) < 2048" "unat (ftail f) < 2048"
  using assms by (simp_all add: fifo_inv_def kFifoCapacity_def)

lemma fifo_depth_nat:
  assumes "fifo_inv f"
  shows "fifo_depth f = ring_dist 2048 (unat (fhead f)) (unat (ftail f))"
  using fifo_inv_bounds [OF assms] unat_diff_and_mask [of 11 "fhead f" "ftail f"]
  by (simp add: fifo_depth_def kFifoMask_def mask_2047 ring_dist_def)

lemma fifo_depth_less: "fifo_inv f \<Longrightarrow> fifo_depth f < 2048"
  by (simp add: fifo_depth_nat ring_dist_less)

lemma fifo_tail_eq:
  assumes "fifo_inv f"
  shows "unat (ftail f) = (unat (fhead f) + fifo_depth f) mod 2048"
  using fifo_inv_bounds [OF assms] by (simp add: fifo_depth_nat [OF assms] ring_dist_tail)

lemma fifo_depth_0:
  assumes "fifo_inv f"
  shows "fifo_depth f = 0 \<longleftrightarrow> fhead f = ftail f"
proof
  assume "fifo_depth f = 0"
  then show "fhead f = ftail f"
    using fifo_tail_eq [OF assms] assms
    by (simp add: fifo_inv_def kFifoCapacity_def word_unat_eq_iff)
qed (simp add: fifo_depth_def)

lemma fifo_full_iff:
  assumes "fifo_inv f"
  shows "(ftail f + 1) AND kFifoMask = fhead f \<longleftrightarrow> fifo_depth f = 2047"
  using fifo_inv_bounds [OF assms] ring_dist_full [of "unat (fhead f)" 2048 "unat (ftail f)"]
  by (simp add: word_unat_eq_iff [of "(ftail f + 1) AND kFifoMask"] fifo_next fifo_depth_nat [OF assms])

lemma fifo_init_inv: "fifo_inv (fifo_init null)"
  by (simp add: fifo_inv_def fifo_init_def kFifoCapacity_def)

lemma fifo_init_idx: "fhead (fifo_init null) = 0" "ftail (fifo_init null) = 0"
  by (simp_all add: fifo_init_def)

lemma fifo_init_list: "fifo_list (fifo_init null) = []"
  by (simp add: fifo_list_def fifo_depth_def fifo_init_def)


subsection \<open>The two memory effects: publish a slot, release a slot\<close>

text \<open>
  The proofs about whole operations and about interleaved accesses both rest
  on three facts: writing the slot at the tail is invisible, publishing the
  new tail appends the written slot, and moving the head drops the first.
\<close>

lemma fifo_write_slot:
  assumes "fifo_inv f"
  shows "fifo_list (f\<lparr>slots := (slots f)[unat (ftail f) := p]\<rparr>) = fifo_list f"
  using fifo_inv_bounds [OF assms] fifo_depth_less [OF assms] fifo_tail_eq [OF assms]
    ring_window_update_outside [of "fifo_depth f" "slots f" "unat (fhead f)" p]
  by (simp add: fifo_list_def fifo_depth_def)

lemma fifo_write_slot_inv:
  "fifo_inv f \<Longrightarrow> fifo_inv (f\<lparr>slots := (slots f)[i := p]\<rparr>)"
  by (simp add: fifo_inv_def)

lemma fifo_publish_inv:
  "fifo_inv f \<Longrightarrow> fifo_inv (f\<lparr>ftail := (ftail f + 1) AND kFifoMask\<rparr>)"
  using fifo_next_less by (simp add: fifo_inv_def kFifoCapacity_def)

lemma fifo_publish_depth:
  assumes "fifo_inv f" "fifo_depth f < 2047"
  shows "fifo_depth (f\<lparr>ftail := (ftail f + 1) AND kFifoMask\<rparr>) = Suc (fifo_depth f)"
  using fifo_inv_bounds [OF assms(1)] assms ring_dist_push [of "unat (fhead f)" 2048 "unat (ftail f)"]
  by (simp add: fifo_depth_nat fifo_publish_inv fifo_next)

lemma fifo_publish:
  assumes "fifo_inv f" "fifo_depth f < 2047" "slots f ! unat (ftail f) = p"
  shows "fifo_list (f\<lparr>ftail := (ftail f + 1) AND kFifoMask\<rparr>) = fifo_list f @ [p]"
proof -
  have len: "length (slots f) = 2048"
    using assms by (simp add: fifo_inv_def kFifoCapacity_def)
  show ?thesis
    unfolding fifo_list_def fifo_publish_depth [OF assms(1,2)]
    using fifo_tail_eq [OF assms(1)] len assms(3) by (simp add: ring_window_snoc)
qed

lemma fifo_release_inv:
  "fifo_inv f \<Longrightarrow> fifo_inv (f\<lparr>fhead := (fhead f + 1) AND kFifoMask\<rparr>)"
  using fifo_next_less by (simp add: fifo_inv_def kFifoCapacity_def)

lemma fifo_release:
  assumes "fifo_inv f" "fhead f \<noteq> ftail f"
  shows "fifo_list f
    = slots f ! unat (fhead f) # fifo_list (f\<lparr>fhead := (fhead f + 1) AND kFifoMask\<rparr>)"
proof -
  let ?g = "f\<lparr>fhead := (fhead f + 1) AND kFifoMask\<rparr>"
  have len: "length (slots f) = 2048" and b: "unat (fhead f) < 2048" "unat (ftail f) < 2048"
    using assms by (simp_all add: fifo_inv_def kFifoCapacity_def)
  have "unat (fhead f) \<noteq> unat (ftail f)"
    using assms by (simp add: word_unat_eq_iff)
  then have d: "fifo_depth f = Suc (fifo_depth ?g)"
    using b assms ring_dist_pop [of "unat (fhead f)" 2048 "unat (ftail f)"]
    by (simp add: fifo_depth_nat fifo_release_inv fifo_next)
  show ?thesis
    unfolding fifo_list_def d ring_window_Cons
    using len b by (simp add: fifo_next)
qed

lemma fifo_list_length: "length (fifo_list f) = fifo_depth f"
  by (simp add: fifo_list_def)


subsection \<open>Refinement of a bounded queue\<close>

datatype 'p queue_op = Enq 'p | Deq

text \<open>
  A client's run over a queue: the packets accepted, the packets handed out,
  and the final queue.
\<close>

fun run_ops :: "('q \<Rightarrow> 'p \<Rightarrow> bool \<times> 'q) \<Rightarrow> ('q \<Rightarrow> 'p option \<times> 'q) \<Rightarrow>
    'p queue_op list \<Rightarrow> 'q \<Rightarrow> 'p list \<times> 'p list \<times> 'q" where
  "run_ops enq deq [] q = ([], [], q)"
| "run_ops enq deq (Enq p # ops) q =
    (let (ok, q1) = enq q p; (ins, outs, q2) = run_ops enq deq ops q1
     in (if ok then p # ins else ins, outs, q2))"
| "run_ops enq deq (Deq # ops) q =
    (let (r, q1) = deq q; (ins, outs, q2) = run_ops enq deq ops q1
     in (ins, case r of None \<Rightarrow> outs | Some p \<Rightarrow> p # outs, q2))"

text \<open>
  Collecting up to \<open>n\<close> packets, the loop of the completion actions: it stops
  at the first empty answer.
\<close>

fun drain :: "('q \<Rightarrow> 'p option \<times> 'q) \<Rightarrow> nat \<Rightarrow> 'q \<Rightarrow> 'p list \<times> 'q" where
  "drain deq 0 q = ([], q)"
| "drain deq (Suc n) q =
    (case deq q of (None, q1) \<Rightarrow> ([], q1)
     | (Some p, q1) \<Rightarrow> (let (ps, q2) = drain deq n q1 in (p # ps, q2)))"

locale bounded_queue =
  fixes enq :: "'q \<Rightarrow> 'p \<Rightarrow> bool \<times> 'q"
    and deq :: "'q \<Rightarrow> 'p option \<times> 'q"
    and contents :: "'q \<Rightarrow> 'p list"
    and inv :: "'q \<Rightarrow> bool"
    and cap :: nat
  assumes enq_inv: "inv q \<Longrightarrow> inv (snd (enq q p))"
    and deq_inv: "inv q \<Longrightarrow> inv (snd (deq q))"
    and cap_bound: "inv q \<Longrightarrow> length (contents q) \<le> cap"
    and enq_room: "\<lbrakk>inv q; length (contents q) < cap\<rbrakk> \<Longrightarrow>
      fst (enq q p) \<and> contents (snd (enq q p)) = contents q @ [p]"
    and enq_full: "\<lbrakk>inv q; length (contents q) = cap\<rbrakk> \<Longrightarrow> enq q p = (False, q)"
    and deq_empty: "\<lbrakk>inv q; contents q = []\<rbrakk> \<Longrightarrow> deq q = (None, q)"
    and deq_Cons: "\<lbrakk>inv q; contents q = p # ps\<rbrakk> \<Longrightarrow>
      fst (deq q) = Some p \<and> contents (snd (deq q)) = ps"
begin

lemma enq_contents:
  assumes "inv q"
  shows "contents (snd (enq q p)) = contents q @ (if fst (enq q p) then [p] else [])"
  using assms cap_bound [OF assms] enq_room [of q p] enq_full [of q p]
  by (cases "length (contents q) < cap") auto

lemma deq_contents:
  assumes "inv q"
  shows "contents q = (case fst (deq q) of None \<Rightarrow> [] | Some p \<Rightarrow> [p]) @ contents (snd (deq q))"
  using assms deq_empty [of q] deq_Cons [of q] by (cases "contents q") auto

lemma run_ops_conserve:
  assumes "inv q" "run_ops enq deq ops q = (ins, outs, q')"
  shows "inv q' \<and> contents q @ ins = outs @ contents q'"
  using assms
proof (induction ops arbitrary: q ins outs)
  case (Cons op ops)
  show ?case
  proof (cases op)
    case (Enq p)
    obtain ins' where r: "run_ops enq deq ops (snd (enq q p)) = (ins', outs, q')"
        and i: "ins = (if fst (enq q p) then p # ins' else ins')"
      using Cons.prems(2) Enq by (auto split: prod.splits if_splits)
    then show ?thesis
      using Cons.IH [OF enq_inv [OF Cons.prems(1)] r] enq_contents [OF Cons.prems(1), of p]
      by (auto split: if_splits)
  next
    case Deq
    obtain outs' where r: "run_ops enq deq ops (snd (deq q)) = (ins, outs', q')"
        and o: "outs = (case fst (deq q) of None \<Rightarrow> outs' | Some p \<Rightarrow> p # outs')"
      using Cons.prems(2) Deq by (auto split: prod.splits)
    then show ?thesis
      using Cons.IH [OF deq_inv [OF Cons.prems(1)] r] deq_contents [OF Cons.prems(1)]
      by (auto split: option.splits)
  qed
qed simp

lemma drain_take:
  assumes "inv q"
  shows "fst (drain deq n q) = take n (contents q)
    \<and> contents (snd (drain deq n q)) = drop n (contents q) \<and> inv (snd (drain deq n q))"
  using assms
proof (induction n arbitrary: q)
  case (Suc n)
  show ?case
  proof (cases "contents q")
    case Nil
    then show ?thesis using Suc.prems by (simp add: deq_empty)
  next
    case (Cons p ps)
    then obtain q1 where "deq q = (Some p, q1)" "contents q1 = ps" "inv q1"
      using deq_Cons [OF Suc.prems Cons] deq_inv [OF Suc.prems] by (cases "deq q") auto
    then show ?thesis
      using Suc.IH [of q1] Cons by (auto split: prod.splits)
  qed
qed simp

end

lemma fifoPush_room:
  assumes "fifo_inv f" "fifo_depth f < 2047"
  shows "fst (fifoPush f p)" "fifo_list (snd (fifoPush f p)) = fifo_list f @ [p]"
proof -
  let ?g = "f\<lparr>slots := (slots f)[unat (ftail f) := p]\<rparr>"
  have nf: "(ftail f + 1) AND kFifoMask \<noteq> fhead f"
    using assms by (simp add: fifo_full_iff)
  have d: "fifo_depth ?g = fifo_depth f" by (simp add: fifo_depth_def)
  show "fst (fifoPush f p)" using nf by (simp add: fifoPush_def Let_def)
  have "fifo_list (?g\<lparr>ftail := (ftail ?g + 1) AND kFifoMask\<rparr>) = fifo_list ?g @ [p]"
    using assms fifo_inv_bounds [OF assms(1)]
    by (intro fifo_publish fifo_write_slot_inv) (simp_all add: d)
  then show "fifo_list (snd (fifoPush f p)) = fifo_list f @ [p]"
    using nf assms(1) by (simp add: fifoPush_def Let_def fifo_write_slot)
qed

interpretation fifo: bounded_queue fifoPush fifoPop fifo_list fifo_inv 2047
proof
  fix f :: "'a PacketFifo" and p
  assume f: "fifo_inv f"
  show "fifo_inv (snd (fifoPush f p))"
    using f fifo_next_less by (simp add: fifoPush_def Let_def fifo_inv_def kFifoCapacity_def)
  show "fifo_inv (snd (fifoPop f))"
    using f fifo_next_less by (simp add: fifoPop_def Let_def fifo_inv_def kFifoCapacity_def)
  show "length (fifo_list f) \<le> 2047"
    using fifo_depth_less [OF f] by (simp add: fifo_list_length)
  show "fst (fifoPush f p) \<and> fifo_list (snd (fifoPush f p)) = fifo_list f @ [p]"
    if "length (fifo_list f) < 2047"
    using that f by (simp add: fifoPush_room fifo_list_length)
  show "fifoPush f p = (False, f)" if "length (fifo_list f) = 2047"
    using that f by (simp add: fifoPush_def Let_def fifo_full_iff fifo_list_length)
  show "fifoPop f = (None, f)" if "fifo_list f = []"
    using that f fifo_depth_0 [OF f] by (simp add: fifoPop_def flip: fifo_list_length)
  show "fst (fifoPop f) = Some p \<and> fifo_list (snd (fifoPop f)) = ps" if "fifo_list f = p # ps" for ps
  proof -
    have "fhead f \<noteq> ftail f"
      using that fifo_depth_0 [OF f] by (simp flip: fifo_list_length)
    then show ?thesis
      using fifo_release [OF f] that by (simp add: fifoPop_def Let_def)
  qed
qed


subsection \<open>Interleaved accesses\<close>

text \<open>
  Program points of \<open>fifoPush\<close> and \<open>fifoPop\<close> between their memory accesses.
  Acquire loads and release stores on head and tail order the slot accesses,
  so an execution is an interleaving of these steps.
\<close>

datatype 'p push_pc = PIdle | PGotTail 'p u32 | PChecked 'p u32 | PWrote 'p u32

datatype 'p pop_pc = CIdle | CGotHead u32 | CChecked u32 | CRead 'p u32

text \<open>The last argument is what the step publishes (a finished push or pop).\<close>

inductive push_step :: "'p PacketFifo \<Rightarrow> 'p push_pc \<Rightarrow> 'p PacketFifo \<Rightarrow> 'p push_pc \<Rightarrow> 'p list \<Rightarrow> bool" where
  load_tail: "push_step f PIdle f (PGotTail p (ftail f)) []"
| full: "(t + 1) AND kFifoMask = fhead f \<Longrightarrow> push_step f (PGotTail p t) f PIdle []"
| room: "(t + 1) AND kFifoMask \<noteq> fhead f \<Longrightarrow> push_step f (PGotTail p t) f (PChecked p t) []"
| write_slot: "push_step f (PChecked p t) (f\<lparr>slots := (slots f)[unat t := p]\<rparr>) (PWrote p t) []"
| publish_tail: "push_step f (PWrote p t) (f\<lparr>ftail := (t + 1) AND kFifoMask\<rparr>) PIdle [p]"

inductive pop_step :: "'p PacketFifo \<Rightarrow> 'p pop_pc \<Rightarrow> 'p PacketFifo \<Rightarrow> 'p pop_pc \<Rightarrow> 'p list \<Rightarrow> bool" where
  load_head: "pop_step f CIdle f (CGotHead (fhead f)) []"
| empty: "h = ftail f \<Longrightarrow> pop_step f (CGotHead h) f CIdle []"
| ready: "h \<noteq> ftail f \<Longrightarrow> pop_step f (CGotHead h) f (CChecked h) []"
| read_slot: "pop_step f (CChecked h) f (CRead (slots f ! unat h) h) []"
| release: "pop_step f (CRead p h) (f\<lparr>fhead := (h + 1) AND kFifoMask\<rparr>) CIdle [p]"

inductive_cases push_stepE: "push_step f pc f' pc' out"
inductive_cases pop_stepE: "pop_step f pc f' pc' out"

record 'p spsc =
  sfifo :: "'p PacketFifo"
  spush :: "'p push_pc"
  spop :: "'p pop_pc"
  pushed :: "'p list"
  popped :: "'p list"

definition spsc_init :: "'p \<Rightarrow> 'p spsc" where
  "spsc_init null = \<lparr>sfifo = fifo_init null, spush = PIdle, spop = CIdle, pushed = [], popped = []\<rparr>"

inductive spsc_step :: "'p spsc \<Rightarrow> 'p spsc \<Rightarrow> bool" where
  producer: "push_step (sfifo s) (spush s) f pc out \<Longrightarrow>
    spsc_step s (s\<lparr>sfifo := f, spush := pc, pushed := pushed s @ out\<rparr>)"
| consumer: "pop_step (sfifo s) (spop s) f pc out \<Longrightarrow>
    spsc_step s (s\<lparr>sfifo := f, spop := pc, popped := popped s @ out\<rparr>)"

text \<open>What each side knows at its program point, whatever the other side does.\<close>

fun push_pc_ok :: "'p PacketFifo \<Rightarrow> 'p push_pc \<Rightarrow> bool" where
  "push_pc_ok f PIdle \<longleftrightarrow> True"
| "push_pc_ok f (PGotTail p t) \<longleftrightarrow> t = ftail f"
| "push_pc_ok f (PChecked p t) \<longleftrightarrow> t = ftail f \<and> fifo_depth f < 2047"
| "push_pc_ok f (PWrote p t) \<longleftrightarrow> t = ftail f \<and> fifo_depth f < 2047 \<and> slots f ! unat t = p"

fun pop_pc_ok :: "'p PacketFifo \<Rightarrow> 'p pop_pc \<Rightarrow> bool" where
  "pop_pc_ok f CIdle \<longleftrightarrow> True"
| "pop_pc_ok f (CGotHead h) \<longleftrightarrow> h = fhead f"
| "pop_pc_ok f (CChecked h) \<longleftrightarrow> h = fhead f \<and> fifo_list f \<noteq> []"
| "pop_pc_ok f (CRead p h) \<longleftrightarrow> h = fhead f \<and> (\<exists>ps. fifo_list f = p # ps)"

definition spsc_inv :: "'p spsc \<Rightarrow> bool" where
  "spsc_inv s \<longleftrightarrow> fifo_inv (sfifo s) \<and> popped s @ fifo_list (sfifo s) = pushed s \<and>
     push_pc_ok (sfifo s) (spush s) \<and> pop_pc_ok (sfifo s) (spop s)"

lemma fifo_nonempty: "fifo_inv f \<Longrightarrow> fifo_list f \<noteq> [] \<longleftrightarrow> fhead f \<noteq> ftail f"
  using fifo_depth_0 [of f] fifo_list_length [of f] by (cases "fifo_list f") auto

lemma fifo_depth_release:
  assumes "fifo_inv f" "fhead f \<noteq> ftail f"
  shows "fifo_depth (f\<lparr>fhead := (fhead f + 1) AND kFifoMask\<rparr>) < fifo_depth f"
  using fifo_release [OF assms] by (metis fifo_list_length impossible_Cons not_less)

lemma push_step_keeps:
  assumes st: "push_step f pc f' pc' out" and f: "fifo_inv f" and ok: "push_pc_ok f pc"
  shows "fifo_inv f' \<and> push_pc_ok f' pc' \<and> fifo_list f' = fifo_list f @ out \<and> fhead f' = fhead f"
  using st
proof cases
  case (room t p)
  then show ?thesis
    using ok f fifo_depth_less [OF f] fifo_full_iff [OF f] by simp
next
  case (write_slot p t)
  then show ?thesis
    using ok f fifo_inv_bounds [OF f]
    by (simp add: fifo_write_slot fifo_write_slot_inv) (simp add: fifo_depth_def)
next
  case (publish_tail p t)
  then show ?thesis
    using ok f by (auto simp: fifo_publish fifo_publish_inv)
qed (use f in simp_all)

lemma push_step_other:
  assumes "push_step f pc f' pc' out" "fifo_list f' = fifo_list f @ out" "fhead f' = fhead f"
    and "pop_pc_ok f cpc"
  shows "pop_pc_ok f' cpc"
  using assms by (cases cpc) auto

lemma pop_step_keeps:
  assumes st: "pop_step f pc f' pc' out" and f: "fifo_inv f" and ok: "pop_pc_ok f pc"
  shows "fifo_inv f' \<and> pop_pc_ok f' pc' \<and> fifo_list f = out @ fifo_list f' \<and>
    ftail f' = ftail f \<and> slots f' = slots f \<and> fifo_depth f' \<le> fifo_depth f"
  using st
proof cases
  case (ready h)
  then show ?thesis using ok f by (simp add: fifo_nonempty)
next
  case (read_slot h)
  then show ?thesis using ok f fifo_release [OF f] by (simp add: fifo_nonempty)
next
  case (release p h)
  then have ne: "fhead f \<noteq> ftail f" using ok f by (auto simp flip: fifo_nonempty)
  then show ?thesis
    using release ok f fifo_release [OF f ne] fifo_depth_release [OF f ne]
    by (auto simp: fifo_release_inv)
qed (use f in simp_all)

lemma pop_step_other:
  assumes "ftail f' = ftail f" "slots f' = slots f" "fifo_depth f' \<le> fifo_depth f"
    and "push_pc_ok f ppc"
  shows "push_pc_ok f' ppc"
  using assms by (cases ppc) auto

lemma spsc_step_inv: "spsc_step s s' \<Longrightarrow> spsc_inv s \<Longrightarrow> spsc_inv s'"
proof (induction rule: spsc_step.induct)
  case (producer s f pc out)
  then show ?case
    using push_step_keeps [OF producer(1)] push_step_other [OF producer(1)]
    by (auto simp: spsc_inv_def simp flip: append_assoc)
next
  case (consumer s f pc out)
  then show ?case
    using pop_step_keeps [OF consumer(1)] pop_step_other [of f "sfifo s"]
    by (auto simp: spsc_inv_def)
qed

interpretation spsc: invariant_system spsc_step spsc_inv
  by unfold_locales (rule spsc_step_inv)

lemma spsc_reach_inv: "spsc_step\<^sup>*\<^sup>* (spsc_init null) s \<Longrightarrow> spsc_inv s"
  by (erule spsc.reach_good) (simp add: spsc_inv_def spsc_init_def fifo_init_inv fifo_init_list)

lemma fifoSampleDepth_quiet:
  "fifoSampleDepth ((fhead f, ftail f, fhead f) # rest) = int (length (fifo_list f))"
  by (simp add: fifo_list_length fifo_depth_def)


subsection \<open>Two producers\<close>

record 'p mp =
  mfifo :: "'p PacketFifo"
  mpushA :: "'p push_pc"
  mpushB :: "'p push_pc"
  mpushed :: "'p list"

definition mp_init :: "'p \<Rightarrow> 'p mp" where
  "mp_init null = \<lparr>mfifo = fifo_init null, mpushA = PIdle, mpushB = PIdle, mpushed = []\<rparr>"

inductive mp_step :: "'p mp \<Rightarrow> 'p mp \<Rightarrow> bool" where
  producerA: "push_step (mfifo s) (mpushA s) f pc out \<Longrightarrow>
    mp_step s (s\<lparr>mfifo := f, mpushA := pc, mpushed := mpushed s @ out\<rparr>)"
| producerB: "push_step (mfifo s) (mpushB s) f pc out \<Longrightarrow>
    mp_step s (s\<lparr>mfifo := f, mpushB := pc, mpushed := mpushed s @ out\<rparr>)"

lemma mp_stepA:
  "push_step f pc f' pc' out \<Longrightarrow> h' = h @ out \<Longrightarrow>
   mp_step \<lparr>mfifo = f, mpushA = pc, mpushB = b, mpushed = h\<rparr>
     \<lparr>mfifo = f', mpushA = pc', mpushB = b, mpushed = h'\<rparr>"
  using mp_step.producerA [of "\<lparr>mfifo = f, mpushA = pc, mpushB = b, mpushed = h\<rparr>"] by simp

lemma mp_stepB:
  "push_step f pc f' pc' out \<Longrightarrow> h' = h @ out \<Longrightarrow>
   mp_step \<lparr>mfifo = f, mpushA = a, mpushB = pc, mpushed = h\<rparr>
     \<lparr>mfifo = f', mpushA = a, mpushB = pc', mpushed = h'\<rparr>"
  using mp_step.producerB [of "\<lparr>mfifo = f, mpushA = a, mpushB = pc, mpushed = h\<rparr>"] by simp

text \<open>Both producers check, both write the slot at the tail, both publish.\<close>

lemma mp_race:
  fixes f :: "'p PacketFifo"
  assumes room: "(ftail f + 1) AND kFifoMask \<noteq> fhead f"
  shows "mp_step\<^sup>*\<^sup>* \<lparr>mfifo = f, mpushA = PIdle, mpushB = PIdle, mpushed = h\<rparr>
    \<lparr>mfifo = f\<lparr>slots := (slots f)[unat (ftail f) := b], ftail := (ftail f + 1) AND kFifoMask\<rparr>,
      mpushA = PIdle, mpushB = PIdle, mpushed = h @ [a, b]\<rparr>"
proof -
  let ?t = "ftail f" and ?n = "(ftail f + 1) AND kFifoMask"
  let ?S = "\<lambda>g pa pb h. \<lparr>mfifo = g, mpushA = pa, mpushB = pb, mpushed = h\<rparr> :: 'p mp"
  let ?fa = "f\<lparr>slots := (slots f)[unat ?t := a]\<rparr>"
  let ?fb = "f\<lparr>slots := (slots f)[unat ?t := b]\<rparr>"
  have "mp_step\<^sup>*\<^sup>* (?S f PIdle PIdle h) (?S f PIdle PIdle h)" by simp
  also have "mp_step \<dots> (?S f (PGotTail a ?t) PIdle h)"
    by (rule mp_stepA, rule push_step.load_tail) simp
  also have "mp_step \<dots> (?S f (PChecked a ?t) PIdle h)"
    by (rule mp_stepA, rule push_step.room [OF room]) simp
  also have "mp_step \<dots> (?S f (PChecked a ?t) (PGotTail b ?t) h)"
    by (rule mp_stepB, rule push_step.load_tail) simp
  also have "mp_step \<dots> (?S f (PChecked a ?t) (PChecked b ?t) h)"
    by (rule mp_stepB, rule push_step.room [OF room]) simp
  also have "mp_step \<dots> (?S ?fa (PWrote a ?t) (PChecked b ?t) h)"
    by (rule mp_stepA, rule push_step.write_slot) simp
  also have "mp_step \<dots> (?S ?fb (PWrote a ?t) (PWrote b ?t) h)"
    using mp_stepB [OF push_step.write_slot [of ?fa b ?t] refl] by simp
  also have "mp_step \<dots> (?S (?fb\<lparr>ftail := ?n\<rparr>) PIdle (PWrote b ?t) (h @ [a]))"
    by (rule mp_stepA, rule push_step.publish_tail) simp
  also have "mp_step \<dots> (?S (?fb\<lparr>ftail := ?n\<rparr>) PIdle PIdle (h @ [a, b]))"
    using mp_stepB [OF push_step.publish_tail [of "?fb\<lparr>ftail := ?n\<rparr>" b ?t], of "h @ [a, b]" "h @ [a]"]
    by simp
  finally show ?thesis by simp
qed


subsection \<open>Properties\<close>


text \<open>
  (C8) Under every interleaving of the memory accesses of one producer and one
  consumer, the packets popped so far followed by the queue content are the
  packets published so far: none is lost, duplicated or reordered, and the
  indices stay inside the slot array.
\<close>

theorem fifo_spsc_linearizable:
  assumes "spsc_step\<^sup>*\<^sup>* (spsc_init null) s"
  shows "popped s @ fifo_list (sfifo s) = pushed s \<and> length (fifo_list (sfifo s)) \<le> 2047 \<and>
    unat (fhead (sfifo s)) < length (slots (sfifo s)) \<and>
    unat (ftail (sfifo s)) < length (slots (sfifo s))"
  using spsc_reach_inv [OF assms] fifo_depth_less [of "sfifo s"] fifo_inv_bounds [of "sfifo s"]
  by (auto simp: spsc_inv_def fifo_list_length)

lemma spsc_stepP:
  "push_step f pc f' pc' out \<Longrightarrow>
   spsc_step \<lparr>sfifo = f, spush = pc, spop = c, pushed = h, popped = g\<rparr>
     \<lparr>sfifo = f', spush = pc', spop = c, pushed = h @ out, popped = g\<rparr>"
  using spsc_step.producer [of "\<lparr>sfifo = f, spush = pc, spop = c, pushed = h, popped = g\<rparr>"] by simp

lemma spsc_two_accesses:
  "spsc_step\<^sup>*\<^sup>* (spsc_init (0::nat))
    \<lparr>sfifo = fifo_init 0, spush = PChecked 7 0, spop = CIdle, pushed = [], popped = []\<rparr>"
proof -
  have room: "((0::u32) + 1) AND kFifoMask \<noteq> fhead (fifo_init (0::nat))"
    by (simp add: kFifoMask_def fifo_init_idx)
  have "spsc_step (spsc_init (0::nat))
      \<lparr>sfifo = fifo_init 0, spush = PGotTail 7 0, spop = CIdle, pushed = [], popped = []\<rparr>"
    using spsc_stepP [OF push_step.load_tail [of "fifo_init (0::nat)" 7], of CIdle "[]" "[]"]
    unfolding spsc_init_def by (simp add: fifo_init_idx)
  moreover have "spsc_step
      \<lparr>sfifo = fifo_init (0::nat), spush = PGotTail 7 0, spop = CIdle, pushed = [], popped = []\<rparr>
      \<lparr>sfifo = fifo_init 0, spush = PChecked 7 0, spop = CIdle, pushed = [], popped = []\<rparr>"
    using spsc_stepP [OF push_step.room [OF room, of 7], of CIdle "[]" "[]"] by simp
  ultimately show ?thesis
    by (rule converse_rtranclp_into_rtranclp [OF _ r_into_rtranclp])
qed

lemma spsc_one_push:
  "spsc_step\<^sup>*\<^sup>* (spsc_init (0::nat))
    \<lparr>sfifo = (fifo_init 0)\<lparr>slots := (slots (fifo_init 0))[0 := 7], ftail := 1\<rparr>,
      spush = PIdle, spop = CIdle, pushed = [7], popped = []\<rparr>"
proof -
  let ?f = "(fifo_init (0::nat))\<lparr>slots := (slots (fifo_init 0))[0 := 7]\<rparr>"
  have "spsc_step
      \<lparr>sfifo = fifo_init (0::nat), spush = PChecked 7 0, spop = CIdle, pushed = [], popped = []\<rparr>
      \<lparr>sfifo = ?f, spush = PWrote 7 0, spop = CIdle, pushed = [], popped = []\<rparr>"
    using spsc_stepP [OF push_step.write_slot [of "fifo_init 0" 7 0], of CIdle "[]" "[]"] by simp
  moreover have "spsc_step
      \<lparr>sfifo = ?f, spush = PWrote 7 0, spop = CIdle, pushed = [], popped = []\<rparr>
      \<lparr>sfifo = ?f\<lparr>ftail := 1\<rparr>, spush = PIdle, spop = CIdle, pushed = [7], popped = []\<rparr>"
    using spsc_stepP [OF push_step.publish_tail [of ?f 7 0], of CIdle "[]" "[]"]
    by (simp add: kFifoMask_def)
  ultimately show ?thesis
    by (rule rtranclp.rtrancl_into_rtrancl [OF rtranclp.rtrancl_into_rtrancl [OF spsc_two_accesses]])
qed

theorem fifo_spsc_linearizable_witness:
  "fifo_list ((fifo_init (0::nat))\<lparr>slots := (slots (fifo_init 0))[0 := 7], ftail := 1\<rparr>) = [7]"
  using fifo_spsc_linearizable [OF spsc_one_push] by simp

text \<open>
  (C37) With two producers, as \<open>txDoneFifo\<close> has when \<open>txDequeueAction\<close> completes
  a packet of bad length while \<open>txRingReclaim\<close> completes sent ones, an
  interleaving of the accesses of two successful pushes leaves only the second
  packet in the queue: the first is lost.
\<close>

theorem fifo_two_producers_lose_packet:
  "\<exists>s. mp_step\<^sup>*\<^sup>* (mp_init null) s \<and> mpushA s = PIdle \<and> mpushB s = PIdle \<and>
     mpushed s = [a, b] \<and> fifo_list (mfifo s) = [b]"
proof -
  let ?f = "fifo_init null"
  let ?g = "?f\<lparr>slots := (slots ?f)[unat (ftail ?f) := b], ftail := (ftail ?f + 1) AND kFifoMask\<rparr>"
  have room: "(ftail ?f + 1) AND kFifoMask \<noteq> fhead ?f"
    by (simp add: kFifoMask_def fifo_init_idx)
  have "?g = snd (fifoPush ?f b)"
    using room by (simp add: fifoPush_def Let_def)
  then have "fifo_list ?g = [b]"
    using fifoPush_room(2) [OF fifo_init_inv [of null], of b] fifo_init_list [of null]
      fifo_list_length [of ?f] by simp
  then show ?thesis
    using mp_race [OF room, of "[]" b a] unfolding mp_init_def
    by (intro exI [of _ "\<lparr>mfifo = ?g, mpushA = PIdle, mpushB = PIdle, mpushed = [a, b]\<rparr>"]) simp
qed

end
