(* ===== verification/TxBuffer.thy ===== *)
theory TxBuffer
  imports Prelude
begin

text \<open>
  Resolution of a transmit packet's data pointer (\<open>RTL8127TxBuffer.h\<close>): the
  CPU address used for parsing and the bus address given to the chip are both
  derived from one offset. \<open>rtl8127TxBufferView\<close> returns the C result and the
  output parameter; the theorem characterises it in unbounded arithmetic.
\<close>

record RTL8127TxBufferView =
  frame :: u64
  iova :: u64

definition null_view :: RTL8127TxBufferView where
  "null_view = \<lparr>frame = 0, iova = 0\<rparr>"

definition UINT64_MAX :: u64 where
  "UINT64_MAX = 0xFFFFFFFFFFFFFFFF"

definition rtl8127TxBufferView :: "u64 \<Rightarrow> u64 \<Rightarrow> u64 \<Rightarrow> u32 \<Rightarrow> u32 \<Rightarrow> bool \<times> RTL8127TxBufferView" where
  "rtl8127TxBufferView baseVA baseIOVA offset len capacity =
    (let cap = (ucast capacity :: u64) in
     if baseVA = 0 \<or> len = 0 \<or> offset > cap \<or> (ucast len :: u64) > cap - offset \<or>
        baseVA > UINT64_MAX - offset \<or> baseIOVA > UINT64_MAX - offset
     then (False, null_view)
     else (True, \<lparr>frame = baseVA + offset, iova = baseIOVA + offset\<rparr>))"

lemma unat_ucast_u32_u64 [simp]: "unat (ucast (x :: u32) :: u64) = unat x"
  using unat_bound [of x] by (simp add: unsigned_ucast_eq take_bit_nat_eq_self)

lemma le_UINT64_MAX_minus:
  fixes b c :: u64
  shows "b \<le> UINT64_MAX - c \<longleftrightarrow> unat b + unat c < 2 ^ 64"
proof -
  have "c \<le> UINT64_MAX"
    using unat_bound [of c] by (simp add: UINT64_MAX_def word_le_nat_alt)
  then have "unat (UINT64_MAX - c) = unat UINT64_MAX - unat c"
    by (rule unat_sub)
  then have "unat (UINT64_MAX - c) = 2 ^ 64 - 1 - unat c"
    by (simp add: UINT64_MAX_def)
  moreover have "unat c < 2 ^ 64" using unat_bound [of c] by simp
  ultimately show ?thesis
    by (simp add: word_le_nat_alt) linarith
qed

lemma gt_UINT64_MAX_minus:
  fixes b c :: u64
  shows "UINT64_MAX - c < b \<longleftrightarrow> \<not> unat b + unat c < 18446744073709551616"
  using le_UINT64_MAX_minus [of b c] by (simp add: not_le [symmetric])

lemma unat_plus_no_wrap:
  fixes b c :: u64
  shows "unat b + unat c < 2 ^ 64 \<Longrightarrow> unat (b + c) = unat b + unat c"
  by (subst unat_plus_simple [THEN iffD1]) (simp_all add: no_olen_add_nat)

lemma view_guard:
  "(baseVA = 0 \<or> len = 0 \<or> offset > ucast capacity \<or> (ucast len :: u64) > ucast capacity - offset \<or>
      baseVA > UINT64_MAX - offset \<or> baseIOVA > UINT64_MAX - offset)
   \<longleftrightarrow> \<not> (baseVA \<noteq> 0 \<and> len \<noteq> 0 \<and> unat offset + unat (len :: u32) \<le> unat (capacity :: u32) \<and>
      unat baseVA + unat offset < 2 ^ 64 \<and> unat baseIOVA + unat offset < 2 ^ 64)"
proof (cases "offset > (ucast capacity :: u64)")
  case True
  then show ?thesis by (simp add: word_less_nat_alt)
next
  case False
  then have "offset \<le> (ucast capacity :: u64)" by simp
  then have "unat ((ucast capacity :: u64) - offset) = unat capacity - unat offset"
    by (simp add: unat_sub)
  moreover have "unat offset \<le> unat capacity"
    using False by (simp add: word_less_nat_alt not_less)
  ultimately show ?thesis
    using False by (auto simp: word_less_nat_alt [of _ "ucast len"] gt_UINT64_MAX_minus)
qed

text \<open>
  (C23) The view is granted exactly when the buffer exists, the frame is not
  empty, it lies inside the buffer, and neither address wraps; then the CPU
  and the bus address are the two bases plus the same offset, so that parsing
  and DMA see the same bytes. Otherwise both addresses are null.
\<close>

theorem tx_buffer_view_exact:
  "rtl8127TxBufferView baseVA baseIOVA offset len capacity = (ok, v) \<Longrightarrow>
   (ok \<longleftrightarrow> baseVA \<noteq> 0 \<and> len \<noteq> 0 \<and> unat offset + unat len \<le> unat capacity \<and>
      unat baseVA + unat offset < 2 ^ 64 \<and> unat baseIOVA + unat offset < 2 ^ 64) \<and>
   (if ok then unat (frame v) = unat baseVA + unat offset \<and> unat (iova v) = unat baseIOVA + unat offset
    else frame v = 0 \<and> iova v = 0)"
  unfolding rtl8127TxBufferView_def Let_def view_guard
  by (auto simp: null_view_def unat_plus_no_wrap split: if_splits)

theorem tx_buffer_view_exact_witness:
  "rtl8127TxBufferView 0x1000 0x80000000 64 1514 32768 = (True, \<lparr>frame = 0x1040, iova = 0x80000040\<rparr>) \<and>
   unat (frame \<lparr>frame = 0x1040, iova = 0x80000040\<rparr>) = unat (0x1000 :: u64) + unat (64 :: u64)"
proof -
  have r: "rtl8127TxBufferView 0x1000 0x80000000 64 1514 32768 = (True, \<lparr>frame = 0x1040, iova = 0x80000040\<rparr>)"
    by (simp add: rtl8127TxBufferView_def UINT64_MAX_def)
  from tx_buffer_view_exact [OF r] r show ?thesis by simp
qed

end
