(* ===== verification/Checksum.thy ===== *)
theory Checksum
  imports Prelude "HOL-Library.Monad_Syntax"
begin

text \<open>
  Checksum preparation of transmit frames (\<open>RTL8127Driver.cpp\<close>): the
  pseudo-header preload for segmentation offload (\<open>prepareTSO4\<close>,
  \<open>prepareTSO6\<close>), the partial checksum requested by user-space TCP
  (\<open>txPartialChecksum\<close>) and the SYN diagnostics (\<open>describeTcpSyn\<close>). A frame
  is the list of bytes from the frame pointer to the end of its buffer; every
  byte access goes through \<open>rd\<close> or \<open>wr\<close>, which return \<open>None\<close> outside that
  list, so a definedness theorem is a memory-safety theorem. The reference is
  one's complement arithmetic on natural numbers (\<open>oc_norm\<close>, \<open>wsum\<close>).
\<close>

definition kMacHdrLen :: nat where "kMacHdrLen = 14"
definition kIPv6HdrLen :: nat where "kIPv6HdrLen = 40"

abbreviation "IPPROTO_TCP \<equiv> (6 :: u8)"
abbreviation "IPPROTO_UDP \<equiv> (17 :: u8)"
abbreviation "TxUDPCS_C \<equiv> (0x80000000 :: u32)"
abbreviation "TxTCPCS_C \<equiv> (0x40000000 :: u32)"
abbreviation "TxIPCS_C \<equiv> (0x20000000 :: u32)"
abbreviation "TxIPV6F_C \<equiv> (0x10000000 :: u32)"
abbreviation "TCPHO_SHIFT \<equiv> (18 :: nat)"
abbreviation "TCPHO_MAX \<equiv> (0x3ff :: u32)"

definition rd :: "u8 list \<Rightarrow> nat \<Rightarrow> u8 option" where
  "rd f i = (if i < length f then Some (f ! i) else None)"

definition wr :: "u8 list \<Rightarrow> nat \<Rightarrow> u8 \<Rightarrow> u8 list option" where
  "wr f i b = (if i < length f then Some (f[i := b]) else None)"

definition be16 :: "u8 \<Rightarrow> u8 \<Rightarrow> u32" where
  "be16 a b = push_bit 8 (ucast a) OR ucast b"

definition bswap16 :: "u16 \<Rightarrow> u16" where
  "bswap16 v = push_bit 8 v OR drop_bit 8 v"

text \<open>A 16-bit load and store of a little-endian host.\<close>

definition rd16 :: "u8 list \<Rightarrow> nat \<Rightarrow> u16 option" where
  "rd16 f i = do { a \<leftarrow> rd f i; b \<leftarrow> rd f (i + 1); Some (ucast a OR push_bit 8 (ucast b)) }"

definition wr16 :: "u8 list \<Rightarrow> nat \<Rightarrow> u16 \<Rightarrow> u8 list option" where
  "wr16 f i v = do { f1 \<leftarrow> wr f i (ucast v); wr f1 (i + 1) (ucast (drop_bit 8 v)) }"

definition csum_add :: "u32 \<Rightarrow> u16 \<Rightarrow> u32" where
  "csum_add csum a =
    (let c1 = csum + ucast (bswap16 a); c2 = c1 + drop_bit 16 c1 in c2 AND 0xffff)"

fun csum_loop :: "u8 list \<Rightarrow> nat \<Rightarrow> nat \<Rightarrow> u32 \<Rightarrow> u32 option" where
  "csum_loop f off 0 csum = Some csum"
| "csum_loop f off (Suc n) csum =
    do { a \<leftarrow> rd16 f off; csum_loop f (off + 2) n (csum_add csum a) }"

definition prepareTSO4 :: "u8 list \<Rightarrow> (u8 list \<times> nat) option" where
  "prepareTSO4 f = do {
     hl \<leftarrow> rd f kMacHdrLen;
     let il = unat (push_bit 2 (ucast (hl AND 0x0f) :: u32));
     csum \<leftarrow> csum_loop f (kMacHdrLen + 12) 4 (ucast IPPROTO_TCP);
     f' \<leftarrow> wr16 f (kMacHdrLen + il + 16) (bswap16 (ucast csum));
     Some (f', kMacHdrLen + il)
   }"

definition prepareTSO6 :: "u8 list \<Rightarrow> (u8 list \<times> nat) option" where
  "prepareTSO6 f = do {
     f1 \<leftarrow> wr16 f (kMacHdrLen + 4) 0;
     csum \<leftarrow> csum_loop f1 (kMacHdrLen + 8) 16 (ucast IPPROTO_TCP);
     f2 \<leftarrow> wr16 f1 (kMacHdrLen + kIPv6HdrLen + 16) (bswap16 (ucast csum));
     Some (f2, kMacHdrLen + kIPv6HdrLen)
   }"

text \<open>The summing loop over \<open>n\<close> bytes from offset \<open>p\<close>.\<close>

fun sum_loop :: "u8 list \<Rightarrow> nat \<Rightarrow> nat \<Rightarrow> u32 \<Rightarrow> u32 option" where
  "sum_loop f p 0 s = Some s"
| "sum_loop f p (Suc 0) s = do { a \<leftarrow> rd f p; Some (s + push_bit 8 (ucast a)) }"
| "sum_loop f p (Suc (Suc n)) s =
    do { a \<leftarrow> rd f p; b \<leftarrow> rd f (p + 1); sum_loop f (p + 2) n (s + be16 a b) }"

lemma fold_decreases:
  fixes s :: u32
  assumes "drop_bit 16 s \<noteq> 0"
  shows "unat ((s AND 0xffff) + drop_bit 16 s) < unat s"
    and "unat ((s AND 0xffff) + drop_bit 16 s) = unat s mod 65536 + unat s div 65536"
proof -
  have lo: "unat (s AND 0xffff) = unat s mod 65536"
    using unat_and_mask_eq_mod [of s 16] by (simp add: mask_eq_exp_minus_1)
  have hi: "unat (drop_bit 16 s) = unat s div 65536"
    using unat_drop_bit_eq_div [of 16 s] by simp
  have pos: "0 < unat s div 65536"
    using assms hi unat_eq_zero [of "drop_bit 16 s"] by simp
  have dm: "unat s = (unat s div 65536) * 65536 + unat s mod 65536" by simp
  have "unat s mod 65536 + unat s div 65536 < unat s"
    using pos dm by linarith
  then show "unat ((s AND 0xffff) + drop_bit 16 s) = unat s mod 65536 + unat s div 65536"
    using lo hi unat_bound [of s] by (subst unat_plus_simple [THEN iffD1]) (simp_all add: no_olen_add_nat)
  then show "unat ((s AND 0xffff) + drop_bit 16 s) < unat s"
    using \<open>_ < unat s\<close> by simp
qed

function fold16 :: "u32 \<Rightarrow> u32" where
  "fold16 s = (if drop_bit 16 s \<noteq> 0 then fold16 ((s AND 0xffff) + drop_bit 16 s) else s)"
  by pat_completeness auto
termination
  by (relation "measure unat") (simp_all add: fold_decreases(1))

declare fold16.simps [simp del]

text \<open>
  The result is the C return value, the frame afterwards and the value stored
  in \<open>*opts2\<close>, if any. \<open>present\<close> is whether the frame pointer is non-null.
\<close>

definition tx_csum_class :: "u8 list \<Rightarrow> nat \<Rightarrow> (u8 \<times> u32 option) option" where
  "tx_csum_class f stuff = do {
     e0 \<leftarrow> rd f 12; e1 \<leftarrow> rd f 13;
     let etherType = be16 e0 e1;
     if etherType = 0x0800 then do {
       hl \<leftarrow> rd f kMacHdrLen;
       let ihl = unat (push_bit 2 (ucast (hl AND 0x0f) :: u32));
       proto \<leftarrow> rd f (kMacHdrLen + 9);
       let l4off = kMacHdrLen + ihl;
       Some (proto,
         if proto = IPPROTO_TCP \<and> stuff = l4off + 16 then Some (TxIPCS_C OR TxTCPCS_C)
         else if proto = IPPROTO_UDP \<and> stuff = l4off + 6 then Some (TxIPCS_C OR TxUDPCS_C)
         else None)
     } else if etherType = 0x86DD then do {
       proto \<leftarrow> rd f (kMacHdrLen + 6);
       let l4off = kMacHdrLen + kIPv6HdrLen;
       let tcpho = push_bit TCPHO_SHIFT (of_nat l4off AND TCPHO_MAX);
       Some (proto,
         if proto = IPPROTO_TCP \<and> stuff = l4off + 16 then Some (TxTCPCS_C OR TxIPV6F_C OR tcpho)
         else if proto = IPPROTO_UDP \<and> stuff = l4off + 6 then Some (TxUDPCS_C OR TxIPV6F_C OR tcpho)
         else None)
     } else Some (0, None)
   }"

definition txPartialChecksum ::
    "bool \<Rightarrow> u8 list \<Rightarrow> nat \<Rightarrow> u16 \<Rightarrow> u16 \<Rightarrow> (bool \<times> u8 list \<times> u32 option) option" where
  "txPartialChecksum present f len start stuff =
    (if \<not> present \<or> len < kMacHdrLen + 20 then Some (False, f, None)
     else do {
       (proto, hw) \<leftarrow> tx_csum_class f (unat stuff);
       (case hw of Some opts2 \<Rightarrow> Some (True, f, Some opts2)
        | None \<Rightarrow>
          if unat start \<ge> len \<or> unat stuff + 2 > len then Some (False, f, None)
          else do {
            s \<leftarrow> sum_loop f (unat start) (len - unat start) 0;
            let csum0 = (ucast (NOT (fold16 s)) :: u16);
            let csum = (if csum0 = 0 \<and> proto = IPPROTO_UDP then 0xffff else csum0);
            f1 \<leftarrow> wr f (unat stuff) (ucast (drop_bit 8 csum));
            f2 \<leftarrow> wr f1 (unat stuff + 1) (ucast csum);
            Some (True, f2, Some 0)
          })
     })"


text \<open>What the SYN diagnostics print.\<close>

record syn_info =
  syn_v6 :: bool
  sport :: u32
  dport :: u32
  tcp_flags :: u8
  syn_len :: nat
  csum_field :: u32
  csum_kind :: nat

fun ph_loop :: "u8 list \<Rightarrow> nat \<Rightarrow> nat \<Rightarrow> u32 \<Rightarrow> u32 option" where
  "ph_loop f off 0 ph = Some ph"
| "ph_loop f off (Suc n) ph =
    do { a \<leftarrow> rd f off; b \<leftarrow> rd f (off + 1); ph_loop f (off + 2) n (ph + be16 a b) }"

definition syn_l4_offset :: "u8 list \<Rightarrow> (bool \<times> nat) option option" where
  "syn_l4_offset f = do {
     e0 \<leftarrow> rd f 12; e1 \<leftarrow> rd f 13; v \<leftarrow> rd f 14; b20 \<leftarrow> rd f 20; b21 \<leftarrow> rd f 21; b23 \<leftarrow> rd f 23;
     let et = be16 e0 e1;
     Some (if et = 0x0800 \<and> drop_bit 4 v = 4 \<and> b23 = 6 then
             (let ipHeaderLen = unat (push_bit 2 (ucast (v AND 0x0f) :: u32)) in
              if ipHeaderLen < 20 \<or> nz (b20 AND 0x1f) \<or> nz b21 then None else Some (False, 14 + ipHeaderLen))
           else if et = 0x86DD \<and> drop_bit 4 v = 6 \<and> b20 = 6 then Some (True, 54)
           else None)
   }"

definition syn_report :: "u8 list \<Rightarrow> nat \<Rightarrow> bool \<Rightarrow> nat \<Rightarrow> u8 \<Rightarrow> u32 \<Rightarrow> u32 \<Rightarrow> syn_info option" where
  "syn_report f len v6 l4 flags sp dp = do {
     let l4len = len - l4;
     ph0 \<leftarrow> (if v6 then ph_loop f 22 16 0 else ph_loop f 26 4 0);
     let ph = ph0 + ucast IPPROTO_TCP;
     c0 \<leftarrow> rd f (l4 + 16); c1 \<leftarrow> rd f (l4 + 17);
     let field = be16 c0 c1;
     full0 \<leftarrow> sum_loop f l4 l4len (ph + of_nat l4len);
     let sumFull = fold16 full0;
     let sumSeed = fold16 ph;
     let kind = (if (ucast sumFull :: u16) = 0xffff \<or> (ucast sumFull :: u16) = 0 then 0
       else if field = ucast (ucast sumSeed :: u16) \<or> field = ucast (ucast (sumSeed + of_nat l4len) :: u16)
         then 1 else 2 :: nat);
     Some \<lparr>syn_v6 = v6, sport = sp, dport = dp, tcp_flags = flags, syn_len = len,
       csum_field = field, csum_kind = kind\<rparr>
   }"

definition describeTcpSyn :: "bool \<Rightarrow> u8 list \<Rightarrow> nat \<Rightarrow> syn_info option option" where
  "describeTcpSyn present f len =
    (if \<not> present \<or> len < 54 then Some None
     else do {
       l4o \<leftarrow> syn_l4_offset f;
       (case l4o of None \<Rightarrow> Some None | Some (v6, l4) \<Rightarrow>
         if len < l4 + 20 then Some None
         else do {
           h \<leftarrow> rd f (l4 + 12);
           let tcpHeaderLen = unat (push_bit 2 (ucast (drop_bit 4 h) :: u32));
           if tcpHeaderLen < 20 \<or> tcpHeaderLen > len - l4 then Some None
           else do {
             flags \<leftarrow> rd f (l4 + 13);
             if flags AND 2 = 0 then Some None
             else do {
               p0 \<leftarrow> rd f l4; p1 \<leftarrow> rd f (l4 + 1); p2 \<leftarrow> rd f (l4 + 2); p3 \<leftarrow> rd f (l4 + 3);
               if be16 p0 p1 \<noteq> 80 \<and> be16 p2 p3 \<noteq> 80 then Some None
               else map_option Some (syn_report f len v6 l4 flags (be16 p0 p1) (be16 p2 p3))
             }
           }
         })
     })"


subsection \<open>One's complement reference\<close>

text \<open>The normal form of a sum: 0 only for 0, otherwise in 1 .. 65535.\<close>

definition oc_norm :: "nat \<Rightarrow> nat" where
  "oc_norm n = (if n = 0 then 0 else (n - 1) mod 65535 + 1)"

fun wsum :: "u8 list \<Rightarrow> nat" where
  "wsum [] = 0"
| "wsum [a] = 256 * unat a"
| "wsum (a # b # r) = 256 * unat a + unat b + wsum r"

lemma oc_norm_le: "oc_norm n \<le> 65535"
  by (simp add: oc_norm_def Suc_le_eq)

lemma oc_norm_id: "n \<le> 65535 \<Longrightarrow> oc_norm n = n"
  by (auto simp: oc_norm_def)

lemma oc_norm_add_period: "0 < n \<Longrightarrow> oc_norm (n + 65535 * k) = oc_norm n"
  by (cases n) (simp_all add: oc_norm_def)

lemma oc_norm_mod: "oc_norm n mod 65535 = n mod 65535"
proof (cases n)
  case (Suc m)
  then show ?thesis by (simp add: oc_norm_def mod_Suc_eq)
qed (simp add: oc_norm_def)

lemma oc_norm_zero: "oc_norm n = 0 \<longleftrightarrow> n = 0"
  by (simp add: oc_norm_def)

lemma oc_norm_cong:
  assumes "x mod 65535 = y mod 65535" "x = 0 \<longleftrightarrow> y = 0"
  shows "oc_norm x = oc_norm y"
proof -
  have eq: "oc_norm x mod 65535 = oc_norm y mod 65535"
    using assms(1) by (simp add: oc_norm_mod)
  have *: "a = b" if "a mod 65535 = b mod 65535" "a \<le> 65535" "b \<le> 65535" "0 < a" "0 < b" for a b :: nat
    using that by (cases "a = 65535"; cases "b = 65535") auto
  show ?thesis
    using assms(2) eq oc_norm_le *[of "oc_norm x" "oc_norm y"] oc_norm_zero by (metis gr0I)
qed

lemma oc_norm_absorb: "oc_norm (oc_norm x + y) = oc_norm (x + y)"
  by (rule oc_norm_cong) (simp_all add: oc_norm_zero mod_add_left_eq [symmetric, of "oc_norm x"]
      oc_norm_mod mod_simps)

lemma fold16_oc_norm: "unat (fold16 s) = oc_norm (unat s)"
proof (induction s rule: fold16.induct)
  case (1 s)
  have dm: "unat s = (unat s div 65536) * 65536 + unat s mod 65536" by simp
  show ?case
  proof (cases "drop_bit 16 s = 0")
    case True
    then have "unat s div 65536 = 0"
      using unat_drop_bit_eq_div [of 16 s] by simp
    then have "unat s \<le> 65535" using dm by linarith
    then show ?thesis using True by (simp add: fold16.simps [of s] oc_norm_id)
  next
    case False
    let ?s = "(s AND 0xffff) + drop_bit 16 s"
    have "unat s div 65536 \<noteq> 0"
      using False unat_drop_bit_eq_div [of 16 s] unat_eq_zero [of "drop_bit 16 s"] by auto
    moreover have "unat s = unat ?s + 65535 * (unat s div 65536)"
      using dm fold_decreases(2) [OF False] by linarith
    moreover have "0 < unat ?s"
      using fold_decreases(2) [OF False] calculation(1) by linarith
    ultimately have "oc_norm (unat s) = oc_norm (unat ?s)"
      using oc_norm_add_period by metis
    then show ?thesis
      using 1 False by (simp add: fold16.simps [of s])
  qed
qed


subsection \<open>Bytes and words\<close>

lemma unat_be16: "unat (be16 a b) = 256 * unat a + unat b"
proof -
  have "be16 a b = push_bit 8 (ucast a) + (ucast b :: u32)"
    unfolding be16_def
    by (rule disjunctive_add [symmetric]) (auto simp: bit_simps dest: bit_imp_le_length)
  moreover have "unat (push_bit 8 (ucast a :: u32)) = 256 * unat a"
    using unat_bound [of a]
    by (simp add: push_bit_eq_mult unat_word_ariths unat_ucast_wider)
  ultimately show ?thesis
    using unat_bound [of a] unat_bound [of b]
    by (simp add: unat_word_ariths unat_ucast_wider)
qed

lemma unat_push8: "unat (push_bit 8 (ucast (a :: u8)) :: u32) = 256 * unat a"
  using unat_be16 [of a 0] by (simp add: be16_def)

lemma take2_drop:
  assumes "p + Suc (Suc n) \<le> length f"
  shows "take (Suc (Suc n)) (drop p f) = f ! p # f ! (p + 1) # take n (drop (p + 2) f)"
  using assms by (simp flip: Cons_nth_drop_Suc)

lemma take1_drop: "p < length f \<Longrightarrow> take (Suc 0) (drop p f) = [f ! p]"
  by (simp flip: Cons_nth_drop_Suc)

lemma wsum_bound: "wsum xs \<le> 65535 * length xs"
proof (induction xs rule: wsum.induct)
  case (2 a)
  then show ?case using unat_bound [of a] by simp
next
  case (3 a b r)
  then show ?case using unat_bound [of a] unat_bound [of b] by simp
qed simp

lemma sum_loop_wsum:
  assumes "p + n \<le> length f" "unat s + 65535 * n < 2 ^ 32"
  shows "\<exists>s'. sum_loop f p n s = Some s' \<and> unat s' = unat s + wsum (take n (drop p f))"
  using assms
proof (induction f p n s rule: sum_loop.induct)
  case (2 f p s)
  have "unat (s + push_bit 8 (ucast (f ! p))) = unat s + 256 * unat (f ! p)"
    using 2 unat_bound [of "f ! p"] by (simp add: unat_word_ariths unat_push8)
  with 2 show ?case by (simp add: rd_def take1_drop)
next
  case (3 f p n s)
  let ?s = "s + be16 (f ! p) (f ! (p + 1))"
  have u: "unat ?s = unat s + (256 * unat (f ! p) + unat (f ! (p + 1)))"
    using 3 unat_bound [of "f ! p"] unat_bound [of "f ! (p + 1)"]
    by (simp add: unat_word_ariths unat_be16)
  have len: "p < length f" "p + 1 < length f" using 3 by simp_all
  have "\<exists>s'. sum_loop f (p + 2) n ?s = Some s' \<and> unat s' = unat ?s + wsum (take n (drop (p + 2) f))"
    using 3 u unat_bound [of "f ! p"] unat_bound [of "f ! (p + 1)"] len by (intro 3(1)) (simp_all add: rd_def)
  with u len 3 show ?case by (auto simp: rd_def take2_drop)
qed simp

lemma wsum_update:
  assumes "even i" "i + 1 < length xs"
  shows "wsum (xs[i := a, i + 1 := b]) + (256 * unat (xs ! i) + unat (xs ! (i + 1)))
       = wsum xs + (256 * unat a + unat b)"
  using assms
proof (induction xs arbitrary: i rule: wsum.induct)
  case (3 x y r)
  show ?case
  proof (cases i)
    case (Suc j)
    then obtain k where "i = Suc (Suc k)" "even k" using 3(2) by (cases j) auto
    then show ?thesis using 3(1) [of k] 3(3) by simp
  qed simp
qed simp_all

lemma split_bytes:
  "256 * unat (ucast (drop_bit 8 v) :: u8) + unat (ucast v :: u8) = unat (v :: u16)"
proof -
  have "unat v div 256 < 256" using unat_bound [of v] by simp
  then show ?thesis
    by (simp add: unat_ucast_mod unat_drop_bit_eq_div)
qed


lemma tx_csum_class_defined:
  assumes "34 \<le> length f"
  shows "\<exists>proto hw. tx_csum_class f stuff = Some (proto, hw) \<and> hw \<noteq> Some 0"
  using assms
  by (simp add: tx_csum_class_def rd_def kMacHdrLen_def kIPv6HdrLen_def Let_def)

lemma software_checksum_value:
  fixes csum :: u16
  assumes "unat (fold16 s) = oc_norm S"
    and "csum = (if (ucast (NOT (fold16 s)) :: u16) = 0 \<and> udp then 0xffff else ucast (NOT (fold16 s)))"
  shows "(unat csum + S) mod 65535 = 0 \<and> 0 < unat csum + S"
proof -
  let ?c = "ucast (NOT (fold16 s)) :: u16"
  have le: "unat (fold16 s) \<le> 65535" using assms(1) oc_norm_le by simp
  have "unat (NOT (fold16 s)) = 4294967295 - unat (fold16 s)" by (simp add: unat_not)
  also have "\<dots> = (65535 - unat (fold16 s)) + 65535 * 65536" using le by simp
  finally have n: "unat (NOT (fold16 s)) = (65535 - unat (fold16 s)) + 65535 * 65536" .
  have "unat ?c = unat (NOT (fold16 s)) mod 65536" by (simp add: unat_ucast_mod)
  also have "\<dots> = (65535 - unat (fold16 s)) mod 65536" unfolding n by (rule mod_mult_self1)
  finally have c: "unat ?c = 65535 - oc_norm S" using assms(1) by simp
  have "(unat csum + oc_norm S) mod 65535 = 0"
  proof (cases "?c = 0 \<and> udp")
    case True
    then have "unat ?c = 0" by simp
    then have "oc_norm S = 65535" using c oc_norm_le [of S] by simp
    with True assms(2) show ?thesis by simp
  next
    case False
    with assms(2) c oc_norm_le [of S] show ?thesis by simp
  qed
  moreover have "(unat csum + S) mod 65535 = (unat csum + oc_norm S) mod 65535"
    using oc_norm_mod [of S] by (metis mod_add_right_eq)
  moreover have "0 < unat csum + S"
  proof (cases "S = 0")
    case True
    then have "unat ?c = 65535" using c by (simp add: oc_norm_def)
    then have "?c \<noteq> 0" by auto
    then show ?thesis using assms(2) \<open>unat ?c = 65535\<close> by simp
  qed simp
  ultimately show ?thesis by simp
qed

lemma update_inside_window:
  assumes "start \<le> stuff" "stuff + 2 \<le> len" "len \<le> length f"
  shows "take (len - start) (drop start (f[stuff := a, stuff + 1 := b]))
    = (take (len - start) (drop start f))[stuff - start := a, (stuff - start) + 1 := b]"
  using assms by (simp add: drop_update_swap take_update_swap Suc_diff_le)



definition sample_frame :: "u8 list" where
  "sample_frame = replicate 12 0 @ [8, 6] @ replicate 20 0 @ [0x12, 0x34, 0, 0x11]"

definition sample_frame_done :: "u8 list" where
  "sample_frame_done = replicate 12 0 @ [8, 6] @ replicate 20 0 @ [0x12, 0x34, 0xed, 0xba]"

lemma sample_run: "txPartialChecksum True sample_frame 38 34 36 = Some (True, sample_frame_done, Some 0)"
  by code_simp



subsection \<open>Pseudo-header preload\<close>

lemma unat_csum_add:
  assumes "unat csum \<le> 65535"
  shows "unat (csum_add csum a) = oc_norm (unat csum + unat (bswap16 a))"
proof -
  let ?x = "unat csum + unat (bswap16 a)"
  let ?c1 = "csum + ucast (bswap16 a)"
  have b: "?x \<le> 131070" using assms unat_bound [of "bswap16 a"] by simp
  have c1: "unat ?c1 = ?x"
    using b by (simp add: unat_word_ariths unat_ucast_wider)
  have c2: "unat (?c1 + drop_bit 16 ?c1) = ?x + ?x div 65536"
    using b c1 unat_drop_bit_eq_div [of 16 ?c1] by (simp add: unat_word_ariths)
  have "unat (csum_add csum a) = (?x + ?x div 65536) mod 65536"
    using c2 unat_and_mask_eq_mod [of "?c1 + drop_bit 16 ?c1" 16]
    by (simp add: csum_add_def Let_def mask_eq_exp_minus_1)
  also have "\<dots> = oc_norm ?x"
  proof (cases "?x < 65536")
    case True
    then show ?thesis by (simp add: oc_norm_id)
  next
    case False
    then have "?x div 65536 = 1" using b by (simp add: div_nat_eqI)
    then have "(?x + ?x div 65536) mod 65536 = ?x - 65535"
      using False b by (simp add: mod_once)
    moreover have "oc_norm ?x = oc_norm (?x - 65535)"
      using False oc_norm_add_period [of "?x - 65535" 1] by simp
    ultimately show ?thesis using b by (simp add: oc_norm_id)
  qed
  finally show ?thesis .
qed

lemma bswap_load:
  "unat (bswap16 (ucast (a :: u8) OR push_bit 8 (ucast (b :: u8)))) = 256 * unat a + unat b"
proof -
  have "bswap16 (ucast a OR push_bit 8 (ucast b)) = ucast (be16 a b)"
    unfolding bswap16_def be16_def
    by (rule bit_word_eqI) (auto simp: bit_simps dest: bit_imp_le_length)
  then show ?thesis
    using unat_be16 [of a b] unat_bound [of a] unat_bound [of b] by (simp add: unat_ucast_mod)
qed

lemma bswap_store:
  "256 * unat (ucast (bswap16 v) :: u8) + unat (ucast (drop_bit 8 (bswap16 v)) :: u8) = unat v"
proof -
  have "(ucast (bswap16 v) :: u8) = ucast (drop_bit 8 v)"
    and "(ucast (drop_bit 8 (bswap16 v)) :: u8) = ucast v"
    unfolding bswap16_def
    by (rule bit_word_eqI; auto simp: bit_simps dest: bit_imp_le_length)+
  then show ?thesis by (simp add: split_bytes)
qed

text \<open>Sum of \<open>n\<close> big-endian words from offset \<open>off\<close>.\<close>

fun be_sum :: "u8 list \<Rightarrow> nat \<Rightarrow> nat \<Rightarrow> nat" where
  "be_sum f off 0 = 0"
| "be_sum f off (Suc n) = 256 * unat (f ! off) + unat (f ! (off + 1)) + be_sum f (off + 2) n"

lemma csum_loop_be_sum:
  assumes "off + 2 * n \<le> length f" "unat csum \<le> 65535"
  shows "\<exists>c. csum_loop f off n csum = Some c \<and> unat c = oc_norm (unat csum + be_sum f off n)"
  using assms
proof (induction n arbitrary: off csum)
  case 0
  then show ?case by (simp add: oc_norm_id)
next
  case (Suc n)
  let ?a = "ucast (f ! off) OR push_bit 8 (ucast (f ! (off + 1))) :: u16"
  have r: "rd16 f off = Some ?a" using Suc.prems by (simp add: rd16_def rd_def)
  have u: "unat (csum_add csum ?a) = oc_norm (unat csum + (256 * unat (f ! off) + unat (f ! (off + 1))))"
    using Suc.prems by (simp add: unat_csum_add bswap_load)
  have "\<exists>c. csum_loop f (off + 2) n (csum_add csum ?a) = Some c \<and>
      unat c = oc_norm (unat (csum_add csum ?a) + be_sum f (off + 2) n)"
    using Suc.prems u oc_norm_le by (intro Suc.IH) simp_all
  then show ?case using r u by (auto simp: oc_norm_absorb add.assoc)
qed

lemma wr16_spec:
  assumes "i + 1 < length f"
  shows "\<exists>f'. wr16 f i (bswap16 v) = Some f' \<and> length f' = length f \<and>
    256 * unat (f' ! i) + unat (f' ! (i + 1)) = unat v \<and> (\<forall>j. j \<noteq> i \<and> j \<noteq> i + 1 \<longrightarrow> f' ! j = f ! j)"
  using assms by (simp add: wr16_def wr_def bswap_store)


text \<open>
  (C24) Preparing an IPv4 segmentation frame stores in the TCP checksum field
  exactly the one's complement sum of protocol and addresses, reports the TCP
  header offset, and changes no other byte.
\<close>

theorem prepareTSO4_preload:
  assumes "92 \<le> length f"
  shows "\<exists>f'. prepareTSO4 f = Some (f', 14 + 4 * (unat (f ! 14) mod 16)) \<and> length f' = length f \<and>
    (let k = 14 + 4 * (unat (f ! 14) mod 16) + 16 in
       256 * unat (f' ! k) + unat (f' ! (k + 1)) = oc_norm (6 + be_sum f 26 4) \<and>
       (\<forall>j. j \<noteq> k \<and> j \<noteq> k + 1 \<longrightarrow> f' ! j = f ! j))"
proof -
  let ?il = "unat (push_bit 2 (ucast (f ! 14 AND 0x0f) :: u32))"
  have n: "unat (f ! 14 AND 0x0f) = unat (f ! 14) mod 16"
    using unat_and_mask_eq_mod [of "f ! 14" 4] by (simp add: mask_eq_exp_minus_1)
  have m: "unat (f ! 14) mod 16 < 16" by simp
  have il: "?il = 4 * (unat (f ! 14) mod 16)"
    using n m by (simp add: push_bit_eq_mult unat_word_ariths unat_ucast_wider)
  obtain c where c: "csum_loop f 26 4 6 = Some c" "unat c = oc_norm (6 + be_sum f 26 4)"
    using csum_loop_be_sum [of 26 4 f 6] assms by auto
  have "unat (ucast c :: u16) = oc_norm (6 + be_sum f 26 4)"
    using c(2) oc_norm_le [of "6 + be_sum f 26 4"] by (simp add: unat_ucast_mod)
  moreover have "14 + ?il + 16 + 1 < length f" using il m assms by linarith
  ultimately show ?thesis
    using wr16_spec [of "14 + ?il + 16" f "ucast c"] c(1) assms
    by (auto simp: prepareTSO4_def rd_def kMacHdrLen_def il Let_def)
qed

definition sample_tso :: "u8 list" where
  "sample_tso = replicate 14 0 @ [0x45] @ replicate 11 0 @ [10, 0, 0, 1, 10, 0, 0, 2] @ replicate 66 0"

theorem prepareTSO4_preload_witness:
  "92 \<le> length sample_tso \<and> (\<exists>f'. prepareTSO4 sample_tso = Some (f', 34) \<and>
     256 * unat (f' ! 50) + unat (f' ! 51) = oc_norm (6 + be_sum sample_tso 26 4))"
proof -
  have l: "92 \<le> length sample_tso" by (simp add: sample_tso_def)
  have "unat (sample_tso ! 14) = 69" by code_simp
  with prepareTSO4_preload [OF l] l show ?thesis by (auto simp: Let_def)
qed

text \<open>
  Preparing an IPv6 segmentation frame clears the payload length, stores
  the one's complement sum of protocol and addresses in the TCP checksum field
  and changes no other byte.
\<close>

theorem prepareTSO6_preload:
  assumes "72 \<le> length f"
  shows "\<exists>f'. prepareTSO6 f = Some (f', 54) \<and> length f' = length f \<and> f' ! 18 = 0 \<and> f' ! 19 = 0 \<and>
    256 * unat (f' ! 70) + unat (f' ! 71) = oc_norm (6 + be_sum f 22 16) \<and>
    (\<forall>j. j \<notin> {18, 19, 70, 71} \<longrightarrow> f' ! j = f ! j)"
proof -
  define g where "g = f[18 := 0, 19 := 0]"
  have w: "wr16 f 18 0 = Some g" using assms by (simp add: wr16_def wr_def g_def)
  have lg: "length g = length f" by (simp add: g_def)
  have same: "be_sum g off n = be_sum f off n" if "20 \<le> off" for off n
    using that by (induction n arbitrary: off) (simp_all add: g_def)
  obtain c where c: "csum_loop g 22 16 6 = Some c" "unat c = oc_norm (6 + be_sum f 22 16)"
    using csum_loop_be_sum [of 22 16 g 6] assms lg same [of 22 16] by auto
  have "unat (ucast c :: u16) = oc_norm (6 + be_sum f 22 16)"
    using c(2) oc_norm_le [of "6 + be_sum f 22 16"] by (simp add: unat_ucast_mod)
  then obtain f' where f': "wr16 g 70 (bswap16 (ucast c)) = Some f'" "length f' = length g"
    "256 * unat (f' ! 70) + unat (f' ! 71) = oc_norm (6 + be_sum f 22 16)"
    "\<forall>j. j \<noteq> 70 \<and> j \<noteq> 71 \<longrightarrow> f' ! j = g ! j"
    using wr16_spec [of 70 g "ucast c"] assms lg by auto
  have "prepareTSO6 f = Some (f', 54)"
    using w c(1) f'(1) by (simp add: prepareTSO6_def kMacHdrLen_def kIPv6HdrLen_def)
  then show ?thesis using f' lg assms by (simp add: g_def)
qed

theorem prepareTSO6_preload_witness:
  "72 \<le> length (replicate 72 (1::u8)) \<and>
   (\<exists>f'. prepareTSO6 (replicate 72 1) = Some (f', 54) \<and> f' ! 18 = 0)"
  using prepareTSO6_preload [of "replicate 72 1"] by auto



subsection \<open>Memory safety of the parsers\<close>

lemma sum_loop_defined: "p + n \<le> length f \<Longrightarrow> \<exists>s'. sum_loop f p n s = Some s'"
  by (induction f p n s rule: sum_loop.induct) (auto simp: rd_def)

lemma ph_loop_defined: "off + 2 * n \<le> length f \<Longrightarrow> \<exists>ph'. ph_loop f off n ph = Some ph'"
  by (induction n arbitrary: off ph) (auto simp: rd_def)

lemma syn_l4_offset_defined:
  assumes "54 \<le> length f"
  shows "\<exists>r. syn_l4_offset f = Some r \<and>
    (\<forall>v6 l4. r = Some (v6, l4) \<longrightarrow> 34 \<le> l4 \<and> (v6 \<longrightarrow> l4 = 54))"
  using assms by (auto simp: syn_l4_offset_def rd_def Let_def)

lemma syn_report_defined:
  assumes "len \<le> length f" "l4 + 20 \<le> len" "34 \<le> l4" "v6 \<longrightarrow> l4 = 54"
  shows "\<exists>r. syn_report f len v6 l4 flags sp dp = Some r"
proof -
  obtain ph where ph: "(if v6 then ph_loop f 22 16 0 else ph_loop f 26 4 0) = Some ph"
    using assms ph_loop_defined [of 22 16 f 0] ph_loop_defined [of 26 4 f 0] by (cases v6) auto
  obtain s where "sum_loop f l4 (len - l4) (ph + 6 + of_nat (len - l4)) = Some s"
    using assms sum_loop_defined [of l4 "len - l4" f] by auto
  then show ?thesis
    using ph assms by (simp add: syn_report_def rd_def Let_def)
qed

lemma txPartialChecksum_defined:
  assumes "len \<le> length f"
  shows "txPartialChecksum present f len start stuff \<noteq> None"
proof (cases "34 \<le> len")
  case True
  then obtain proto hw where "tx_csum_class f (unat stuff) = Some (proto, hw)"
    using tx_csum_class_defined [of f "unat stuff"] assms by auto
  then show ?thesis
    using assms sum_loop_defined [of "unat start" "len - unat start" f 0]
    by (auto simp: txPartialChecksum_def wr_def Let_def ex_bool_eq split: option.splits)
qed (simp add: txPartialChecksum_def kMacHdrLen_def)

lemma describeTcpSyn_defined:
  assumes "len \<le> length f"
  shows "describeTcpSyn present f len \<noteq> None"
proof (cases "54 \<le> len")
  case True
  then obtain r where r: "syn_l4_offset f = Some r"
      "\<forall>v6 l4. r = Some (v6, l4) \<longrightarrow> 34 \<le> l4 \<and> (v6 \<longrightarrow> l4 = 54)"
    using syn_l4_offset_defined [of f] assms by auto
  have rep: "syn_report f len v6 l4 flags sp dp \<noteq> None"
    if "r = Some (v6, l4)" "l4 + 20 \<le> len" for v6 l4 flags sp dp
    using that r(2) assms syn_report_defined [of len f l4 v6 flags sp dp] by auto
  then show ?thesis
    using r(1) assms by (auto simp: describeTcpSyn_def rd_def Let_def split: option.splits)
qed (simp add: describeTcpSyn_def)

text \<open>
  The TSO helpers trust the header length of the packet: a frame of at least
  92 bytes covers the longest IPv4 header with the TCP checksum behind it.
\<close>

lemma wr_length: "wr f i b = Some f' \<Longrightarrow> length f' = length f"
  by (auto simp: wr_def split: if_splits)

lemma wr16_length: "wr16 f i v = Some f' \<Longrightarrow> length f' = length f"
  by (auto simp: wr16_def wr_length split: bind_splits dest!: wr_length)

lemma csum_loop_defined: "off + 2 * n \<le> length f \<Longrightarrow> \<exists>c'. csum_loop f off n c = Some c'"
  by (induction n arbitrary: off c) (auto simp: rd16_def rd_def)

lemma prepareTSO4_defined:
  assumes "92 \<le> length f"
  shows "\<exists>f' off. prepareTSO4 f = Some (f', off) \<and> length f' = length f \<and> off \<le> 74"
proof -
  let ?il = "unat (push_bit 2 (ucast (f ! 14 AND 0x0f) :: u32))"
  have "f ! 14 AND 0x0f \<le> (0x0f :: u8)"
    by (simp add: word_and_le1)
  then have "unat (f ! 14 AND 0x0f) \<le> 15"
    by (simp add: word_le_nat_alt)
  then have il: "?il \<le> 60"
    by (simp add: unsigned_push_bit_eq unat_ucast_wider take_bit_nat_eq_self push_bit_nat_def)
  obtain c where c: "csum_loop f (kMacHdrLen + 12) 4 (ucast IPPROTO_TCP) = Some c"
    using assms csum_loop_defined [of "kMacHdrLen + 12" 4 f] by (auto simp: kMacHdrLen_def)
  obtain f' where f': "wr16 f (kMacHdrLen + ?il + 16) (bswap16 (ucast c)) = Some f'"
    using assms il by (auto simp: wr16_def wr_def kMacHdrLen_def)
  show ?thesis
    using assms c f' il wr16_length [OF f']
    by (simp add: prepareTSO4_def rd_def Let_def) (simp add: kMacHdrLen_def)
qed

lemma prepareTSO6_defined:
  assumes "92 \<le> length f"
  shows "\<exists>f' off. prepareTSO6 f = Some (f', off) \<and> length f' = length f \<and> off \<le> 74"
proof -
  obtain f1 where f1: "wr16 f (kMacHdrLen + 4) 0 = Some f1"
    using assms by (auto simp: wr16_def wr_def kMacHdrLen_def)
  have l1: "length f1 = length f" by (rule wr16_length [OF f1])
  obtain c where c: "csum_loop f1 (kMacHdrLen + 8) 16 (ucast IPPROTO_TCP) = Some c"
    using assms l1 csum_loop_defined [of "kMacHdrLen + 8" 16 f1] by (auto simp: kMacHdrLen_def)
  obtain f2 where f2: "wr16 f1 (kMacHdrLen + kIPv6HdrLen + 16) (bswap16 (ucast c)) = Some f2"
    using assms l1 by (auto simp: wr16_def wr_def kMacHdrLen_def kIPv6HdrLen_def)
  show ?thesis
    using assms f1 c f2 l1 wr16_length [OF f2]
    by (simp add: prepareTSO6_def) (simp add: kMacHdrLen_def kIPv6HdrLen_def)
qed

lemma txPartialChecksum_length:
  "txPartialChecksum present f len start stuff = Some (ok, f', o2) \<Longrightarrow> length f' = length f"
  by (auto simp: txPartialChecksum_def Let_def split: if_splits bind_splits option.splits dest!: wr_length)

text \<open>
  (C17) Neither the checksum routine nor the SYN diagnostics touches a byte
  outside the frame's buffer, whatever the packet contains: for every frame
  whose stated length fits its buffer both are defined. The TSO helpers, which
  check nothing, are defined on every buffer of at least 92 bytes.
\<close>

theorem frame_parsers_stay_in_bounds:
  assumes "len \<le> length f"
  shows "txPartialChecksum present f len start stuff \<noteq> None \<and> describeTcpSyn present f len \<noteq> None \<and>
    (92 \<le> len \<longrightarrow> prepareTSO4 f \<noteq> None \<and> prepareTSO6 f \<noteq> None)"
  using assms txPartialChecksum_defined [OF assms] describeTcpSyn_defined [OF assms]
    prepareTSO4_defined [of f] prepareTSO6_defined [of f] by auto

theorem frame_parsers_stay_in_bounds_witness:
  "38 \<le> length sample_frame \<and> txPartialChecksum True sample_frame 38 34 36 \<noteq> None
    \<and> describeTcpSyn True sample_tso 92 \<noteq> None"
  using frame_parsers_stay_in_bounds [of 38 sample_frame True 34 36]
    frame_parsers_stay_in_bounds [of 92 sample_tso True 34 36]
  by (simp add: sample_frame_def sample_tso_def)

end
