(* ===== verification/DextTypes.thy ===== *)
theory DextTypes
  imports PacketFifo TxBuffer Checksum Registers "HOL-Library.Multiset"
begin

text \<open>
  The state of the DriverKit driver (\<open>RTL8127Driver.cpp\<close>): descriptors, the
  instance variables \<open>RTL8127Driver_IVars\<close>, and what the driver sees of the
  network framework. A packet is a handle; \<open>pkts\<close> maps handles to the values
  the packet's getters return and to the bytes of its buffer. Calls into the
  framework are recorded, most recent first, in \<open>ndk\<close>; the framework's own
  answer to \<open>allocatePacket\<close> is the parameter \<open>ndk_alloc\<close>. The 64-bit counters
  that only feed the statistics log are grouped in \<open>dext_counters\<close>.
\<close>

subsection \<open>Constants\<close>

definition kNumTxDesc :: nat where "kNumTxDesc = 1024"
definition kNumRxDesc :: nat where "kNumRxDesc = 1024"
definition kTxLastDesc :: u32 where "kTxLastDesc = 1023"
definition kRxLastDesc :: u32 where "kRxLastDesc = 1023"
definition kTxDescMask :: u32 where "kTxDescMask = 1023"
definition kRxDescMask :: u32 where "kRxDescMask = 1023"
definition kMaxMtu :: u32 where "kMaxMtu = 9000"
definition kRxBufferSize :: u32 where "kRxBufferSize = 9216"
definition kTxBufferSize :: u32 where "kTxBufferSize = 32768"
definition kTsoMaxPacket :: u32 where "kTsoMaxPacket = kTxBufferSize - 256"
definition kNumTxQueues :: nat where "kNumTxQueues = 4"
definition kTxInflightBytesLimit :: int where "kTxInflightBytesLimit = 4194304"
definition kTxDescLenMask :: u32 where "kTxDescLenMask = 0xFFFF"

abbreviation "MSSShift_8125 \<equiv> (18 :: nat)"
abbreviation "GTTCPHO_SHIFT \<equiv> (18 :: nat)"
abbreviation "MSS_MAX \<equiv> (0x07ff :: u32)"
abbreviation "MSSMask \<equiv> (0x07ff :: u32)"
abbreviation "DescOwn \<equiv> (0x80000000 :: u32)"
abbreviation "RingEnd \<equiv> (0x40000000 :: u32)"
abbreviation "FirstFrag \<equiv> (0x20000000 :: u32)"
abbreviation "LastFrag \<equiv> (0x10000000 :: u32)"
abbreviation "GiantSendv4 \<equiv> (0x04000000 :: u32)"
abbreviation "GiantSendv6 \<equiv> (0x02000000 :: u32)"
abbreviation "RxRES \<equiv> (0x00200000 :: u32)"
abbreviation "RxIPF \<equiv> (0x00010000 :: u32)"
abbreviation "RxUDPF \<equiv> (0x00008000 :: u32)"
abbreviation "RxTCPF \<equiv> (0x00004000 :: u32)"
abbreviation "RxUDPT \<equiv> (0x00040000 :: u32)"
abbreviation "RxTCPT \<equiv> (0x00020000 :: u32)"
abbreviation "RxV4F \<equiv> (0x40000000 :: u32)"

subsection \<open>Packets and the framework\<close>

type_synonym pktid = nat
type_synonym queueid = nat

datatype IOReturn =
    kIOReturnSuccess | kIOReturnAborted | kIOReturnBadArgument | kIOReturnUnsupported
  | kIOReturnNoDevice | kIOReturnNoResources | kIOReturnError

datatype media =
    MediaAuto | Media10GBaseSR | Media10GBaseT | Media5000BaseT | Media2500BaseT
  | Media1000BaseSX | Media1000BaseT | Media100BaseTX | Media10BaseT

datatype duplex = DuplexNone | FullDuplex | HalfDuplex

type_synonym media_word = "media \<times> duplex"

record rx_csum =
  csIPChecked :: bool
  csIPValid :: bool
  csDataValid :: bool
  csPseudoHdr :: bool
  csValue :: u16

record IOUserNetworkPacket =
  dataLength :: u32
  dataOff :: u64
  dataVA :: u64
  dataIOVA :: u64
  buffer :: "u8 list"
  tsoMss :: u16
  tsoIPV4 :: bool
  tsoIPV6 :: bool
  csPartial :: bool
  csTCPIPV4 :: bool
  csUDPIPV4 :: bool
  csTCPIPV6 :: bool
  csUDPIPV6 :: bool
  csIPHdr :: bool
  csStart :: u16
  csStuff :: u16
  completionStatus :: IOReturn
  rxChecksumInfo :: "rx_csum option"

datatype ndk_event =
    RequestDequeue queueid
  | RequestEnqueue queueid
  | SetQueueEnable queueid bool
  | PurgePackets queueid
  | AllocatePacket "pktid option"
  | PrepareWithQueue pktid
  | DeallocateTx pktid
  | DeallocateRx pktid
  | ReportLinkStatus bool media_word
  | WakeAtTime u64

type_synonym ndk_allocator = "ndk_event list \<Rightarrow> pktid option"

subsection \<open>Descriptors and instance variables\<close>

record RtlDextTxDesc =
  tx_opts1 :: u32
  tx_opts2 :: u32
  tx_addr :: u64

record RtlDextRxDesc =
  rx_opts1 :: u32
  rx_opts2 :: u32
  rx_addr :: u64

record dext_counters =
  txSubmitted :: u64
  txCompleted :: u64
  txDroppedFifo :: u64
  txBytes :: u64
  txTso :: u64
  txPartial :: u64
  txPartialFail :: u64
  rxDelivered :: u64
  rxErrors :: u64
  rxDroppedFifo :: u64
  rxRefillShort :: u64
  isrCount :: u64
  isrRx :: u64
  isrTx :: u64
  isrTimer :: u64
  isrLink :: u64
  rxStallIsrSample :: u64
  rxStallDeliveredSample :: u64
  rxStallRecoveries :: u64
  linkGlitches :: u64
  lastIsrStatus :: u32
  txDebugLogged :: u32
  txSynLogged :: u32
  rxSynLogged :: u32
  offLogged :: u32
  oddLogged :: u32
  txBadLen :: u64
  txDequeueCalls :: "u64 list"
  txPerQueue :: "u64 list"
  txNoLinkCalls :: u64
  txNoLinkPackets :: u64
  txNoSpaceCalls :: u64
  txNoSpacePackets :: u64
  txNonzeroDataOffset :: u64
  txNonemptyCalls :: u64
  txCompletionCalls :: "u64 list"
  txCompletionPackets :: "u64 list"
  txReclaimCalls :: u64
  txReclaimNonempty :: u64
  txReclaimedDescriptors :: u64
  txReclaimMaxBatch :: u32
  txDoneSampledMax :: "u32 list"
  mediaQueryLogged :: u32

record RTL8127Driver_IVars =
  ihw :: hw
  opened :: bool
  fiberMode :: bool
  interfaceEnabled :: bool
  linkUp :: bool
  ctr :: dext_counters
  tallyPending :: bool
  statData :: bool
  statsTimer :: bool
  txRing :: "RtlDextTxDesc list"
  rxRing :: "RtlDextRxDesc list"
  rxPool :: bool
  txSubQueues :: "queueid option list"
  txCompQueues :: "queueid option list"
  rxSubQueue :: "queueid option"
  rxCompQueue :: "queueid option"
  txLock :: bool
  txPkt :: "pktid option list"
  txPktQueue :: "u8 list"
  txPktLen :: "u32 list"
  txInflightBytes :: u64
  rxPkt :: "pktid option list"
  txDoneFifo :: "pktid PacketFifo list"
  rxDoneFifo :: "pktid PacketFifo"
  rxFreeFifo :: "pktid PacketFifo"
  mediaArray :: "media list"
  currentMedia :: media_word
  mtu :: u32
  tsoEnabled :: bool
  txDropWarned :: bool
  rxDropWarned :: bool
  pkts :: "pktid \<Rightarrow> IOUserNetworkPacket"
  ndk :: "ndk_event list"
  ndk_alloc :: ndk_allocator
  txPool :: bool
  intSource :: bool
  workQueue :: bool
  barIndex :: u8
  barMap :: bool
  txRingDma :: bool
  rxRingDma :: bool
  statDma :: bool

subsection \<open>Helpers\<close>

text \<open>Run an operation of the hardware layer.\<close>

definition on_hw :: "'a hwm \<Rightarrow> RTL8127Driver_IVars \<Rightarrow> 'a \<times> RTL8127Driver_IVars" where
  "on_hw m iv = (let (a, h) = run m (ihw iv) in (a, iv\<lparr>ihw := h\<rparr>))"

definition do_hw :: "'a hwm \<Rightarrow> RTL8127Driver_IVars \<Rightarrow> RTL8127Driver_IVars" where
  "do_hw m iv = iv\<lparr>ihw := snd (run m (ihw iv))\<rparr>"

definition tally :: "(dext_counters \<Rightarrow> dext_counters) \<Rightarrow> RTL8127Driver_IVars \<Rightarrow> RTL8127Driver_IVars" where
  "tally f iv = iv\<lparr>ctr := f (ctr iv)\<rparr>"

definition signal :: "ndk_event \<Rightarrow> RTL8127Driver_IVars \<Rightarrow> RTL8127Driver_IVars" where
  "signal e iv = iv\<lparr>ndk := e # ndk iv\<rparr>"

text \<open>A call on a queue that exists only if the queue was created.\<close>

definition signal_opt ::
    "(queueid \<Rightarrow> ndk_event) \<Rightarrow> queueid option \<Rightarrow> RTL8127Driver_IVars \<Rightarrow> RTL8127Driver_IVars" where
  "signal_opt e q iv = (case q of None \<Rightarrow> iv | Some i \<Rightarrow> signal (e i) iv)"

definition set_pkt ::
    "pktid \<Rightarrow> (IOUserNetworkPacket \<Rightarrow> IOUserNetworkPacket) \<Rightarrow> RTL8127Driver_IVars \<Rightarrow> RTL8127Driver_IVars" where
  "set_pkt p f iv = iv\<lparr>pkts := (pkts iv)(p := f (pkts iv p))\<rparr>"

definition bump :: "u64 list \<Rightarrow> nat \<Rightarrow> u64 \<Rightarrow> u64 list" where
  "bump xs i n = xs[i := xs ! i + n]"

definition txQueueIndex :: "RTL8127Driver_IVars \<Rightarrow> queueid \<Rightarrow> nat" where
  "txQueueIndex iv q =
    (case find (\<lambda>i. txSubQueues iv ! i = Some q \<or> txCompQueues iv ! i = Some q) [0..<kNumTxQueues]
     of Some i \<Rightarrow> i | None \<Rightarrow> 0)"

subsection \<open>Tail and close pointers (RTL8127Hw.cpp)\<close>

definition rtl812xGetHwCloPtr :: "u32 hwm" where
  "rtl812xGetHwCloPtr = do {
     v \<leftarrow> tpget tp_HwSuppTxNoCloseVer;
     r \<leftarrow> tpget tp_HwCloPtrReg;
     if v = 3 then do { x \<leftarrow> RTL_R16 r; ret (ucast x) } else RTL_R32 r
   }"

definition rtl812xDoorbell :: "u32 \<Rightarrow> unit hwm" where
  "rtl812xDoorbell txTailPtr = do {
     v \<leftarrow> tpget tp_HwSuppTxNoCloseVer;
     r \<leftarrow> tpget tp_SwTailPtrReg;
     if v > 3 then RTL_W32 r txTailPtr else RTL_W16 r (ucast (txTailPtr AND 0xffff))
   }"

lemma ihw_do_hw [simp]: "ihw (do_hw m iv) = snd (run m (ihw iv))"
  by (simp add: do_hw_def)

lemma on_hw_eq: "on_hw m iv = (fst (run m (ihw iv)), do_hw m iv)"
  by (simp add: on_hw_def do_hw_def split: prod.splits)

lemma txQueueIndex_less: "txQueueIndex iv q < kNumTxQueues"
  unfolding txQueueIndex_def
  by (auto simp: kNumTxQueues_def find_Some_iff split: option.splits)

subsection \<open>Generic facts\<close>

text \<open>Replacing one of several lists of packets, and pushing to a FIFO.\<close>

lemma mset_concat_update:
  "i < length xs \<Longrightarrow> mset (concat (xs[i := ys])) + mset (xs ! i) = mset (concat xs) + mset ys"
proof (induction xs arbitrary: i)
  case (Cons x xs)
  then show ?case by (cases i) (simp_all add: union_ac)
qed simp

lemma fifo_push_take:
  assumes "fifo_inv f"
  shows "fifo_list (snd (fifoPush f p)) = take 2047 (fifo_list f @ [p])"
    and "fifo_inv (snd (fifoPush f p))"
    and "fst (fifoPush f p) \<longleftrightarrow> length (fifo_list f) < 2047"
  using fifo.enq_inv [OF assms] fifo.cap_bound [OF assms] fifo.enq_room [OF assms] fifo.enq_full [OF assms]
  by (cases "length (fifo_list f) < 2047"; force)+

lemma take_take_append: "take n (take n xs @ ys) = take n (xs @ ys)"
  by (cases "length xs \<le> n") simp_all

end
