(* ===== verification/HwLayer.thy ===== *)
theory HwLayer
  imports PhyConfig SoftVar Eeprom DextTypes
begin

text \<open>
  The class \<open>RTL8127Hw\<close> of the DriverKit driver (\<open>hw/RTL8127Hw.cpp\<close>): chip
  identification, station address, initialisation, enabling, disabling, ring
  and register configuration, PHY medium and link patches. The long register
  sequence of \<open>rtl812xHwConfig\<close> is split into stages run in the order of the code.
\<close>

abbreviation "Rx_Fetch_Number_8 \<equiv> (0x40000000 :: u32)"
abbreviation "Rx_Close_Multiple \<equiv> (0x200000 :: u32)"
abbreviation "EnableInnerVlan \<equiv> (0x400000 :: u32)"
abbreviation "EnableOuterVlan \<equiv> (0x800000 :: u32)"
abbreviation "RxCfg_pause_slot_en \<equiv> (0x800 :: u32)"
abbreviation "RX_DMA_BURST_256 \<equiv> (4 :: u32)"
abbreviation "RX_DMA_BURST_512 \<equiv> (5 :: u32)"
abbreviation "RxCfgDMAShift \<equiv> (8 :: nat)"
abbreviation "Jumbo_Frame_1k \<equiv> (1500 :: u32)"
abbreviation "Jumbo_Frame_9k \<equiv> (9194 :: u32)"
abbreviation "NUM_CHIPS \<equiv> (18 :: nat)"
abbreviation "bit__LINK_UP \<equiv> (1 :: nat)"
abbreviation "bit__PROMISC \<equiv> (2 :: nat)"
abbreviation "bit__M_CAST \<equiv> (3 :: nat)"
abbreviation "bit__POLL_MODE \<equiv> (4 :: nat)"
abbreviation "kIOPCILinkControlASPMBitsL0s \<equiv> (1 :: u8)"

subsection \<open>The chip table\<close>

record RtlChipInfo =
  ci_mcfg :: mcfg
  RCR_Cfg :: u32
  RxConfigMask :: u32
  jumbo_frame_sz :: u32

definition chip_info :: "mcfg \<Rightarrow> u32 \<Rightarrow> u32 \<Rightarrow> u32 \<Rightarrow> RtlChipInfo" where
  "chip_info m rcr msk sz = \<lparr>ci_mcfg = m, RCR_Cfg = rcr, RxConfigMask = msk, jumbo_frame_sz = sz\<rparr>"

definition rtlChipInfo :: "RtlChipInfo list" where
  "rtlChipInfo = [
      chip_info CFG_METHOD_2 (Rx_Fetch_Number_8 OR EnableInnerVlan OR EnableOuterVlan OR push_bit RxCfgDMAShift RX_DMA_BURST_256) 0xff7e5880 Jumbo_Frame_9k,
      chip_info CFG_METHOD_3 (Rx_Fetch_Number_8 OR EnableInnerVlan OR EnableOuterVlan OR push_bit RxCfgDMAShift RX_DMA_BURST_256) 0xff7e5880 Jumbo_Frame_9k,
      chip_info CFG_METHOD_4 (Rx_Fetch_Number_8 OR RxCfg_pause_slot_en OR EnableInnerVlan OR EnableOuterVlan OR push_bit RxCfgDMAShift RX_DMA_BURST_256) 0xff7e5880 Jumbo_Frame_9k,
      chip_info CFG_METHOD_5 (Rx_Fetch_Number_8 OR RxCfg_pause_slot_en OR EnableInnerVlan OR EnableOuterVlan OR push_bit RxCfgDMAShift RX_DMA_BURST_256) 0xff7e5880 Jumbo_Frame_9k,
      chip_info CFG_METHOD_6 (Rx_Fetch_Number_8 OR EnableInnerVlan OR EnableOuterVlan OR push_bit RxCfgDMAShift RX_DMA_BURST_256) 0xff7e5880 Jumbo_Frame_9k,
      chip_info CFG_METHOD_7 (Rx_Fetch_Number_8 OR RxCfg_pause_slot_en OR EnableInnerVlan OR EnableOuterVlan OR push_bit RxCfgDMAShift RX_DMA_BURST_256) 0xff7e5880 Jumbo_Frame_9k,
      chip_info CFG_METHOD_8 (Rx_Fetch_Number_8 OR Rx_Close_Multiple OR RxCfg_pause_slot_en OR
        EnableInnerVlan OR EnableOuterVlan OR push_bit RxCfgDMAShift RX_DMA_BURST_256) 0xff7e5880 Jumbo_Frame_9k,
      chip_info CFG_METHOD_9 (Rx_Fetch_Number_8 OR Rx_Close_Multiple OR RxCfg_pause_slot_en OR
        EnableInnerVlan OR EnableOuterVlan OR push_bit RxCfgDMAShift RX_DMA_BURST_256) 0xff7e5880 Jumbo_Frame_9k,
      chip_info CFG_METHOD_10 (Rx_Fetch_Number_8 OR Rx_Close_Multiple OR RxCfg_pause_slot_en OR
        EnableInnerVlan OR EnableOuterVlan OR push_bit RxCfgDMAShift RX_DMA_BURST_256) 0xff7e5880 Jumbo_Frame_9k,
      chip_info CFG_METHOD_11 (Rx_Fetch_Number_8 OR Rx_Close_Multiple OR RxCfg_pause_slot_en OR
        EnableInnerVlan OR EnableOuterVlan OR push_bit RxCfgDMAShift RX_DMA_BURST_256) 0xff7e5880 Jumbo_Frame_9k,
      chip_info CFG_METHOD_12 (Rx_Fetch_Number_8 OR Rx_Close_Multiple OR RxCfg_pause_slot_en OR
        EnableInnerVlan OR EnableOuterVlan OR push_bit RxCfgDMAShift RX_DMA_BURST_256) 0xff7e5880 Jumbo_Frame_9k,
      chip_info CFG_METHOD_13 (Rx_Fetch_Number_8 OR Rx_Close_Multiple OR RxCfg_pause_slot_en OR
        EnableInnerVlan OR EnableOuterVlan OR push_bit RxCfgDMAShift RX_DMA_BURST_256) 0xff7e5880 Jumbo_Frame_9k,
      chip_info CFG_METHOD_31 (Rx_Fetch_Number_8 OR RxCfg_pause_slot_en OR EnableInnerVlan OR EnableOuterVlan OR push_bit RxCfgDMAShift RX_DMA_BURST_512) 0xff7e5880 Jumbo_Frame_9k,
      chip_info CFG_METHOD_32 (Rx_Fetch_Number_8 OR Rx_Close_Multiple OR RxCfg_pause_slot_en OR
        EnableInnerVlan OR EnableOuterVlan OR push_bit RxCfgDMAShift RX_DMA_BURST_512) 0xff7e5880 Jumbo_Frame_9k,
      chip_info CFG_METHOD_33 (Rx_Fetch_Number_8 OR Rx_Close_Multiple OR RxCfg_pause_slot_en OR
        EnableInnerVlan OR EnableOuterVlan OR push_bit RxCfgDMAShift RX_DMA_BURST_512) 0xff7e5880 Jumbo_Frame_9k,
      chip_info CFG_METHOD_41 (Rx_Fetch_Number_8 OR Rx_Close_Multiple OR RxCfg_pause_slot_en OR
        EnableInnerVlan OR EnableOuterVlan OR push_bit RxCfgDMAShift RX_DMA_BURST_512) 0xff7e5880 Jumbo_Frame_9k,
      chip_info CFG_METHOD_42 (Rx_Fetch_Number_8 OR Rx_Close_Multiple OR RxCfg_pause_slot_en OR
        EnableInnerVlan OR EnableOuterVlan OR push_bit RxCfgDMAShift RX_DMA_BURST_512) 0xff7e5880 Jumbo_Frame_9k,
      chip_info CFG_METHOD_DEFAULT (push_bit RxCfgDMAShift RX_DMA_BURST_512) 0xff7e5880 Jumbo_Frame_1k
     ]"

abbreviation "chip_row t \<equiv> rtlChipInfo ! unat (tp_chipset t)"

subsection \<open>Random numbers, receive mode and ASPM\<close>

fun rand_step :: "u32 \<Rightarrow> u32" where
  "rand_step x =
    (let a = x XOR push_bit 13 x; b = a XOR drop_bit 17 a in b XOR push_bit 5 b)"

fun rand_bytes :: "nat \<Rightarrow> u32 \<Rightarrow> u8 list \<times> u32" where
  "rand_bytes 0 seed = ([], seed)"
| "rand_bytes (Suc n) seed =
    (let s1 = rand_step seed; (bs, s2) = rand_bytes n s1 in (ucast s1 # bs, s2))"

definition random_buf :: "nat \<Rightarrow> u8 list hwm" where
  "random_buf len = do {
     seed \<leftarrow> getf gRandSeed;
     let r = rand_bytes len seed;
     modf (\<lambda>s. s\<lparr>gRandSeed := snd r\<rparr>);
     ret (fst r)
   }"

definition rx_mode :: "u32 \<Rightarrow> u64 \<Rightarrow> u32 \<times> u32 \<times> u32" where
  "rx_mode flags flt =
    (if bit flags bit__PROMISC
     then (AcceptBroadcast OR AcceptMulticast OR AcceptMyPhys OR AcceptAllPhys, 0xffffffff, 0xffffffff)
     else if bit flags bit__M_CAST
     then (AcceptBroadcast OR AcceptMulticast OR AcceptMyPhys, ucast flt, ucast (drop_bit 32 flt))
     else (AcceptBroadcast OR AcceptMyPhys, 0, 0))"

definition applyRxMode :: "unit hwm" where
  "applyRxMode = do {
     flags \<leftarrow> getf stateFlags;
     flt \<leftarrow> getf multicastFilter;
     t \<leftarrow> tpget id;
     let m = rx_mode flags flt;
     c \<leftarrow> RTL_R32 RxConfig;
     RTL_W32 RxConfig (fst m OR (tp_rx_config t OR (c AND RxConfigMask (chip_row t))));
     RTL_W32 MAR0 (fst (snd m));
     RTL_W32 MAR1 (snd (snd m))
   }"

definition aspm_state :: "u32 \<Rightarrow> bool \<Rightarrow> bool \<Rightarrow> u16" where
  "aspm_state cap allowL0s allowL1 =
    (if cap AND 0x00400000 \<noteq> 0 then
       (if cap AND 0x00000400 \<noteq> 0 \<and> allowL0s then 1 else 0) OR
       (if cap AND 0x00000800 \<noteq> 0 \<and> allowL1 then 2 else 0)
     else 0)"

definition setupASPM :: "bool \<Rightarrow> bool \<Rightarrow> unit hwm" where
  "setupASPM allowL0s allowL1 = do {
     off \<leftarrow> getf pcieCapOffset;
     whenM (off \<noteq> 0) (do {
       cap \<leftarrow> extendedConfigRead32 (ucast off + 0x0c);
       lnkCtl \<leftarrow> extendedConfigRead16 (ucast off + 0x10);
       extendedConfigWrite16 (ucast off + 0x10)
         (lnkCtl AND NOT 0x3 OR (aspm_state cap allowL0s allowL1 AND 0x3))
     })
   }"

subsection \<open>Chip identification\<close>

text \<open>
  \<open>(generation, row of the chip table, unknown revision)\<close> for the bits of
  \<open>TxConfig\<close>; \<open>None\<close> is the default branch, which leaves the row as it was.
\<close>

definition ic_ver :: "u32 \<Rightarrow> mcfg \<times> u32 \<Rightarrow> mcfg \<times> u32 \<Rightarrow> (mcfg \<times> u32 \<times> bool) option" where
  "ic_ver v a b =
    (if v = 0 then Some (fst a, snd a, False)
     else Some (fst b, snd b, v \<noteq> 0x100000))"

definition identify :: "u32 \<Rightarrow> (mcfg \<times> u32 \<times> bool) option" where
  "identify val32 =
    (let reg = val32 AND 0x7c800000; ICVerID = val32 AND 0x00700000 in
     if reg = 0x60800000 then ic_ver ICVerID (CFG_METHOD_2, 0) (CFG_METHOD_3, 1)
     else if reg = 0x64000000 then ic_ver ICVerID (CFG_METHOD_4, 2) (CFG_METHOD_5, 3)
     else if reg = 0x68000000 then ic_ver ICVerID (CFG_METHOD_8, 6) (CFG_METHOD_9, 7)
     else if reg = 0x68800000 then ic_ver ICVerID (CFG_METHOD_10, 8) (CFG_METHOD_11, 9)
     else if reg = 0x70800000 then Some (CFG_METHOD_12, 10, ICVerID \<noteq> 0)
     else if reg = 0x6C800000 then ic_ver ICVerID (CFG_METHOD_41, 15) (CFG_METHOD_42, 16)
     else if reg = 0x64800000 then
       (if ICVerID = 0 then Some (CFG_METHOD_31, 12, False)
        else if ICVerID = 0x100000 then Some (CFG_METHOD_32, 13, False)
        else Some (CFG_METHOD_33, 14, ICVerID \<noteq> 0x200000))
     else None)"

definition remap_8162 :: "u16 \<Rightarrow> mcfg \<times> u32 \<Rightarrow> mcfg \<times> u32" where
  "remap_8162 dev p =
    (if dev = 0x8162 then
       (if fst p = CFG_METHOD_3 then (CFG_METHOD_6, 4)
        else if fst p = CFG_METHOD_5 then (CFG_METHOD_7, 5)
        else if fst p = CFG_METHOD_11 then (CFG_METHOD_13, 11)
        else p)
     else p)"

definition rtl812xIdentifyChip :: "bool hwm" where
  "rtl812xIdentifyChip = do {
     val32 \<leftarrow> RTL_R32 TxConfig;
     dev \<leftarrow> getf pciDeviceId;
     chip0 \<leftarrow> tpget tp_chipset;
     let (m0, c0, unknown) = (case identify val32 of Some r \<Rightarrow> r | None \<Rightarrow> (CFG_METHOD_DEFAULT, chip0, True));
     let (m, c) = remap_8162 dev (m0, c0);
     tpmod (\<lambda>t. t\<lparr>tp_mcfg := m, tp_chipset := c, tp_HwIcVerUnknown := unknown\<rparr>);
     tpmod (\<lambda>t. t\<lparr>tp_rx_config := RCR_Cfg (chip_row t)\<rparr>);
     ret (m \<noteq> CFG_METHOD_DEFAULT)
   }"

subsection \<open>Station address\<close>

definition is_zero_ether_addr :: "u8 list \<Rightarrow> bool" where
  "is_zero_ether_addr a \<longleftrightarrow> list_all (\<lambda>b. b = 0) (take 6 a)"

definition is_multicast_ether_addr :: "u8 list \<Rightarrow> bool" where
  "is_multicast_ether_addr a \<longleftrightarrow> 0x01 AND hd a \<noteq> 0"

definition is_valid_ether_addr :: "u8 list \<Rightarrow> bool" where
  "is_valid_ether_addr a \<longleftrightarrow> \<not> is_multicast_ether_addr a \<and> \<not> is_zero_ether_addr a"

fun read_mac :: "nat \<Rightarrow> u16 \<Rightarrow> u8 list hwm" where
  "read_mac 0 r = ret []"
| "read_mac (Suc n) r = do { b \<leftarrow> RTL_R8 r; bs \<leftarrow> read_mac n (r + 1); ret (b # bs) }"

definition mac_of_words :: "u32 \<Rightarrow> u16 \<Rightarrow> u8 list" where
  "mac_of_words lo hi =
    [ucast lo, ucast (drop_bit 8 lo), ucast (drop_bit 16 lo), ucast (drop_bit 24 lo), ucast hi, ucast (drop_bit 8 hi)]"

fun local_unicast :: "u8 list \<Rightarrow> u8 list" where
  "local_unicast (b # bs) = (b AND 0xfe OR 0x02) # bs"
| "local_unicast [] = []"

definition initMacAddr :: "unit hwm" where
  "initMacAddr = do {
     mac \<leftarrow> read_mac 6 MAC0;
     lo \<leftarrow> RTL_R32 BACKUP_ADDR0_8125;
     hi \<leftarrow> RTL_R16 BACKUP_ADDR1_8125;
     let org = mac_of_words lo hi;
     modf (\<lambda>s. s\<lparr>origMacAddr := org\<rparr>);
     fb \<leftarrow> getf fallBackMacAddr;
     macAddr \<leftarrow>
       (if is_valid_ether_addr mac then ret mac
        else if is_valid_ether_addr fb then ret fb
        else if is_valid_ether_addr org then ret org
        else do { r \<leftarrow> random_buf 6; ret (local_unicast r) });
     modf (\<lambda>s. s\<lparr>currMacAddr := macAddr\<rparr>);
     rtl8125_rar_set macAddr
   }"

subsection \<open>Register configuration\<close>

definition rtl812xHwInit :: "unit hwm" where
  "rtl812xHwInit = do {
     rtl8125_enable_aspm_clkreq_lock False;
     rtl8125_enable_force_clkreq False;
     rtl8125_set_reg_oobs_en_sel True;
     mac_rmw 0xD40A (\<lambda>v. v AND NOT BIT_4);
     rtl8125_hw_mac_mcu_config;
     g \<leftarrow> mcfg_is {CFG_METHOD_2, CFG_METHOD_3, CFG_METHOD_6};
     whenM g rtl8125_disable_ocp_phy_power_saving;
     csi \<leftarrow> rtl8125_csi_read 0x108;
     rtl8125_csi_write 0x108 (csi OR 0x100000);
     rtl8125_enable_cfg9346_write;
     rtl8125_disable_linkchg_wakeup;
     rtl8125_disable_cfg9346_write;
     rtl8125_disable_magic_packet;
     rtl8125_disable_d0_speedup;
     rtl8125_enable_magic_packet
   }"

definition rtl812xSetMrrs :: "u8 \<Rightarrow> unit hwm" where
  "rtl812xSetMrrs setting = do {
     devctl \<leftarrow> extendedConfigRead8 0x79;
     extendedConfigWrite8 0x79 (devctl AND NOT 0x70 OR setting)
   }"

definition HW_SUPPORT_TCAM :: "rtl8125_private \<Rightarrow> bool" where
  "HW_SUPPORT_TCAM t \<longleftrightarrow> tp_HwSuppTcamVer t > 0"

abbreviation "is_8127 m \<equiv> m = CFG_METHOD_41 \<or> m = CFG_METHOD_42"

definition hc_start :: "unit hwm" where
  "hc_start = do {
     rtl8125_disable_rx_packet_filter;
     rtl8125_nic_reset;
     rmw8 Cfg9346 (\<lambda>v. v OR Cfg9346_Unlock);
     rtl8125_enable_force_clkreq False;
     rtl8125_enable_aspm_clkreq_lock False;
     g \<leftarrow> mcfg_is {CFG_METHOD_2, CFG_METHOD_3, CFG_METHOD_4, CFG_METHOD_5};
     whenM g (rmw8 Config3 (\<lambda>v. v AND NOT BIT_1));
     e \<leftarrow> tpget tp_eee;
     RTL_W16 EEE_TXIDLE_TIMER_8125 (ucast (tx_lpi_timer e));
     mac_rmw 0xC0B6 (\<lambda>v. v AND BIT_0);
     stat \<leftarrow> getf statPhyAddr;
     RTL_W32 CounterAddrHigh (ucast (drop_bit 32 stat));
     RTL_W32 CounterAddrLow (ucast stat);
     rtl8125_set_mac_ocp_bit 0xEA84 (BIT_1 OR BIT_0)
   }"

definition hc_rings :: "unit hwm" where
  "hc_rings = do {
     modf (\<lambda>s. s\<lparr>txTailPtr0 := 0, txClosePtr0 := 0, txNextDescIndex := 0, txDirtyDescIndex := 0,
                 txNumFreeDesc := of_nat kNumTxDesc, rxNextDescIndex := 0\<rparr>);
     tx \<leftarrow> getf txPhyAddr;
     rx \<leftarrow> getf rxPhyAddr;
     RTL_W32 TxDescStartAddrLow (ucast tx);
     RTL_W32 TxDescStartAddrHigh (ucast (drop_bit 32 tx));
     RTL_W32 RxDescAddrLow (ucast rx);
     RTL_W32 RxDescAddrHigh (ucast (drop_bit 32 rx));
     RTL_W32 TxConfig (0x700 OR 0x3000000);
     rmw32 TxConfig (\<lambda>v. v OR BIT_6);
     rtl8125_set_l1_l0s_entry_latency;
     rtl812xSetMrrs 0x50;
     t \<leftarrow> tpget id;
     whenM (is_8127 (tp_mcfg t)) rtl8126_disable_l1_timeout;
     whenM (tp_HwSuppTcamVer t = 1) (RTL_W16 0x382 0x221B);
     RTL_W8 RSS_CTRL_8125 0x00;
     RTL_W16 Q_NUM_CTRL_8125 0x0000;
     rmw8 Config1 (\<lambda>v. v AND NOT 0x10);
     rtl8125_mac_ocp_write 0xC140 0xFFFF;
     rtl8125_mac_ocp_write 0xC142 0xFFFF
   }"

definition hc_tx_format :: "mcfg \<Rightarrow> unit hwm" where
  "hc_tx_format m = do {
     mac_rmw 0xEB58 (\<lambda>v. v AND NOT (if m \<in> {CFG_METHOD_32, CFG_METHOD_33, CFG_METHOD_41, CFG_METHOD_42}
                                     then BIT_0 OR BIT_1 else BIT_0) OR BIT_0);
     whenM (is_8127 m) (rmw8 0x20E4 (\<lambda>v. v OR BIT_2));
     whenM (m = CFG_METHOD_42) (do {
       ClearMcuAccessRegBit 0xE00C BIT_12;
       ClearMcuAccessRegBit 0xC0C2 BIT_6
     });
     mac_rmw 0xE614 (\<lambda>v.
       if is_8127 m then v AND NOT (BIT_11 OR BIT_10 OR BIT_9 OR BIT_8) OR 0x0F00
       else if m \<in> {CFG_METHOD_31, CFG_METHOD_32, CFG_METHOD_33} then v AND NOT (BIT_10 OR BIT_9 OR BIT_8) OR 0x0400
       else if m \<in> {CFG_METHOD_4, CFG_METHOD_5} then v AND NOT (BIT_10 OR BIT_9 OR BIT_8) OR 0x0200
       else v AND NOT (BIT_10 OR BIT_9 OR BIT_8) OR 0x0300);
     mac_rmw 0xE63E (\<lambda>v. v AND NOT (BIT_11 OR BIT_10));
     mac_rmw 0xE63E (\<lambda>v. v AND NOT (BIT_5 OR BIT_4)
       OR (if m \<in> {CFG_METHOD_2, CFG_METHOD_3, CFG_METHOD_41, CFG_METHOD_42} then 0x20 else 0))
   }"

definition hc_mcu :: "mcfg \<Rightarrow> unit hwm" where
  "hc_mcu m = do {
     v \<leftarrow> rtl8125_mac_ocp_read 0xC0B4;
     let v0 = v AND NOT BIT_0;
     rtl8125_mac_ocp_write 0xC0B4 v0;
     rtl8125_mac_ocp_write 0xC0B4 (v0 OR BIT_0);
     mac_rmw 0xC0B4 (\<lambda>v. v OR (BIT_3 OR BIT_2));
     mac_rmw 0xEB6A (\<lambda>v. v AND NOT 0xFF OR (BIT_5 OR BIT_4 OR BIT_1 OR BIT_0));
     mac_rmw 0xEB50 (\<lambda>v. v AND NOT (BIT_9 OR BIT_8 OR BIT_7 OR BIT_6 OR BIT_5) OR BIT_6);
     mac_rmw 0xE056 (\<lambda>v. v AND NOT (BIT_7 OR BIT_6 OR BIT_5 OR BIT_4)
       OR (if is_8127 m then 0 else BIT_4 OR BIT_5));
     RTL_W8 TDFNR 0x10;
     rmw8 0xD0 (\<lambda>v. v OR BIT_7);
     mac_rmw 0xE040 (\<lambda>v. v AND NOT BIT_12);
     mac_rmw 0xEA1C (\<lambda>v. v AND NOT (BIT_1 OR BIT_0) OR BIT_0)
   }"

definition hc_rx :: "rtl8125_private \<Rightarrow> unit hwm" where
  "hc_rx t = (let m = tp_mcfg t in do {
     (if is_8127 m then do {
        rtl8125_mac_ocp_write 0xE0C0 0x4000;
        SetMcuAccessRegBit 0xE052 (BIT_6 OR BIT_5);
        ClearMcuAccessRegBit 0xE052 (BIT_3 OR BIT_7)
      } else do {
        mac_rmw 0xE0C0 (\<lambda>v. v AND NOT (BIT_14 OR BIT_11 OR BIT_10 OR BIT_9 OR BIT_8 OR BIT_3 OR BIT_2 OR BIT_1 OR BIT_0)
          OR (BIT_14 OR BIT_10 OR BIT_1 OR BIT_0));
        SetMcuAccessRegBit 0xE052 (BIT_6 OR BIT_5 OR BIT_3);
        ClearMcuAccessRegBit 0xE052 BIT_7
      });
     mac_rmw 0xD430 (\<lambda>v. v AND NOT 0x0FFF OR (if is_8127 m then 0x45F else 0x47F));
     rmw8 0xD0 (\<lambda>v. v OR BIT_6 OR BIT_7);
     whenM (m \<in> {CFG_METHOD_2, CFG_METHOD_3}) (rmw8 0xD3 (\<lambda>v. v OR BIT_0));
     rtl8125_disable_eee_plus;
     mac_rmw 0xEA1C (\<lambda>v. v AND NOT BIT_2
       AND NOT (if m \<in> {CFG_METHOD_32, CFG_METHOD_33, CFG_METHOD_41, CFG_METHOD_42} then BIT_9 OR BIT_8 else 0));
     whenM (tp_HwSuppRxDescType t = 4) (rmw8 0xd8 (\<lambda>v. v AND NOT 0x02));
     whenM (HW_SUPPORT_TCAM t) (do {
       SetMcuAccessRegBit 0xEB54 BIT_0;
       udelay 1;
       ClearMcuAccessRegBit 0xEB54 BIT_0
     });
     r \<leftarrow> RTL_R16 0x1880;
     RTL_W16 0x1880 (r AND NOT (BIT_4 OR BIT_5));
     whenM (is_8127 m) (mac_rmw 0xD40C (\<lambda>v. v AND NOT 0xE038 OR 0x8020))
   })"

definition hc_pci :: "unit hwm" where
  "hc_pci = do {
     rtl8125_hw_clear_timer_int;
     rtl8125_hw_clear_int_miti;
     rtl8125_enable_exit_l1_mask;
     rtl8125_mac_ocp_write 0xE098 0xC302;
     t \<leftarrow> tpget id;
     let l1 = (tp_aspm t AND kIOPCILinkControlASPMBitsL1 \<noteq> 0);
     (if l1 \<and> tp_org_pci_offset_99 t AND (BIT_2 OR BIT_5 OR BIT_6) \<noteq> 0
      then rtl8125_init_pci_offset_99 else rtl8125_disable_pci_offset_99);
     off180 \<leftarrow> (if l1 then do { c \<leftarrow> rtl8125_get_l1off_cap_bits; ret (tp_org_pci_offset_180 t AND c \<noteq> 0) }
                else ret False);
     (if off180 then rtl8125_init_pci_offset_180 else rtl8125_disable_pci_offset_180);
     whenM (tp_RequiredPfmPatch t) (rtl8125_set_pfm_patch False)
   }"

fun e00e_wait :: "nat \<Rightarrow> unit hwm" where
  "e00e_wait 0 = skip"
| "e00e_wait (Suc n) = do {
     v \<leftarrow> rtl8125_mac_ocp_read 0xE00E;
     if v AND BIT_13 = 0 then skip else do { mdelay 1; e00e_wait n }
   }"

abbreviation "CPCMD_QUIRK_MASK \<equiv> (0x8000 OR 0x4000 OR 0x1000 OR 0x800 OR 0x400 OR 0x200 OR 0x100 OR 0x1C :: u16)"

definition hc_finish :: "unit hwm" where
  "hc_finish = do {
     tpmod (\<lambda>t. t\<lparr>tp_cp_cmd := tp_cp_cmd t AND NOT CPCMD_QUIRK_MASK\<rparr>);
     t \<leftarrow> tpget id;
     RTL_W16 CPlusCmd (tp_cp_cmd t);
     e00e_wait 10;
     rtl8125_set_rms (tp_rms t);
     rtl8125_disable_rxdvgate;
     applyRxMode;
     rtl8125_set_radm_fifo_prot True;
     rtl8125_enable_aspm_clkreq_lock (tp_aspm t AND kIOPCILinkControlASPMBitsL1 \<noteq> 0);
     rmw8 Cfg9346 (\<lambda>v. v AND NOT Cfg9346_Unlock);
     im \<leftarrow> getf intrMask;
     RTL_W32 IMR0_8125 im;
     udelay 10
   }"

definition rtl812xHwConfig :: "unit hwm" where
  "rtl812xHwConfig = do {
     hc_start;
     hc_rings;
     t \<leftarrow> tpget id;
     hc_tx_format (tp_mcfg t);
     hc_mcu (tp_mcfg t);
     hc_rx t;
     hc_pci;
     hc_finish
   }"

subsection \<open>PHY medium\<close>

definition HW_SUPP_PHY_LINK_SPEED_10000M :: "rtl8125_private \<Rightarrow> bool" where
  "HW_SUPP_PHY_LINK_SPEED_10000M t \<longleftrightarrow> tp_HwSuppMaxPhyLinkSpeed t \<ge> 10000"

definition HW_SUPP_PHY_LINK_SPEED_2500M :: "rtl8125_private \<Rightarrow> bool" where
  "HW_SUPP_PHY_LINK_SPEED_2500M t \<longleftrightarrow> tp_HwSuppMaxPhyLinkSpeed t \<ge> 2500"

definition best_speed :: "rtl8125_private \<Rightarrow> u32" where
  "best_speed t =
    (if HW_SUPP_PHY_LINK_SPEED_10000M t then SPEED_10000
     else if HW_SUPP_PHY_LINK_SPEED_5000M t then SPEED_5000
     else if HW_SUPP_PHY_LINK_SPEED_2500M t then SPEED_2500
     else SPEED_1000)"

abbreviation "ADVERTISE_PAUSE_CAP \<equiv> (0x0400 :: u32)"
abbreviation "ADVERTISE_PAUSE_ASYM \<equiv> (0x0800 :: u32)"

definition medium_auto :: "u64 \<Rightarrow> u32 \<Rightarrow> u32 \<Rightarrow> u32" where
  "medium_auto adv fc v =
     v AND NOT (ADVERTISE_10HALF OR ADVERTISE_10FULL OR ADVERTISE_100HALF OR ADVERTISE_100FULL OR
                ADVERTISE_PAUSE_CAP OR ADVERTISE_PAUSE_ASYM) OR
     adv_slow adv OR
     (if fc = rtl8125_fc_full then ADVERTISE_PAUSE_CAP OR ADVERTISE_PAUSE_ASYM else 0)"

definition medium_1000 :: "u64 \<Rightarrow> u32 \<Rightarrow> u32" where
  "medium_1000 adv v =
     v OR (if adv AND ADVERTISED_1000baseT_Half \<noteq> 0 then ADVERTISE_1000HALF else 0)
       OR (if adv AND ADVERTISED_1000baseT_Full \<noteq> 0 then ADVERTISE_1000FULL else 0)"

definition medium_2500 :: "rtl8125_private \<Rightarrow> u64 \<Rightarrow> u32 \<Rightarrow> u32" where
  "medium_2500 t adv v =
     v OR (if adv AND ADVERTISED_2500baseX_Full \<noteq> 0 then RTK_ADVERTISE_2500FULL else 0)
       OR (if HW_SUPP_PHY_LINK_SPEED_5000M t \<and> adv AND RTK_ADVERTISED_5000baseX_Full \<noteq> 0
           then RTK_ADVERTISE_5000FULL else 0)
       OR (if HW_SUPP_PHY_LINK_SPEED_10000M t \<and> adv AND ADVERTISED_10000baseT_Full \<noteq> 0
           then RTK_ADVERTISE_10000FULL else 0)"

definition set_medium :: "u8 \<Rightarrow> u32 \<Rightarrow> u8 \<Rightarrow> u64 \<Rightarrow> unit hwm" where
  "set_medium autoneg speed duplex adv = do {
     tpmod (\<lambda>t. t\<lparr>tp_autoneg := autoneg, tp_speed := speed, tp_duplex := duplex, tp_advertising := adv\<rparr>);
     rtl8125_set_d0_speedup_speed
   }"

definition copper_medium :: "u8 \<Rightarrow> u32 \<Rightarrow> u8 \<Rightarrow> u64 \<Rightarrow> unit hwm" where
  "copper_medium autoneg speed duplex adv = do {
     g \<leftarrow> rtl8125_mdio_read MII_CTRL1000;
     let giga_ctrl = g AND NOT (ADVERTISE_1000HALF OR ADVERTISE_1000FULL);
     c \<leftarrow> mdio_direct_read_phy_ocp 0xA5D4;
     let ctrl_2500 = c AND NOT (RTK_ADVERTISE_2500FULL OR RTK_ADVERTISE_5000FULL OR RTK_ADVERTISE_10000FULL);
     if autoneg = AUTONEG_ENABLE then do {
       a \<leftarrow> rtl8125_mdio_read MII_ADVERTISE;
       t \<leftarrow> tpget id;
       let auto_nego = medium_auto adv (tp_fcpause t) a;
       let giga_ctrl = medium_1000 adv giga_ctrl;
       let ctrl_2500 = medium_2500 t adv ctrl_2500;
       tpmod (\<lambda>t. t\<lparr>tp_phy_auto_nego_reg := auto_nego, tp_phy_1000_ctrl_reg := giga_ctrl,
                    tp_phy_2500_ctrl_reg := ctrl_2500\<rparr>);
       rtl8125_mdio_write 0x1f 0x0000;
       rtl8125_mdio_write MII_ADVERTISE (ucast auto_nego);
       rtl8125_mdio_write MII_CTRL1000 (ucast giga_ctrl);
       mdio_direct_write_phy_ocp 0xA5D4 (ucast ctrl_2500);
       rtl8125_phy_restart_nway;
       set_medium autoneg speed duplex adv
     } else if speed = SPEED_10 \<or> speed = SPEED_100 then do {
       rtl8125_phy_setup_force_mode speed duplex;
       set_medium autoneg speed duplex adv
     } else skip
   }"

definition rtl812xSetPhyMedium :: "u8 \<Rightarrow> u32 \<Rightarrow> u8 \<Rightarrow> u64 \<Rightarrow> unit hwm" where
  "rtl812xSetPhyMedium autoneg speed0 duplex0 adv0 = do {
     t \<leftarrow> tpget id;
     let valid = rtl8125_is_speed_mode_valid speed0;
     let speed = (if valid then speed0 else best_speed t);
     let duplex = (if valid then duplex0 else DUPLEX_FULL);
     let adv = (if valid then adv0 else adv0 OR tp_advertising t);
     _ \<leftarrow> (if eee_enabled (tp_eee t) \<noteq> 0 \<and> autoneg = AUTONEG_ENABLE \<and> \<not> HW_FIBER_MODE_ENABLED t
           then rtl8125_enable_eee else rtl8125_disable_eee);
     rtl8125_disable_giga_lite;
     if HW_FIBER_MODE_ENABLED t then do {
       set_medium autoneg (if speed \<noteq> SPEED_1000 then SPEED_10000 else speed) DUPLEX_FULL adv;
       rtl8127_hw_fiber_phy_config
     } else copper_medium autoneg speed duplex adv
   }"

subsection \<open>Bring-up and shutdown\<close>

definition init_eee :: "(nat \<Rightarrow> u32) \<Rightarrow> rtl8125_private \<Rightarrow> rtl8125_private" where
  "init_eee wide_shift t =
    (let lset = linkmode_set_bit wide_shift; e0 = tp_eee t;
         g2500 = (tp_mcfg t > CFG_METHOD_3 \<and> HW_SUPP_PHY_LINK_SPEED_2500M t);
         g5000 = (tp_mcfg t > CFG_METHOD_3 \<and> HW_SUPP_PHY_LINK_SPEED_5000M t);
         modes = (\<lambda>w. let w1 = lset 5 (lset 3 w); w2 = (if g2500 then lset 47 w1 else w1)
                      in if g5000 then lset 48 w2 else w2)
     in if tp_mcfg t \<noteq> CFG_METHOD_DEFAULT
        then t\<lparr>tp_eee := e0\<lparr>eee_supported := modes (eee_supported e0), eee_advertised := modes (eee_advertised e0),
               eee_enabled := 0, tx_lpi_enabled := 0, tx_lpi_timer := 1500 + 14 + 0x20\<rparr>\<rparr>
        else t)"

definition has_sensor :: "mcfg \<Rightarrow> bool" where
  "has_sensor m \<longleftrightarrow> m \<in> {CFG_METHOD_4, CFG_METHOD_5, CFG_METHOD_7, CFG_METHOD_8, CFG_METHOD_9, CFG_METHOD_10,
     CFG_METHOD_11, CFG_METHOD_12, CFG_METHOD_13, CFG_METHOD_31, CFG_METHOD_32, CFG_METHOD_33}"

definition init_aspm :: "unit hwm" where
  "init_aspm = do {
     safe \<leftarrow> rtl8125_aspm_is_safe;
     whenM (\<not> safe) (tpmod (\<lambda>t. t\<lparr>tp_aspm := tp_aspm t AND NOT kIOPCILinkControlASPMBitsL1\<rparr>));
     a \<leftarrow> tpget tp_aspm;
     setupASPM (a AND kIOPCILinkControlASPMBitsL0s \<noteq> 0) (a AND kIOPCILinkControlASPMBitsL1 \<noteq> 0)
   }"

definition init_settings :: "(nat \<Rightarrow> u32) \<Rightarrow> unit hwm" where
  "init_settings wide_shift = do {
     m \<leftarrow> tpget tp_mcfg;
     modf (\<lambda>s. s\<lparr>hasSensor := has_sensor m\<rparr>);
     u \<leftarrow> getf hw_mtu;
     tpmod (\<lambda>t. t\<lparr>tp_eee := (tp_eee t)\<lparr>tx_lpi_timer := u + 14 + 0x20\<rparr>\<rparr>);
     tpmod (\<lambda>t. t\<lparr>tp_rms := ucast (u + 18 + 4)\<rparr>);
     w \<leftarrow> rtl8125_get_hw_wol;
     tpmod (\<lambda>t. t\<lparr>tp_wol_opts := w, tp_wol_enabled := if w \<noteq> 0 then WOL_ENABLED else 0\<rparr>);
     modf (\<lambda>s. s\<lparr>wolCapable := (tp_wol_enabled (tp s) = WOL_ENABLED)\<rparr>);
     t \<leftarrow> tpget id;
     rtl8125_set_link_option AUTONEG_ENABLE (tp_HwSuppMaxPhyLinkSpeed t) DUPLEX_FULL rtl8125_fc_none;
     tpmod (init_eee wide_shift)
   }"

abbreviation "SYSErr \<equiv> (0x8000 :: u32)"
abbreviation "PCSTimeout \<equiv> (0x4000 :: u32)"
abbreviation "LinkChg \<equiv> (0x20 :: u32)"
abbreviation "RxDescUnavail \<equiv> (0x10 :: u32)"
abbreviation "TxOK \<equiv> (0x04 :: u32)"
abbreviation "RxOK \<equiv> (0x01 :: u32)"

definition set_intr_masks :: "hw \<Rightarrow> hw" where
  "set_intr_masks s = s\<lparr>intrMaskRxTx := SYSErr OR LinkChg OR RxDescUnavail OR TxOK OR RxOK,
     intrMaskTimer := SYSErr OR LinkChg OR RxDescUnavail OR PCSTimeout OR RxOK,
     intrMaskPoll := SYSErr OR LinkChg,
     intrMask := SYSErr OR LinkChg OR RxDescUnavail OR TxOK OR RxOK\<rparr>"

definition rtl812xInit :: "(nat \<Rightarrow> u32) \<Rightarrow> bool hwm" where
  "rtl812xInit wide_shift = do {
     known \<leftarrow> rtl812xIdentifyChip;
     if \<not> known then ret False
     else do {
       rtl8125_get_bios_setting;
       init_aspm;
       rtl8125_init_software_variable wide_shift;
       init_settings wide_shift;
       rtl8125_exit_oob;
       rtl812xHwInit;
       rtl8125_nic_reset;
       rtl8125_eeprom_type;
       ty \<leftarrow> tpget tp_eeprom_type;
       whenM (ty = EEPROM_TYPE_93C46 \<or> ty = EEPROM_TYPE_93C56) rtl8125_set_eeprom_sel_low;
       initMacAddr;
       cp \<leftarrow> RTL_R16 CPlusCmd;
       tpmod (\<lambda>t. t\<lparr>tp_cp_cmd := cp OR 0x20\<rparr>);
       modf set_intr_masks;
       tpmod (\<lambda>t. t\<lparr>tp_rx_config := RCR_Cfg (chip_row t)\<rparr>);
       stat \<leftarrow> getf statPhyAddr;
       RTL_W32 CounterAddrHigh (ucast (drop_bit 32 stat));
       RTL_W32 CounterAddrLow (ucast stat OR 1);
       rtl8125_disable_rxdvgate;
       ret True
     }
   }"

definition rtl812xEnable :: "(mcfg \<Rightarrow> unit hwm) \<Rightarrow> unit hwm" where
  "rtl812xEnable set_phy_mcu = do {
     modf (\<lambda>s. s\<lparr>intrMask := intrMaskRxTx s, stateFlags := unset_bit bit__POLL_MODE (stateFlags s)\<rparr>);
     rtl8125_exit_oob;
     rtl812xHwInit;
     rtl8125_hw_reset;
     rtl8125_powerup_pll;
     rtl8125_hw_ephy_config;
     rtl8125_hw_phy_config set_phy_mcu;
     rtl812xHwConfig;
     t \<leftarrow> tpget id;
     rtl812xSetPhyMedium (tp_autoneg t) (tp_speed t) (tp_duplex t) (tp_advertising t)
   }"

definition rtl8127DextSdsPhyReset :: "unit hwm" where
  "rtl8127DextSdsPhyReset = rtl8127_sds_phy_reset"

definition rtl812xDisable :: "u16 \<Rightarrow> unit hwm" where
  "rtl812xDisable page_size = do {
     rtl8127DextSdsPhyReset;
     rtl8125_irq_mask_and_ack;
     rtl8125_hw_reset;
     rtl8125_hw_d3_para page_size;
     rtl8125_powerdown_pll;
     t \<leftarrow> tpget id;
     whenM (HW_DASH_SUPPORT_DASH t) rtl8125_driver_stop;
     modf (\<lambda>s. s\<lparr>stateFlags := unset_bit bit__LINK_UP (stateFlags s)\<rparr>)
   }"

subsection \<open>Link patches\<close>

abbreviation "stFullDup \<equiv> (0x01 :: u32)"
abbreviation "st_10bps \<equiv> (0x04 :: u32)"
abbreviation "st_100bps \<equiv> (0x08 :: u32)"
abbreviation "st_1000bpsF \<equiv> (0x10 :: u32)"
abbreviation "st_2500bpsL \<equiv> (0x200 :: u32)"
abbreviation "st_1000bpsL \<equiv> (0x80000 :: u32)"

definition rtl812xLinkOnPatch :: "unit hwm" where
  "rtl812xLinkOnPatch = do {
     rtl812xHwConfig;
     status \<leftarrow> RTL_R32 PHYstatus;
     t \<leftarrow> tpget id;
     whenM (tp_mcfg t = CFG_METHOD_2)
       (if status AND stFullDup \<noteq> 0
        then rmw32 TxConfig (\<lambda>v. (v OR 0x3000000) AND NOT 0x80000)
        else rmw32 TxConfig (\<lambda>v. (v OR 0x2000000) AND NOT (0x80000 OR 0x1000000)));
     whenM (tp_mcfg t \<in> {CFG_METHOD_2, CFG_METHOD_3, CFG_METHOD_4, CFG_METHOD_5, CFG_METHOD_6, CFG_METHOD_7,
              CFG_METHOD_8, CFG_METHOD_9, CFG_METHOD_12, CFG_METHOD_31, CFG_METHOD_32, CFG_METHOD_33,
              CFG_METHOD_41, CFG_METHOD_42} \<and> status AND st_10bps \<noteq> 0) (do { _ \<leftarrow> rtl8125_enable_eee_plus; skip });
     rtl8125_set_radm_fifo_prot
       (status AND (st_1000bpsL OR st_2500bpsL OR st_10bps OR st_100bps OR st_1000bpsF) \<noteq> 0);
     whenM (tp_RequiredPfmPatch t) (rtl8125_set_pfm_patch (status AND st_10bps \<noteq> 0));
     aner \<leftarrow> rtl8125_mdio_read MII_EXPANSION;
     tpmod (\<lambda>t. t\<lparr>tp_phy_reg_aner := ucast aner\<rparr>);
     anlpar \<leftarrow> rtl8125_mdio_read MII_LPA;
     tpmod (\<lambda>t. t\<lparr>tp_phy_reg_anlpar := ucast anlpar\<rparr>);
     gbsr \<leftarrow> rtl8125_mdio_read MII_STAT1000;
     tpmod (\<lambda>t. t\<lparr>tp_phy_reg_gbsr := ucast gbsr\<rparr>);
     st \<leftarrow> mdio_direct_read_phy_ocp 0xA5D6;
     tpmod (\<lambda>t. t\<lparr>tp_phy_reg_status_2500 := ucast st\<rparr>)
   }"

definition rtl812xLinkDownPatch :: "unit hwm" where
  "rtl812xLinkDownPatch = do {
     tpmod (\<lambda>t. t\<lparr>tp_phy_reg_aner := 0, tp_phy_reg_anlpar := 0, tp_phy_reg_gbsr := 0, tp_phy_reg_status_2500 := 0\<rparr>);
     t \<leftarrow> tpget id;
     whenM (tp_mcfg t \<in> {CFG_METHOD_2, CFG_METHOD_3, CFG_METHOD_4, CFG_METHOD_5, CFG_METHOD_6, CFG_METHOD_7,
              CFG_METHOD_8, CFG_METHOD_9, CFG_METHOD_12, CFG_METHOD_41, CFG_METHOD_42})
       (do { _ \<leftarrow> rtl8125_disable_eee_plus; skip });
     whenM (tp_RequiredPfmPatch t) (rtl8125_set_pfm_patch True);
     rtl8125_hw_reset
   }"

definition mmd_eee_adv_to_ethtool_adv_t :: "u16 \<Rightarrow> u32" where
  "mmd_eee_adv_to_ethtool_adv_t eee_adv =
     (if eee_adv AND 0x0002 \<noteq> 0 then 0x8 else 0) OR
     (if eee_adv AND 0x0004 \<noteq> 0 then 0x20 else 0) OR
     (if eee_adv AND 0x0008 \<noteq> 0 then 0x1000 else 0) OR
     (if eee_adv AND 0x0010 \<noteq> 0 then 0x20000 else 0) OR
     (if eee_adv AND 0x0020 \<noteq> 0 then 0x40000 else 0) OR
     (if eee_adv AND 0x0040 \<noteq> 0 then 0x80000 else 0)"

definition rtl812xGetEEEMode :: "unit hwm" where
  "rtl812xGetEEEMode = do {
     e \<leftarrow> tpget tp_eee;
     a1 \<leftarrow> mdio_direct_read_phy_ocp 0xA5D0;
     a2 \<leftarrow> mdio_direct_read_phy_ocp 0xA6D4;
     let adv = mmd_eee_adv_to_ethtool_adv_t (ucast a1) OR (if a2 AND 1 \<noteq> 0 then 0x8000 else 0);
     l1 \<leftarrow> mdio_direct_read_phy_ocp 0xA5D2;
     l2 \<leftarrow> mdio_direct_read_phy_ocp 0xA6D0;
     let lp = mmd_eee_adv_to_ethtool_adv_t (ucast l1) OR (if l2 AND 1 \<noteq> 0 then 0x8000 else 0);
     v \<leftarrow> rtl8125_mac_ocp_read 0xE040;
     tpmod (\<lambda>t. t\<lparr>tp_eee := (tp_eee t)\<lparr>eee_enabled := if v AND (BIT_1 OR BIT_0) \<noteq> 0 then 1 else 0,
       eee_active := if eee_supported e AND adv AND lp \<noteq> 0 then 1 else 0\<rparr>\<rparr>)
   }"

end
