(* ===== verification/ChipFrame.thy ===== *)
theory ChipFrame
  imports HwLayer
begin

text \<open>
  What the chip layer leaves alone. An operation is \<open>tame\<close> for a projection of
  the chip's software state when it only extends the bus history and changes
  private data outside the projection. Ring indices, interrupt masks, the
  receive filter and every other member of \<open>RTL8127Hw\<close> then survive it, and so do
  the fields the datapath reads (\<open>dp\<close>). The rules follow the structure of the
  monad, so each group of operations is one lemma.
\<close>

named_theorems tame_rules

definition dp :: "rtl8125_private \<Rightarrow> mcfg \<times> u32 \<times> u32 \<times> u16 \<times> u16 \<times> u8" where
  "dp t = (tp_mcfg t, tp_chipset t, tp_MaxTxDescPtrMask t, tp_HwCloPtrReg t, tp_SwTailPtrReg t, tp_HwSuppTxNoCloseVer t)"

definition tame :: "(rtl8125_private \<Rightarrow> 'd) \<Rightarrow> 'a hwm \<Rightarrow> bool" where
  "tame D m \<longleftrightarrow> (\<forall>s. \<exists>new t. snd (run m s) = s\<lparr>hist := new @ hist s, tp := t\<rparr> \<and> D t = D (tp s))"

subsection \<open>Rules\<close>

lemma tameE:
  assumes "tame D m"
  obtains new t where "snd (run m s) = s\<lparr>hist := new @ hist s, tp := t\<rparr>" "D t = D (tp s)"
  using assms unfolding tame_def by blast

lemma tame_by:
  assumes "\<And>s. snd (run m s) = s\<lparr>hist := n s @ hist s, tp := t s\<rparr>" "\<And>s. D (t s) = D (tp s)"
  shows "tame D m"
  unfolding tame_def using assms by blast

lemma tame_return [tame_rules]: "tame D (ret x)"
  by (rule tame_by [where n = "\<lambda>_. []" and t = tp]) simp_all

lemma tame_skip [tame_rules]: "tame D skip"
  unfolding skip_def by (rule tame_return)

lemma tame_bind [tame_rules]:
  assumes "tame D m" "\<And>x. tame D (g x)"
  shows "tame D (m \<bind> g)"
  unfolding tame_def snd_run_bind
proof
  fix s
  obtain n1 t1 where 1: "snd (run m s) = s\<lparr>hist := n1 @ hist s, tp := t1\<rparr>" "D t1 = D (tp s)"
    using assms(1) by (rule tameE)
  obtain n2 t2 where "snd (run (g (fst (run m s))) (snd (run m s))) =
      (snd (run m s))\<lparr>hist := n2 @ hist (snd (run m s)), tp := t2\<rparr>" "D t2 = D (tp (snd (run m s)))"
    using assms(2) by (rule tameE)
  then show "\<exists>new t. snd (run (g (fst (run m s))) (snd (run m s))) = s\<lparr>hist := new @ hist s, tp := t\<rparr> \<and> D t = D (tp s)"
    using 1 by (intro exI [of _ "n2 @ n1"] exI [of _ t2]) simp
qed

lemma tame_if [tame_rules]: 
  "(b \<Longrightarrow> tame D m) \<Longrightarrow> (\<not> b \<Longrightarrow> tame D n) \<Longrightarrow> tame D (if b then m else n)"
  by simp

lemma tame_whenM [tame_rules]: "tame D m \<Longrightarrow> tame D (whenM b m)"
  by (simp add: whenM_def tame_skip)

lemma tame_Let [tame_rules]: "(\<And>x. tame D (g x)) \<Longrightarrow> tame D (Let v g)"
  by simp

lemma tame_case_option [tame_rules]:
  "tame D m \<Longrightarrow> (\<And>x. tame D (g x)) \<Longrightarrow> tame D (case v of None \<Rightarrow> m | Some x \<Rightarrow> g x)"
  by (simp split: option.split)

lemma tame_case_prod [tame_rules]: "(\<And>x y. tame D (g x y)) \<Longrightarrow> tame D (case v of (x, y) \<Rightarrow> g x y)"
  by (simp split: prod.split)

lemma tame_getf [tame_rules]: "tame D (getf g)"
  by (rule tame_by [where n = "\<lambda>_. []" and t = tp]) simp_all

lemma tame_tpget [tame_rules]: "tame D (tpget g)"
  unfolding tpget_def by (rule tame_getf)

lemma tame_tpmod [tame_rules]: "(\<And>t. D (g t) = D t) \<Longrightarrow> tame D (tpmod g)"
  by (rule tame_by [where n = "\<lambda>_. []" and t = "\<lambda>s. g (tp s)"]) simp_all

lemma tame_bus_read [tame_rules]: "tame D (bus_read a)"
  by (rule tame_by [where n = "\<lambda>s. [Rd a (chip s (hist s) a)]" and t = tp]) simp_all

lemma tame_bus_write [tame_rules]: "tame D (bus_write a v)"
  by (rule tame_by [where n = "\<lambda>_. [Wr a v]" and t = tp]) simp_all

lemma tame_delay [tame_rules]: "tame D (delay us)"
  by (rule tame_by [where n = "\<lambda>_. [Delay us]" and t = tp]) simp_all

lemma tame_poll [tame_rules]: "tame D t \<Longrightarrow> tame D (poll n us t)"
  by (induction n) (auto intro!: tame_rules)

lemma tame_for_each [tame_rules]: "(\<And>x. tame D (b x)) \<Longrightarrow> tame D (for_each xs b)"
  by (induction xs) (auto intro!: tame_rules)

lemma tame_mono: "tame D m \<Longrightarrow> (\<And>t u. D t = D u \<Longrightarrow> E t = E u) \<Longrightarrow> tame E m"
  unfolding tame_def by blast

subsection \<open>What tameness gives\<close>

definition quiet :: "(rtl8125_private \<Rightarrow> 'd) \<Rightarrow> (hw \<Rightarrow> 'b) \<Rightarrow> bool" where
  "quiet D f \<longleftrightarrow> (\<forall>s h t. D t = D (tp s) \<longrightarrow> f (s\<lparr>hist := h, tp := t\<rparr>) = f s)"

lemma tame_keeps: "tame D m \<Longrightarrow> quiet D f \<Longrightarrow> keeps f m"
  unfolding keeps_def quiet_def by (metis tameE)

lemma tame_hist: "tame D m \<Longrightarrow> \<exists>new. hist (snd (run m s)) = new @ hist s"
  by (erule tameE [of _ _ s]) simp

subsection \<open>Accessors\<close>

lemma tame_regs [tame_rules]:
  "tame D (RTL_R8 r)" "tame D (RTL_R16 r)" "tame D (RTL_R32 r)" "tame D (RTL_W8 r v8)" "tame D (RTL_W16 r v16)"
  "tame D (RTL_W32 r v32)" "tame D (extendedConfigRead8 r)" "tame D (extendedConfigRead16 r)"
  "tame D (extendedConfigRead32 r)" "tame D (extendedConfigWrite8 r v8)" "tame D (extendedConfigWrite16 r v16)"
  "tame D (extendedConfigWrite32 r v32)"
  unfolding reg_defs by (intro tame_rules)+

lemma tame_phy [tame_rules]:
  "tame dp (mdio_real_direct_write_phy_ocp r1 r2)" "tame dp (mdio_direct_write_phy_ocp r1 r2)"
  "tame dp (rtl8125_mdio_real_write_phy_ocp r1 r2 r3)" "tame dp (mdio_real_write r1 r2)"
  "tame dp (rtl8125_mdio_write r1 r2)" "tame dp (mdio_real_direct_read_phy_ocp r)"
  "tame dp (mdio_direct_read_phy_ocp r)" "tame dp (rtl8125_mdio_real_read_phy_ocp r1 r2)"
  "tame dp (mdio_real_read r)" "tame dp (rtl8125_mdio_read r)" "tame dp (ClearAndSetEthPhyBit b r1 r2)"
  "tame dp (rtl8125_clear_eth_phy_bit b r)" "tame dp (rtl8125_set_eth_phy_bit b r)"
  "tame dp (ClearAndSetEthPhyOcpBit r1 r2 r3)" "tame dp (ClearEthPhyOcpBit r1 r2)"
  "tame dp (SetEthPhyOcpBit r1 r2)" "tame dp (rtl8125_clear_and_set_eth_phy_ocp_bit r1 r2 r3)"
  "tame dp (rtl8125_clear_eth_phy_ocp_bit r1 r2)" "tame dp (rtl8125_set_eth_phy_ocp_bit r1 r2)"
  unfolding mdio_defs
  by (auto intro!: tame_rules simp: dp_def)

lemma tame_mac_ocp [tame_rules]:
  "tame dp (rtl8125_mac_ocp_write r1 r2)" "tame dp (rtl8125_mac_ocp_read r)"
  "tame dp (ClearAndSetMcuAccessRegBit r1 r2 r3)" "tame dp (ClearMcuAccessRegBit r1 r2)"
  "tame dp (SetMcuAccessRegBit r1 r2)" "tame dp (rtl8125_clear_set_mac_ocp_bit r1 r2 r3)"
  "tame dp (rtl8125_clear_mac_ocp_bit r1 r2)" "tame dp (rtl8125_set_mac_ocp_bit r1 r2)"
  unfolding mac_ocp_defs
  by (auto intro!: tame_rules simp: dp_def)

lemma tame_read_loops [tame_rules]: "tame dp (ephy_read_loop n)" "tame dp (csi_read_loop n)"
  by (induction n) (auto intro!: tame_rules)

lemma tame_ephy_csi [tame_rules]:
  "tame dp (rtl8125_ephy_write w1 w2)" "tame dp (rtl8125_ephy_read w)" "tame dp (ClearAndSetPCIePhyBit b r1 r2)"
  "tame dp (ClearPCIePhyBit b r)" "tame dp (SetPCIePhyBit b r)" "tame dp (rtl8125_csi_other_fun_read b w)"
  "tame dp (rtl8125_csi_other_fun_write b w1 w2)" "tame dp (rtl8125_csi_read w)"
  "tame dp (rtl8125_csi_write w1 w2)" "tame dp (rtl8125_csi_fun0_read_byte w)"
  "tame dp (rtl8125_csi_fun0_write_byte w b)"
  unfolding ephy_csi_defs
  by (auto intro!: tame_rules simp: dp_def)

lemma tame_eri_read_loop [tame_rules]: "tame dp (eri_read_loop addr len shift v type base)"
proof (induction len arbitrary: addr shift v rule: less_induct)
  case (less len)
  show ?case
    unfolding eri_read_loop.simps [of addr] Let_def by (intro tame_rules less eri_rest_less)
qed

lemma tame_eri_read [tame_rules]:
  "tame dp (rtl8125_eri_read_with_oob_base_address w1 n w2 w3)"
  unfolding rtl8125_eri_read_with_oob_base_address_def
  by (auto intro!: tame_rules simp: dp_def)

lemma tame_eri_write_loop [tame_rules]: "tame dp (eri_write_loop addr len v shift type base)"
proof (induction len arbitrary: addr shift v rule: less_induct)
  case (less len)
  show ?case
    unfolding eri_write_loop.simps [of addr] Let_def by (intro tame_rules less eri_rest_less)
qed

lemma tame_oob [tame_rules]:
  "tame dp (rtl8125_ocp_read_with_oob_base_address r n w)" "tame dp (rtl8125_ocp_read r n)"
  "tame dp (rtl8125_eri_write_with_oob_base_address w1 n w2 w3 w4)" "tame dp (rtl8125_ocp_write r n w)"
  unfolding rtl8125_ocp_read_with_oob_base_address_def rtl8125_ocp_read_def
    rtl8125_eri_write_with_oob_base_address_def rtl8125_ocp_write_def
  by (auto intro!: tame_rules simp: dp_def)

lemma tame_prio_wait [tame_rules]: "tame dp (oob_prio_wait n b)"
  by (induction n arbitrary: b) (auto intro!: tame_rules)

lemma tame_lock_loop [tame_rules]: "tame dp (oob_lock_loop n b)"
  by (induction n arbitrary: b) (auto intro!: tame_rules)

lemma tame_mutex [tame_rules]:
  "tame dp rtl8125_oob_mutex_lock" "tame dp rtl8125_oob_mutex_unlock"
  unfolding rtl8125_oob_mutex_lock_def rtl8125_oob_mutex_unlock_def
  by (auto intro!: tame_rules simp: dp_def)

subsection \<open>Chip support code\<close>

lemma tame_phy_reset_loop [tame_rules]: "tame dp (phy_reset_loop n)"
  by (induction n) (auto intro!: tame_rules)

lemma tame_nic_ops [tame_rules]:
  "tame dp (rmw8 r gu8u8)" "tame dp (rmw32 r gu32u32)" "tame dp (mac_rmw r gu16u16)"
  "tame dp (phy_rmw r gu16u16)" "tame dp rtl8125_aspm_is_safe" "tame dp (rtl8125_set_link_option b1 w1 b2 w2)"
  "tame dp rtl8125_enable_rxdvgate" "tame dp rtl8125_disable_rxdvgate" "tame dp rtl8125_is_gpio_low"
  "tame dp rtl8125_is_phy_disable_mode_enabled" "tame dp rtl8125_is_in_phy_disable_mode"
  "tame dp rtl8125_enable_phy_disable_mode" "tame dp rtl8125_disable_phy_disable_mode"
  "tame dp rtl8125_wait_txrx_fifo_empty" "tame dp rtl8125_irq_mask_and_ack"
  "tame dp rtl8125_disable_rx_packet_filter" "tame dp rtl8125_stop_all_request" "tame dp rtl8125_nic_reset"
  "tame dp rtl8125_hw_clear_timer_int" "tame dp rtl8125_hw_reset" "tame dp rtl8125_hw_clear_int_miti"
  "tame dp (rtl8125_hw_set_timer_int_8125 w b)" "tame dp rtl8125_xmii_link_ok"
  "tame dp rtl8125_xmii_reset_pending" "tame dp rtl8125_wait_phy_reset_complete"
  "tame dp rtl8125_xmii_reset_enable"
  unfolding rmw8_def rmw32_def mac_rmw_def phy_rmw_def rtl8125_aspm_is_safe_def rtl8125_set_link_option_def
    rtl8125_enable_rxdvgate_def rtl8125_disable_rxdvgate_def rtl8125_is_gpio_low_def
    rtl8125_is_phy_disable_mode_enabled_def rtl8125_is_in_phy_disable_mode_def
    rtl8125_enable_phy_disable_mode_def rtl8125_disable_phy_disable_mode_def rtl8125_wait_txrx_fifo_empty_def
    rtl8125_irq_mask_and_ack_def rtl8125_disable_rx_packet_filter_def rtl8125_stop_all_request_def
    rtl8125_nic_reset_def rtl8125_hw_clear_timer_int_def rtl8125_hw_reset_def rtl8125_hw_clear_int_miti_def
    rtl8125_hw_set_timer_int_8125_def rtl8125_xmii_link_ok_def rtl8125_xmii_reset_pending_def
    rtl8125_wait_phy_reset_complete_def rtl8125_xmii_reset_enable_def link_option_def Let_def
  by (auto intro!: tame_rules simp: dp_def)

lemma tame_phy_status_wait [tame_rules]: "tame dp (phy_status_wait n ok)"
  by (induction n) (auto intro!: tame_rules)

lemma tame_ram_code_loop [tame_rules]: "tame dp (ram_code_loop xs)"
  by (induction xs rule: ram_code_loop.induct) (auto intro!: tame_rules)

lemma tame_phy_patch [tame_rules]:
  "tame dp rtl8125_get_hw_phy_mcu_code_ver" "tame dp rtl8125_check_hw_phy_mcu_code_ver"
  "tame dp rtl8125_write_hw_phy_mcu_code_ver" "tame dp rtl8125_acquire_phy_mcu_patch_key_lock"
  "tame dp rtl8125_release_phy_mcu_patch_key_lock" "tame dp rtl8125_wait_phy_mcu_patch_request_ready"
  "tame dp rtl8125_set_phy_mcu_patch_request" "tame dp rtl8125_clear_phy_mcu_patch_request"
  "tame dp (rtl8125_set_phy_mcu_ram_code hs)" "tame dp (patched_ram_code hs)"
  "tame dp (rtl8127_set_phy_mcu_8127a_tc hs)" "tame dp (rtl8127_set_phy_mcu_8127a_1 hs1 hs2)"
  "tame dp (rtl8127_set_ephy_ext_addr w)" "tame dp (rtl8127_check_ephy_ext_addr w)"
  "tame dp (rtl8127_ephy_write w1 w2)" "tame dp rtl8127_clear_ephy_ext_addr"
  "tame dp rtl8127_hw_ephy_config_8127_1" "tame dp (ephy_seq gu32u32list)" "tame dp (ephy_lane_8125a_2 b)"
  "tame dp ephy_8125a_2" "tame dp rtl8125_hw_ephy_config"
  unfolding rtl8125_get_hw_phy_mcu_code_ver_def rtl8125_check_hw_phy_mcu_code_ver_def
    rtl8125_write_hw_phy_mcu_code_ver_def rtl8125_acquire_phy_mcu_patch_key_lock_def
    rtl8125_release_phy_mcu_patch_key_lock_def rtl8125_wait_phy_mcu_patch_request_ready_def
    rtl8125_set_phy_mcu_patch_request_def rtl8125_clear_phy_mcu_patch_request_def
    rtl8125_set_phy_mcu_ram_code_def patched_ram_code_def rtl8127_set_phy_mcu_8127a_tc_def
    rtl8127_set_phy_mcu_8127a_1_def rtl8127_set_ephy_ext_addr_def rtl8127_check_ephy_ext_addr_def
    rtl8127_ephy_write_def rtl8127_clear_ephy_ext_addr_def rtl8127_hw_ephy_config_8127_1_def ephy_seq_def
    ephy_lane_8125a_2_def ephy_8125a_2_def rtl8125_hw_ephy_config_def
  by (auto intro!: tame_rules simp: dp_def)

lemma tame_init_hw_phy_mcu [tame_rules]: "(\<And>m. tame dp (load m)) \<Longrightarrow> tame dp (rtl8125_init_hw_phy_mcu load)"
  unfolding rtl8125_init_hw_phy_mcu_def by (auto intro!: tame_rules simp: dp_def)

lemma tame_nic_power [tame_rules]:
  "tame dp rtl8125_issue_offset_99_event" "tame dp eee_plus_supported" "tame dp rtl8125_enable_eee_plus"
  "tame dp rtl8125_disable_eee_plus" "tame dp (rtl8125_set_pfm_patch c)"
  "tame dp (rtl8125_set_radm_fifo_prot c)" "tame dp rtl8125_disable_ocp_phy_power_saving"
  "tame dp rtl8125_wait_ll_share_fifo_ready" "tame dp rtl8125_disable_pci_offset_99"
  "tame dp rtl8125_enable_pci_offset_99" "tame dp rtl8125_init_pci_offset_99"
  "tame dp rtl8125_disable_pci_offset_180" "tame dp rtl8125_enable_pci_offset_180"
  "tame dp rtl8125_init_pci_offset_180" "tame dp rtl8125_set_pci_99_exit_driver_para"
  "tame dp rtl8125_enable_cfg9346_write" "tame dp rtl8125_disable_cfg9346_write"
  "tame dp rtl8125_enable_exit_l1_mask" "tame dp rtl8125_disable_exit_l1_mask"
  "tame dp (rtl8125_enable_force_clkreq c)" "tame dp (rtl8125_enable_aspm_clkreq_lock c)"
  "tame dp (rtl8125_set_reg_oobs_en_sel c)" "tame dp (rtl8125_hw_d3_para r)" "tame dp rtl8125_get_bios_setting"
  "tame dp rtl8125_set_bios_setting" "tame dp (rtl8125_rar_set bs)" "tame dp rtl8125_get_l1off_cap_bits"
  "tame dp rtl8125_set_l1_l0s_entry_latency" "tame dp rtl8126_disable_l1_timeout" "tame dp (rtl8125_set_rms r)"
  unfolding rtl8125_issue_offset_99_event_def eee_plus_supported_def rtl8125_enable_eee_plus_def
    rtl8125_disable_eee_plus_def rtl8125_set_pfm_patch_def rtl8125_set_radm_fifo_prot_def
    rtl8125_disable_ocp_phy_power_saving_def rtl8125_wait_ll_share_fifo_ready_def
    rtl8125_disable_pci_offset_99_def rtl8125_enable_pci_offset_99_def rtl8125_init_pci_offset_99_def
    rtl8125_disable_pci_offset_180_def rtl8125_enable_pci_offset_180_def rtl8125_init_pci_offset_180_def
    rtl8125_set_pci_99_exit_driver_para_def rtl8125_enable_cfg9346_write_def rtl8125_disable_cfg9346_write_def
    rtl8125_enable_exit_l1_mask_def rtl8125_disable_exit_l1_mask_def rtl8125_enable_force_clkreq_def
    rtl8125_enable_aspm_clkreq_lock_def rtl8125_set_reg_oobs_en_sel_def rtl8125_hw_d3_para_def
    rtl8125_get_bios_setting_def rtl8125_set_bios_setting_def rtl8125_rar_set_def rtl8125_get_l1off_cap_bits_def
    rtl8125_set_l1_l0s_entry_latency_def rtl8126_disable_l1_timeout_def rtl8125_set_rms_def
  by (auto intro!: tame_rules simp: dp_def)

lemma tame_ups_wait [tame_rules]: "tame dp (ups_wait n v)"
  by (induction n) (auto intro!: tame_rules)

lemma tame_nic_wol [tame_rules]:
  "tame dp rtl8125_enable_magic_packet" "tame dp rtl8125_disable_magic_packet"
  "tame dp rtl8125_enable_linkchg_wakeup" "tame dp rtl8125_disable_linkchg_wakeup" "tame dp rtl8125_get_hw_wol"
  "tame dp (rtl8125_set_hw_wol w)" "tame dp rtl8125_enable_d0_speedup" "tame dp rtl8125_disable_d0_speedup"
  "tame dp rtl8125_set_d0_speedup_speed" "tame dp (rtl8125_wait_phy_ups_resume r)"
  "tame dp rtl8125_phy_power_up" "tame dp rtl8125_phy_power_down" "tame dp rtl8125_phy_restart_nway"
  "tame dp (rtl8125_phy_setup_force_mode w b)" "tame dp rtl8125_powerup_pll"
  "tame dp (rtl8125_keep_wol_link_speed b)" "tame dp rtl8125_disable_giga_lite" "tame dp wol_partner"
  "tame dp rtl8125_set_wol_link_speed" "tame dp rtl8125_powerdown_pll"
  unfolding rtl8125_enable_magic_packet_def rtl8125_disable_magic_packet_def rtl8125_enable_linkchg_wakeup_def
    rtl8125_disable_linkchg_wakeup_def rtl8125_get_hw_wol_def rtl8125_set_hw_wol_def
    rtl8125_enable_d0_speedup_def rtl8125_disable_d0_speedup_def rtl8125_set_d0_speedup_speed_def
    rtl8125_wait_phy_ups_resume_def rtl8125_phy_power_up_def rtl8125_phy_power_down_def
    rtl8125_phy_restart_nway_def rtl8125_phy_setup_force_mode_def rtl8125_powerup_pll_def
    rtl8125_keep_wol_link_speed_def rtl8125_disable_giga_lite_def wol_partner_def rtl8125_set_wol_link_speed_def
    rtl8125_powerdown_pll_def
  by (auto intro!: tame_rules simp: dp_def)

lemma tame_nic_oob [tame_rules]:
  "tame dp rtl8125_is_adv_eee_enabled" "tame dp rtl812x_disable_adv_eee" "tame dp rtl8125_disable_adv_eee"
  "tame dp eee_tail" "tame dp rtl8125_enable_eee" "tame dp rtl8125_disable_eee"
  "tame dp rtl8125_clear_phy_ups_reg" "tame dp rtl8125_is_ups_resume" "tame dp rtl8125_clear_ups_resume_bit"
  "tame dp (rtl8125_notify_dash_oob_cmac w)" "tame dp (rtl8125_notify_dash_oob_ipc2 w)"
  "tame dp (rtl8125_notify_dash_oob w)" "tame dp rtl8125_wait_dash_fw_ready" "tame dp (dash_notify_wait w)"
  "tame dp rtl8125_driver_start" "tame dp rtl8125_driver_stop" "tame dp rtl8125_enable_now_is_oob"
  "tame dp rtl8125_disable_now_is_oob" "tame dp rtl8125_exit_oob" "tame dp rtl8125_is_allow_access_dash_ocp"
  "tame dp rtl8125_get_dash_fw_ver" "tame dp rtl8125_check_dash_type4" "tame dp rtl8125_check_dash"
  "tame dp rtl8125_backup_phy_fuse_dout_v4" "tame dp rtl8125_backup_phy_fuse_dout"
  unfolding rtl8125_is_adv_eee_enabled_def rtl812x_disable_adv_eee_def rtl8125_disable_adv_eee_def eee_tail_def
    rtl8125_enable_eee_def rtl8125_disable_eee_def rtl8125_clear_phy_ups_reg_def rtl8125_is_ups_resume_def
    rtl8125_clear_ups_resume_bit_def rtl8125_notify_dash_oob_cmac_def rtl8125_notify_dash_oob_ipc2_def
    rtl8125_notify_dash_oob_def rtl8125_wait_dash_fw_ready_def dash_notify_wait_def rtl8125_driver_start_def
    rtl8125_driver_stop_def rtl8125_enable_now_is_oob_def rtl8125_disable_now_is_oob_def rtl8125_exit_oob_def
    rtl8125_is_allow_access_dash_ocp_def rtl8125_get_dash_fw_ver_def rtl8125_check_dash_type4_def
    rtl8125_check_dash_def rtl8125_backup_phy_fuse_dout_v4_def rtl8125_backup_phy_fuse_dout_def
  by (auto intro!: tame_rules simp: dp_def)

lemma tame_ver_loops [tame_rules]: "tame dp (set_ver_loop is v)" "tame dp (get_ver_loop is v)"
  by (induction "is" arbitrary: v) (auto intro!: tame_rules)

lemma tame_mcu_patch [tame_rules]:
  "tame dp rtl8125_hw_disable_mac_mcu_bps" "tame dp (rtl8125_switch_mac_mcu_ram_code_page r)"
  "tame dp (rtl8125_set_hw_mcu_patch_code_ver d)" "tame dp rtl8125_get_hw_mcu_patch_code_ver"
  "tame dp (rtl812x_write_mac_mcu_ram_code hs)" "tame dp (rtl812x_write_mac_mcu_ram_code_with_page hs r)"
  "tame dp (rtl8125_write_mac_mcu_ram_code hs)" "tame dp (load_mac_mcu hs)" "tame dp (mac_seq gu16u16list)"
  "tame dp rtl8125_set_mac_mcu_8125a_1" "tame dp rtl8125_set_mac_mcu_8125a_2"
  "tame dp rtl8125_set_mac_mcu_8125b_1" "tame dp rtl8125_set_mac_mcu_8125b_2"
  "tame dp rtl8125_set_mac_mcu_8125bp_1" "tame dp rtl8125_set_mac_mcu_8125bp_2"
  "tame dp rtl8125_set_mac_mcu_8125d_1" "tame dp rtl8125_set_mac_mcu_8125d_2"
  "tame dp rtl8125_set_mac_mcu_8125cp_1" "tame dp rtl8126_set_mac_mcu_8126a_1"
  "tame dp rtl8126_set_mac_mcu_8126a_2" "tame dp rtl8126_set_mac_mcu_8126a_3"
  "tame dp rtl8127_set_mac_mcu_8127a_tc" "tame dp rtl8127_set_mac_mcu_8127a_1" "tame dp (set_mac_mcu m)"
  "tame dp rtl8125_hw_mac_mcu_config" "tame dp rtl8125_hw_init"
  unfolding rtl8125_hw_disable_mac_mcu_bps_def rtl8125_switch_mac_mcu_ram_code_page_def
    rtl8125_set_hw_mcu_patch_code_ver_def rtl8125_get_hw_mcu_patch_code_ver_def
    rtl812x_write_mac_mcu_ram_code_def rtl812x_write_mac_mcu_ram_code_with_page_def
    rtl8125_write_mac_mcu_ram_code_def load_mac_mcu_def mac_seq_def rtl8125_set_mac_mcu_8125a_1_def
    rtl8125_set_mac_mcu_8125a_2_def rtl8125_set_mac_mcu_8125b_1_def rtl8125_set_mac_mcu_8125b_2_def
    rtl8125_set_mac_mcu_8125bp_1_def rtl8125_set_mac_mcu_8125bp_2_def rtl8125_set_mac_mcu_8125d_1_def
    rtl8125_set_mac_mcu_8125d_2_def rtl8125_set_mac_mcu_8125cp_1_def rtl8126_set_mac_mcu_8126a_1_def
    rtl8126_set_mac_mcu_8126a_2_def rtl8126_set_mac_mcu_8126a_3_def rtl8127_set_mac_mcu_8127a_tc_def
    rtl8127_set_mac_mcu_8127a_1_def set_mac_mcu_def rtl8125_hw_mac_mcu_config_def rtl8125_hw_init_def
  by (auto intro!: tame_rules simp: dp_def)

lemma tame_sds_wait [tame_rules]: "tame dp (sds_wait n)"
  by (induction n) (auto intro!: tame_rules)

lemma tame_fiber [tame_rules]:
  "tame dp rtl8127_wait_8127_sds_cmd_done" "tame dp (rtl8127_sds_phy_read_8127 r1 r2 r3)"
  "tame dp (rtl8127_sds_phy_write_8127 r1 r2 r3 r4)"
  "tame dp (rtl8127_clear_and_set_sds_phy_bit r1 r2 r3 r4 r5)" "tame dp (rtl8127_clear_sds_phy_bit r1 r2 r3 r4)"
  "tame dp (rtl8127_set_sds_phy_bit r1 r2 r3 r4)" "tame dp rtl8127_sds_phy_reset_8127"
  "tame dp rtl8127_sds_phy_reset" "tame dp (sds_mode r1 r2 r3)" "tame dp rtl8127_set_sds_phy_caps_1g_8127"
  "tame dp rtl8127_sds_phy_exit_1g_8127" "tame dp rtl8127_set_sds_phy_caps_10g_8127"
  "tame dp rtl8127_set_sds_phy_caps_8127" "tame dp rtl8127_set_sds_phy_caps" "tame dp rtl8127_hw_sds_phy_config"
  "tame dp rtl8127_hw_fiber_phy_config" "tame dp rtl8127_check_fiber_mode_support"
  unfolding rtl8127_wait_8127_sds_cmd_done_def rtl8127_sds_phy_read_8127_def rtl8127_sds_phy_write_8127_def
    rtl8127_clear_and_set_sds_phy_bit_def rtl8127_clear_sds_phy_bit_def rtl8127_set_sds_phy_bit_def
    rtl8127_sds_phy_reset_8127_def rtl8127_sds_phy_reset_def sds_mode_def rtl8127_set_sds_phy_caps_1g_8127_def
    rtl8127_sds_phy_exit_1g_8127_def rtl8127_set_sds_phy_caps_10g_8127_def rtl8127_set_sds_phy_caps_8127_def
    rtl8127_set_sds_phy_caps_def rtl8127_hw_sds_phy_config_def rtl8127_hw_fiber_phy_config_def
    rtl8127_check_fiber_mode_support_def
  by (auto intro!: tame_rules simp: dp_def)

lemma tame_phy_exec [tame_rules]: "tame dp (phy_exec p)"
  by (cases p) (simp_all add: tame_rules)

lemma tame_phy_config [tame_rules]:
  "tame dp (phy_seq ops)" "tame dp (phy_if_ram ops)" "tame dp rtl8125_enable_phy_aldps"
  "tame dp phy_aldps_if_l1" "tame dp rtl8125_tgphy_irq_mask_and_ack" "tame dp (phy_read r1 r2)"
  "tame dp (adccal_read r)" "tame dp (adccal_write r1 r2)" "tame dp phy_mdi_swap"
  "tame dp rtl8125_hw_phy_config_8125a_1" "tame dp rtl8125_hw_phy_config_8125a_2"
  "tame dp rtl8125_hw_phy_config_8125b_1" "tame dp rtl8125_hw_phy_config_8125b_2"
  "tame dp rtl8125_hw_phy_config_8125bp_1" "tame dp rtl8125_hw_phy_config_8125bp_2"
  "tame dp rtl8125_hw_phy_config_8125cp_1" "tame dp rtl8125_hw_phy_config_8125d_1"
  "tame dp rtl8125_hw_phy_config_8125d_2" "tame dp rtl8126_hw_phy_config_8126a_1"
  "tame dp rtl8126_hw_phy_config_8126a_2" "tame dp rtl8126_hw_phy_config_8126a_3"
  "tame dp rtl8127_hw_phy_config_8127a_tc_1" "tame dp rtl8127_hw_phy_config_8127a_1"
  "tame dp rtl8125_set_hw_phy_before_init_phy_mcu" "tame dp (phy_config m)"
  unfolding phy_seq_def phy_if_ram_def rtl8125_enable_phy_aldps_def phy_aldps_if_l1_def
    rtl8125_tgphy_irq_mask_and_ack_def phy_read_def adccal_read_def adccal_write_def phy_mdi_swap_def
    rtl8125_hw_phy_config_8125a_1_def rtl8125_hw_phy_config_8125a_2_def rtl8125_hw_phy_config_8125b_1_def
    rtl8125_hw_phy_config_8125b_2_def rtl8125_hw_phy_config_8125bp_1_def rtl8125_hw_phy_config_8125bp_2_def
    rtl8125_hw_phy_config_8125cp_1_def rtl8125_hw_phy_config_8125d_1_def rtl8125_hw_phy_config_8125d_2_def
    rtl8126_hw_phy_config_8126a_1_def rtl8126_hw_phy_config_8126a_2_def rtl8126_hw_phy_config_8126a_3_def
    rtl8127_hw_phy_config_8127a_tc_1_def rtl8127_hw_phy_config_8127a_1_def
    rtl8125_set_hw_phy_before_init_phy_mcu_def phy_config_def
  by (auto intro!: tame_rules simp: dp_def)

lemma tame_hw_phy_config [tame_rules]: "(\<And>m. tame dp (load m)) \<Longrightarrow> tame dp (rtl8125_hw_phy_config load)"
  unfolding rtl8125_hw_phy_config_def by (auto intro!: tame_rules simp: dp_def)

lemma tame_eeprom_loops [tame_rules]:
  "tame dp (shift_out_loop w n b)" "tame dp (shift_in_loop n b r)" "tame dp (cmd_done_loop n)"
  by (induction n arbitrary: b r) (auto intro!: tame_rules simp: rtl8125_raise_clock_def rtl8125_lower_clock_def)

lemma tame_eeprom [tame_rules]:
  "tame dp (rtl8125_raise_clock b)" "tame dp (rtl8125_lower_clock b)" "tame dp (rtl8125_shift_out_bits w n)"
  "tame dp rtl8125_shift_in_bits" "tame dp rtl8125_stand_by" "tame dp rtl8125_set_eeprom_sel_low"
  "tame dp rtl8125_eeprom_cleanup" "tame dp rtl8125_eeprom_cmd_done" "tame dp (rtl8125_eeprom_read_sc r)"
  "tame dp (eeprom_write_tail r n)" "tame dp (rtl8125_eeprom_write_sc r1 r2)" "tame dp eeprom_probe"
  "tame dp rtl8125_eeprom_type"
  unfolding rtl8125_raise_clock_def rtl8125_lower_clock_def rtl8125_shift_out_bits_def rtl8125_shift_in_bits_def
    rtl8125_stand_by_def rtl8125_set_eeprom_sel_low_def rtl8125_eeprom_cleanup_def rtl8125_eeprom_cmd_done_def
    rtl8125_eeprom_read_sc_def eeprom_write_tail_def rtl8125_eeprom_write_sc_def eeprom_probe_def
    rtl8125_eeprom_type_def
  by (auto intro!: tame_rules simp: dp_def)

lemma tame_soft_var [tame_rules]:
  "tame dp sv_dash_ver" "tame dp sv_pkg_det" "tame dp sv_dash" "tame dp sv_pci_offsets" "tame dp sv_fuse"
  "tame dp sv_mdi_swap" "tame dp sv_wol"
  unfolding sv_dash_ver_def sv_pkg_det_def sv_dash_def sv_pci_offsets_def sv_fuse_def sv_mdi_swap_def sv_wol_def
  by (auto intro!: tame_rules simp: dp_def)

subsection \<open>The class RTL8127Hw\<close>

lemma tame_hw_loops [tame_rules]: "tame dp (read_mac n r)" "tame dp (e00e_wait n)"
  by (induction n arbitrary: r) (auto intro!: tame_rules)

lemma tame_hw_layer [tame_rules]:
  "tame dp applyRxMode" "tame dp (setupASPM c1 c2)" "tame dp rtl812xHwInit" "tame dp (rtl812xSetMrrs b)"
  "tame dp hc_start" "tame dp (hc_tx_format m)" "tame dp (hc_mcu m)" "tame dp (hc_rx t)" "tame dp hc_pci"
  "tame dp hc_finish" "tame dp (set_medium b1 w b2 d)" "tame dp (copper_medium b1 w b2 d)"
  "tame dp (rtl812xSetPhyMedium b1 w b2 d)" "tame dp init_aspm" "tame dp rtl8127DextSdsPhyReset"
  "tame dp rtl812xLinkDownPatch" "tame dp rtl812xGetEEEMode"
  unfolding applyRxMode_def setupASPM_def rtl812xHwInit_def rtl812xSetMrrs_def hc_start_def hc_tx_format_def
    hc_mcu_def hc_rx_def hc_pci_def hc_finish_def set_medium_def copper_medium_def rtl812xSetPhyMedium_def
    init_aspm_def rtl8127DextSdsPhyReset_def rtl812xLinkDownPatch_def rtl812xGetEEEMode_def
  by (auto intro!: tame_rules simp: dp_def)

text \<open>
  Configuring the chip restarts both rings at descriptor 0; apart from that it
  is tame.
\<close>

definition ring_reset :: "hw \<Rightarrow> hw" where
  "ring_reset s = s\<lparr>txTailPtr0 := 0, txClosePtr0 := 0, txNextDescIndex := 0, txDirtyDescIndex := 0,
     txNumFreeDesc := 1024, rxNextDescIndex := 0\<rparr>"

definition resets :: "'a hwm \<Rightarrow> bool" where
  "resets m \<longleftrightarrow> (\<forall>s. \<exists>new t. snd (run m s) = (ring_reset s)\<lparr>hist := new @ hist s, tp := t\<rparr> \<and> dp t = dp (tp s))"

lemma resetsE:
  assumes "resets m"
  obtains new t where "snd (run m s) = (ring_reset s)\<lparr>hist := new @ hist s, tp := t\<rparr>" "dp t = dp (tp s)"
  using assms unfolding resets_def by blast

lemma resets_after:
  assumes "tame dp m" "\<And>x. resets (g x)"
  shows "resets (m \<bind> g)"
  unfolding resets_def snd_run_bind
proof
  fix s
  obtain n1 t1 where 1: "snd (run m s) = s\<lparr>hist := n1 @ hist s, tp := t1\<rparr>" "dp t1 = dp (tp s)"
    using assms(1) by (rule tameE)
  obtain n2 t2 where "snd (run (g (fst (run m s))) (snd (run m s))) =
      (ring_reset (snd (run m s)))\<lparr>hist := n2 @ hist (snd (run m s)), tp := t2\<rparr>" "dp t2 = dp (tp (snd (run m s)))"
    using assms(2) by (rule resetsE)
  then show "\<exists>new t. snd (run (g (fst (run m s))) (snd (run m s))) = (ring_reset s)\<lparr>hist := new @ hist s, tp := t\<rparr> \<and>
      dp t = dp (tp s)"
    using 1 by (intro exI [of _ "n2 @ n1"] exI [of _ t2]) (simp add: ring_reset_def)
qed

lemma resets_before:
  assumes "resets m" "\<And>x. tame dp (g x)"
  shows "resets (m \<bind> g)"
  unfolding resets_def snd_run_bind
proof
  fix s
  obtain n1 t1 where 1: "snd (run m s) = (ring_reset s)\<lparr>hist := n1 @ hist s, tp := t1\<rparr>" "dp t1 = dp (tp s)"
    using assms(1) by (rule resetsE)
  obtain n2 t2 where "snd (run (g (fst (run m s))) (snd (run m s))) =
      (snd (run m s))\<lparr>hist := n2 @ hist (snd (run m s)), tp := t2\<rparr>" "dp t2 = dp (tp (snd (run m s)))"
    using assms(2) by (rule tameE)
  then show "\<exists>new t. snd (run (g (fst (run m s))) (snd (run m s))) = (ring_reset s)\<lparr>hist := new @ hist s, tp := t\<rparr> \<and>
      dp t = dp (tp s)"
    using 1 by (intro exI [of _ "n2 @ n1"] exI [of _ t2]) (simp add: ring_reset_def)
qed

lemma resets_ring_reset: "resets (modf (\<lambda>s. s\<lparr>txTailPtr0 := 0, txClosePtr0 := 0, txNextDescIndex := 0,
    txDirtyDescIndex := 0, txNumFreeDesc := of_nat kNumTxDesc, rxNextDescIndex := 0\<rparr>))"
  unfolding resets_def
proof
  fix s
  show "\<exists>new t. snd (run (modf (\<lambda>s. s\<lparr>txTailPtr0 := 0, txClosePtr0 := 0, txNextDescIndex := 0,
      txDirtyDescIndex := 0, txNumFreeDesc := of_nat kNumTxDesc, rxNextDescIndex := 0\<rparr>)) s) =
      (ring_reset s)\<lparr>hist := new @ hist s, tp := t\<rparr> \<and> dp t = dp (tp s)"
    by (intro exI [of _ "[]"] exI [of _ "tp s"]) (simp add: ring_reset_def kNumTxDesc_def)
qed

lemma resets_hw_config: "resets rtl812xHwConfig"
  unfolding rtl812xHwConfig_def
proof (intro resets_after [OF tame_hw_layer(5)] resets_before tame_rules)
  show "resets hc_rings"
    unfolding hc_rings_def by (rule resets_before [OF resets_ring_reset]) (auto intro!: tame_rules)
qed

lemma resets_link_on: "resets rtl812xLinkOnPatch"
  unfolding rtl812xLinkOnPatch_def
  by (rule resets_before [OF resets_hw_config]) (auto intro!: tame_rules simp: dp_def)

end
