(* ===== verification/DextTx.thy ===== *)
theory DextTx
  imports DextTypes
begin

text \<open>
  The transmit path of the DriverKit driver (\<open>RTL8127Driver.cpp\<close>):
  \<open>txDequeueAction\<close> fills descriptors from the framework's packets,
  \<open>txRingReclaim\<close> retires what the chip has closed, and \<open>txEnqueueAction\<close> hands
  completions back. An access outside a packet's buffer is the result None.
  The ring refines a queue of packets in flight; every packet the driver
  accepts is in exactly one place at any time.
\<close>

subsection \<open>Submission\<close>

text \<open>Offload decision for one frame: the frame afterwards, \<open>cmd\<close>, \<open>opts2\<close> and the counters.\<close>

definition tx_segsz :: "u16 \<Rightarrow> u32" where
  "tx_segsz mss = (let s = (ucast mss :: u32) in if s = 0 \<or> s > MSS_MAX then MSS_MAX else s)"

definition tx_csum_opts2 :: "IOUserNetworkPacket \<Rightarrow> u32" where
  "tx_csum_opts2 p =
    (let v6 = push_bit TCPHO_SHIFT (of_nat (kMacHdrLen + kIPv6HdrLen)) in
     if csTCPIPV4 p \<or> tsoIPV4 p then TxIPCS_C OR TxTCPCS_C
     else if csUDPIPV4 p then TxIPCS_C OR TxUDPCS_C
     else if csTCPIPV6 p \<or> tsoIPV6 p then TxTCPCS_C OR TxIPV6F_C OR v6
     else if csUDPIPV6 p then TxUDPCS_C OR TxIPV6F_C OR v6
     else if csIPHdr p then TxIPCS_C
     else 0)"

definition tx_offload :: "RTL8127Driver_IVars \<Rightarrow> IOUserNetworkPacket \<Rightarrow> u8 list \<Rightarrow>
    (u8 list \<times> u32 \<times> u32 \<times> (dext_counters \<Rightarrow> dext_counters)) option" where
  "tx_offload iv p f =
    (let len = dataLength p in
     if tsoEnabled iv \<and> (tsoIPV4 p \<or> tsoIPV6 p) \<and> len - of_nat kMacHdrLen > mtu iv then do {
       (f', tcpOff) \<leftarrow> (if tsoIPV4 p then prepareTSO4 f else prepareTSO6 f);
       Some (f', (if tsoIPV4 p then GiantSendv4 else GiantSendv6) OR push_bit GTTCPHO_SHIFT (of_nat tcpOff),
             push_bit MSSShift_8125 (tx_segsz (tsoMss p) AND MSSMask), id)
     } else if csPartial p then do {
       (ok, f', o2) \<leftarrow> txPartialChecksum True f (unat len) (csStart p) (csStuff p);
       Some (f', 0, (case o2 of Some w \<Rightarrow> w | None \<Rightarrow> 0),
             (\<lambda>c. c\<lparr>txPartial := txPartial c + 1, txPartialFail := txPartialFail c + (if ok then 0 else 1)\<rparr>))
     } else Some (f, 0, tx_csum_opts2 p, id))"

text \<open>The limited diagnostics of unusual frames.\<close>

definition tx_log_odd :: "u8 list \<Rightarrow> nat \<Rightarrow> dext_counters \<Rightarrow> dext_counters option" where
  "tx_log_odd f len c =
    (if oddLogged c < 12 then do {
       et \<leftarrow> (if len \<ge> 18 then do { a \<leftarrow> rd f 12; b \<leftarrow> rd f 13; Some (be16 a b) } else Some 0);
       Some (if len < 54 \<or> (et \<noteq> 0x0800 \<and> et \<noteq> 0x86DD \<and> et \<noteq> 0x0806)
             then c\<lparr>oddLogged := oddLogged c + 1\<rparr> else c)
     } else Some c)"

definition tx_log_syn :: "u8 list \<Rightarrow> nat \<Rightarrow> dext_counters \<Rightarrow> dext_counters option" where
  "tx_log_syn f len c =
    (if txSynLogged c < 100 then do {
       d \<leftarrow> describeTcpSyn True f len;
       Some (if d \<noteq> None then c\<lparr>txSynLogged := txSynLogged c + 1\<rparr> else c)
     } else Some c)"

text \<open>The descriptor and the bookkeeping of one frame.\<close>

definition tx_desc :: "u32 \<Rightarrow> u32 \<Rightarrow> u64 \<Rightarrow> u32 \<Rightarrow> u32 \<Rightarrow> RtlDextTxDesc" where
  "tx_desc index len addr cmd opts2 =
    (let opts1 = (len AND kTxDescLenMask) OR cmd OR FirstFrag OR LastFrag;
         opts1' = (if index = kTxLastDesc then opts1 OR RingEnd else opts1)
     in \<lparr>tx_opts1 = opts1' OR DescOwn, tx_opts2 = opts2, tx_addr = addr\<rparr>)"

definition tx_post :: "nat \<Rightarrow> pktid \<Rightarrow> u32 \<Rightarrow> u64 \<Rightarrow> u32 \<Rightarrow> u32 \<Rightarrow> RTL8127Driver_IVars \<Rightarrow> RTL8127Driver_IVars" where
  "tx_post qidx p len addr cmd opts2 iv =
    (let h = ihw iv; index = txNextDescIndex h; i = unat index in
     iv\<lparr>txPkt := (txPkt iv)[i := Some p],
        txPktQueue := (txPktQueue iv)[i := of_nat qidx],
        txPktLen := (txPktLen iv)[i := len],
        txInflightBytes := txInflightBytes iv + ucast len,
        txRing := (txRing iv)[i := tx_desc index len addr cmd opts2],
        ihw := h\<lparr>txNextDescIndex := (index + 1) AND kTxDescMask,
                 txTailPtr0 := txTailPtr0 h + 1,
                 txNumFreeDesc := txNumFreeDesc h - 1\<rparr>\<rparr>)"

definition tx_no_space :: "RTL8127Driver_IVars \<Rightarrow> bool" where
  "tx_no_space iv \<longleftrightarrow> sint (txNumFreeDesc (ihw iv)) \<le> 2 \<or> sint (txInflightBytes iv) \<ge> kTxInflightBytesLimit"

text \<open>A packet whose frame cannot be sent goes straight to the completion queue.\<close>

definition tx_complete_bad :: "nat \<Rightarrow> pktid \<Rightarrow> RTL8127Driver_IVars \<Rightarrow> RTL8127Driver_IVars" where
  "tx_complete_bad qidx p iv =
    (let iv1 = set_pkt p (\<lambda>k. k\<lparr>completionStatus := kIOReturnBadArgument\<rparr>)
                 (tally (\<lambda>c. c\<lparr>txBadLen := txBadLen c + 1\<rparr>) iv);
         (ok, f) = fifoPush (txDoneFifo iv1 ! qidx) p
     in if ok then iv1\<lparr>txDoneFifo := (txDoneFifo iv1)[qidx := f]\<rparr>
        else signal (DeallocateTx p) iv1)"

definition tx_one :: "nat \<Rightarrow> pktid \<Rightarrow> RTL8127Driver_IVars \<Rightarrow> RTL8127Driver_IVars option" where
  "tx_one qidx p iv =
    (let k = pkts iv p; len = dataLength k;
         (ok, v) = rtl8127TxBufferView (dataVA k) (dataIOVA k) (dataOff k) len kTxBufferSize
     in if unat len < kMacHdrLen \<or> \<not> ok then Some (tx_complete_bad qidx p iv)
        else do {
          let off = unat (dataOff k);
          let f = drop off (buffer k);
          c1 \<leftarrow> tx_log_odd f (unat len) (ctr iv);
          (f', cmd, opts2, upd) \<leftarrow> tx_offload iv k f;
          let iv1 = set_pkt p (\<lambda>k. k\<lparr>buffer := take off (buffer k) @ f'\<rparr>) (iv\<lparr>ctr := upd c1\<rparr>);
          let iv2 = tx_post qidx p len (iova v) cmd opts2 iv1;
          let c2 = (ctr iv2)\<lparr>txSubmitted := txSubmitted (ctr iv2) + 1, txBytes := txBytes (ctr iv2) + ucast len,
                     txTso := txTso (ctr iv2) + (if cmd \<noteq> 0 then 1 else 0)\<rparr>;
          c3 \<leftarrow> tx_log_syn f' (unat len) c2;
          Some (iv2\<lparr>ctr := c3\<lparr>txDebugLogged := txDebugLogged c3 + (if txDebugLogged c3 < 4 then 1 else 0)\<rparr>\<rparr>)
        })"

fun tx_dequeue_loop :: "nat \<Rightarrow> pktid list \<Rightarrow> u32 \<Rightarrow> RTL8127Driver_IVars \<Rightarrow> (u32 \<times> RTL8127Driver_IVars) option" where
  "tx_dequeue_loop qidx [] accepted iv = Some (accepted, iv)"
| "tx_dequeue_loop qidx (p # ps) accepted iv =
    (if tx_no_space iv then
       Some (accepted, tally (\<lambda>c. c\<lparr>txNoSpaceCalls := txNoSpaceCalls c + 1,
         txNoSpacePackets := txNoSpacePackets c + of_nat (length (p # ps))\<rparr>) iv)
     else do { iv' \<leftarrow> tx_one qidx p iv; tx_dequeue_loop qidx ps (accepted + 1) iv' })"

text \<open>Observation of every offered packet, including those refused later.\<close>

fun tx_observe :: "pktid list \<Rightarrow> RTL8127Driver_IVars \<Rightarrow> RTL8127Driver_IVars" where
  "tx_observe [] iv = iv"
| "tx_observe (p # ps) iv = tx_observe ps
    (if dataOff (pkts iv p) \<noteq> 0
     then tally (\<lambda>c. c\<lparr>txNonzeroDataOffset := txNonzeroDataOffset c + 1,
            offLogged := offLogged c + (if offLogged c < 12 then 1 else 0)\<rparr>) iv
     else iv)"

definition txDequeueAction :: "queueid \<Rightarrow> pktid list \<Rightarrow> RTL8127Driver_IVars \<Rightarrow> (u32 \<times> RTL8127Driver_IVars) option" where
  "txDequeueAction queue packets iv0 =
    (let qidx = txQueueIndex iv0 queue; n = of_nat (length packets);
         before = txSubmitted (ctr iv0);
         iv = tx_observe packets (tally (\<lambda>c. c\<lparr>txDequeueCalls := bump (txDequeueCalls c) qidx 1,
                txPerQueue := bump (txPerQueue c) qidx n\<rparr>) (iv0\<lparr>txLock := True\<rparr>))
     in if \<not> linkUp iv then
          Some (0, (tally (\<lambda>c. c\<lparr>txNoLinkCalls := txNoLinkCalls c + 1,
            txNoLinkPackets := txNoLinkPackets c + n\<rparr>) iv)\<lparr>txLock := False\<rparr>)
        else do {
          (accepted, iv1) \<leftarrow> tx_dequeue_loop qidx packets 0 iv;
          let iv2 = (if txSubmitted (ctr iv1) \<noteq> before
                     then tally (\<lambda>c. c\<lparr>txNonemptyCalls := txNonemptyCalls c + 1\<rparr>) iv1 else iv1);
          let iv3 = (if accepted \<noteq> 0 then do_hw (rtl812xDoorbell (txTailPtr0 (ihw iv2))) iv2 else iv2);
          Some (accepted, iv3\<lparr>txLock := False\<rparr>)
        })"

text \<open>Free descriptors and bytes reported to the framework.\<close>

definition txQueryFreeSpace :: "RTL8127Driver_IVars \<Rightarrow> u32 \<times> u32" where
  "txQueryFreeSpace iv =
    (let freeDesc = max 0 (sint (txNumFreeDesc (ihw iv)));
         availBytes = kTxInflightBytesLimit - sint (txInflightBytes iv)
     in if availBytes \<le> 0 \<or> freeDesc = 0 then (0, 0)
        else (of_int freeDesc, of_int (min availBytes 0xffffffff)))"

subsection \<open>Completion\<close>

definition txEnqueueAction :: "queueid \<Rightarrow> u32 \<Rightarrow> RTL8127Driver_IVars \<Rightarrow> pktid list \<times> RTL8127Driver_IVars" where
  "txEnqueueAction queue arrayCapacity iv =
    (let qidx = txQueueIndex iv queue;
         (ps, f) = drain fifoPop (unat arrayCapacity) (txDoneFifo iv ! qidx)
     in (ps, tally (\<lambda>c. c\<lparr>txCompletionCalls := bump (txCompletionCalls c) qidx 1,
               txCompletionPackets := bump (txCompletionPackets c) qidx (of_nat (length ps))\<rparr>)
             (iv\<lparr>txDoneFifo := (txDoneFifo iv)[qidx := f]\<rparr>)))"

subsection \<open>Reclaim\<close>

text \<open>One iteration: retire the oldest descriptor. The flags say which queues did work.\<close>

definition tx_reclaim_one :: "bool \<Rightarrow> RTL8127Driver_IVars \<times> bool list \<Rightarrow> RTL8127Driver_IVars \<times> bool list" where
  "tx_reclaim_one abort s =
    (let (iv, didWork) = s;
         index = txDirtyDescIndex (ihw iv); i = unat index;
         pkt = txPkt iv ! i;
         qidx = (if unat (txPktQueue iv ! i) < kNumTxQueues then unat (txPktQueue iv ! i) else 0);
         iv1 = iv\<lparr>txPkt := (txPkt iv)[i := None]\<rparr>;
         (iv3, dw) = (case pkt of
            None \<Rightarrow> (iv1, didWork)
          | Some p \<Rightarrow>
             let iv2 = tally (\<lambda>c. c\<lparr>txCompleted := txCompleted c + 1\<rparr>)
                   (set_pkt p (\<lambda>k. k\<lparr>completionStatus := if abort then kIOReturnAborted else kIOReturnSuccess\<rparr>)
                   (iv1\<lparr>txInflightBytes := txInflightBytes iv1 - ucast (txPktLen iv1 ! i)\<rparr>));
                 (ok, f) = fifoPush (txDoneFifo iv2 ! qidx) p
             in (if ok then iv2\<lparr>txDoneFifo := (txDoneFifo iv2)[qidx := f]\<rparr>
                 else signal (DeallocateTx p)
                   ((tally (\<lambda>c. c\<lparr>txDroppedFifo := txDroppedFifo c + 1\<rparr>) iv2)\<lparr>txDropWarned := True\<rparr>),
                 didWork[qidx := True]))
     in (iv3\<lparr>ihw := (ihw iv3)\<lparr>txDirtyDescIndex := (index + 1) AND kTxDescMask\<rparr>\<rparr>, dw))"

text \<open>Sampling of the completion queue's depth and the notifications of one class.\<close>

definition fifo_sample :: "pktid PacketFifo \<Rightarrow> int" where
  "fifo_sample f = fifoSampleDepth (replicate 3 (fhead f, ftail f, fhead f))"

definition sample_max :: "nat \<Rightarrow> RTL8127Driver_IVars \<Rightarrow> RTL8127Driver_IVars" where
  "sample_max i iv =
    (let depth = fifo_sample (txDoneFifo iv ! i) in
     if depth \<ge> 0 \<and> depth > uint (txDoneSampledMax (ctr iv) ! i)
     then tally (\<lambda>c. c\<lparr>txDoneSampledMax := (txDoneSampledMax c)[i := of_int depth]\<rparr>) iv else iv)"

fun tx_notify :: "bool \<Rightarrow> bool list \<Rightarrow> nat list \<Rightarrow> RTL8127Driver_IVars \<Rightarrow> RTL8127Driver_IVars" where
  "tx_notify abort dw [] iv = iv"
| "tx_notify abort dw (i # is) iv =
    (let iv1 = (if dw ! i \<and> \<not> abort then sample_max i iv else iv);
         iv2 = (if dw ! i then signal_opt RequestEnqueue (txCompQueues iv1 ! i) iv1 else iv1)
     in tx_notify abort dw is (signal_opt RequestDequeue (txSubQueues iv2 ! i) iv2))"

definition txRingReclaim :: "bool \<Rightarrow> RTL8127Driver_IVars \<Rightarrow> RTL8127Driver_IVars" where
  "txRingReclaim abort iv =
    (let (nextClose, iv0) = (if abort then (txTailPtr0 (ihw iv), iv) else on_hw rtl812xGetHwCloPtr iv);
         reclaimed = (nextClose - txClosePtr0 (ihw iv0)) AND tp_MaxTxDescPtrMask (tp (ihw iv0));
         iv1 = (if abort then iv0
                else tally (\<lambda>c. c\<lparr>txReclaimCalls := txReclaimCalls c + 1,
                  txReclaimedDescriptors := txReclaimedDescriptors c + ucast reclaimed,
                  txReclaimMaxBatch := max reclaimed (txReclaimMaxBatch c)\<rparr>) iv0);
         iv2 = iv1\<lparr>ihw := (ihw iv1)\<lparr>txClosePtr0 := nextClose\<rparr>\<rparr>;
         (iv3, dw) = (tx_reclaim_one abort ^^ unat reclaimed) (iv2, replicate kNumTxQueues False);
         iv4 = (if reclaimed \<noteq> 0 then
                  (let iv = (if abort then iv3 else tally (\<lambda>c. c\<lparr>txReclaimNonempty := txReclaimNonempty c + 1\<rparr>) iv3)
                   in iv\<lparr>ihw := (ihw iv)\<lparr>txNumFreeDesc := txNumFreeDesc (ihw iv) + reclaimed\<rparr>\<rparr>)
                else iv3)
     in if True \<in> set dw then tx_notify abort dw [0..<kNumTxQueues] iv4 else iv4)"


subsection \<open>The ring as a queue\<close>

text \<open>
  \<open>tx_window n iv\<close>: the \<open>n\<close> oldest descriptors in use, as (packet, class,
  length), oldest first. \<open>tx_core n\<close> is the part of the invariant that holds
  inside the loops, where the free counter lags behind.
\<close>

type_synonym tx_slot = "pktid option \<times> u8 \<times> u32"

definition tx_slots :: "RTL8127Driver_IVars \<Rightarrow> tx_slot list" where
  "tx_slots iv = zip (txPkt iv) (zip (txPktQueue iv) (txPktLen iv))"

definition tx_window :: "nat \<Rightarrow> RTL8127Driver_IVars \<Rightarrow> tx_slot list" where
  "tx_window n iv = ring_window (tx_slots iv) (unat (txDirtyDescIndex (ihw iv))) n"

definition tx_slot_ok :: "tx_slot \<Rightarrow> bool" where
  "tx_slot_ok = (\<lambda>(p, q, l). p \<noteq> None \<and> unat q < 4 \<and> unat l \<le> 32768)"

definition tx_bytes :: "tx_slot list \<Rightarrow> nat" where
  "tx_bytes w = sum_list (map (\<lambda>(p, q, l). unat l) w)"

definition tx_core :: "nat \<Rightarrow> RTL8127Driver_IVars \<Rightarrow> bool" where
  "tx_core n iv \<longleftrightarrow>
     length (txPkt iv) = 1024 \<and> length (txPktQueue iv) = 1024 \<and> length (txPktLen iv) = 1024 \<and>
     length (txRing iv) = 1024 \<and> length (txDoneFifo iv) = 4 \<and> (\<forall>f \<in> set (txDoneFifo iv). fifo_inv f) \<and>
     unat (txDirtyDescIndex (ihw iv)) < 1024 \<and> n \<le> 1024 \<and>
     unat (txNextDescIndex (ihw iv)) = (unat (txDirtyDescIndex (ihw iv)) + n) mod 1024 \<and>
     (\<forall>x \<in> set (tx_window n iv). tx_slot_ok x) \<and>
     (\<forall>j. n \<le> j \<longrightarrow> j < 1024 \<longrightarrow> txPkt iv ! ((unat (txDirtyDescIndex (ihw iv)) + j) mod 1024) = None) \<and>
     unat (txInflightBytes iv) = tx_bytes (tx_window n iv)"

definition tx_count :: "RTL8127Driver_IVars \<Rightarrow> nat" where
  "tx_count iv = 1024 - unat (txNumFreeDesc (ihw iv))"

definition tx_flight :: "RTL8127Driver_IVars \<Rightarrow> tx_slot list" where
  "tx_flight iv = tx_window (tx_count iv) iv"

definition tx_inv :: "RTL8127Driver_IVars \<Rightarrow> bool" where
  "tx_inv iv \<longleftrightarrow> tx_core (tx_count iv) iv \<and> unat (txNumFreeDesc (ihw iv)) \<le> 1024 \<and>
     (\<exists>k \<in> {16, 31, 32}. tp_MaxTxDescPtrMask (tp (ihw iv)) = mask k) \<and>
     unat ((txTailPtr0 (ihw iv) - txClosePtr0 (ihw iv)) AND tp_MaxTxDescPtrMask (tp (ihw iv))) = tx_count iv"

lemma length_tx_slots: "tx_core n iv \<Longrightarrow> length (tx_slots iv) = 1024"
  by (simp add: tx_core_def tx_slots_def)

lemma length_tx_window [simp]: "length (tx_window n iv) = n"
  by (simp add: tx_window_def)

lemma tx_next_index: "unat ((i + 1) AND kTxDescMask) = (unat i + 1) mod 1024" for i :: u32
  using unat_plus1_and_mask [of 10 i] by (simp add: kTxDescMask_def mask_1023)

lemma tx_bytes_append [simp]: "tx_bytes (xs @ ys) = tx_bytes xs + tx_bytes ys"
  by (simp add: tx_bytes_def)

lemma tx_bytes_Cons [simp]: "tx_bytes ((p, q, l) # ys) = unat l + tx_bytes ys"
  by (simp add: tx_bytes_def)

lemma tx_bytes_Nil [simp]: "tx_bytes [] = 0"
  by (simp add: tx_bytes_def)

lemma tx_bytes_bound: "\<forall>x \<in> set w. tx_slot_ok x \<Longrightarrow> tx_bytes w \<le> 32768 * length w"
  by (induction w) (auto simp: tx_slot_ok_def)

lemma tx_slots_update:
  "tx_slots (iv\<lparr>txPkt := (txPkt iv)[i := a], txPktQueue := (txPktQueue iv)[i := b],
      txPktLen := (txPktLen iv)[i := c]\<rparr>) = (tx_slots iv)[i := (a, b, c)]"
  by (simp add: tx_slots_def update_zip)


subsection \<open>Filling a descriptor\<close>

lemma tx_post_fields [simp]:
  "txDoneFifo (tx_post q p len a cmd o2 iv) = txDoneFifo iv"
  "ndk (tx_post q p len a cmd o2 iv) = ndk iv"
  "pkts (tx_post q p len a cmd o2 iv) = pkts iv"
  "ctr (tx_post q p len a cmd o2 iv) = ctr iv"
  "linkUp (tx_post q p len a cmd o2 iv) = linkUp iv"
  "mtu (tx_post q p len a cmd o2 iv) = mtu iv"
  "tp (ihw (tx_post q p len a cmd o2 iv)) = tp (ihw iv)"
  "txClosePtr0 (ihw (tx_post q p len a cmd o2 iv)) = txClosePtr0 (ihw iv)"
  "txTailPtr0 (ihw (tx_post q p len a cmd o2 iv)) = txTailPtr0 (ihw iv) + 1"
  "txNumFreeDesc (ihw (tx_post q p len a cmd o2 iv)) = txNumFreeDesc (ihw iv) - 1"
  "txDirtyDescIndex (ihw (tx_post q p len a cmd o2 iv)) = txDirtyDescIndex (ihw iv)"
  by (simp_all add: tx_post_def Let_def)

lemma tx_slots_post:
  "tx_slots (tx_post q p len a cmd o2 iv) =
    (tx_slots iv)[unat (txNextDescIndex (ihw iv)) := (Some p, of_nat q, len)]"
  by (simp add: tx_post_def Let_def tx_slots_def update_zip)

lemma tx_window_post:
  assumes "tx_core n iv" "n < 1024"
  shows "tx_window (Suc n) (tx_post q p len a cmd o2 iv) = tx_window n iv @ [(Some p, of_nat q, len)]"
  using assms ring_window_push [of n "tx_slots iv" "unat (txDirtyDescIndex (ihw iv))"]
    length_tx_slots [OF assms(1)]
  by (simp add: tx_window_def tx_slots_post tx_core_def)

lemma tx_core_bytes:
  assumes "tx_core n iv"
  shows "unat (txInflightBytes iv) \<le> 32768 * n"
  using assms tx_bytes_bound [of "tx_window n iv"] by (simp add: tx_core_def)

lemma tx_core_post:
  assumes core: "tx_core n iv" and n: "n < 1024" and q: "q < 4" and l: "unat len \<le> 32768"
  shows "tx_core (Suc n) (tx_post q p len a cmd o2 iv)"
proof -
  let ?iv = "tx_post q p len a cmd o2 iv" and ?d = "unat (txDirtyDescIndex (ihw iv))"
  have w: "tx_window (Suc n) ?iv = tx_window n iv @ [(Some p, of_nat q, len)]"
    by (rule tx_window_post [OF core n])
  have "unat (of_nat q :: u8) = q" using q by (simp add: unat_of_nat)
  then have ok: "tx_slot_ok (Some p, of_nat q, len)"
    using q l by (simp add: tx_slot_ok_def)
  have nx: "unat (txNextDescIndex (ihw iv)) = (?d + n) mod 1024"
    using core by (simp add: tx_core_def)
  have out: "txPkt ?iv ! ((?d + j) mod 1024) = None" if "Suc n \<le> j" "j < 1024" for j
  proof -
    have "(?d + j) mod 1024 \<noteq> (?d + n) mod 1024"
      using mod_add_left_inj [of j 1024 n ?d] that by auto
    then show ?thesis
      using core that nx by (simp add: tx_post_def Let_def tx_core_def)
  qed
  have b: "unat (txInflightBytes ?iv) = unat (txInflightBytes iv) + unat len"
    using tx_core_bytes [OF core] n l unat_plus_no_wrap [of "txInflightBytes iv" "ucast len"]
    by (simp add: tx_post_def Let_def)
  have "unat (txNextDescIndex (ihw ?iv)) = (?d + Suc n) mod 1024"
    using nx by (simp add: tx_post_def Let_def tx_next_index mod_simps)
  then show ?thesis
    using core n w ok out b unfolding tx_core_def
    by (simp add: w) (simp add: tx_post_def Let_def)
qed


subsection \<open>Where packets are\<close>

text \<open>
  The packets the driver holds: in the ring, in the completion queues, or
  given back to the pool because a completion queue was full.
\<close>

fun ev_dealloc_tx :: "ndk_event \<Rightarrow> pktid list" where
  "ev_dealloc_tx (DeallocateTx p) = [p]"
| "ev_dealloc_tx _ = []"

definition tx_dealloc :: "RTL8127Driver_IVars \<Rightarrow> pktid list" where
  "tx_dealloc iv = concat (map ev_dealloc_tx (ndk iv))"

definition tx_done :: "RTL8127Driver_IVars \<Rightarrow> pktid list" where
  "tx_done iv = concat (map fifo_list (txDoneFifo iv))"

definition tx_places :: "nat \<Rightarrow> RTL8127Driver_IVars \<Rightarrow> pktid multiset" where
  "tx_places n iv = mset (map (the \<circ> fst) (tx_window n iv)) + mset (tx_done iv) + mset (tx_dealloc iv)"

lemma tx_done_push:
  assumes "tx_core n iv" "q < 4" "fst (fifoPush (txDoneFifo iv ! q) p)"
    "txDoneFifo iv' = (txDoneFifo iv)[q := snd (fifoPush (txDoneFifo iv ! q) p)]"
  shows "mset (tx_done iv') = mset (tx_done iv) + {#p#}"
proof -
  have f: "fifo_inv (txDoneFifo iv ! q)" "length (txDoneFifo iv) = 4"
    using assms(1,2) by (simp_all add: tx_core_def)
  then have "fifo_list (snd (fifoPush (txDoneFifo iv ! q) p)) = fifo_list (txDoneFifo iv ! q) @ [p]"
    using assms(3) fifo.enq_contents [OF f(1)] by simp
  then show ?thesis
    using assms(2,4) f(2) mset_concat_update [of q "map fifo_list (txDoneFifo iv)"
        "fifo_list (txDoneFifo iv ! q) @ [p]"]
    by (simp add: tx_done_def map_update)
qed

lemma tx_core_cong:
  assumes "txPkt iv' = txPkt iv" "txPktQueue iv' = txPktQueue iv" "txPktLen iv' = txPktLen iv"
    "txRing iv' = txRing iv" "txInflightBytes iv' = txInflightBytes iv"
    "txDirtyDescIndex (ihw iv') = txDirtyDescIndex (ihw iv)" "txNextDescIndex (ihw iv') = txNextDescIndex (ihw iv)"
  shows "tx_window n iv' = tx_window n iv"
    and "length (txDoneFifo iv') = length (txDoneFifo iv) \<Longrightarrow> \<forall>f \<in> set (txDoneFifo iv'). fifo_inv f \<Longrightarrow>
      tx_core n iv \<Longrightarrow> tx_core n iv'"
proof -
  show w: "tx_window n iv' = tx_window n iv"
    using assms by (simp add: tx_window_def tx_slots_def)
  show "tx_core n iv'" if "length (txDoneFifo iv') = length (txDoneFifo iv)"
      "\<forall>f \<in> set (txDoneFifo iv'). fifo_inv f" "tx_core n iv"
    using that assms w by (simp add: tx_core_def)
qed

lemma done_push_inv:
  assumes "tx_core n iv" "q < 4"
  shows "\<forall>f \<in> set ((txDoneFifo iv)[q := snd (fifoPush (txDoneFifo iv ! q) p)]). fifo_inv f"
  using assms fifo_push_take(2) [of "txDoneFifo iv ! q" p] set_update_subset_insert [of "txDoneFifo iv" q]
  by (auto simp: tx_core_def)


subsection \<open>Completing one packet\<close>

abbreviation done_lists :: "RTL8127Driver_IVars \<Rightarrow> pktid list list" where
  "done_lists iv \<equiv> map fifo_list (txDoneFifo iv)"

definition done_add :: "nat \<Rightarrow> pktid \<Rightarrow> pktid list list \<Rightarrow> pktid list list" where
  "done_add q p ds = ds[q := take 2047 (ds ! q @ [p])]"

lemma tx_full_unchanged:
  assumes "fifo_inv f" "\<not> fst (fifoPush f p)"
  shows "take 2047 (fifo_list f @ [p]) = fifo_list f"
  using fifo_push_take(3) [OF assms(1), of p] fifo.cap_bound [OF assms(1)] assms(2) by simp

lemma tx_complete_bad_spec:
  assumes core: "tx_core n iv" and q: "q < 4"
  shows "tx_core n (tx_complete_bad q p iv)"
    and "tx_window n (tx_complete_bad q p iv) = tx_window n iv"
    and "tx_places n (tx_complete_bad q p iv) = tx_places n iv + {#p#}"
    and "done_lists (tx_complete_bad q p iv) = done_add q p (done_lists iv)"
    and "ihw (tx_complete_bad q p iv) = ihw iv"
    and "pkts (tx_complete_bad q p iv) = (pkts iv)(p := (pkts iv p)\<lparr>completionStatus := kIOReturnBadArgument\<rparr>)"
    and "mtu (tx_complete_bad q p iv) = mtu iv" "linkUp (tx_complete_bad q p iv) = linkUp iv"
proof -
  let ?f = "txDoneFifo iv ! q" and ?r = "tx_complete_bad q p iv"
  have f: "fifo_inv ?f" "length (txDoneFifo iv) = 4"
    using core q by (simp_all add: tx_core_def)
  obtain ok g where pu: "fifoPush ?f p = (ok, g)" by fastforce
  note d = tx_complete_bad_def Let_def set_pkt_def tally_def signal_def pu
  have g: "fifo_list g = take 2047 (fifo_list ?f @ [p])"
    using fifo_push_take(1) [OF f(1), of p] pu by simp
  have upd: "(done_lists iv)[q := fifo_list ?f] = done_lists iv"
    by (metis map_update list_update_id)
  show hw: "ihw ?r = ihw iv" "mtu ?r = mtu iv" "linkUp ?r = linkUp iv" by (simp_all add: d)
  show "pkts ?r = (pkts iv)(p := (pkts iv p)\<lparr>completionStatus := kIOReturnBadArgument\<rparr>)"
    by (simp add: d)
  show w: "tx_window n ?r = tx_window n iv"
    by (rule tx_core_cong) (simp_all add: d)
  have ivf: "\<forall>f \<in> set (txDoneFifo ?r). fifo_inv f"
    using core done_push_inv [OF core q, of p] by (auto simp: d tx_core_def)
  show "tx_core n ?r"
    by (rule tx_core_cong(2) [OF _ _ _ _ _ _ _ _ ivf core]) (simp_all add: d)
  show "done_lists ?r = done_add q p (done_lists iv)"
    using tx_full_unchanged [OF f(1), of p] pu g q f(2) upd
    by (cases ok) (simp_all add: d map_update done_add_def)
  show "tx_places n ?r = tx_places n iv + {#p#}"
  proof (cases ok)
    case True
    then have "mset (tx_done ?r) = mset (tx_done iv) + {#p#}"
      by (intro tx_done_push [OF core q]) (simp_all add: d)
    then show ?thesis using True w by (simp add: tx_places_def tx_dealloc_def d)
  next
    case False
    then show ?thesis using w by (simp add: tx_places_def tx_dealloc_def tx_done_def d)
  qed
qed

lemma tx_window_Cons:
  assumes "tx_core (Suc n) iv"
  shows "tx_window (Suc n) iv =
    tx_slots iv ! unat (txDirtyDescIndex (ihw iv)) #
      ring_window (tx_slots iv) ((unat (txDirtyDescIndex (ihw iv)) + 1) mod 1024) n"
  using assms length_tx_slots [OF assms] by (simp add: tx_window_def ring_window_Cons tx_core_def)

lemma tx_window_after_clear:
  assumes core: "tx_core (Suc n) iv"
    and s: "txPkt iv' = (txPkt iv)[unat (txDirtyDescIndex (ihw iv)) := None]"
      "txPktQueue iv' = txPktQueue iv" "txPktLen iv' = txPktLen iv"
      "txDirtyDescIndex (ihw iv') = (txDirtyDescIndex (ihw iv) + 1) AND kTxDescMask"
  shows "tx_window n iv' = tl (tx_window (Suc n) iv)"
proof -
  let ?d = "unat (txDirtyDescIndex (ihw iv))"
  have len: "length (txPkt iv) = 1024" "length (txPktQueue iv) = 1024" "length (txPktLen iv) = 1024"
      "?d < 1024" "n < 1024"
    using core by (simp_all add: tx_core_def)
  have "tx_slots iv' = (tx_slots iv)[?d := (None, snd (tx_slots iv ! ?d))]"
    using s(1-3) len by (simp add: tx_slots_def update_zip)
  moreover have "ring_window ((tx_slots iv)[?d := x]) ((?d + 1) mod 1024) n
      = ring_window (tx_slots iv) ((?d + 1) mod 1024) n" for x
  proof -
    have "?d \<noteq> ((?d + 1) mod 1024 + j) mod 1024" if "j < n" for j
      using that len mod_add_left_inj [of 0 1024 "Suc j" ?d] by (auto simp: mod_simps)
    then show ?thesis
      using length_tx_slots [OF core] by (simp add: ring_window_def)
  qed
  ultimately show ?thesis
    using tx_window_Cons [OF core] s(4) len by (simp add: tx_window_def tx_next_index)
qed


lemma tx_core_after_clear:
  assumes core: "tx_core (Suc n) iv" and w: "tx_window (Suc n) iv = (Some p, q, l) # rest"
    and s: "txPkt iv' = (txPkt iv)[unat (txDirtyDescIndex (ihw iv)) := None]"
      "txPktQueue iv' = txPktQueue iv" "txPktLen iv' = txPktLen iv" "txRing iv' = txRing iv"
      "txDirtyDescIndex (ihw iv') = (txDirtyDescIndex (ihw iv) + 1) AND kTxDescMask"
      "txNextDescIndex (ihw iv') = txNextDescIndex (ihw iv)"
      "txInflightBytes iv' = txInflightBytes iv - ucast l"
      "length (txDoneFifo iv') = 4" "\<forall>f \<in> set (txDoneFifo iv'). fifo_inv f"
  shows "tx_core n iv'" "tx_window n iv' = rest"
proof -
  let ?d = "unat (txDirtyDescIndex (ihw iv))"
  show w': "tx_window n iv' = rest"
    using tx_window_after_clear [OF core s(1-3,5)] w by simp
  have d': "unat (txDirtyDescIndex (ihw iv')) = (?d + 1) mod 1024"
    by (simp add: s(5) tx_next_index)
  have c: "length (txPkt iv) = 1024" "?d < 1024"
      "\<And>j. Suc n \<le> j \<Longrightarrow> j < 1024 \<Longrightarrow> txPkt iv ! ((?d + j) mod 1024) = None"
      "unat (txInflightBytes iv) = unat l + tx_bytes rest"
    using core w by (simp_all add: tx_core_def)
  have out: "txPkt iv' ! (((?d + 1) mod 1024 + j) mod 1024) = None" if "n \<le> j" "j < 1024" for j
  proof (cases "j = 1023")
    case True
    then show ?thesis using c(1,2) s(1) by (simp add: mod_simps)
  next
    case False
    then show ?thesis
      using c(3) [of "Suc j"] c(1,2) that s(1) by (simp add: mod_simps nth_list_update)
  qed
  have "txInflightBytes iv \<ge> ucast l"
    using c(4) by (simp add: word_le_nat_alt)
  then have "unat (txInflightBytes iv') = tx_bytes rest"
    using c(4) s(7) by (simp add: unat_sub)
  then show "tx_core n iv'"
    using core w w' d' out s unfolding tx_core_def by (simp add: mod_simps)
qed

lemma tx_window_head:
  assumes "tx_core (Suc n) iv" "tx_window (Suc n) iv = (a, q, l) # rest"
  shows "txPkt iv ! unat (txDirtyDescIndex (ihw iv)) = a"
    "txPktQueue iv ! unat (txDirtyDescIndex (ihw iv)) = q"
    "txPktLen iv ! unat (txDirtyDescIndex (ihw iv)) = l"
  using tx_window_Cons [OF assms(1)] assms by (simp_all add: tx_slots_def tx_core_def)

lemma tx_reclaim_one_spec:
  assumes core: "tx_core (Suc n) iv" and w: "tx_window (Suc n) iv = (Some p, q, l) # rest"
    and r: "tx_reclaim_one abort (iv, dw) = (iv', dw')"
  shows "tx_core n iv'" "tx_window n iv' = rest"
    "tx_places n iv' = tx_places (Suc n) iv"
    "done_lists iv' = done_add (unat q) p (done_lists iv)"
    "dw' = dw[unat q := True]"
    "ihw iv' = (ihw iv)\<lparr>txDirtyDescIndex := (txDirtyDescIndex (ihw iv) + 1) AND kTxDescMask\<rparr>"
    "pkts iv' = (pkts iv)(p := (pkts iv p)\<lparr>completionStatus :=
       if abort then kIOReturnAborted else kIOReturnSuccess\<rparr>)"
proof -
  let ?f = "txDoneFifo iv ! unat q"
  note hd = tx_window_head [OF core w]
  have q: "unat q < 4" using core w by (simp add: tx_core_def tx_slot_ok_def)
  have f: "fifo_inv ?f" "length (txDoneFifo iv) = 4" "\<forall>f \<in> set (txDoneFifo iv). fifo_inv f"
    using core q by (simp_all add: tx_core_def)
  obtain ok g where pu: "fifoPush ?f p = (ok, g)" by fastforce
  note d = tx_reclaim_one_def Let_def set_pkt_def tally_def signal_def pu hd kNumTxQueues_def
  have g: "fifo_list g = take 2047 (fifo_list ?f @ [p])"
    using fifo_push_take(1) [OF f(1), of p] pu by simp
  have upd: "(done_lists iv)[unat q := fifo_list ?f] = done_lists iv"
    by (metis map_update list_update_id)
  have e: "iv' = fst (tx_reclaim_one abort (iv, dw))" "dw' = snd (tx_reclaim_one abort (iv, dw))"
    by (simp_all add: r)
  have flds: "txPkt iv' = (txPkt iv)[unat (txDirtyDescIndex (ihw iv)) := None]"
      "txPktQueue iv' = txPktQueue iv" "txPktLen iv' = txPktLen iv" "txRing iv' = txRing iv"
      "txInflightBytes iv' = txInflightBytes iv - ucast l"
      "ndk iv' = (if ok then ndk iv else DeallocateTx p # ndk iv)"
      "txDoneFifo iv' = (if ok then (txDoneFifo iv)[unat q := snd (fifoPush ?f p)] else txDoneFifo iv)"
    unfolding e by (cases ok; simp add: d q)+
  show hw: "ihw iv' = (ihw iv)\<lparr>txDirtyDescIndex := (txDirtyDescIndex (ihw iv) + 1) AND kTxDescMask\<rparr>"
    and "dw' = dw[unat q := True]"
    and "pkts iv' = (pkts iv)(p := (pkts iv p)\<lparr>completionStatus :=
       if abort then kIOReturnAborted else kIOReturnSuccess\<rparr>)"
    unfolding e by (cases ok; simp add: d q)+
  show "done_lists iv' = done_add (unat q) p (done_lists iv)"
    using q tx_full_unchanged [OF f(1), of p] pu g f(2) upd
    by (cases ok) (simp_all add: flds map_update done_add_def)
  have ivf: "\<forall>f \<in> set (txDoneFifo iv'). fifo_inv f" "length (txDoneFifo iv') = 4"
    using f flds(7) done_push_inv [OF core q, of p] by auto
  show core': "tx_core n iv'" and w': "tx_window n iv' = rest"
    by (rule tx_core_after_clear [OF core w flds(1-4)]; simp add: hw flds(5) ivf)+
  show "tx_places n iv' = tx_places (Suc n) iv"
  proof (cases ok)
    case True
    then have "mset (tx_done iv') = mset (tx_done iv) + {#p#}"
      using pu by (intro tx_done_push [OF core q]) (simp_all add: flds(7))
    then show ?thesis using True w w' by (simp add: tx_places_def tx_dealloc_def flds(6))
  next
    case False
    then show ?thesis using w w' by (simp add: tx_places_def tx_dealloc_def tx_done_def flds(6,7))
  qed
qed


subsection \<open>Reclaiming a batch\<close>

definition class_pkts :: "nat \<Rightarrow> tx_slot list \<Rightarrow> pktid list" where
  "class_pkts q w = map (the \<circ> fst) (filter (\<lambda>x. unat (fst (snd x)) = q) w)"

fun done_adds :: "tx_slot list \<Rightarrow> pktid list list \<Rightarrow> pktid list list" where
  "done_adds [] ds = ds"
| "done_adds ((p, q, l) # w) ds = done_adds w (done_add (unat q) (the p) ds)"

lemma length_done_adds [simp]: "length (done_adds w ds) = length ds"
  by (induction w ds rule: done_adds.induct) (simp_all add: done_add_def)

text \<open>Per class, completions arrive in ring order, up to the queue's capacity.\<close>

lemma done_adds_nth:
  assumes "q < length ds" "length (ds ! q) \<le> 2047"
  shows "done_adds w ds ! q = take 2047 (ds ! q @ class_pkts q w)"
  using assms
proof (induction w ds rule: done_adds.induct)
  case (2 p q' l w ds)
  have len: "length (done_add (unat q') (the p) ds ! q) \<le> 2047" "length (done_add (unat q') (the p) ds) = length ds"
    using 2(2,3) by (cases "unat q' = q"; simp add: done_add_def)+
  show ?case
    using 2(1) [OF _ len(1)] 2(2,3) len(2) take_take_append [of 2047 "ds ! q @ [the p]" "class_pkts q w"]
    by (auto simp: done_add_def class_pkts_def nth_list_update)
qed (simp add: class_pkts_def)

definition retired :: "tx_slot list \<Rightarrow> IOReturn \<Rightarrow> (pktid \<Rightarrow> IOUserNetworkPacket) \<Rightarrow> pktid \<Rightarrow> IOUserNetworkPacket" where
  "retired w st ks = (\<lambda>p. if Some p \<in> fst ` set w then (ks p)\<lparr>completionStatus := st\<rparr> else ks p)"

definition reclaim_status :: "bool \<Rightarrow> IOReturn" where
  "reclaim_status abort = (if abort then kIOReturnAborted else kIOReturnSuccess)"

lemma tx_reclaim_loop:
  assumes "tx_core n iv" "k \<le> n" "(tx_reclaim_one abort ^^ k) (iv, dw) = (iv', dw')"
  shows "tx_core (n - k) iv' \<and> tx_window (n - k) iv' = drop k (tx_window n iv) \<and>
    tx_places (n - k) iv' = tx_places n iv \<and>
    done_lists iv' = done_adds (take k (tx_window n iv)) (done_lists iv) \<and>
    ihw iv' = (ihw iv)\<lparr>txDirtyDescIndex := txDirtyDescIndex (ihw iv')\<rparr> \<and>
    pkts iv' = retired (take k (tx_window n iv)) (reclaim_status abort) (pkts iv)"
  using assms
proof (induction k arbitrary: n iv dw)
  case 0
  then show ?case by (simp add: retired_def)
next
  case (Suc k)
  then obtain m where m: "n = Suc m" "k \<le> m" by (cases n) auto
  obtain x rest where x: "tx_window (Suc m) iv = x # rest"
    using length_tx_window [of "Suc m" iv] by (cases "tx_window (Suc m) iv") auto
  then obtain p q l where w: "tx_window (Suc m) iv = (Some p, q, l) # rest"
    using Suc.prems(1) m by (cases x) (auto simp: tx_core_def tx_slot_ok_def)
  have core: "tx_core (Suc m) iv" using Suc.prems(1) m by simp
  obtain iv1 dw1 where r: "tx_reclaim_one abort (iv, dw) = (iv1, dw1)" by fastforce
  note sp = tx_reclaim_one_spec [OF core w r]
  have "(tx_reclaim_one abort ^^ k) (iv1, dw1) = (iv', dw')"
    using Suc.prems(3) r by (simp only: funpow_Suc_right o_apply)
  note ih = Suc.IH [OF sp(1) m(2) this]
  then show ?case
    using m w sp by (auto simp: retired_def reclaim_status_def fun_eq_iff)
qed


lemma ptr_advance:
  fixes t c c' :: u32
  assumes "b \<le> 32" "unat ((t - c) AND mask b) = n" "unat ((c' - c) AND mask b) = d" "d \<le> n"
  shows "unat ((t - c') AND mask b) = n - d"
proof -
  have tc: "(uint t - uint c) mod 2 ^ b = int n" and cc: "(uint c' - uint c) mod 2 ^ b = int d"
    unfolding assms(2,3) [symmetric]
    using assms(1) uint_diff_and_mask [of b t c] uint_diff_and_mask [of b c' c]
    by (simp_all flip: uint_nat)
  have "uint ((t - c') AND mask b) = ((uint t - uint c) - (uint c' - uint c)) mod 2 ^ b"
    using assms(1) uint_diff_and_mask [of b t c'] by simp
  also have "\<dots> = (int n - int d) mod 2 ^ b"
    using tc cc mod_diff_eq [of "uint t - uint c" "2 ^ b" "uint c' - uint c"] by simp
  also have "\<dots> = int n - int d"
  proof (rule mod_pos_pos_trivial)
    have "int n < 2 ^ b" using tc pos_mod_bound [of "2 ^ b" "uint t - uint c"] by simp
    then show "int n - int d < 2 ^ b" by linarith
  qed (use assms(4) in simp)
  finally have "uint ((t - c') AND mask b) = int (n - d)"
    using assms(4) by (simp only: of_nat_diff)
  then show ?thesis
    by (simp only: unat_eq_nat_uint nat_int)
qed

lemma cloptr_frame:
  "\<exists>hs. snd (run rtl812xGetHwCloPtr h) = h\<lparr>hist := hs\<rparr>"
  by (auto simp: rtl812xGetHwCloPtr_def hw_defs fst_run_bind snd_run_bind)

lemma sample_max_frame: "\<exists>c. sample_max i iv = iv\<lparr>ctr := c\<rparr>"
  by (auto simp: sample_max_def Let_def tally_def intro: exI [of _ "ctr iv"])

lemma tx_notify_frame:
  "\<exists>c e. tx_notify abort dw is iv = iv\<lparr>ctr := c, ndk := e @ ndk iv\<rparr> \<and> concat (map ev_dealloc_tx e) = []"
proof (induction "is" arbitrary: iv)
  case Nil
  show ?case by (rule exI [of _ "ctr iv"], rule exI [of _ "[]"]) simp
next
  case (Cons i "is")
  define iv1 where "iv1 = (if dw ! i \<and> \<not> abort then sample_max i iv else iv)"
  define iv2 where "iv2 = (if dw ! i then signal_opt RequestEnqueue (txCompQueues iv1 ! i) iv1 else iv1)"
  define iv3 where "iv3 = signal_opt RequestDequeue (txSubQueues iv2 ! i) iv2"
  have "\<exists>c. iv1 = iv\<lparr>ctr := c\<rparr>"
    using sample_max_frame [of i iv] by (auto simp: iv1_def intro: exI [of _ "ctr iv"])
  then obtain c1 where 1: "iv1 = iv\<lparr>ctr := c1\<rparr>" ..
  have "\<exists>e. iv3 = iv1\<lparr>ndk := e @ ndk iv1\<rparr> \<and> concat (map ev_dealloc_tx e) = []"
  proof -
    have s: "\<exists>e. signal_opt f o' v = v\<lparr>ndk := e @ ndk v\<rparr> \<and> concat (map ev_dealloc_tx e) = []"
      if "\<And>x. ev_dealloc_tx (f x) = []" for f o' v
      using that by (cases o') (auto simp: signal_opt_def signal_def
          intro: exI [of _ "[]"] exI [of _ "[f (the o')]"])
    obtain e1 where e1: "iv2 = iv1\<lparr>ndk := e1 @ ndk iv1\<rparr>" "concat (map ev_dealloc_tx e1) = []"
      using s [of RequestEnqueue "txCompQueues iv1 ! i" iv1]
      by (cases "dw ! i") (auto simp: iv2_def intro: that [of "[]"])
    obtain e2 where "iv3 = iv2\<lparr>ndk := e2 @ ndk iv2\<rparr>" "concat (map ev_dealloc_tx e2) = []"
      using s [of RequestDequeue "txSubQueues iv2 ! i" iv2] by (auto simp: iv3_def)
    then show ?thesis using e1 by (intro exI [of _ "e2 @ e1"]) simp
  qed
  then obtain e3 where 3: "iv3 = iv1\<lparr>ndk := e3 @ ndk iv1\<rparr>" "concat (map ev_dealloc_tx e3) = []" by blast
  obtain c e where "tx_notify abort dw is iv3 = iv3\<lparr>ctr := c, ndk := e @ ndk iv3\<rparr>"
      "concat (map ev_dealloc_tx e) = []"
    using Cons by blast
  moreover have "tx_notify abort dw (i # is) iv = tx_notify abort dw is iv3"
    by (simp only: tx_notify.simps Let_def iv1_def iv2_def iv3_def)
  ultimately show ?case
    using 1 3 by (intro exI [of _ c] exI [of _ "e @ e3"]) simp
qed


text \<open>
  What a reclaim does, for \<open>k\<close> closed descriptors: the \<open>k\<close> oldest frames leave
  the ring, in order, for the completion queues of their classes.
\<close>

definition reclaim_count :: "bool \<Rightarrow> RTL8127Driver_IVars \<Rightarrow> nat" where
  "reclaim_count abort iv =
    (let close = (if abort then txTailPtr0 (ihw iv) else fst (run rtl812xGetHwCloPtr (ihw iv)))
     in unat ((close - txClosePtr0 (ihw iv)) AND tp_MaxTxDescPtrMask (tp (ihw iv))))"

lemma reclaim_count_abort: "tx_inv iv \<Longrightarrow> reclaim_count True iv = tx_count iv"
  by (simp add: reclaim_count_def tx_inv_def)

lemma tx_places_cong:
  "tx_window n iv' = tx_window n iv \<Longrightarrow> txDoneFifo iv' = txDoneFifo iv \<Longrightarrow>
   tx_dealloc iv' = tx_dealloc iv \<Longrightarrow> tx_places n iv' = tx_places n iv"
  by (simp add: tx_places_def tx_done_def)

lemma tx_reclaim_frame:
  assumes inv: "tx_inv iv" and k: "reclaim_count abort iv = k" "k \<le> tx_count iv"
  obtains iv2 iv3 dw c0 c e hs where
    "iv2 = iv\<lparr>ctr := c0, ihw := (ihw iv)\<lparr>hist := hs,
       txClosePtr0 := if abort then txTailPtr0 (ihw iv) else fst (run rtl812xGetHwCloPtr (ihw iv))\<rparr>\<rparr>"
    "(tx_reclaim_one abort ^^ k) (iv2, replicate kNumTxQueues False) = (iv3, dw)"
    "txRingReclaim abort iv = iv3\<lparr>ctr := c, ndk := e @ ndk iv3,
       ihw := (ihw iv3)\<lparr>txNumFreeDesc := txNumFreeDesc (ihw iv3) + of_nat k\<rparr>\<rparr>"
    "concat (map ev_dealloc_tx e) = []"
proof -
  obtain nextClose iv0 where n0: "(if abort then (txTailPtr0 (ihw iv), iv) else on_hw rtl812xGetHwCloPtr iv) = (nextClose, iv0)"
    by fastforce
  obtain hs where hs: "snd (run rtl812xGetHwCloPtr (ihw iv)) = (ihw iv)\<lparr>hist := hs\<rparr>"
    using cloptr_frame by blast
  have iv0: "iv0 = iv\<lparr>ihw := (ihw iv)\<lparr>hist := (if abort then hist (ihw iv) else hs)\<rparr>\<rparr>"
      "nextClose = (if abort then txTailPtr0 (ihw iv) else fst (run rtl812xGetHwCloPtr (ihw iv)))"
    using n0 hs by (auto simp: on_hw_eq do_hw_def)
  define rc where "rc = (nextClose - txClosePtr0 (ihw iv0)) AND tp_MaxTxDescPtrMask (tp (ihw iv0))"
  have rc: "unat rc = k" "rc = of_nat k"
    using k(1) by (auto simp: rc_def iv0 reclaim_count_def Let_def)
  define iv1 where "iv1 = (if abort then iv0
                else tally (\<lambda>c. c\<lparr>txReclaimCalls := txReclaimCalls c + 1,
                  txReclaimedDescriptors := txReclaimedDescriptors c + ucast rc,
                  txReclaimMaxBatch := max rc (txReclaimMaxBatch c)\<rparr>) iv0)"
  define iv2 where "iv2 = iv1\<lparr>ihw := (ihw iv1)\<lparr>txClosePtr0 := nextClose\<rparr>\<rparr>"
  obtain iv3 dw where l: "(tx_reclaim_one abort ^^ k) (iv2, replicate kNumTxQueues False) = (iv3, dw)"
    by fastforce
  define iv4 where "iv4 = (if rc \<noteq> 0 then
                  (let iv = (if abort then iv3 else tally (\<lambda>c. c\<lparr>txReclaimNonempty := txReclaimNonempty c + 1\<rparr>) iv3)
                   in iv\<lparr>ihw := (ihw iv)\<lparr>txNumFreeDesc := txNumFreeDesc (ihw iv) + rc\<rparr>\<rparr>)
                else iv3)"
  have "txRingReclaim abort iv = (if True \<in> set dw then tx_notify abort dw [0..<kNumTxQueues] iv4 else iv4)"
    using n0 l rc(1) unfolding txRingReclaim_def
    by (simp only: Let_def prod.case rc_def [symmetric] iv1_def [symmetric] iv2_def [symmetric] iv4_def [unfolded Let_def, symmetric])
  moreover obtain c4 where "iv4 = iv3\<lparr>ctr := c4, ihw := (ihw iv3)\<lparr>txNumFreeDesc := txNumFreeDesc (ihw iv3) + of_nat k\<rparr>\<rparr>"
  proof -
    have "\<exists>c. iv4 = iv3\<lparr>ctr := c, ihw := (ihw iv3)\<lparr>txNumFreeDesc := txNumFreeDesc (ihw iv3) + of_nat k\<rparr>\<rparr>"
      using rc(2) by (auto simp: iv4_def Let_def tally_def intro: exI [of _ "ctr iv3"])
    then show thesis using that by blast
  qed
  moreover obtain c e where "tx_notify abort dw [0..<kNumTxQueues] iv4 = iv4\<lparr>ctr := c, ndk := e @ ndk iv4\<rparr>"
      "concat (map ev_dealloc_tx e) = []"
    using tx_notify_frame by blast
  moreover define c' where "c' = (if True \<in> set dw then c else c4)"
  moreover define e' where "e' = (if True \<in> set dw then e else [])"
  ultimately have "txRingReclaim abort iv = iv3\<lparr>ctr := c', ndk := e' @ ndk iv3,
       ihw := (ihw iv3)\<lparr>txNumFreeDesc := txNumFreeDesc (ihw iv3) + of_nat k\<rparr>\<rparr>" "concat (map ev_dealloc_tx e') = []"
    by simp_all
  moreover have "iv2 = iv\<lparr>ctr := ctr iv1, ihw := (ihw iv)\<lparr>hist := (if abort then hist (ihw iv) else hs),
       txClosePtr0 := if abort then txTailPtr0 (ihw iv) else fst (run rtl812xGetHwCloPtr (ihw iv))\<rparr>\<rparr>"
    by (simp add: iv2_def iv1_def iv0 tally_def)
  ultimately show thesis
    using that l by blast
qed


lemma tx_inv_ptr:
  assumes "tx_inv iv"
  obtains b where "b \<in> {16, 31, 32}" "tp_MaxTxDescPtrMask (tp (ihw iv)) = mask b"
    "unat ((txTailPtr0 (ihw iv) - txClosePtr0 (ihw iv)) AND mask b) = tx_count iv"
proof -
  obtain b where b: "b \<in> {16, 31, 32}" "tp_MaxTxDescPtrMask (tp (ihw iv)) = mask b"
    using assms unfolding tx_inv_def by blast
  show thesis
    by (rule that [OF b]) (use assms b in \<open>simp add: tx_inv_def\<close>)
qed

lemma tx_reclaim_spec:
  assumes inv: "tx_inv iv" and k: "reclaim_count abort iv = k" "k \<le> tx_count iv"
  shows "tx_inv (txRingReclaim abort iv)"
    and "tx_flight (txRingReclaim abort iv) = drop k (tx_flight iv)"
    and "done_lists (txRingReclaim abort iv) = done_adds (take k (tx_flight iv)) (done_lists iv)"
    and "tx_places (tx_count (txRingReclaim abort iv)) (txRingReclaim abort iv) = tx_places (tx_count iv) iv"
    and "tx_count (txRingReclaim abort iv) = tx_count iv - k"
    and "pkts (txRingReclaim abort iv) = retired (take k (tx_flight iv)) (reclaim_status abort) (pkts iv)"
proof -
  obtain iv2 iv3 dw c0 c e hs where
    2: "iv2 = iv\<lparr>ctr := c0, ihw := (ihw iv)\<lparr>hist := hs,
       txClosePtr0 := if abort then txTailPtr0 (ihw iv) else fst (run rtl812xGetHwCloPtr (ihw iv))\<rparr>\<rparr>"
    and l: "(tx_reclaim_one abort ^^ k) (iv2, replicate kNumTxQueues False) = (iv3, dw)"
    and r: "txRingReclaim abort iv = iv3\<lparr>ctr := c, ndk := e @ ndk iv3,
       ihw := (ihw iv3)\<lparr>txNumFreeDesc := txNumFreeDesc (ihw iv3) + of_nat k\<rparr>\<rparr>"
    and e: "concat (map ev_dealloc_tx e) = []"
    by (rule tx_reclaim_frame [OF inv k])
  let ?n = "tx_count iv" and ?r = "txRingReclaim abort iv"
  have n: "?n \<le> 1024" "unat (txNumFreeDesc (ihw iv)) + ?n = 1024"
    using inv by (simp_all add: tx_inv_def tx_count_def)
  have w2: "tx_window m iv2 = tx_window m iv" for m
    by (rule tx_core_cong) (simp_all add: 2)
  have core2: "tx_core ?n iv2"
    by (rule tx_core_cong(2) [of _ iv]) (use inv in \<open>simp_all add: 2 tx_inv_def tx_core_def\<close>)
  have o2: "txDoneFifo iv2 = txDoneFifo iv" "ndk iv2 = ndk iv" "pkts iv2 = pkts iv"
    by (simp_all add: 2)
  note sp = tx_reclaim_loop [OF core2 k(2) l, unfolded w2 o2]
  obtain dd where hw3: "ihw iv3 = (ihw iv)\<lparr>hist := hs,
       txClosePtr0 := if abort then txTailPtr0 (ihw iv) else fst (run rtl812xGetHwCloPtr (ihw iv)),
       txDirtyDescIndex := dd\<rparr>"
    using conjunct1 [OF conjunct2 [OF conjunct2 [OF conjunct2 [OF conjunct2 [OF sp]]]]] by (simp add: 2)
  have k32: "unat (of_nat k :: u32) = k" using k(2) n(1) by (simp add: unat_of_nat)
  have fr: "unat (txNumFreeDesc (ihw ?r)) = unat (txNumFreeDesc (ihw iv)) + k"
  proof -
    have "unat (txNumFreeDesc (ihw iv)) + unat (of_nat k :: u32) < 2 ^ LENGTH(32)"
      using k(2) n k32 by simp
    then have "unat (txNumFreeDesc (ihw iv) + of_nat k) = unat (txNumFreeDesc (ihw iv)) + k"
      using k32 by (subst unat_plus_simple [THEN iffD1]) (simp_all add: no_olen_add_nat)
    then show ?thesis by (simp add: r hw3)
  qed
  show cnt: "tx_count ?r = ?n - k" using fr by (simp add: tx_count_def)
  have wr: "tx_window m ?r = tx_window m iv3" for m
    by (rule tx_core_cong) (simp_all add: r)
  show "tx_flight ?r = drop k (tx_flight iv)"
    using sp cnt wr by (simp add: tx_flight_def)
  show "done_lists ?r = done_adds (take k (tx_flight iv)) (done_lists iv)"
      "pkts ?r = retired (take k (tx_flight iv)) (reclaim_status abort) (pkts iv)"
    using sp by (simp_all add: r tx_flight_def)
  show "tx_places (tx_count ?r) ?r = tx_places ?n iv"
  proof -
    have "tx_places (?n - k) ?r = tx_places (?n - k) iv3"
      using e by (intro tx_places_cong) (simp_all add: wr, simp_all add: r tx_dealloc_def)
    also have "\<dots> = tx_places ?n iv2" using sp by blast
    also have "\<dots> = tx_places ?n iv"
      by (intro tx_places_cong) (simp_all add: w2 o2 tx_dealloc_def)
    finally show ?thesis by (simp add: cnt)
  qed
  have core: "tx_core (?n - k) ?r"
  proof (rule tx_core_cong(2) [of _ iv3])
    show "tx_core (?n - k) iv3" "\<forall>f \<in> set (txDoneFifo ?r). fifo_inv f"
      using sp by (auto simp: r tx_core_def)
  qed (simp_all add: r)
  obtain b where b: "b \<in> {16, 31, 32}" "tp_MaxTxDescPtrMask (tp (ihw iv)) = mask b"
    and tc: "unat ((txTailPtr0 (ihw iv) - txClosePtr0 (ihw iv)) AND mask b) = ?n"
    by (rule tx_inv_ptr [OF inv])
  let ?c = "if abort then txTailPtr0 (ihw iv) else fst (run rtl812xGetHwCloPtr (ihw iv))"
  have "unat ((?c - txClosePtr0 (ihw iv)) AND mask b) = k"
    using k(1) b(2) by (simp add: reclaim_count_def Let_def)
  then have adv: "unat ((txTailPtr0 (ihw iv) - ?c) AND mask b) = ?n - k"
    using b(1) by (intro ptr_advance [OF _ tc _ k(2)]) auto
  have eqs: "txTailPtr0 (ihw ?r) = txTailPtr0 (ihw iv)" "txClosePtr0 (ihw ?r) = ?c"
      "tp (ihw ?r) = tp (ihw iv)"
    by (simp_all add: r hw3)
  have le: "unat (txNumFreeDesc (ihw ?r)) \<le> 1024" using fr n k(2) by linarith
  show "tx_inv ?r"
    unfolding tx_inv_def cnt eqs b(2) by (intro conjI core le adv bexI [OF refl b(1)])
qed


subsection \<open>Submitting one packet\<close>

text \<open>
  A pool packet's buffer has the size the pool was created with. \<open>tx_sendable\<close>:
  the frame is at least an Ethernet header and lies inside the buffer.
\<close>

definition tx_pkt_ok :: "IOUserNetworkPacket \<Rightarrow> bool" where
  "tx_pkt_ok k \<longleftrightarrow> length (buffer k) = unat kTxBufferSize"

definition tx_sendable :: "IOUserNetworkPacket \<Rightarrow> bool" where
  "tx_sendable k \<longleftrightarrow> kMacHdrLen \<le> unat (dataLength k) \<and>
     fst (rtl8127TxBufferView (dataVA k) (dataIOVA k) (dataOff k) (dataLength k) kTxBufferSize)"

definition tx_same_meta :: "(pktid \<Rightarrow> IOUserNetworkPacket) \<Rightarrow> (pktid \<Rightarrow> IOUserNetworkPacket) \<Rightarrow> bool" where
  "tx_same_meta ks ks' \<longleftrightarrow> (\<forall>p. dataLength (ks' p) = dataLength (ks p) \<and> dataOff (ks' p) = dataOff (ks p) \<and>
     dataVA (ks' p) = dataVA (ks p) \<and> dataIOVA (ks' p) = dataIOVA (ks p) \<and>
     length (buffer (ks' p)) = length (buffer (ks p)))"

lemma tx_same_meta_refl: "tx_same_meta ks ks"
  by (simp add: tx_same_meta_def)

lemma tx_same_meta_trans: "tx_same_meta a b \<Longrightarrow> tx_same_meta b c \<Longrightarrow> tx_same_meta a c"
  by (simp add: tx_same_meta_def)

lemma tx_same_metaD:
  assumes "tx_same_meta ks ks'"
  shows "tx_pkt_ok (ks' p) = tx_pkt_ok (ks p)" "tx_sendable (ks' p) = tx_sendable (ks p)"
    "dataLength (ks' p) = dataLength (ks p)"
  using assms by (simp_all add: tx_same_meta_def tx_pkt_ok_def tx_sendable_def)

lemma view_in_buffer:
  assumes "fst (rtl8127TxBufferView va io off len cap)"
  shows "unat off + unat len \<le> unat cap"
  using assms unfolding rtl8127TxBufferView_def Let_def view_guard by (simp split: if_splits)

lemma tx_sendable_bounds:
  assumes "tx_sendable k" "tx_pkt_ok k"
  shows "unat (dataLength k) \<le> length (drop (unat (dataOff k)) (buffer k))"
    "unat (dataOff k) \<le> length (buffer k)" "14 \<le> unat (dataLength k)" "unat (dataLength k) \<le> 32768"
  using assms view_in_buffer [of "dataVA k" "dataIOVA k" "dataOff k" "dataLength k" kTxBufferSize]
  by (simp_all add: tx_sendable_def tx_pkt_ok_def kTxBufferSize_def kMacHdrLen_def)

lemma tso_frame_long:
  assumes "len - 14 > m" "78 \<le> unat m" "14 \<le> unat (len :: u32)"
  shows "92 < unat len"
proof -
  have "unat (len - 14) = unat len - 14"
    using assms(3) by (simp add: unat_sub word_le_nat_alt)
  then show ?thesis using assms(1,2) by (simp add: word_less_nat_alt)
qed

lemma tx_offload_defined:
  assumes "14 \<le> unat (dataLength k)" "unat (dataLength k) \<le> length f" "78 \<le> unat (mtu iv)"
  shows "\<exists>f' cmd o2 upd. tx_offload iv k f = Some (f', cmd, o2, upd) \<and> length f' = length f"
proof (cases "tsoEnabled iv \<and> (tsoIPV4 k \<or> tsoIPV6 k) \<and> dataLength k - of_nat kMacHdrLen > mtu iv")
  case True
  then have "92 \<le> length f"
    using tso_frame_long [of "mtu iv" "dataLength k"] assms by (simp add: kMacHdrLen_def)
  then show ?thesis
    using True prepareTSO4_defined [of f] prepareTSO6_defined [of f]
    by (auto simp: tx_offload_def Let_def)
next
  case False
  obtain ok f' o2 where p: "txPartialChecksum True f (unat (dataLength k)) (csStart k) (csStuff k) = Some (ok, f', o2)"
    using txPartialChecksum_defined [OF assms(2), of True "csStart k" "csStuff k"] by auto
  show ?thesis
    using False p txPartialChecksum_length [OF p] unfolding tx_offload_def Let_def by (cases "csPartial k") auto
qed

lemma tx_log_odd_defined: "len \<le> length f \<Longrightarrow> \<exists>c'. tx_log_odd f len c = Some c'"
  by (auto simp: tx_log_odd_def rd_def Let_def)

lemma tx_log_syn_defined: "len \<le> length f \<Longrightarrow> \<exists>c'. tx_log_syn f len c = Some c'"
  using describeTcpSyn_defined [of len f True] by (auto simp: tx_log_syn_def)


text \<open>Operations that leave the ring alone.\<close>

definition tx_hw_same :: "hw \<Rightarrow> hw \<Rightarrow> bool" where
  "tx_hw_same h h' \<longleftrightarrow> txDirtyDescIndex h' = txDirtyDescIndex h \<and> txNextDescIndex h' = txNextDescIndex h \<and>
     txNumFreeDesc h' = txNumFreeDesc h \<and> txTailPtr0 h' = txTailPtr0 h \<and> txClosePtr0 h' = txClosePtr0 h \<and>
     tp_MaxTxDescPtrMask (tp h') = tp_MaxTxDescPtrMask (tp h)"

lemma tx_hw_same_refl [simp]: "tx_hw_same h h"
  by (simp add: tx_hw_same_def)

lemma tx_inv_cong:
  assumes inv: "tx_inv iv" and hw: "tx_hw_same (ihw iv) (ihw iv')"
    and s: "txPkt iv' = txPkt iv" "txPktQueue iv' = txPktQueue iv" "txPktLen iv' = txPktLen iv"
      "txRing iv' = txRing iv" "txInflightBytes iv' = txInflightBytes iv"
    and f: "length (txDoneFifo iv') = length (txDoneFifo iv)" "\<forall>f \<in> set (txDoneFifo iv'). fifo_inv f"
  shows "tx_inv iv'" "tx_flight iv' = tx_flight iv" "tx_count iv' = tx_count iv"
proof -
  show c: "tx_count iv' = tx_count iv"
    using hw by (simp add: tx_count_def tx_hw_same_def)
  have h: "txDirtyDescIndex (ihw iv') = txDirtyDescIndex (ihw iv)" "txNextDescIndex (ihw iv') = txNextDescIndex (ihw iv)"
    using hw by (simp_all add: tx_hw_same_def)
  show "tx_flight iv' = tx_flight iv"
    using tx_core_cong(1) [OF s h] c by (simp add: tx_flight_def)
  show "tx_inv iv'"
    using tx_core_cong(2) [OF s h f] inv hw c by (simp add: tx_inv_def tx_hw_same_def)
qed

lemma ptr_bump:
  fixes t c :: u32
  assumes "b \<le> 32" "unat ((t - c) AND mask b) = n" "Suc n < 2 ^ b"
  shows "unat ((t + 1 - c) AND mask b) = Suc n"
proof -
  have "unat ((t - c + 1) AND mask b) = (unat (t - c) + 1) mod 2 ^ b"
    using assms(1) by (intro unat_plus1_and_mask) simp
  also have "\<dots> = (n + 1) mod 2 ^ b"
    using assms(2) by (simp add: unat_and_mask_eq_mod) (metis mod_Suc_eq)
  finally show ?thesis
    using assms(3) by (simp add: algebra_simps)
qed

lemma tx_inv_post:
  assumes inv: "tx_inv iv" and n: "tx_count iv < 1024" and q: "q < 4" and l: "unat len \<le> 32768"
    and iv'_def: "iv' = tx_post q p len a cmd o2 iv"
  shows "tx_inv iv'" "tx_flight iv' = tx_flight iv @ [(Some p, of_nat q, len)]" "tx_count iv' = Suc (tx_count iv)"
proof -
  have core: "tx_core (tx_count iv) iv" using inv by (simp add: tx_inv_def)
  have fr: "unat (txNumFreeDesc (ihw iv)) \<le> 1024" "unat (txNumFreeDesc (ihw iv)) \<noteq> 0"
    using inv n by (simp_all add: tx_inv_def tx_count_def)
  then have "unat (txNumFreeDesc (ihw iv) - 1) = unat (txNumFreeDesc (ihw iv)) - 1"
    by (intro unat_minus_one) auto
  then have f': "unat (txNumFreeDesc (ihw iv')) = unat (txNumFreeDesc (ihw iv)) - 1"
    by (simp add: iv'_def)
  then show c: "tx_count iv' = Suc (tx_count iv)" using fr by (simp add: tx_count_def)
  show "tx_flight iv' = tx_flight iv @ [(Some p, of_nat q, len)]"
    using tx_window_post [OF core n] c by (simp add: tx_flight_def iv'_def)
  obtain b where b: "b \<in> {16, 31, 32}" "tp_MaxTxDescPtrMask (tp (ihw iv)) = mask b"
    "unat ((txTailPtr0 (ihw iv) - txClosePtr0 (ihw iv)) AND mask b) = tx_count iv"
    by (rule tx_inv_ptr [OF inv])
  have "Suc (tx_count iv) < 2 ^ b" using b(1) n by auto
  then have "unat ((txTailPtr0 (ihw iv) + 1 - txClosePtr0 (ihw iv)) AND mask b) = Suc (tx_count iv)"
    using b by (intro ptr_bump) auto
  then have ptr: "unat ((txTailPtr0 (ihw iv') - txClosePtr0 (ihw iv')) AND mask b) = Suc (tx_count iv)"
    by (simp add: iv'_def)
  have core': "tx_core (Suc (tx_count iv)) iv'"
    unfolding iv'_def by (rule tx_core_post [OF core n q l])
  have tp': "tp (ihw iv') = tp (ihw iv)" by (simp add: iv'_def)
  have le: "unat (txNumFreeDesc (ihw iv')) \<le> 1024" using fr f' by linarith
  show "tx_inv iv'"
    unfolding tx_inv_def c tp' b(2) by (intro conjI core' le ptr bexI [OF refl b(1)])
qed


lemma tx_one_bad:
  assumes "\<not> tx_sendable (pkts iv p)"
  shows "tx_one q p iv = Some (tx_complete_bad q p iv)"
  using assms
  by (auto simp: tx_one_def tx_sendable_def Let_def split: prod.splits)

lemma tx_one_good:
  assumes s: "tx_sendable (pkts iv p)" and ok: "tx_pkt_ok (pkts iv p)" and m: "78 \<le> unat (mtu iv)"
  obtains a cmd o2 c1 c2 ks f' upd where
    "tx_one q p iv = Some ((tx_post q p (dataLength (pkts iv p)) a cmd o2 (iv\<lparr>ctr := c1, pkts := ks\<rparr>))\<lparr>ctr := c2\<rparr>)"
    "tx_same_meta (pkts iv) ks" "unat a = unat (dataIOVA (pkts iv p)) + unat (dataOff (pkts iv p))"
    "tx_offload iv (pkts iv p) (drop (unat (dataOff (pkts iv p))) (buffer (pkts iv p))) = Some (f', cmd, o2, upd)"
proof -
  let ?k = "pkts iv p"
  let ?f = "drop (unat (dataOff ?k)) (buffer ?k)"
  note bd = tx_sendable_bounds [OF s ok]
  obtain v where v: "rtl8127TxBufferView (dataVA ?k) (dataIOVA ?k) (dataOff ?k) (dataLength ?k) kTxBufferSize = (True, v)"
    using s by (cases "rtl8127TxBufferView (dataVA ?k) (dataIOVA ?k) (dataOff ?k) (dataLength ?k) kTxBufferSize")
      (auto simp: tx_sendable_def)
  have a: "unat (iova v) = unat (dataIOVA ?k) + unat (dataOff ?k)"
    using v unfolding rtl8127TxBufferView_def Let_def view_guard
    by (auto simp: unat_plus_no_wrap split: if_splits)
  obtain c1 where c1: "tx_log_odd ?f (unat (dataLength ?k)) (ctr iv) = Some c1"
    using tx_log_odd_defined [OF bd(1)] by blast
  obtain f' cmd o2 upd where f': "tx_offload iv ?k ?f = Some (f', cmd, o2, upd)" "length f' = length ?f"
    using tx_offload_defined [OF bd(3,1) m] by blast
  have syn: "\<exists>c. tx_log_syn f' (unat (dataLength ?k)) c2 = Some c" for c2
    using tx_log_syn_defined [of "unat (dataLength ?k)" f'] f'(2) bd(1) by simp
  have meta: "tx_same_meta (pkts iv) ((pkts iv)(p := ?k\<lparr>buffer := take (unat (dataOff ?k)) (buffer ?k) @ f'\<rparr>))"
    using bd(2) f'(2) by (simp add: tx_same_meta_def)
  have len: "\<not> unat (dataLength ?k) < kMacHdrLen" using bd(3) by (simp add: kMacHdrLen_def)
  let ?iv1 = "iv\<lparr>ctr := upd c1, pkts := (pkts iv)(p := ?k\<lparr>buffer := take (unat (dataOff ?k)) (buffer ?k) @ f'\<rparr>)\<rparr>"
  obtain c2 where "tx_one q p iv = Some ((tx_post q p (dataLength ?k) (iova v) cmd o2 ?iv1)\<lparr>ctr := c2\<rparr>)"
    using v c1 f'(1) syn len unfolding tx_one_def Let_def
    by (simp add: set_pkt_def) (metis option.simps(5) bind.bind_lunit)
  then show thesis
    using that meta a f'(1) by blast
qed


subsection \<open>Submitting a batch\<close>

lemma tx_no_space_iff:
  assumes "tx_inv iv"
  shows "tx_no_space iv \<longleftrightarrow> 1022 \<le> tx_count iv \<or> 4194304 \<le> unat (txInflightBytes iv)"
proof -
  have le: "unat (txInflightBytes iv) \<le> 32768 * 1024" "unat (txNumFreeDesc (ihw iv)) \<le> 1024"
    using assms tx_core_bytes [of "tx_count iv" iv] by (auto simp: tx_inv_def tx_count_def)
  have s: "sint (txInflightBytes iv) = int (unat (txInflightBytes iv))"
      "sint (txNumFreeDesc (ihw iv)) = int (unat (txNumFreeDesc (ihw iv)))"
    by (rule sint_small, use le in simp)+
  show ?thesis
    unfolding tx_no_space_def tx_count_def kTxInflightBytesLimit_def s using le(2) by linarith
qed

text \<open>The frames of a batch that enter the ring, and those that are completed at once.\<close>

definition tx_sent :: "nat \<Rightarrow> (pktid \<Rightarrow> IOUserNetworkPacket) \<Rightarrow> pktid list \<Rightarrow> tx_slot list" where
  "tx_sent q ks ps = map (\<lambda>p. (Some p, of_nat q, dataLength (ks p))) (filter (\<lambda>p. tx_sendable (ks p)) ps)"

definition tx_rejected :: "nat \<Rightarrow> (pktid \<Rightarrow> IOUserNetworkPacket) \<Rightarrow> pktid list \<Rightarrow> pktid list list \<Rightarrow> pktid list list" where
  "tx_rejected q ks ps ds = foldl (\<lambda>ds p. done_add q p ds) ds (filter (\<lambda>p. \<not> tx_sendable (ks p)) ps)"

definition tx_effect :: "nat \<Rightarrow> pktid list \<Rightarrow> RTL8127Driver_IVars \<Rightarrow> RTL8127Driver_IVars \<Rightarrow> bool" where
  "tx_effect q ps iv iv' \<longleftrightarrow> tx_inv iv' \<and>
     tx_flight iv' = tx_flight iv @ tx_sent q (pkts iv) ps \<and>
     done_lists iv' = tx_rejected q (pkts iv) ps (done_lists iv) \<and>
     tx_places (tx_count iv') iv' = tx_places (tx_count iv) iv + mset ps \<and>
     tx_same_meta (pkts iv) (pkts iv') \<and> mtu iv' = mtu iv \<and> linkUp iv' = linkUp iv \<and>
     (unat (txInflightBytes iv) < 4227072 \<longrightarrow> unat (txInflightBytes iv') < 4227072)"

lemma tx_effect_refl: "tx_inv iv \<Longrightarrow> tx_effect q [] iv iv"
  by (simp add: tx_effect_def tx_sent_def tx_rejected_def tx_same_meta_refl)

lemma tx_effect_trans:
  assumes "tx_effect q ps iv iv'" "tx_effect q ps' iv' iv''"
  shows "tx_effect q (ps @ ps') iv iv''"
proof -
  have m: "tx_same_meta (pkts iv) (pkts iv')" using assms(1) by (simp add: tx_effect_def)
  have "tx_sent q (pkts iv') ps' = tx_sent q (pkts iv) ps'"
      "tx_rejected q (pkts iv') ps' ds = tx_rejected q (pkts iv) ps' ds" for ds
    using tx_same_metaD [OF m] by (simp_all add: tx_sent_def tx_rejected_def)
  moreover have "tx_same_meta (pkts iv) (pkts iv'')"
    using tx_same_meta_trans m assms(2) unfolding tx_effect_def by blast
  ultimately show ?thesis
    using assms by (simp add: tx_effect_def tx_sent_def tx_rejected_def union_ac)
qed

lemma tx_effect_bad:
  assumes inv: "tx_inv iv" and q: "q < 4" and s: "\<not> tx_sendable (pkts iv p)"
  shows "tx_effect q [p] iv (tx_complete_bad q p iv)"
proof -
  have core: "tx_core (tx_count iv) iv" using inv by (simp add: tx_inv_def)
  note sp = tx_complete_bad_spec [OF core q, of p]
  have f: "\<forall>f \<in> set (txDoneFifo (tx_complete_bad q p iv)). fifo_inv f"
    "length (txDoneFifo (tx_complete_bad q p iv)) = length (txDoneFifo iv)"
    using sp(1) core by (simp_all add: tx_core_def)
  have c: "tx_inv (tx_complete_bad q p iv)" "tx_flight (tx_complete_bad q p iv) = tx_flight iv"
      "tx_count (tx_complete_bad q p iv) = tx_count iv"
    by (rule tx_inv_cong [OF inv _ _ _ _ _ _ f(2,1)];
        simp add: sp(5) tx_complete_bad_def Let_def set_pkt_def tally_def signal_def split: prod.split)+
  have b: "txInflightBytes (tx_complete_bad q p iv) = txInflightBytes iv"
    by (simp add: tx_complete_bad_def Let_def set_pkt_def tally_def signal_def split: prod.split)
  show ?thesis
    using c sp s b by (simp add: tx_effect_def tx_sent_def tx_rejected_def tx_same_meta_def)
qed


lemma tx_effect_good:
  assumes inv: "tx_inv iv" and q: "q < 4" and s: "tx_sendable (pkts iv p)" and ok: "tx_pkt_ok (pkts iv p)"
    and m: "78 \<le> unat (mtu iv)" and sp: "\<not> tx_no_space iv"
  obtains iv' where "tx_one q p iv = Some iv'" "tx_effect q [p] iv iv'"
proof -
  let ?len = "dataLength (pkts iv p)"
  obtain a cmd o2 c1 c2 ks f' upd where
    one: "tx_one q p iv = Some ((tx_post q p ?len a cmd o2 (iv\<lparr>ctr := c1, pkts := ks\<rparr>))\<lparr>ctr := c2\<rparr>)"
    and ks: "tx_same_meta (pkts iv) ks" "unat a = unat (dataIOVA (pkts iv p)) + unat (dataOff (pkts iv p))"
    "tx_offload iv (pkts iv p) (drop (unat (dataOff (pkts iv p))) (buffer (pkts iv p))) = Some (f', cmd, o2, upd)"
    by (rule tx_one_good [OF s ok m])
  define iv1 where "iv1 = iv\<lparr>ctr := c1, pkts := ks\<rparr>"
  define iv2 where "iv2 = tx_post q p ?len a cmd o2 iv1"
  have f: "\<forall>f \<in> set (txDoneFifo iv). fifo_inv f" using inv by (simp add: tx_inv_def tx_core_def)
  have 1: "tx_inv iv1" "tx_flight iv1 = tx_flight iv" "tx_count iv1 = tx_count iv"
    by (rule tx_inv_cong [OF inv]; simp add: iv1_def f)+
  have cnt: "tx_count iv1 < 1024" and b: "unat (txInflightBytes iv) < 4194304"
    using sp 1(3) by (simp_all add: tx_no_space_iff [OF inv])
  have l: "unat ?len \<le> 32768" by (rule tx_sendable_bounds [OF s ok])
  note 2 = tx_inv_post [OF 1(1) cnt q l iv2_def]
  define iv3 where "iv3 = iv2\<lparr>ctr := c2\<rparr>"
  have f2: "\<forall>f \<in> set (txDoneFifo iv2). fifo_inv f" using 2(1) by (simp add: tx_inv_def tx_core_def)
  have 3: "tx_inv iv3" "tx_flight iv3 = tx_flight iv2" "tx_count iv3 = tx_count iv2"
    by (rule tx_inv_cong [OF 2(1)]; simp add: iv3_def f2)+
  have o: "txDoneFifo iv3 = txDoneFifo iv" "ndk iv3 = ndk iv" "pkts iv3 = ks" "mtu iv3 = mtu iv" "linkUp iv3 = linkUp iv"
    by (simp_all add: iv3_def iv2_def iv1_def)
  have fl: "tx_flight iv3 = tx_flight iv @ [(Some p, of_nat q, ?len)]"
    using 1 2 3 by simp
  have "tx_places (tx_count iv3) iv3 = tx_places (tx_count iv) iv + {#p#}"
    using fl o by (simp add: tx_places_def tx_done_def tx_dealloc_def tx_flight_def)
  moreover have "unat (txInflightBytes iv3) < 4227072"
  proof -
    have "txInflightBytes iv3 = txInflightBytes iv + ucast ?len"
      by (simp add: iv3_def iv2_def iv1_def tx_post_def Let_def)
    then show ?thesis
      using b l unat_plus_no_wrap [of "txInflightBytes iv" "ucast ?len"] by simp
  qed
  ultimately have "tx_effect q [p] iv iv3"
    using fl o ks 3 s by (simp add: tx_effect_def tx_sent_def tx_rejected_def)
  then show thesis
    using that one by (simp add: iv3_def iv2_def iv1_def)
qed

lemma tx_dequeue_loop_spec:
  assumes "tx_inv iv" "q < 4" "\<forall>p \<in> set ps. tx_pkt_ok (pkts iv p)" "78 \<le> unat (mtu iv)"
  shows "\<exists>m iv' c. m \<le> length ps \<and>
    tx_dequeue_loop q ps acc iv = Some (acc + of_nat m, iv'\<lparr>ctr := c\<rparr>) \<and> tx_effect q (take m ps) iv iv' \<and>
    (m < length ps \<longrightarrow> tx_no_space iv')"
  using assms
proof (induction ps arbitrary: acc iv)
  case Nil
  then show ?case
    by (intro exI [of _ 0] exI [of _ iv] exI [of _ "ctr iv"]) (simp add: tx_effect_refl)
next
  case (Cons p ps)
  show ?case
  proof (cases "tx_no_space iv")
    case True
    then show ?thesis
      by (intro exI [of _ 0] exI [of _ iv]) (auto simp: tx_effect_refl Cons.prems tally_def)
  next
    case False
    have "\<exists>iv1. tx_one q p iv = Some iv1 \<and> tx_effect q [p] iv iv1"
    proof (cases "tx_sendable (pkts iv p)")
      case True
      show ?thesis
        by (rule tx_effect_good [OF Cons.prems(1,2) True _ Cons.prems(4) False]) (use Cons.prems(3) in auto)
    qed (use tx_one_bad tx_effect_bad Cons.prems in blast)
    then obtain iv1 where 1: "tx_one q p iv = Some iv1" "tx_effect q [p] iv iv1" by blast
    then have "tx_inv iv1" "\<forall>p \<in> set ps. tx_pkt_ok (pkts iv1 p)" "78 \<le> unat (mtu iv1)"
      using Cons.prems(3,4) by (auto simp: tx_effect_def tx_same_metaD)
    from Cons.IH [OF this(1) Cons.prems(2) this(2,3), of "acc + 1"]
    obtain m iv' c where ih: "m \<le> length ps"
        "tx_dequeue_loop q ps (acc + 1) iv1 = Some (acc + 1 + of_nat m, iv'\<lparr>ctr := c\<rparr>)"
        "tx_effect q (take m ps) iv1 iv'" "m < length ps \<longrightarrow> tx_no_space iv'"
      by blast
    have "tx_effect q (p # take m ps) iv iv'"
      using tx_effect_trans [OF 1(2) ih(3)] by simp
    then show ?thesis
      using False 1(1) ih by (intro exI [of _ "Suc m"] exI [of _ iv'] exI [of _ c]) (simp add: add_ac)
  qed
qed


subsection \<open>The queue actions\<close>

lemma doorbell_frame: "\<exists>hs. snd (run (rtl812xDoorbell t) h) = h\<lparr>hist := hs\<rparr>"
  by (auto simp: rtl812xDoorbell_def hw_defs fst_run_bind snd_run_bind)

lemma tx_observe_frame: "\<exists>c. tx_observe ps iv = iv\<lparr>ctr := c\<rparr>"
proof (induction ps arbitrary: iv)
  case Nil
  show ?case by (rule exI [of _ "ctr iv"]) simp
next
  case (Cons p ps)
  obtain c where c: "(if dataOff (pkts iv p) \<noteq> 0
     then tally (\<lambda>c. c\<lparr>txNonzeroDataOffset := txNonzeroDataOffset c + 1,
            offLogged := offLogged c + (if offLogged c < 12 then 1 else 0)\<rparr>) iv
     else iv) = iv\<lparr>ctr := c\<rparr>"
    by (cases "dataOff (pkts iv p) \<noteq> 0") (auto simp: tally_def intro: that [of "ctr iv"])
  show ?case
    using Cons.IH [of "iv\<lparr>ctr := c\<rparr>"] unfolding tx_observe.simps c by auto
qed

lemma tx_places_flight:
  "tx_places (tx_count iv) iv = mset (map (the \<circ> fst) (tx_flight iv)) + mset (tx_done iv) + mset (tx_dealloc iv)"
  by (simp add: tx_places_def tx_flight_def)

lemma tx_effect_cong:
  assumes e: "tx_effect q ps iv iv'" and
    i: "iv0 = iv\<lparr>txLock := l0, ctr := c0\<rparr>" and
    j: "iv1 = iv'\<lparr>ctr := c1, ihw := (ihw iv')\<lparr>hist := hs\<rparr>, txLock := l1\<rparr>"
  shows "tx_effect q ps iv0 iv1"
proof -
  have inv: "tx_inv iv'" using e by (simp add: tx_effect_def)
  have f: "\<forall>f \<in> set (txDoneFifo iv'). fifo_inv f" using inv by (simp add: tx_inv_def tx_core_def)
  have 1: "tx_inv iv1" "tx_flight iv1 = tx_flight iv'" "tx_count iv1 = tx_count iv'"
    by (rule tx_inv_cong [OF inv]; simp add: j f tx_hw_same_def)+
  have 0: "tx_flight iv0 = tx_flight iv" "tx_count iv0 = tx_count iv"
    by (simp_all add: i tx_flight_def tx_count_def tx_window_def tx_slots_def)
  have p: "tx_places (tx_count iv0) iv0 = tx_places (tx_count iv) iv"
      "tx_places (tx_count iv1) iv1 = tx_places (tx_count iv') iv'"
    unfolding tx_places_flight unfolding 0(1) 1(2) by (simp_all add: i j tx_done_def tx_dealloc_def)
  show ?thesis
    using e 0 1 p by (simp add: tx_effect_def) (simp add: i j)
qed

lemma tx_action_spec:
  assumes inv: "tx_inv iv" and lu: "linkUp iv" and ok: "\<forall>p \<in> set ps. tx_pkt_ok (pkts iv p)"
    and m: "78 \<le> unat (mtu iv)"
  obtains n iv' where "n \<le> length ps" "txDequeueAction queue ps iv = Some (of_nat n, iv')"
    "tx_effect (txQueueIndex iv queue) (take n ps) iv iv'" "\<not> txLock iv'"
    "n < length ps \<Longrightarrow> 1022 \<le> tx_count iv' \<or> 4194304 \<le> unat (txInflightBytes iv')"
proof -
  let ?q = "txQueueIndex iv queue"
  have q: "?q < 4" using txQueueIndex_less [of iv queue] by (simp add: kNumTxQueues_def)
  have f: "\<forall>f \<in> set (txDoneFifo iv). fifo_inv f" using inv by (simp add: tx_inv_def tx_core_def)
  obtain c0 where 0: "tx_observe ps (tally (\<lambda>c. c\<lparr>txDequeueCalls := bump (txDequeueCalls c) ?q 1,
                txPerQueue := bump (txPerQueue c) ?q (of_nat (length ps))\<rparr>) (iv\<lparr>txLock := True\<rparr>))
      = iv\<lparr>txLock := True, ctr := c0\<rparr>"
    using tx_observe_frame [of ps "tally (\<lambda>c. c\<lparr>txDequeueCalls := bump (txDequeueCalls c) ?q 1,
                txPerQueue := bump (txPerQueue c) ?q (of_nat (length ps))\<rparr>) (iv\<lparr>txLock := True\<rparr>)"]
    by (auto simp: tally_def)
  define iv0 where "iv0 = iv\<lparr>txLock := True, ctr := c0\<rparr>"
  have i0: "tx_inv iv0" by (rule tx_inv_cong [OF inv]) (simp_all add: iv0_def f)
  obtain n iv1 c where l: "n \<le> length ps" "tx_dequeue_loop ?q ps 0 iv0 = Some (of_nat n, iv1\<lparr>ctr := c\<rparr>)"
      "tx_effect ?q (take n ps) iv0 iv1" "n < length ps \<longrightarrow> tx_no_space iv1"
    using tx_dequeue_loop_spec [OF i0 q, of ps 0] ok m by (auto simp: iv0_def)
  obtain iv' c' hs where e: "txDequeueAction queue ps iv = Some (of_nat n, iv')"
      "iv' = iv1\<lparr>ctr := c', ihw := (ihw iv1)\<lparr>hist := hs\<rparr>, txLock := False\<rparr>"
  proof -
    define iv2 where "iv2 = (if txSubmitted c \<noteq> txSubmitted (ctr iv)
        then tally (\<lambda>c. c\<lparr>txNonemptyCalls := txNonemptyCalls c + 1\<rparr>) (iv1\<lparr>ctr := c\<rparr>) else iv1\<lparr>ctr := c\<rparr>)"
    have "\<exists>c2. iv2 = iv1\<lparr>ctr := c2\<rparr>" by (auto simp: iv2_def tally_def)
    then obtain c2 where 2: "iv2 = iv1\<lparr>ctr := c2\<rparr>" ..
    define iv3 where "iv3 = (if of_nat n \<noteq> (0 :: u32) then do_hw (rtl812xDoorbell (txTailPtr0 (ihw iv2))) iv2 else iv2)"
    obtain hs where hs: "snd (run (rtl812xDoorbell (txTailPtr0 (ihw iv1))) (ihw iv1)) = (ihw iv1)\<lparr>hist := hs\<rparr>"
      using doorbell_frame by blast
    have "\<exists>hs. iv3 = iv1\<lparr>ctr := c2, ihw := (ihw iv1)\<lparr>hist := hs\<rparr>\<rparr>"
      by (cases "of_nat n \<noteq> (0 :: u32)")
        (auto simp: iv3_def 2 do_hw_def hs intro: exI [of _ hs] exI [of _ "hist (ihw iv1)"])
    then obtain hs' where 3: "iv3 = iv1\<lparr>ctr := c2, ihw := (ihw iv1)\<lparr>hist := hs'\<rparr>\<rparr>" ..
    have "txDequeueAction queue ps iv = Some (of_nat n, iv3\<lparr>txLock := False\<rparr>)"
      using lu l(2) unfolding txDequeueAction_def Let_def 0 iv0_def [symmetric]
      by (simp add: iv0_def) (simp add: iv3_def iv2_def)
    then show thesis using that 3 by simp
  qed
  have "tx_effect ?q (take n ps) iv iv'"
    by (rule tx_effect_cong [OF l(3) _ e(2), of _ "ctr iv" "txLock iv"]) (simp add: iv0_def)
  moreover have "tx_count iv' = tx_count iv1" "txInflightBytes iv' = txInflightBytes iv1" "\<not> txLock iv'"
    by (simp_all add: e(2) tx_count_def)
  moreover have "tx_inv iv1" using l(3) by (simp add: tx_effect_def)
  ultimately show thesis
    using that [OF l(1) e(1)] l(4) tx_no_space_iff by auto
qed


subsection \<open>What completion leaves alone\<close>

definition tx_frame :: "RTL8127Driver_IVars \<Rightarrow> RTL8127Driver_IVars \<Rightarrow> bool" where
  "tx_frame iv iv' \<longleftrightarrow> mtu iv' = mtu iv \<and> linkUp iv' = linkUp iv \<and> interfaceEnabled iv' = interfaceEnabled iv \<and>
     fiberMode iv' = fiberMode iv \<and> rxRing iv' = rxRing iv \<and> rxPkt iv' = rxPkt iv \<and> rxDoneFifo iv' = rxDoneFifo iv \<and>
     rxFreeFifo iv' = rxFreeFifo iv \<and> rxPool iv' = rxPool iv \<and> txSubQueues iv' = txSubQueues iv \<and>
     txCompQueues iv' = txCompQueues iv \<and> rxSubQueue iv' = rxSubQueue iv \<and> rxCompQueue iv' = rxCompQueue iv \<and>
     txLock iv' = txLock iv \<and> mediaArray iv' = mediaArray iv \<and> currentMedia iv' = currentMedia iv \<and>
     tsoEnabled iv' = tsoEnabled iv \<and> txRing iv' = txRing iv \<and> ndk_alloc iv' = ndk_alloc iv \<and>
     rxNextDescIndex (ihw iv') = rxNextDescIndex (ihw iv) \<and> tp (ihw iv') = tp (ihw iv) \<and> chip (ihw iv') = chip (ihw iv)"

lemma tx_frame_refl [simp]: "tx_frame iv iv"
  by (simp add: tx_frame_def)

lemma tx_frame_trans: "tx_frame a b \<Longrightarrow> tx_frame b c \<Longrightarrow> tx_frame a c"
  by (simp add: tx_frame_def)

lemma done_fifo_simps:
  "txDoneFifo (tally f b) = txDoneFifo b" "txDoneFifo (set_pkt p g b) = txDoneFifo b"
  "ihw (tally f b) = ihw b" "ihw (set_pkt p g b) = ihw b" "ihw (signal e b) = ihw b"
  by (simp_all add: tally_def set_pkt_def signal_def)

lemma tx_frame_simps:
  "tx_frame a (tally f b) = tx_frame a b" "tx_frame a (set_pkt p g b) = tx_frame a b"
  "tx_frame a (signal e b) = tx_frame a b" "tx_frame a (b\<lparr>txPkt := x1\<rparr>) = tx_frame a b"
  "tx_frame a (b\<lparr>txInflightBytes := x2\<rparr>) = tx_frame a b" "tx_frame a (b\<lparr>txDoneFifo := x3\<rparr>) = tx_frame a b"
  "tx_frame a (b\<lparr>txDropWarned := x4\<rparr>) = tx_frame a b"
  "rxNextDescIndex h = rxNextDescIndex (ihw b) \<Longrightarrow> tp h = tp (ihw b) \<Longrightarrow> chip h = chip (ihw b) \<Longrightarrow>
     tx_frame a (b\<lparr>ihw := h\<rparr>) = tx_frame a b"
  by (simp_all add: tx_frame_def tally_def set_pkt_def signal_def)

lemma tx_frame_reclaim_one: "tx_frame (fst x) (fst (tx_reclaim_one abort x))"
proof -
  obtain iv dw where x: "x = (iv, dw)" by fastforce
  show ?thesis
  proof (cases "txPkt iv ! unat (txDirtyDescIndex (ihw iv))")
    case (Some p)
    obtain ok f where "fifoPush (txDoneFifo iv ! (if unat (txPktQueue iv ! unat (txDirtyDescIndex (ihw iv))) < kNumTxQueues
        then unat (txPktQueue iv ! unat (txDirtyDescIndex (ihw iv))) else 0)) p = (ok, f)" by fastforce
    then show ?thesis
      using Some x by (cases ok) (simp_all add: tx_reclaim_one_def Let_def tx_frame_simps done_fifo_simps)
  qed (simp add: x tx_reclaim_one_def Let_def tx_frame_simps done_fifo_simps)
qed

lemma tx_frame_reclaim_loop: "tx_frame (fst x) (fst ((tx_reclaim_one abort ^^ n) x))"
proof (induction n)
  case (Suc n)
  then show ?case using tx_frame_trans [OF Suc tx_frame_reclaim_one] by simp
qed simp

lemma tx_frame_reclaim:
  assumes "tx_inv iv" "reclaim_count abort iv \<le> tx_count iv"
  shows "tx_frame iv (txRingReclaim abort iv)"
proof -
  obtain iv2 iv3 dw c0 c e hs where
    2: "iv2 = iv\<lparr>ctr := c0, ihw := (ihw iv)\<lparr>hist := hs,
       txClosePtr0 := if abort then txTailPtr0 (ihw iv) else fst (run rtl812xGetHwCloPtr (ihw iv))\<rparr>\<rparr>"
    and l: "(tx_reclaim_one abort ^^ reclaim_count abort iv) (iv2, replicate kNumTxQueues False) = (iv3, dw)"
    and r: "txRingReclaim abort iv = iv3\<lparr>ctr := c, ndk := e @ ndk iv3,
       ihw := (ihw iv3)\<lparr>txNumFreeDesc := txNumFreeDesc (ihw iv3) + of_nat (reclaim_count abort iv)\<rparr>\<rparr>"
    and e: "concat (map ev_dealloc_tx e) = []"
    by (rule tx_reclaim_frame [OF assms(1) refl assms(2)])
  have "tx_frame iv iv2" by (simp add: 2 tx_frame_def)
  moreover have "tx_frame iv2 iv3"
    using tx_frame_reclaim_loop [where x = "(iv2, replicate kNumTxQueues False)" and abort = abort
        and n = "reclaim_count abort iv"] l by simp
  moreover have "tx_frame iv3 (txRingReclaim abort iv)" by (simp add: r tx_frame_def)
  ultimately show ?thesis by (meson tx_frame_trans)
qed

end
