(* ===== verification/DextTxSystem.thy ===== *)
theory DextTxSystem
  imports DextTx
begin

text \<open>
  The transmit path as a whole: what the queue actions and the reclaim
  promise, and the system they form with the framework that owns the packets
  and with a chip that closes only descriptors it was given. The step relation
  \<open>tx_step\<close> interleaves whole actions; the reachable states keep every pool
  packet in exactly one place.
\<close>

subsection \<open>Descriptor contents\<close>

definition tx_uses_tso :: "RTL8127Driver_IVars \<Rightarrow> IOUserNetworkPacket \<Rightarrow> bool" where
  "tx_uses_tso iv k \<longleftrightarrow> tsoEnabled iv \<and> (tsoIPV4 k \<or> tsoIPV6 k) \<and> dataLength k - of_nat kMacHdrLen > mtu iv"

lemma tx_offload_cmd:
  assumes "tx_offload iv k f = Some (f', cmd, o2, upd)" "92 \<le> length f \<or> \<not> tx_uses_tso iv k"
  shows "if tx_uses_tso iv k
    then \<exists>off. off \<le> 74 \<and> cmd = (if tsoIPV4 k then GiantSendv4 else GiantSendv6) OR push_bit 18 (of_nat off) \<and>
      o2 = push_bit 18 (tx_segsz (tsoMss k) AND MSSMask)
    else cmd = 0"
proof (cases "tx_uses_tso iv k")
  case True
  then show ?thesis
    using assms prepareTSO4_defined [of f] prepareTSO6_defined [of f]
    by (cases "tsoIPV4 k") (auto simp: tx_offload_def tx_uses_tso_def Let_def)
next
  case False
  then show ?thesis
    using assms by (auto simp: tx_offload_def tx_uses_tso_def Let_def split: if_splits bind_splits)
qed

lemma bit_of_nat_small: "off \<le> 74 \<Longrightarrow> bit (of_nat off :: u32) n \<Longrightarrow> n < 7"
proof (rule ccontr)
  assume "off \<le> 74" "bit (of_nat off :: u32) n" "\<not> n < 7"
  then have "bit off n" by (simp add: bit_of_nat_iff)
  moreover have "off < 2 ^ 7" using \<open>off \<le> 74\<close> by simp
  then have "off < 2 ^ n" using \<open>\<not> n < 7\<close> by (meson less_le_trans not_less one_le_numeral power_increasing)
  ultimately show False by (simp add: bit_iff_odd)
qed


lemma push18_low: "push_bit 18 w AND 0xFFFF = (0 :: u32)"
proof -
  have m: "(0xFFFF :: u32) = mask 16" by (simp add: mask_eq_exp_minus_1)
  show ?thesis
    unfolding m by (rule bit_word_eqI) (auto simp: bit_simps)
qed

lemma tx_desc_length:
  assumes "unat len \<le> 32768" "cmd AND 0xFFFF = 0"
  shows "unat (tx_opts1 (tx_desc i len a cmd o2) AND 0xFFFF) = unat len"
proof -
  have "tx_opts1 (tx_desc i len a cmd o2) AND 0xFFFF = len AND 0xFFFF"
    using assms(2) by (simp add: tx_desc_def Let_def kTxDescLenMask_def bit.conj_disj_distrib2 and.assoc)
  then show ?thesis
    using assms(1) unat_and_mask_eq_mod [of len 16] by (simp add: mask_eq_exp_minus_1)
qed

lemma tx_desc_flags:
  "bit (tx_opts1 (tx_desc i len a cmd o2)) 31" "bit (tx_opts1 (tx_desc i len a cmd o2)) 29"
  "bit (tx_opts1 (tx_desc i len a cmd o2)) 28"
  "bit (tx_opts1 (tx_desc i len a cmd o2)) 30 \<longleftrightarrow> i = 1023 \<or> bit cmd 30"
  "bit (tx_opts1 (tx_desc i len a cmd o2)) 26 \<longleftrightarrow> bit cmd 26"
  "bit (tx_opts1 (tx_desc i len a cmd o2)) 25 \<longleftrightarrow> bit cmd 25"
  by (simp_all add: tx_desc_def Let_def kTxDescLenMask_def kTxLastDesc_def bit_or_iff bit_and_iff)


lemma tso_cmd_bits:
  assumes "off \<le> 74" "cmd = (if v4 then GiantSendv4 else GiantSendv6) OR push_bit 18 (of_nat off)"
  shows "cmd AND 0xFFFF = 0" "\<not> bit cmd 30" "bit cmd 26 \<longleftrightarrow> v4" "bit cmd 25 \<longleftrightarrow> \<not> v4"
  using assms bit_of_nat_small [of off 12] bit_of_nat_small [of off 8] bit_of_nat_small [of off 7]
  by (auto simp: bit.conj_disj_distrib2 push18_low bit_or_iff bit_push_bit_iff)

lemma unat_tx_segsz: "unat (tx_segsz mss) = (if unat mss = 0 \<or> unat mss > 2047 then 2047 else unat mss)"
proof -
  have u: "unat (ucast mss :: u32) = unat mss" by (rule unat_ucast_wider) simp
  have "(ucast mss :: u32) = 0 \<longleftrightarrow> unat mss = 0" "(ucast mss :: u32) > MSS_MAX \<longleftrightarrow> unat mss > 2047"
    using u by (simp_all add: word_unat_eq_iff word_less_nat_alt)
  then show ?thesis using u by (simp only: tx_segsz_def Let_def) simp
qed

lemma tx_segsz_bounds: "1 \<le> unat (tx_segsz mss)" "unat (tx_segsz mss) \<le> 2047"
  unfolding unat_tx_segsz by auto

lemma mss_field:
  "unat (drop_bit 18 (push_bit 18 (tx_segsz mss AND MSSMask))) = unat (tx_segsz mss)"
proof -
  have s: "tx_segsz mss AND MSSMask = tx_segsz mss"
    using tx_segsz_bounds(2) [of mss] unat_and_mask_eq_mod [of "tx_segsz mss" 11]
    by (simp add: mask_eq_exp_minus_1 word_unat_eq_iff)
  have "unat (push_bit 18 (tx_segsz mss)) = unat (tx_segsz mss) * 2 ^ 18"
    using tx_segsz_bounds(2) [of mss]
    by (simp add: unsigned_push_bit_eq take_bit_nat_eq_self push_bit_nat_def)
  then show ?thesis
    unfolding s by (simp add: unat_drop_bit_eq_div)
qed

text \<open>
  (C11) A frame that fits its buffer is described exactly: the descriptor's
  address is the bus address of the first frame byte, its length field the
  frame length, ownership and the single-fragment flags are set, the end-of-ring
  flag is set in the last descriptor only, and the segmentation bits and the
  maximum segment size are those of the offload the driver chose.
\<close>

theorem tx_descriptor_describes_frame:
  assumes inv: "tx_inv iv" and s: "tx_sendable (pkts iv p)" and ok: "tx_pkt_ok (pkts iv p)"
    and m: "78 \<le> unat (mtu iv)"
  shows "\<exists>iv' d. tx_one q p iv = Some iv' \<and> d = txRing iv' ! unat (txNextDescIndex (ihw iv)) \<and>
    unat (tx_addr d) = unat (dataIOVA (pkts iv p)) + unat (dataOff (pkts iv p)) \<and>
    unat (tx_opts1 d AND 0xFFFF) = unat (dataLength (pkts iv p)) \<and>
    bit (tx_opts1 d) 31 \<and> bit (tx_opts1 d) 29 \<and> bit (tx_opts1 d) 28 \<and>
    (bit (tx_opts1 d) 30 \<longleftrightarrow> txNextDescIndex (ihw iv) = 1023) \<and>
    (bit (tx_opts1 d) 26 \<longleftrightarrow> tx_uses_tso iv (pkts iv p) \<and> tsoIPV4 (pkts iv p)) \<and>
    (bit (tx_opts1 d) 25 \<longleftrightarrow> tx_uses_tso iv (pkts iv p) \<and> \<not> tsoIPV4 (pkts iv p)) \<and>
    (tx_uses_tso iv (pkts iv p) \<longrightarrow>
      unat (drop_bit 18 (tx_opts2 d)) = unat (tx_segsz (tsoMss (pkts iv p))) \<and>
      unat (tx_segsz (tsoMss (pkts iv p))) \<in> {1..2047})"
proof -
  let ?k = "pkts iv p" and ?i = "txNextDescIndex (ihw iv)"
  let ?f = "drop (unat (dataOff ?k)) (buffer ?k)"
  note bd = tx_sendable_bounds [OF s ok]
  obtain a cmd o2 c1 c2 ks f' upd where
    one: "tx_one q p iv = Some ((tx_post q p (dataLength ?k) a cmd o2 (iv\<lparr>ctr := c1, pkts := ks\<rparr>))\<lparr>ctr := c2\<rparr>)"
    and ks: "tx_same_meta (pkts iv) ks" and a: "unat a = unat (dataIOVA ?k) + unat (dataOff ?k)"
    and off: "tx_offload iv ?k ?f = Some (f', cmd, o2, upd)"
    by (rule tx_one_good [OF s ok m])
  have "92 \<le> length ?f \<or> \<not> tx_uses_tso iv ?k"
    using tso_frame_long [of "mtu iv" "dataLength ?k"] bd m by (auto simp: tx_uses_tso_def kMacHdrLen_def)
  note cmd = tx_offload_cmd [OF off this]
  have "cmd AND 0xFFFF = 0 \<and> \<not> bit cmd 30 \<and> (bit cmd 26 \<longleftrightarrow> tx_uses_tso iv ?k \<and> tsoIPV4 ?k) \<and>
      (bit cmd 25 \<longleftrightarrow> tx_uses_tso iv ?k \<and> \<not> tsoIPV4 ?k)"
  proof (cases "tx_uses_tso iv ?k")
    case True
    then obtain off where "off \<le> 74" "cmd = (if tsoIPV4 ?k then GiantSendv4 else GiantSendv6) OR push_bit 18 (of_nat off)"
      using cmd by auto
    from tso_cmd_bits [OF this] True show ?thesis by blast
  next
    case False
    then show ?thesis using cmd by simp
  qed
  then have bits: "cmd AND 0xFFFF = 0" "\<not> bit cmd 30" "bit cmd 26 \<longleftrightarrow> tx_uses_tso iv ?k \<and> tsoIPV4 ?k"
      "bit cmd 25 \<longleftrightarrow> tx_uses_tso iv ?k \<and> \<not> tsoIPV4 ?k"
    by blast+
  have "unat ?i < length (txRing iv)" using inv by (simp add: tx_inv_def tx_core_def)
  then have d: "txRing ((tx_post q p (dataLength ?k) a cmd o2 (iv\<lparr>ctr := c1, pkts := ks\<rparr>))\<lparr>ctr := c2\<rparr>) ! unat ?i
      = tx_desc ?i (dataLength ?k) a cmd o2"
    by (simp add: tx_post_def Let_def)
  have de: "tx_addr (tx_desc ?i (dataLength ?k) a cmd o2) = a" "tx_opts2 (tx_desc ?i (dataLength ?k) a cmd o2) = o2"
    by (simp_all add: tx_desc_def Let_def)
  have mss: "tx_uses_tso iv ?k \<Longrightarrow> unat (drop_bit 18 o2) = unat (tx_segsz (tsoMss ?k))"
    using cmd mss_field by auto
  show ?thesis
    by (rule exI, rule exI [of _ "tx_desc ?i (dataLength ?k) a cmd o2"], intro conjI impI)
      (rule one, simp_all only: d de a bits mss tx_desc_flags tx_desc_length [OF bd(4) bits(1)] simp_thms
        atLeastAtMost_iff tx_segsz_bounds)
qed


text \<open>An idle driver with an empty ring and minimal frames waiting to be sent.\<close>

definition tx_sample_pkt :: IOUserNetworkPacket where
  "tx_sample_pkt = \<lparr>dataLength = 60, dataOff = 2, dataVA = 0x1000, dataIOVA = 0x80000000,
     buffer = replicate (unat kTxBufferSize) 0, tsoMss = 0, tsoIPV4 = False, tsoIPV6 = False,
     csPartial = False, csTCPIPV4 = True, csUDPIPV4 = False, csTCPIPV6 = False, csUDPIPV6 = False,
     csIPHdr = False, csStart = 0, csStuff = 0, completionStatus = kIOReturnSuccess, rxChecksumInfo = None\<rparr>"

definition tx_sample :: "RTL8127Driver_IVars \<Rightarrow> RTL8127Driver_IVars" where
  "tx_sample iv = iv\<lparr>
     ihw := (ihw iv)\<lparr>chip := (\<lambda>_ _. 0), tp := (tp (ihw iv))\<lparr>tp_MaxTxDescPtrMask := 0xFFFF\<rparr>,
       txTailPtr0 := 0, txClosePtr0 := 0, txNextDescIndex := 0, txDirtyDescIndex := 0, txNumFreeDesc := 1024\<rparr>,
     linkUp := True, txRing := replicate 1024 \<lparr>tx_opts1 = 0, tx_opts2 = 0, tx_addr = 0\<rparr>,
     txPkt := replicate 1024 None, txPktQueue := replicate 1024 0, txPktLen := replicate 1024 0,
     txInflightBytes := 0, txDoneFifo := replicate 4 (fifo_init 0), mtu := 1500,
     pkts := (\<lambda>_. tx_sample_pkt), ndk := []\<rparr>"

lemma tx_sample_inv: "tx_inv (tx_sample iv)" "tx_flight (tx_sample iv) = []" "tx_count (tx_sample iv) = 0"
proof -
  show c: "tx_count (tx_sample iv) = 0" by (simp add: tx_count_def tx_sample_def)
  then show "tx_flight (tx_sample iv) = []" by (simp add: tx_flight_def tx_window_def)
  have m: "(0xFFFF :: u32) = mask 16" by (simp add: mask_eq_exp_minus_1)
  have w: "tx_window 0 (tx_sample iv) = []" by (simp add: tx_window_def)
  show "tx_inv (tx_sample iv)"
    unfolding tx_inv_def c tx_core_def w by (simp add: tx_sample_def fifo_init_inv m)
qed

lemma tx_sample_pkt_ok: "tx_pkt_ok tx_sample_pkt" "tx_sendable tx_sample_pkt"
  by (simp_all add: tx_sample_pkt_def tx_pkt_ok_def tx_sendable_def kMacHdrLen_def kTxBufferSize_def
      rtl8127TxBufferView_def UINT64_MAX_def)

lemma tx_sample_fields [simp]:
  "pkts (tx_sample iv) = (\<lambda>_. tx_sample_pkt)" "mtu (tx_sample iv) = 1500" "linkUp (tx_sample iv)"
  "txInflightBytes (tx_sample iv) = 0" "txNextDescIndex (ihw (tx_sample iv)) = 0" "ndk (tx_sample iv) = []"
  "txDoneFifo (tx_sample iv) = replicate 4 (fifo_init 0)"
  by (simp_all add: tx_sample_def)

theorem tx_descriptor_describes_frame_witness:
  "\<forall>iv. \<exists>iv'. tx_one 1 7 (tx_sample iv) = Some iv' \<and> unat (tx_addr (txRing iv' ! 0)) = 0x80000002 \<and>
     unat (tx_opts1 (txRing iv' ! 0) AND 0xFFFF) = 60"
proof
  fix iv
  show "\<exists>iv'. tx_one 1 7 (tx_sample iv) = Some iv' \<and> unat (tx_addr (txRing iv' ! 0)) = 0x80000002 \<and>
     unat (tx_opts1 (txRing iv' ! 0) AND 0xFFFF) = 60"
    using tx_descriptor_describes_frame [OF tx_sample_inv(1), of iv 7 1] tx_sample_pkt_ok
    by (auto simp: tx_sample_pkt_def)
qed

subsection \<open>Queue actions\<close>

text \<open>
  (C5) With the link up, \<open>txDequeueAction\<close> never leaves a packet buffer, takes a
  prefix of the offered packets, and the ring behaves as a queue: the sendable
  frames are appended in order, the others are completed with an error, every
  taken packet is accounted for, and the transmit lock is released. It stops
  early only when fewer than three descriptors are left or four megabytes are
  in flight.
\<close>

theorem tx_dequeue_refines_queue:
  assumes "tx_inv iv" "linkUp iv" "\<forall>p \<in> set ps. tx_pkt_ok (pkts iv p)" "78 \<le> unat (mtu iv)"
  shows "\<exists>n iv'. n \<le> length ps \<and> txDequeueAction queue ps iv = Some (of_nat n, iv') \<and> tx_inv iv' \<and>
    tx_flight iv' = tx_flight iv @ map (\<lambda>p. (Some p, of_nat (txQueueIndex iv queue), dataLength (pkts iv p)))
      (filter (\<lambda>p. tx_sendable (pkts iv p)) (take n ps)) \<and>
    tx_places (tx_count iv') iv' = tx_places (tx_count iv) iv + mset (take n ps) \<and> \<not> txLock iv' \<and>
    (n < length ps \<longrightarrow> 1022 \<le> tx_count iv' \<or> 4194304 \<le> unat (txInflightBytes iv'))"
proof -
  obtain n iv' where "n \<le> length ps" "txDequeueAction queue ps iv = Some (of_nat n, iv')"
    "tx_effect (txQueueIndex iv queue) (take n ps) iv iv'" "\<not> txLock iv'"
    "n < length ps \<longrightarrow> 1022 \<le> tx_count iv' \<or> 4194304 \<le> unat (txInflightBytes iv')"
    using tx_action_spec [OF assms, of queue] by blast
  then show ?thesis by (auto simp: tx_effect_def tx_sent_def)
qed

theorem tx_dequeue_refines_queue_witness:
  "\<forall>iv. \<exists>n iv'. n \<le> 2 \<and> txDequeueAction 0 [5, 6] (tx_sample iv) = Some (of_nat n, iv') \<and> tx_inv iv' \<and>
    length (tx_flight iv') = n"
proof
  fix iv
  show "\<exists>n iv'. n \<le> 2 \<and> txDequeueAction 0 [5, 6] (tx_sample iv) = Some (of_nat n, iv') \<and> tx_inv iv' \<and>
    length (tx_flight iv') = n"
    using tx_dequeue_refines_queue [OF tx_sample_inv(1), of iv "[5, 6]" 0] tx_sample_pkt_ok
    by (auto simp: tx_sample_inv(2))
qed

text \<open>
  (C4) A reclaim for which the chip reports at most the descriptors in flight
  retires exactly those, oldest first. Each packet goes to the completion queue
  of its own service class behind the completions already there, with the
  status of a normal or an aborted transmission; an abort empties the ring.
\<close>

theorem tx_reclaim_completes_in_order:
  assumes inv: "tx_inv iv" and le: "reclaim_count abort iv \<le> tx_count iv"
  shows "let k = (if abort then tx_count iv else reclaim_count False iv); iv' = txRingReclaim abort iv in
    tx_inv iv' \<and> tx_flight iv' = drop k (tx_flight iv) \<and>
    (\<forall>q < 4. fifo_list (txDoneFifo iv' ! q) =
      take 2047 (fifo_list (txDoneFifo iv ! q) @ class_pkts q (take k (tx_flight iv)))) \<and>
    tx_places (tx_count iv') iv' = tx_places (tx_count iv) iv \<and>
    (\<forall>p. Some p \<in> fst ` set (take k (tx_flight iv)) \<longrightarrow>
      completionStatus (pkts iv' p) = (if abort then kIOReturnAborted else kIOReturnSuccess))"
proof -
  let ?k = "if abort then tx_count iv else reclaim_count False iv"
  have k: "reclaim_count abort iv = ?k" using reclaim_count_abort [OF inv] by simp
  note sp = tx_reclaim_spec [OF inv k] 
  have k2: "?k \<le> tx_count iv" using le k by simp
  note sp = sp [OF k2]
  have len: "length (txDoneFifo iv) = 4" "\<forall>f \<in> set (txDoneFifo iv). fifo_inv f"
      "length (txDoneFifo (txRingReclaim abort iv)) = 4"
    using inv sp(1) by (simp_all add: tx_inv_def tx_core_def)
  have dn: "fifo_list (txDoneFifo (txRingReclaim abort iv) ! q) =
      take 2047 (fifo_list (txDoneFifo iv ! q) @ class_pkts q (take ?k (tx_flight iv)))" if "q < 4" for q
  proof -
    have "fifo_list (txDoneFifo (txRingReclaim abort iv) ! q) = done_lists (txRingReclaim abort iv) ! q"
      using that len by simp
    also have "\<dots> = take 2047 (done_lists iv ! q @ class_pkts q (take ?k (tx_flight iv)))"
      unfolding sp(3) by (rule done_adds_nth) (use that len fifo.cap_bound [of "txDoneFifo iv ! q"] in simp_all)
    finally show ?thesis using that len by simp
  qed
  show ?thesis
    unfolding Let_def using sp(1,2,4) dn by (auto simp: sp(6) retired_def reclaim_status_def)
qed


theorem tx_reclaim_completes_in_order_witness:
  "\<forall>iv. reclaim_count True (tx_sample iv) \<le> tx_count (tx_sample iv) \<and> tx_inv (txRingReclaim True (tx_sample iv)) \<and>
     tx_flight (txRingReclaim True (tx_sample iv)) = []"
proof
  fix iv
  have "reclaim_count True (tx_sample iv) \<le> tx_count (tx_sample iv)"
    by (simp add: reclaim_count_abort [OF tx_sample_inv(1)])
  then show "reclaim_count True (tx_sample iv) \<le> tx_count (tx_sample iv) \<and> tx_inv (txRingReclaim True (tx_sample iv)) \<and>
     tx_flight (txRingReclaim True (tx_sample iv)) = []"
    using tx_reclaim_completes_in_order [OF tx_sample_inv(1), of True iv] by (simp add: tx_sample_inv(2) Let_def)
qed

subsection \<open>The completion queues never overflow\<close>

lemma done_add_room:
  assumes "q < length ds" "size (mset (concat ds)) < 2047"
  shows "mset (concat (done_add q p ds)) = mset (concat ds) + {#p#}"
proof -
  have "length (ds ! q) \<le> size (mset (concat ds))"
    using assms(1) mset_concat_update [of q ds "[]"] by (metis le_add2 size_mset size_union add.right_neutral mset.simps(1))
  then have "take 2047 (ds ! q @ [p]) = ds ! q @ [p]" using assms(2) by simp
  then show ?thesis
    using mset_concat_update [of q ds "ds ! q @ [p]"] assms(1) by (simp add: done_add_def)
qed

lemma done_adds_room:
  assumes "\<forall>x \<in> set w. unat (fst (snd x)) < length ds" "size (mset (concat ds)) + length w \<le> 2047"
  shows "mset (concat (done_adds w ds)) = mset (concat ds) + mset (map (the \<circ> fst) w)"
  using assms
proof (induction w ds rule: done_adds.induct)
  case (2 p q l w ds)
  have q: "unat q < length ds" using 2(2) by simp
  have a: "mset (concat (done_add (unat q) (the p) ds)) = mset (concat ds) + {#the p#}"
    using 2(3) by (intro done_add_room [OF q]) simp
  have len: "length (done_add (unat q) (the p) ds) = length ds" by (simp add: done_add_def)
  have "size (mset (concat (done_add (unat q) (the p) ds))) + length w \<le> 2047"
    unfolding a using 2(3) by simp
  then show ?case
    using 2(1) 2(2) a len by simp
qed simp

lemma done_adds_reject_room:
  assumes "q < length ds" "size (mset (concat ds)) + length ps \<le> 2047"
  shows "mset (concat (foldl (\<lambda>ds p. done_add q p ds) ds ps)) = mset (concat ds) + mset ps"
  using assms
proof (induction ps arbitrary: ds)
  case (Cons p ps)
  have a: "mset (concat (done_add q p ds)) = mset (concat ds) + {#p#}"
    using Cons.prems by (intro done_add_room) simp_all
  have "size (mset (concat (done_add q p ds))) + length ps \<le> 2047"
    unfolding a using Cons.prems(2) by simp
  then show ?case
    using Cons.IH [of "done_add q p ds"] Cons.prems(1) a by (simp add: done_add_def)
qed simp


lemma mset_balance:
  fixes F :: "'a multiset"
  assumes "F' + D' + X' = F + D + X + P" "F' = F + G" "D' = D + B" "P = G + B"
  shows "X' = X"
proof -
  have "(F + D + G + B) + X' = (F + D + G + B) + X"
    using assms(1) unfolding assms(2-4) by (simp only: union_ac)
  then show ?thesis by (simp only: add_left_cancel)
qed

lemma tx_reclaim_no_drop:
  assumes inv: "tx_inv iv" and le: "reclaim_count abort iv \<le> tx_count iv"
    and sz: "size (tx_places (tx_count iv) iv) \<le> 2047"
  shows "mset (tx_dealloc (txRingReclaim abort iv)) = mset (tx_dealloc iv)"
proof -
  let ?iv = "txRingReclaim abort iv" and ?k = "reclaim_count abort iv"
  note sp = tx_reclaim_spec [OF inv refl le]
  have core: "tx_core (tx_count iv) iv" using inv by (simp add: tx_inv_def)
  have "mset (tx_done ?iv) = mset (tx_done iv) + mset (map (the \<circ> fst) (take ?k (tx_flight iv)))"
    unfolding tx_done_def sp(3)
  proof (rule done_adds_room)
    show "\<forall>x \<in> set (take ?k (tx_flight iv)). unat (fst (snd x)) < length (done_lists iv)"
      using core by (auto simp: tx_core_def tx_flight_def tx_slot_ok_def dest!: in_set_takeD)
    have "length (take ?k (tx_flight iv)) \<le> length (tx_flight iv)" by simp
    moreover have "length (tx_flight iv) + size (mset (tx_done iv)) \<le> 2047"
      using sz unfolding tx_places_flight by simp
    ultimately show "size (mset (concat (done_lists iv))) + length (take ?k (tx_flight iv)) \<le> 2047"
      unfolding tx_done_def by linarith
  qed
  moreover have "mset (map (the \<circ> fst) (tx_flight iv)) =
      mset (map (the \<circ> fst) (take ?k (tx_flight iv))) + mset (map (the \<circ> fst) (drop ?k (tx_flight iv)))"
    by (metis append_take_drop_id map_append mset_append)
  ultimately show ?thesis
    using sp(4) unfolding tx_places_flight sp(2) by (simp add: union_ac)
qed

lemma tx_effect_no_drop:
  assumes inv: "tx_inv iv" and e: "tx_effect q ps iv iv'" and q: "q < 4"
    and sz: "size (tx_places (tx_count iv) iv) + length ps \<le> 2047"
  shows "mset (tx_dealloc iv') = mset (tx_dealloc iv)"
proof -
  let ?good = "\<lambda>p. tx_sendable (pkts iv p)"
  have "length (txDoneFifo iv) = 4" using inv by (simp add: tx_inv_def tx_core_def)
  moreover have "length (tx_done iv) + length ps \<le> 2047"
    using sz unfolding tx_places_flight by simp
  then have "size (mset (tx_done iv)) + length (filter (\<lambda>p. \<not> ?good p) ps) \<le> 2047"
    unfolding size_mset using length_filter_le [of "\<lambda>p. \<not> ?good p" ps] by linarith
  ultimately have dn: "mset (tx_done iv') = mset (tx_done iv) + mset (filter (\<lambda>p. \<not> ?good p) ps)"
    using e q done_adds_reject_room [of q "done_lists iv" "filter (\<lambda>p. \<not> ?good p) ps"]
    by (simp add: tx_effect_def tx_rejected_def tx_done_def)
  have fl: "mset (map (the \<circ> fst) (tx_flight iv')) = mset (map (the \<circ> fst) (tx_flight iv)) + mset (filter ?good ps)"
    using e by (simp add: tx_effect_def tx_sent_def comp_def)
  have pp: "mset ps = mset (filter ?good ps) + mset (filter (\<lambda>p. \<not> ?good p) ps)"
    by (simp add: mset_filter flip: multiset_partition)
  have all: "mset (map (the \<circ> fst) (tx_flight iv')) + mset (tx_done iv') + mset (tx_dealloc iv') =
      mset (map (the \<circ> fst) (tx_flight iv)) + mset (tx_done iv) + mset (tx_dealloc iv) + mset ps"
    using e unfolding tx_effect_def tx_places_flight by blast
  show ?thesis
    by (rule mset_balance [OF all fl dn pp])
qed

lemma tx_action_no_link:
  assumes inv: "tx_inv iv" and l: "\<not> linkUp iv"
  obtains iv' where "txDequeueAction queue ps iv = Some (0, iv')" "tx_effect q [] iv iv'"
proof -
  let ?q = "txQueueIndex iv queue"
  let ?t = "tally (\<lambda>c. c\<lparr>txDequeueCalls := bump (txDequeueCalls c) ?q 1,
                txPerQueue := bump (txPerQueue c) ?q (of_nat (length ps))\<rparr>) (iv\<lparr>txLock := True\<rparr>)"
  obtain c0 where 0: "tx_observe ps ?t = ?t\<lparr>ctr := c0\<rparr>"
    using tx_observe_frame by blast
  obtain c1 where "txDequeueAction queue ps iv = Some (0, iv\<lparr>ctr := c1, txLock := False\<rparr>)"
    using l unfolding txDequeueAction_def Let_def 0 by (simp add: tally_def)
  moreover have "tx_effect q [] iv (iv\<lparr>ctr := c1, ihw := (ihw iv)\<lparr>hist := hist (ihw iv)\<rparr>, txLock := False\<rparr>)"
    by (rule tx_effect_cong [OF tx_effect_refl [OF inv] _ refl, of _ "ctr iv" "txLock iv"]) simp
  ultimately show thesis
    using that by simp
qed

lemma tx_enqueue_spec:
  assumes inv: "tx_inv iv" and r: "txEnqueueAction queue cap iv = (ps, iv')"
  shows "tx_inv iv'" "tx_flight iv' = tx_flight iv" "tx_count iv' = tx_count iv"
    "tx_places (tx_count iv) iv = tx_places (tx_count iv') iv' + mset ps" "tx_dealloc iv' = tx_dealloc iv"
    "ps = take (unat cap) (fifo_list (txDoneFifo iv ! txQueueIndex iv queue))"
proof -
  let ?q = "txQueueIndex iv queue" and ?f = "txDoneFifo iv ! txQueueIndex iv queue"
  have q: "?q < 4" using txQueueIndex_less [of iv queue] by (simp add: kNumTxQueues_def)
  have len: "length (txDoneFifo iv) = 4" and fi: "\<forall>f \<in> set (txDoneFifo iv). fifo_inv f"
    using inv by (simp_all add: tx_inv_def tx_core_def)
  have f: "fifo_inv ?f" using q len fi by simp
  note dr = fifo.drain_take [OF f, of "unat cap"]
  obtain g where g: "drain fifoPop (unat cap) ?f = (ps, g)"
    using r by (auto simp: txEnqueueAction_def Let_def split: prod.splits)
  have dn: "txDoneFifo iv' = (txDoneFifo iv)[?q := g]" and nd: "ndk iv' = ndk iv"
      and o: "ihw iv' = ihw iv" "txPkt iv' = txPkt iv" "txPktQueue iv' = txPktQueue iv" "txPktLen iv' = txPktLen iv"
      "txRing iv' = txRing iv" "txInflightBytes iv' = txInflightBytes iv"
    using r g by (auto simp: txEnqueueAction_def Let_def tally_def)
  show ps: "ps = take (unat cap) (fifo_list ?f)" using dr g by simp
  have "\<forall>f \<in> set (txDoneFifo iv'). fifo_inv f"
    using fi dr g set_update_subset_insert [of "txDoneFifo iv" ?q g] unfolding dn by auto
  then show c: "tx_inv iv'" "tx_flight iv' = tx_flight iv" "tx_count iv' = tx_count iv"
    by (intro tx_inv_cong [OF inv]; simp add: o dn)+
  have "mset (tx_done iv') + mset (fifo_list ?f) = mset (tx_done iv) + mset (fifo_list g)"
    using mset_concat_update [of ?q "done_lists iv" "fifo_list g"] q len by (simp add: tx_done_def dn map_update)
  moreover have "mset (fifo_list ?f) = mset ps + mset (fifo_list g)"
    using dr g by (metis append_take_drop_id fst_conv mset_append snd_conv)
  ultimately have "mset (tx_done iv) = mset (tx_done iv') + mset ps" by (simp add: union_ac)
  then show "tx_places (tx_count iv) iv = tx_places (tx_count iv') iv' + mset ps"
    unfolding tx_places_flight c(2) by (simp add: tx_dealloc_def nd union_ac)
  show "tx_dealloc iv' = tx_dealloc iv" by (simp add: tx_dealloc_def nd)
qed


subsection \<open>The transmit system\<close>

text \<open>
  The driver together with the framework: \<open>owned\<close> is the multiset of pool
  packets in the framework's hands. The framework fills and submits packets it
  owns and collects completions; the chip closes descriptors, at most those in
  flight; time passes on the bus.
\<close>

record tx_sys =
  drv :: RTL8127Driver_IVars
  owned :: "pktid multiset"

inductive tx_step :: "tx_sys \<Rightarrow> tx_sys \<Rightarrow> bool" where
  fill: "p \<in># owned s \<Longrightarrow> tx_pkt_ok k \<Longrightarrow>
    tx_step s (s\<lparr>drv := (drv s)\<lparr>pkts := (pkts (drv s))(p := k)\<rparr>\<rparr>)"
| submit: "mset ps \<subseteq># owned s \<Longrightarrow> txDequeueAction queue ps (drv s) = Some (acc, iv') \<Longrightarrow>
    tx_step s (s\<lparr>drv := iv', owned := owned s - mset (take (unat acc) ps)\<rparr>)"
| complete: "reclaim_count False (drv s) \<le> tx_count (drv s) \<Longrightarrow>
    tx_step s (s\<lparr>drv := txRingReclaim False (drv s)\<rparr>)"
| collect: "txEnqueueAction queue cap (drv s) = (ps, iv') \<Longrightarrow>
    tx_step s (s\<lparr>drv := iv', owned := owned s + mset ps\<rparr>)"
| wait: "tx_step s (s\<lparr>drv := do_hw (delay us) (drv s)\<rparr>)"

inductive_cases tx_stepE: "tx_step s s'"

lemmas tx_step_cases = tx_stepE [consumes 1, case_names fill submit complete collect wait]

definition tx_sys_inv :: "pktid multiset \<Rightarrow> tx_sys \<Rightarrow> bool" where
  "tx_sys_inv pool s \<longleftrightarrow> tx_inv (drv s) \<and> (\<forall>p \<in># owned s. tx_pkt_ok (pkts (drv s) p)) \<and> 78 \<le> unat (mtu (drv s)) \<and>
     owned s + tx_places (tx_count (drv s)) (drv s) = pool \<and> tx_dealloc (drv s) = [] \<and>
     (\<forall>p \<in># pool. tx_pkt_ok (pkts (drv s) p)) \<and> unat (txInflightBytes (drv s)) < 4227072"

lemma tx_sys_inv_effect:
  assumes I: "tx_sys_inv pool s" and e: "tx_effect q (take n ps) (drv s) iv'" and q: "q < 4"
    and ps: "mset ps \<subseteq># owned s" and sz: "size pool \<le> 1024"
  shows "tx_sys_inv pool (s\<lparr>drv := iv', owned := owned s - mset (take n ps)\<rparr>)"
proof -
  have sub: "mset (take n ps) \<subseteq># owned s"
    using ps by (metis append_take_drop_id mset_append mset_subset_eq_add_left subset_mset.order_trans)
  have pool: "owned s + tx_places (tx_count (drv s)) (drv s) = pool"
    using I by (simp add: tx_sys_inv_def)
  have "size (tx_places (tx_count (drv s)) (drv s)) + length (take n ps) \<le> 2047"
    using size_mset_mono [OF sub] sz arg_cong [OF pool, of size] unfolding size_union size_mset by linarith
  then have "mset (tx_dealloc iv') = mset (tx_dealloc (drv s))"
    using I by (intro tx_effect_no_drop [OF _ e q]) (simp_all add: tx_sys_inv_def)
  then have nd: "tx_dealloc iv' = []" using I by (simp add: tx_sys_inv_def)
  have "(owned s - mset (take n ps)) + tx_places (tx_count iv') iv' = pool"
    using e sub pool by (simp add: tx_effect_def union_ac) (metis add.commute subset_mset.diff_add_assoc subset_mset.add_diff_inverse union_assoc)
  moreover have "tx_pkt_ok (pkts iv' p) = tx_pkt_ok (pkts (drv s) p)" for p
    using e tx_same_metaD by (simp add: tx_effect_def)
  ultimately show ?thesis
    using I e nd by (auto simp: tx_sys_inv_def tx_effect_def dest: in_diffD)
qed

lemma tx_sys_inv_reclaim:
  assumes I: "tx_sys_inv pool s" and sz: "size pool \<le> 1024"
    and le: "reclaim_count False (drv s) \<le> tx_count (drv s)"
  shows "tx_sys_inv pool (s\<lparr>drv := txRingReclaim False (drv s)\<rparr>)"
proof -
  let ?iv = "drv s" and ?iv' = "txRingReclaim False (drv s)"
  have inv: "tx_inv ?iv" and pool: "owned s + tx_places (tx_count ?iv) ?iv = pool"
    using I by (simp_all add: tx_sys_inv_def)
  note sp = tx_reclaim_spec [OF inv refl le]
  have "size (tx_places (tx_count ?iv) ?iv) \<le> 2047"
    using sz arg_cong [OF pool, of size] unfolding size_union by linarith
  then have nd: "tx_dealloc ?iv' = []"
    using tx_reclaim_no_drop [OF inv le] I by (simp add: tx_sys_inv_def)
  have core: "tx_core (tx_count ?iv) ?iv" "tx_core (tx_count ?iv') ?iv'"
    using inv sp(1) by (simp_all add: tx_inv_def)
  have bytes: "unat (txInflightBytes ?iv') \<le> unat (txInflightBytes ?iv)"
  proof -
    have "tx_bytes (tx_flight ?iv) = tx_bytes (take (reclaim_count False ?iv) (tx_flight ?iv)) + tx_bytes (tx_flight ?iv')"
      unfolding sp(2) by (metis append_take_drop_id tx_bytes_append)
    then show ?thesis using core by (simp add: tx_core_def tx_flight_def)
  qed
  have ok: "tx_pkt_ok (pkts ?iv' p) = tx_pkt_ok (pkts ?iv p)" for p
    by (simp add: sp(6) retired_def tx_pkt_ok_def)
  have m: "mtu ?iv' = mtu ?iv"
    using tx_frame_reclaim [OF inv le] by (simp add: tx_frame_def)
  show ?thesis
    using I sp(1,4) nd bytes ok m by (simp add: tx_sys_inv_def)
qed


lemma tx_sys_inv_step:
  assumes I: "tx_sys_inv pool s" and sz: "size pool \<le> 1024" and st: "tx_step s s'"
  shows "tx_sys_inv pool s'"
  using st
proof (cases rule: tx_step_cases)
  case (fill p k)
  let ?iv = "(drv s)\<lparr>pkts := (pkts (drv s))(p := k)\<rparr>"
  have inv: "tx_inv (drv s)" using I by (simp add: tx_sys_inv_def)
  then have f: "\<forall>f \<in> set (txDoneFifo (drv s)). fifo_inv f" by (simp add: tx_inv_def tx_core_def)
  have c: "tx_inv ?iv" "tx_flight ?iv = tx_flight (drv s)" "tx_count ?iv = tx_count (drv s)"
    by (rule tx_inv_cong [OF inv]; simp add: f)+
  have "tx_places (tx_count ?iv) ?iv = tx_places (tx_count (drv s)) (drv s)"
    unfolding tx_places_flight c(2) by (simp add: tx_done_def tx_dealloc_def)
  then show ?thesis
    using I c fill by (simp add: tx_sys_inv_def tx_dealloc_def)
next
  case (submit ps queue acc iv')
  have inv: "tx_inv (drv s)" and m: "78 \<le> unat (mtu (drv s))"
    and ok: "\<forall>p \<in> set ps. tx_pkt_ok (pkts (drv s) p)"
    using I submit(2) by (auto simp: tx_sys_inv_def dest: mset_subset_eqD)
  let ?q = "txQueueIndex (drv s) queue"
  have q: "?q < 4" using txQueueIndex_less [of "drv s" queue] by (simp add: kNumTxQueues_def)
  have "length ps \<le> 1024"
  proof -
    have "length ps \<le> size (owned s)" using size_mset_mono [OF submit(2)] by simp
    moreover have "size (owned s) \<le> size pool"
      using I by (auto simp: tx_sys_inv_def)
    ultimately show ?thesis using sz by linarith
  qed
  show ?thesis
  proof (cases "linkUp (drv s)")
    case True
    obtain n where n: "n \<le> length ps" "acc = of_nat n" "tx_effect ?q (take n ps) (drv s) iv'"
      using tx_action_spec [OF inv True ok m, of queue] submit(3) by (metis option.inject prod.inject)
    have "unat acc = n" using n(1,2) \<open>length ps \<le> 1024\<close> by (simp add: unat_of_nat)
    then show ?thesis
      using tx_sys_inv_effect [OF I n(3) q submit(2) sz] submit(1) by simp
  next
    case False
    obtain iv'' where "txDequeueAction queue ps (drv s) = Some (0, iv'')" "tx_effect ?q [] (drv s) iv''"
      by (rule tx_action_no_link [OF inv False])
    then show ?thesis
      using tx_sys_inv_effect [OF I _ q submit(2) sz, of 0 iv''] submit(1,3) by simp
  qed
next
  case complete
  then show ?thesis using tx_sys_inv_reclaim [OF I sz] by simp
next
  case (collect queue cap ps iv')
  have inv: "tx_inv (drv s)" using I by (simp add: tx_sys_inv_def)
  note sp = tx_enqueue_spec [OF inv collect(2)]
  have o: "pkts iv' = pkts (drv s)" "mtu iv' = mtu (drv s)" "txInflightBytes iv' = txInflightBytes (drv s)"
    using collect(2) by (auto simp: txEnqueueAction_def Let_def tally_def split: prod.splits)
  have pl: "owned s + mset ps + tx_places (tx_count iv') iv' = pool"
    using I sp(4) by (simp add: tx_sys_inv_def union_ac)
  then have "\<forall>p \<in># owned s + mset ps. p \<in># pool" by auto
  then show ?thesis
    using I sp pl o collect(1) by (simp add: tx_sys_inv_def)
next
  case (wait us)
  have inv: "tx_inv (drv s)" using I by (simp add: tx_sys_inv_def)
  then have f: "\<forall>f \<in> set (txDoneFifo (drv s)). fifo_inv f" by (simp add: tx_inv_def tx_core_def)
  let ?iv = "do_hw (delay us) (drv s)"
  have c: "tx_inv ?iv" "tx_flight ?iv = tx_flight (drv s)" "tx_count ?iv = tx_count (drv s)"
    by (rule tx_inv_cong [OF inv]; simp add: do_hw_def f tx_hw_same_def)+
  have "tx_places (tx_count ?iv) ?iv = tx_places (tx_count (drv s)) (drv s)"
    unfolding tx_places_flight c(2) by (simp add: do_hw_def tx_done_def tx_dealloc_def)
  then show ?thesis
    using I c wait by (simp add: tx_sys_inv_def) (simp add: do_hw_def tx_dealloc_def)
qed

interpretation txs: invariant_system tx_step "\<lambda>s. size pool \<le> 1024 \<and> tx_sys_inv pool s" for pool
  by unfold_locales (auto intro: tx_sys_inv_step)



lemma tx_sample_places: "tx_places (tx_count (tx_sample iv)) (tx_sample iv) = {#}"
  unfolding tx_places_flight tx_sample_inv(2)
  by (simp add: tx_done_def tx_dealloc_def fifo_init_list map_replicate concat_replicate_trivial)




end
