(* ===== verification/DextRx.thy ===== *)
theory DextRx
  imports DextTypes
begin

text \<open>
  The receive path of the DriverKit driver (\<open>RTL8127Driver.cpp\<close>): arming the
  ring (\<open>rxRingRefill\<close>, \<open>rxRingRearm\<close>), servicing it (\<open>rxRingService\<close>) and the
  queue actions. The chip writes a descriptor's status words by DMA; that is a
  step of its own (\<open>rx_dma\<close>). An access outside a packet's buffer is the
  result None.
\<close>

subsection \<open>Arming\<close>

definition rx_word1 :: "nat \<Rightarrow> u32" where
  "rx_word1 i = (let w = kRxBufferSize OR DescOwn in if i = unat kRxLastDesc then w OR RingEnd else w)"

text \<open>An empty packet, from the framework's queue or else from the pool.\<close>

definition rx_take :: "RTL8127Driver_IVars \<Rightarrow> pktid option \<times> RTL8127Driver_IVars" where
  "rx_take iv =
    (let (p, f) = fifoPop (rxFreeFifo iv); iv1 = iv\<lparr>rxFreeFifo := f\<rparr> in
     if p = None \<and> rxPool iv1 then
       (let a = ndk_alloc iv1 (ndk iv1) in (a, signal (AllocatePacket a) iv1))
     else (p, iv1))"

definition rx_arm :: "nat \<Rightarrow> pktid \<Rightarrow> RTL8127Driver_IVars \<Rightarrow> RTL8127Driver_IVars" where
  "rx_arm i p iv = (signal (PrepareWithQueue p) iv)\<lparr>
     rxPkt := (rxPkt iv)[i := Some p],
     rxRing := (rxRing iv)[i := \<lparr>rx_opts1 = rx_word1 i, rx_opts2 = 0, rx_addr = dataIOVA (pkts iv p)\<rparr>]\<rparr>"

fun rx_refill_loop :: "nat list \<Rightarrow> RTL8127Driver_IVars \<Rightarrow> bool \<times> RTL8127Driver_IVars" where
  "rx_refill_loop [] iv = (True, iv)"
| "rx_refill_loop (i # is) iv =
    (if rxPkt iv ! i \<noteq> None then rx_refill_loop is iv
     else case rx_take iv of
       (None, iv1) \<Rightarrow> (False, iv1)
     | (Some p, iv1) \<Rightarrow> rx_refill_loop is (rx_arm i p iv1))"

definition rxRingRefill :: "RTL8127Driver_IVars \<Rightarrow> bool \<times> RTL8127Driver_IVars" where
  "rxRingRefill iv = rx_refill_loop [0..<kNumRxDesc] iv"

fun rx_rearm_loop :: "nat list \<Rightarrow> RTL8127Driver_IVars \<Rightarrow> RTL8127Driver_IVars" where
  "rx_rearm_loop [] iv = iv"
| "rx_rearm_loop (i # is) iv =
    (if rxPkt iv ! i = None then rx_rearm_loop is iv
     else rx_rearm_loop is
       (iv\<lparr>rxRing := (rxRing iv)[i := (rxRing iv ! i)\<lparr>rx_opts2 := 0, rx_opts1 := rx_word1 i\<rparr>]\<rparr>))"

definition rxRingRearm :: "RTL8127Driver_IVars \<Rightarrow> RTL8127Driver_IVars" where
  "rxRingRearm iv =
    (let iv1 = rx_rearm_loop [0..<kNumRxDesc] iv;
         iv2 = iv1\<lparr>ihw := (ihw iv1)\<lparr>rxNextDescIndex := 0\<rparr>\<rparr>
     in snd (rxRingRefill iv2))"

subsection \<open>Service\<close>

definition rx_csum_flags :: "u32 \<Rightarrow> rx_csum" where
  "rx_csum_flags opts2 =
    (let v4 = nz (opts2 AND RxV4F);
         dv = (nz (opts2 AND RxTCPT) \<and> \<not> nz (opts2 AND RxTCPF)) \<or> (nz (opts2 AND RxUDPT) \<and> \<not> nz (opts2 AND RxUDPF))
     in \<lparr>csIPChecked = v4, csIPValid = v4 \<and> \<not> nz (opts2 AND RxIPF), csDataValid = dv, csPseudoHdr = dv, csValue = 0xffff\<rparr>)"

definition rx_csum_any :: "rx_csum \<Rightarrow> bool" where
  "rx_csum_any c \<longleftrightarrow> csIPChecked c \<or> csIPValid c \<or> csDataValid c \<or> csPseudoHdr c"

definition rx_length :: "u32 \<Rightarrow> int" where
  "rx_length status = uint (status AND 0x3fff) - 4"

definition rx_bad :: "u32 \<Rightarrow> bool" where
  "rx_bad status \<longleftrightarrow> nz (status AND RxRES) \<or> rx_length status \<le> 0 \<or>
     \<not> nz (status AND FirstFrag) \<or> \<not> nz (status AND LastFrag)"

definition rx_recycle :: "nat \<Rightarrow> RTL8127Driver_IVars \<Rightarrow> RTL8127Driver_IVars" where
  "rx_recycle i iv =
    (tally (\<lambda>c. c\<lparr>rxErrors := rxErrors c + 1\<rparr>) iv)\<lparr>
      rxRing := (rxRing iv)[i := (rxRing iv ! i)\<lparr>rx_opts1 := rx_word1 i\<rparr>]\<rparr>"

text \<open>A good frame: fill in the packet and queue it for the framework.\<close>

definition rx_finish_pkt :: "int \<Rightarrow> u32 \<Rightarrow> IOUserNetworkPacket \<Rightarrow> IOUserNetworkPacket" where
  "rx_finish_pkt len opts2 k =
    (let c = rx_csum_flags opts2; k1 = k\<lparr>dataLength := of_int len\<rparr>
     in if rx_csum_any c then k1\<lparr>rxChecksumInfo := Some c\<rparr> else k1)"

definition rx_log_syn :: "IOUserNetworkPacket \<Rightarrow> nat \<Rightarrow> dext_counters \<Rightarrow> dext_counters option" where
  "rx_log_syn k len c =
    (if rxSynLogged c < 100 then
       (case describeTcpSyn (dataVA k \<noteq> 0) (buffer k) len of
          None \<Rightarrow> None
        | Some d \<Rightarrow> Some (if d \<noteq> None then c\<lparr>rxSynLogged := rxSynLogged c + 1\<rparr> else c))
     else Some c)"

definition rx_deliver :: "nat \<Rightarrow> pktid \<Rightarrow> u32 \<Rightarrow> RTL8127Driver_IVars \<Rightarrow> RTL8127Driver_IVars option" where
  "rx_deliver i p status iv =
    (let opts2 = rx_opts2 (rxRing iv ! i);
         iv1 = set_pkt p (rx_finish_pkt (rx_length status) opts2) (iv\<lparr>rxPkt := (rxPkt iv)[i := None]\<rparr>);
         c1 = (ctr iv1)\<lparr>rxDelivered := rxDelivered (ctr iv1) + 1\<rparr>
     in case rx_log_syn (pkts iv1 p) (nat (rx_length status)) c1 of
          None \<Rightarrow> None
        | Some c2 \<Rightarrow>
           (let iv2 = iv1\<lparr>ctr := c2\<rparr>; (ok, f) = fifoPush (rxDoneFifo iv2) p
            in Some (if ok then iv2\<lparr>rxDoneFifo := f\<rparr>
                     else signal (DeallocateRx p)
                       ((tally (\<lambda>c. c\<lparr>rxDroppedFifo := rxDroppedFifo c + 1\<rparr>) iv2)\<lparr>rxDropWarned := True\<rparr>))))"

definition rx_advance :: "RTL8127Driver_IVars \<Rightarrow> RTL8127Driver_IVars" where
  "rx_advance iv = iv\<lparr>ihw := (ihw iv)\<lparr>rxNextDescIndex := (rxNextDescIndex (ihw iv) + 1) AND kRxDescMask\<rparr>\<rparr>"

text \<open>The service loop with its budget; the flag says whether anything was delivered.\<close>

fun rx_service_loop :: "nat \<Rightarrow> bool \<Rightarrow> RTL8127Driver_IVars \<Rightarrow> (bool \<times> RTL8127Driver_IVars) option" where
  "rx_service_loop 0 delivered iv = Some (delivered, iv)"
| "rx_service_loop (Suc n) delivered iv =
    (let i = unat (rxNextDescIndex (ihw iv)); status = rx_opts1 (rxRing iv ! i) in
     if nz (status AND DescOwn) then Some (delivered, iv)
     else case rxPkt iv ! i of
       None \<Rightarrow> Some (delivered, iv)
     | Some p \<Rightarrow>
        if rx_bad status then rx_service_loop n delivered (rx_advance (rx_recycle i iv))
        else case rx_deliver i p status iv of
          None \<Rightarrow> None
        | Some iv' \<Rightarrow> rx_service_loop n True (rx_advance iv'))"

definition rxRingService :: "RTL8127Driver_IVars \<Rightarrow> RTL8127Driver_IVars option" where
  "rxRingService iv =
    (case rx_service_loop kNumRxDesc False iv of
       None \<Rightarrow> None
     | Some (delivered, iv1) \<Rightarrow>
        (let (complete, iv2) = rxRingRefill iv1;
             iv3 = (if complete then iv2 else tally (\<lambda>c. c\<lparr>rxRefillShort := rxRefillShort c + 1\<rparr>) iv2)
         in Some (if delivered \<and> rxCompQueue iv3 \<noteq> None
                  then signal_opt RequestDequeue (rxSubQueue iv3) (signal_opt RequestEnqueue (rxCompQueue iv3) iv3)
                  else iv3)))"

subsection \<open>Queue actions\<close>

fun rx_push_loop :: "pktid list \<Rightarrow> pktid PacketFifo \<Rightarrow> nat \<times> pktid PacketFifo" where
  "rx_push_loop [] f = (0, f)"
| "rx_push_loop (p # ps) f =
    (let (ok, f1) = fifoPush f p in
     if ok then (let (n, f2) = rx_push_loop ps f1 in (Suc n, f2)) else (0, f1))"

definition rxDequeueAction :: "pktid list \<Rightarrow> RTL8127Driver_IVars \<Rightarrow> u32 \<times> RTL8127Driver_IVars" where
  "rxDequeueAction packets iv =
    (let (n, f) = rx_push_loop packets (rxFreeFifo iv) in (of_nat n, iv\<lparr>rxFreeFifo := f\<rparr>))"

definition rxEnqueueAction :: "u32 \<Rightarrow> RTL8127Driver_IVars \<Rightarrow> pktid list \<times> RTL8127Driver_IVars" where
  "rxEnqueueAction arrayCapacity iv =
    (let (ps, f) = drain fifoPop (unat arrayCapacity) (rxDoneFifo iv) in (ps, iv\<lparr>rxDoneFifo := f\<rparr>))"

text \<open>Giving the ring's packets back to the pool when the interface goes down.\<close>

fun rx_release_loop :: "nat list \<Rightarrow> RTL8127Driver_IVars \<Rightarrow> RTL8127Driver_IVars" where
  "rx_release_loop [] iv = iv"
| "rx_release_loop (i # is) iv =
    (case rxPkt iv ! i of
       None \<Rightarrow> rx_release_loop is iv
     | Some p \<Rightarrow> rx_release_loop is ((signal (DeallocateRx p) iv)\<lparr>rxPkt := (rxPkt iv)[i := None]\<rparr>))"

subsection \<open>The chip's side\<close>

text \<open>Completing a descriptor: the chip writes the two status words and gives the descriptor up.\<close>

definition rx_dma :: "nat \<Rightarrow> u32 \<Rightarrow> u32 \<Rightarrow> RTL8127Driver_IVars \<Rightarrow> RTL8127Driver_IVars" where
  "rx_dma i o1 o2 iv =
    iv\<lparr>rxRing := (rxRing iv)[i := (rxRing iv ! i)\<lparr>rx_opts1 := o1 AND NOT DescOwn, rx_opts2 := o2\<rparr>]\<rparr>"


subsection \<open>Ring invariant\<close>

text \<open>
  A descriptor the chip owns always belongs to a packet the driver holds in
  that slot, carries the bus address of that packet's buffer, the buffer size,
  and the end-of-ring flag in the last slot only.
\<close>

definition rx_owned :: "RtlDextRxDesc \<Rightarrow> bool" where
  "rx_owned d \<longleftrightarrow> nz (rx_opts1 d AND DescOwn)"

definition rx_slot_ok :: "(pktid \<Rightarrow> IOUserNetworkPacket) \<Rightarrow> nat \<Rightarrow> pktid option \<Rightarrow> RtlDextRxDesc \<Rightarrow> bool" where
  "rx_slot_ok ks i po d = (case po of
     None \<Rightarrow> \<not> rx_owned d
   | Some p \<Rightarrow> rx_addr d = dataIOVA (ks p) \<and> (rx_owned d \<longrightarrow> rx_opts1 d = rx_word1 i))"

definition rx_inv :: "RTL8127Driver_IVars \<Rightarrow> bool" where
  "rx_inv iv \<longleftrightarrow> length (rxPkt iv) = 1024 \<and> length (rxRing iv) = 1024 \<and>
     unat (rxNextDescIndex (ihw iv)) < 1024 \<and> fifo_inv (rxDoneFifo iv) \<and> fifo_inv (rxFreeFifo iv) \<and>
     (\<forall>i < 1024. rx_slot_ok (pkts iv) i (rxPkt iv ! i) (rxRing iv ! i))"

fun ev_alloc_rx :: "ndk_event \<Rightarrow> pktid list" where
  "ev_alloc_rx (AllocatePacket (Some p)) = [p]"
| "ev_alloc_rx _ = []"

fun ev_dealloc_rx :: "ndk_event \<Rightarrow> pktid list" where
  "ev_dealloc_rx (DeallocateRx p) = [p]"
| "ev_dealloc_rx _ = []"

definition rx_alloced :: "RTL8127Driver_IVars \<Rightarrow> pktid multiset" where
  "rx_alloced iv = mset (concat (map ev_alloc_rx (ndk iv)))"

definition rx_freed :: "RTL8127Driver_IVars \<Rightarrow> pktid multiset" where
  "rx_freed iv = mset (concat (map ev_dealloc_rx (ndk iv)))"

fun opt_list :: "'a option \<Rightarrow> 'a list" where
  "opt_list None = []"
| "opt_list (Some x) = [x]"

definition rx_held :: "RTL8127Driver_IVars \<Rightarrow> pktid multiset" where
  "rx_held iv = mset (concat (map opt_list (rxPkt iv))) + mset (fifo_list (rxFreeFifo iv)) + mset (fifo_list (rxDoneFifo iv))"

text \<open>Packets gained and lost between two states, apart from the ones handed over.\<close>

definition rx_balance :: "pktid multiset \<Rightarrow> pktid multiset \<Rightarrow> RTL8127Driver_IVars \<Rightarrow> RTL8127Driver_IVars \<Rightarrow> bool" where
  "rx_balance ins outs iv iv' \<longleftrightarrow>
     rx_held iv' + rx_freed iv' + rx_alloced iv + outs = rx_held iv + rx_freed iv + rx_alloced iv' + ins"

lemma rx_balance_refl: "rx_balance {#} {#} iv iv"
  by (simp add: rx_balance_def)

lemma rx_balance_trans:
  assumes "rx_balance i1 o1 a b" "rx_balance i2 o2 b c"
  shows "rx_balance (i1 + i2) (o1 + o2) a c"
proof -
  have "(rx_held b + rx_freed b + rx_alloced b) + (rx_held c + rx_freed c + rx_alloced a + (o1 + o2)) =
      (rx_held b + rx_freed b + rx_alloced a + o1) + (rx_held c + rx_freed c + rx_alloced b + o2)"
    by (simp only: union_ac)
  also have "\<dots> = (rx_held a + rx_freed a + rx_alloced b + i1) + (rx_held b + rx_freed b + rx_alloced c + i2)"
    using assms by (simp only: rx_balance_def)
  also have "\<dots> = (rx_held b + rx_freed b + rx_alloced b) + (rx_held a + rx_freed a + rx_alloced c + (i1 + i2))"
    by (simp only: union_ac)
  finally show ?thesis
    by (simp only: rx_balance_def add_left_cancel)
qed

lemma rx_word1_owned [simp]: "rx_owned \<lparr>rx_opts1 = rx_word1 i, rx_opts2 = o2, rx_addr = a\<rparr>"
  "rx_owned (d\<lparr>rx_opts1 := rx_word1 i\<rparr>)"
  by (simp_all add: rx_owned_def rx_word1_def Let_def kRxBufferSize_def bit.conj_disj_distrib2)


subsection \<open>Arming keeps the invariant\<close>

definition rx_same_bufs :: "RTL8127Driver_IVars \<Rightarrow> RTL8127Driver_IVars \<Rightarrow> bool" where
  "rx_same_bufs iv iv' \<longleftrightarrow> (\<forall>p. dataIOVA (pkts iv' p) = dataIOVA (pkts iv p) \<and> buffer (pkts iv' p) = buffer (pkts iv p))"

definition rx_effect :: "pktid multiset \<Rightarrow> pktid multiset \<Rightarrow> RTL8127Driver_IVars \<Rightarrow> RTL8127Driver_IVars \<Rightarrow> bool" where
  "rx_effect ins outs iv iv' \<longleftrightarrow> rx_inv iv' \<and> rx_balance ins outs iv iv' \<and> rx_same_bufs iv iv'"

lemma rx_effect_refl: "rx_inv iv \<Longrightarrow> rx_effect {#} {#} iv iv"
  by (simp add: rx_effect_def rx_balance_refl rx_same_bufs_def)

lemma rx_effect_trans:
  "rx_effect i1 o1 a b \<Longrightarrow> rx_effect i2 o2 b c \<Longrightarrow> rx_effect (i1 + i2) (o1 + o2) a c"
  by (auto simp: rx_effect_def rx_same_bufs_def intro: rx_balance_trans)

lemma rx_effect_cancel:
  "rx_effect (X + i) (X + out) a b \<Longrightarrow> rx_effect i out a b"
  unfolding rx_effect_def rx_balance_def
  by (metis (no_types, lifting) add_left_cancel union_assoc union_commute)

lemma opt_list_update:
  assumes "i < length xs"
  shows "mset (concat (map opt_list (xs[i := y]))) + mset (opt_list (xs ! i)) = mset (concat (map opt_list xs)) + mset (opt_list y)"
  using mset_concat_update [of i "map opt_list xs" "opt_list y"] assms by (simp add: map_update)

lemma fifo_pop_spec:
  assumes "fifo_inv f" "fifoPop f = (po, g)"
  shows "fifo_inv g" "fifo_list f = opt_list po @ fifo_list g"
  using fifo.deq_inv [OF assms(1)] fifo.deq_contents [OF assms(1)] assms(2) by (auto split: option.splits)

lemma rx_take_effect:
  assumes inv: "rx_inv iv" and r: "rx_take iv = (po, iv')"
  shows "rx_effect {#} (mset (opt_list po)) iv iv'" "rxPkt iv' = rxPkt iv" "rxRing iv' = rxRing iv" "pkts iv' = pkts iv"
proof -
  obtain q g where pop: "fifoPop (rxFreeFifo iv) = (q, g)" by fastforce
  have f: "fifo_inv g" "fifo_list (rxFreeFifo iv) = opt_list q @ fifo_list g"
    using inv fifo_pop_spec [OF _ pop] by (simp_all add: rx_inv_def)
  show s: "rxPkt iv' = rxPkt iv" "rxRing iv' = rxRing iv" "pkts iv' = pkts iv"
    using r pop by (auto simp: rx_take_def Let_def signal_def split: if_splits)
  have o: "ihw iv' = ihw iv" "rxDoneFifo iv' = rxDoneFifo iv" "rxFreeFifo iv' = g"
    using r pop by (auto simp: rx_take_def Let_def signal_def split: if_splits)
  have "rx_inv iv'" using inv f(1) s o by (simp add: rx_inv_def)
  moreover have "rx_balance {#} (mset (opt_list po)) iv iv'"
  proof (cases "q = None \<and> rxPool iv")
    case True
    then have e: "ndk iv' = AllocatePacket po # ndk iv"
      using r pop by (auto simp: rx_take_def Let_def signal_def)
    show ?thesis
      using True f(2) s(1) o(2,3) e by (cases po) (simp_all add: rx_balance_def rx_held_def rx_freed_def rx_alloced_def)
  next
    case False
    then have e: "ndk iv' = ndk iv" "po = q"
      using r pop by (auto simp: rx_take_def Let_def signal_def split: if_splits)
    show ?thesis
      using f(2) s(1) o(2,3) e by (simp add: rx_balance_def rx_held_def rx_freed_def rx_alloced_def union_ac)
  qed
  ultimately show "rx_effect {#} (mset (opt_list po)) iv iv'"
    using s(3) by (simp add: rx_effect_def rx_same_bufs_def)
qed

lemma rx_arm_effect:
  assumes inv: "rx_inv iv" and i: "i < 1024" "rxPkt iv ! i = None"
  shows "rx_effect {#p#} {#} iv (rx_arm i p iv)"
proof -
  have len: "length (rxPkt iv) = 1024" "length (rxRing iv) = 1024" using inv by (simp_all add: rx_inv_def)
  have "rx_inv (rx_arm i p iv)"
    using inv i len by (auto simp: rx_inv_def rx_arm_def signal_def nth_list_update rx_slot_ok_def)
  moreover have "rx_balance {#p#} {#} iv (rx_arm i p iv)"
    using opt_list_update [of i "rxPkt iv" "Some p"] i len
    by (simp add: rx_balance_def rx_held_def rx_arm_def signal_def rx_freed_def rx_alloced_def union_ac)
  ultimately show ?thesis
    by (simp add: rx_effect_def rx_same_bufs_def rx_arm_def signal_def)
qed

lemma rx_refill_loop_effect:
  assumes "rx_inv iv" "\<forall>i \<in> set is. i < 1024" "rx_refill_loop is iv = (b, iv')"
  shows "rx_effect {#} {#} iv iv'"
  using assms
proof (induction "is" arbitrary: iv)
  case (Cons i "is")
  show ?case
  proof (cases "rxPkt iv ! i = None")
    case True
    obtain po iv1 where t: "rx_take iv = (po, iv1)" by fastforce
    note te = rx_take_effect [OF Cons.prems(1) t]
    show ?thesis
    proof (cases po)
      case None
      then show ?thesis using te(1) Cons.prems(3) True t by simp
    next
      case (Some p)
      have "rx_effect {#p#} {#} iv1 (rx_arm i p iv1)"
        using te True Cons.prems(2) by (intro rx_arm_effect) (simp_all add: rx_effect_def)
      from rx_effect_trans [OF te(1) this] have e: "rx_effect {#} {#} iv (rx_arm i p iv1)"
        using rx_effect_cancel [of "{#p#}" "{#}" "{#}"] Some by simp
      moreover have "rx_effect {#} {#} (rx_arm i p iv1) iv'"
        using Cons.prems(2,3) True t Some e by (intro Cons.IH) (simp_all add: rx_effect_def)
      ultimately show ?thesis
        using rx_effect_trans by fastforce
    qed
  qed (use Cons in simp)
qed (simp add: rx_effect_refl)

lemma rx_refill_effect: "rx_inv iv \<Longrightarrow> rx_effect {#} {#} iv (snd (rxRingRefill iv))"
  using rx_refill_loop_effect [of iv "[0..<kNumRxDesc]"]
  by (cases "rxRingRefill iv") (auto simp: rxRingRefill_def kNumRxDesc_def)


text \<open>Every slot that holds a packet is the chip's.\<close>

definition rx_armed :: "RTL8127Driver_IVars \<Rightarrow> bool" where
  "rx_armed iv \<longleftrightarrow> (\<forall>i < 1024. rxPkt iv ! i \<noteq> None \<longrightarrow> rx_owned (rxRing iv ! i))"

lemma rx_refill_loop_armed:
  assumes "rx_armed iv" "rx_inv iv" "\<forall>i \<in> set is. i < 1024" "rx_refill_loop is iv = (b, iv')"
  shows "rx_armed iv'" "rxNextDescIndex (ihw iv') = rxNextDescIndex (ihw iv)"
    "b \<Longrightarrow> \<forall>i \<in> set is. rxPkt iv' ! i \<noteq> None" "\<forall>i < 1024. rxPkt iv ! i \<noteq> None \<longrightarrow> rxPkt iv' ! i = rxPkt iv ! i"
proof -
  have "rx_armed iv' \<and> rxNextDescIndex (ihw iv') = rxNextDescIndex (ihw iv) \<and> (b \<longrightarrow> (\<forall>i \<in> set is. rxPkt iv' ! i \<noteq> None)) \<and>
      (\<forall>i < 1024. rxPkt iv ! i \<noteq> None \<longrightarrow> rxPkt iv' ! i = rxPkt iv ! i)"
    using assms
  proof (induction "is" arbitrary: iv)
    case (Cons i "is")
    show ?case
    proof (cases "rxPkt iv ! i = None")
      case True
      obtain po iv1 where t: "rx_take iv = (po, iv1)" by fastforce
      note te = rx_take_effect [OF Cons.prems(2) t]
      have h: "ihw iv1 = ihw iv"
        using t by (auto simp: rx_take_def Let_def signal_def split: if_splits prod.splits)
      show ?thesis
      proof (cases po)
        case None
        then show ?thesis using te h Cons.prems True t by (auto simp: rx_armed_def)
      next
        case (Some p)
        have len: "length (rxPkt iv1) = 1024" "length (rxRing iv1) = 1024"
          using te(1) by (simp_all add: rx_effect_def rx_inv_def)
        have inv: "rx_inv (rx_arm i p iv1)"
          using te True Cons.prems(3) rx_arm_effect [of iv1 i p] by (simp add: rx_effect_def)
        have i: "i < 1024" using Cons.prems(3) by simp
        have ar: "rx_armed (rx_arm i p iv1)" "ihw (rx_arm i p iv1) = ihw iv" "rxPkt (rx_arm i p iv1) = (rxPkt iv)[i := Some p]"
          using Cons.prems(1) te(2,3) len h i by (auto simp: rx_armed_def rx_arm_def signal_def nth_list_update)
        have "rx_refill_loop is (rx_arm i p iv1) = (b, iv')" using Cons.prems(4) True t Some by simp
        note ih = Cons.IH [OF ar(1) inv _ this]
        then show ?thesis
          using Cons.prems(3) ar(2,3) True len te(2) i by (auto simp: nth_list_update split: if_splits)
      qed
    qed (use Cons in auto)
  qed simp
  then show "rx_armed iv'" "rxNextDescIndex (ihw iv') = rxNextDescIndex (ihw iv)"
    "b \<Longrightarrow> \<forall>i \<in> set is. rxPkt iv' ! i \<noteq> None" "\<forall>i < 1024. rxPkt iv ! i \<noteq> None \<longrightarrow> rxPkt iv' ! i = rxPkt iv ! i"
    by blast+
qed

lemma rx_rearm_loop_effect:
  assumes "rx_inv iv" "\<forall>i \<in> set is. i < 1024"
  shows "rx_effect {#} {#} iv (rx_rearm_loop is iv) \<and> rxPkt (rx_rearm_loop is iv) = rxPkt iv \<and>
    (\<forall>i < 1024. rxPkt iv ! i \<noteq> None \<longrightarrow> i \<in> set is \<or> rx_owned (rxRing iv ! i) \<longrightarrow> rx_owned (rxRing (rx_rearm_loop is iv) ! i))"
  using assms
proof (induction "is" arbitrary: iv)
  case (Cons i "is")
  show ?case
  proof (cases "rxPkt iv ! i = None")
    case False
    let ?iv = "iv\<lparr>rxRing := (rxRing iv)[i := (rxRing iv ! i)\<lparr>rx_opts2 := 0, rx_opts1 := rx_word1 i\<rparr>]\<rparr>"
    have len: "length (rxRing iv) = 1024" "i < 1024" using Cons.prems by (simp_all add: rx_inv_def)
    have inv: "rx_inv ?iv"
      using Cons.prems False len by (auto simp: rx_inv_def nth_list_update rx_slot_ok_def split: option.splits)
    have e: "rx_effect {#} {#} iv ?iv"
      using inv by (simp add: rx_effect_def rx_same_bufs_def rx_balance_def rx_held_def rx_freed_def rx_alloced_def)
    have ow: "rx_owned (rxRing ?iv ! i)" using len by simp
    note ih = Cons.IH [OF inv]
    show ?thesis
      using ih Cons.prems(2) rx_effect_trans [OF e] False len ow by (auto simp: nth_list_update)
  qed (use Cons in auto)
qed (simp add: rx_effect_refl)

lemma rx_rearm_spec:
  assumes "rx_inv iv"
  shows "rx_effect {#} {#} iv (rxRingRearm iv)" "rx_armed (rxRingRearm iv)" "rxNextDescIndex (ihw (rxRingRearm iv)) = 0"
    "\<forall>i < 1024. rxPkt iv ! i \<noteq> None \<longrightarrow> rxPkt (rxRingRearm iv) ! i = rxPkt iv ! i"
proof -
  let ?a = "rx_rearm_loop [0..<kNumRxDesc] iv"
  let ?b = "?a\<lparr>ihw := (ihw ?a)\<lparr>rxNextDescIndex := 0\<rparr>\<rparr>"
  have a: "rx_effect {#} {#} iv ?a" "rxPkt ?a = rxPkt iv" "rx_armed ?a"
    using rx_rearm_loop_effect [OF assms, of "[0..<kNumRxDesc]"] by (auto simp: kNumRxDesc_def rx_armed_def)
  have b: "rx_effect {#} {#} iv ?b" "rx_armed ?b"
    using a by (simp_all add: rx_effect_def rx_inv_def rx_same_bufs_def rx_balance_def rx_held_def rx_freed_def
        rx_alloced_def rx_armed_def)
  obtain r iv' where r: "rxRingRefill ?b = (r, iv')" by fastforce
  have inv: "rx_inv ?b" using b by (simp add: rx_effect_def)
  have "rx_refill_loop [0..<kNumRxDesc] ?b = (r, iv')" using r by (simp add: rxRingRefill_def)
  note ar = rx_refill_loop_armed [OF b(2) inv _ this]
  have eq: "rxRingRearm iv = iv'" using r by (simp add: rxRingRearm_def Let_def)
  show "rx_effect {#} {#} iv (rxRingRearm iv)"
    using rx_effect_trans [OF b(1) rx_refill_effect [OF inv]] r eq by simp
  show "rx_armed (rxRingRearm iv)" "rxNextDescIndex (ihw (rxRingRearm iv)) = 0"
    using ar(1,2) eq by (simp_all add: kNumRxDesc_def)
  show "\<forall>i < 1024. rxPkt iv ! i \<noteq> None \<longrightarrow> rxPkt (rxRingRearm iv) ! i = rxPkt iv ! i"
    using ar(4) a(2) eq by (simp add: kNumRxDesc_def)
qed


subsection \<open>Servicing the ring\<close>

text \<open>
  \<open>rx_fits\<close>: the chip reports no frame larger than the buffer it was given.
  \<open>rx_run n\<close>: the completed descriptors, in ring order from the next index, at
  most \<open>n\<close> of them.
\<close>

definition rx_fits :: "RTL8127Driver_IVars \<Rightarrow> bool" where
  "rx_fits iv \<longleftrightarrow> (\<forall>i < 1024. \<forall>p. rxPkt iv ! i = Some p \<longrightarrow> \<not> rx_owned (rxRing iv ! i) \<longrightarrow>
     \<not> rx_bad (rx_opts1 (rxRing iv ! i)) \<longrightarrow> nat (rx_length (rx_opts1 (rxRing iv ! i))) \<le> length (buffer (pkts iv p)))"

definition rx_ready :: "RTL8127Driver_IVars \<Rightarrow> nat \<Rightarrow> bool" where
  "rx_ready iv i \<longleftrightarrow> \<not> rx_owned (rxRing iv ! i) \<and> rxPkt iv ! i \<noteq> None"

definition rx_run :: "nat \<Rightarrow> RTL8127Driver_IVars \<Rightarrow> nat list" where
  "rx_run n iv = takeWhile (rx_ready iv) (map (\<lambda>j. (unat (rxNextDescIndex (ihw iv)) + j) mod 1024) [0..<n])"

definition rx_good :: "RTL8127Driver_IVars \<Rightarrow> nat \<Rightarrow> bool" where
  "rx_good iv i \<longleftrightarrow> \<not> rx_bad (rx_opts1 (rxRing iv ! i))"

definition rx_delivered :: "nat list \<Rightarrow> RTL8127Driver_IVars \<Rightarrow> pktid list" where
  "rx_delivered is iv = map (\<lambda>i. the (rxPkt iv ! i)) (filter (rx_good iv) is)"

lemma rx_next_index: "unat ((i + 1) AND kRxDescMask) = (unat i + 1) mod 1024" for i :: u32
  using unat_plus1_and_mask [of 10 i] by (simp add: kRxDescMask_def mask_1023)

lemma rx_finish_pkt_keeps [simp]:
  "buffer (rx_finish_pkt l o2 k) = buffer k" "dataIOVA (rx_finish_pkt l o2 k) = dataIOVA k"
  "dataVA (rx_finish_pkt l o2 k) = dataVA k"
  by (simp_all add: rx_finish_pkt_def Let_def)

lemma rx_log_syn_defined: "len \<le> length (buffer k) \<Longrightarrow> \<exists>c'. rx_log_syn k len c = Some c'"
  using describeTcpSyn_defined [of len "buffer k" "dataVA k \<noteq> 0"] by (auto simp: rx_log_syn_def split: option.splits)

lemma rx_deliver_spec:
  assumes inv: "rx_inv iv" and i: "i < 1024" "rxPkt iv ! i = Some p" "\<not> rx_owned (rxRing iv ! i)"
    and fits: "nat (rx_length st) \<le> length (buffer (pkts iv p))"
  obtains iv' where "rx_deliver i p st iv = Some iv'" "rx_effect {#} {#} iv iv'"
    "rxPkt iv' = (rxPkt iv)[i := None]" "rxRing iv' = rxRing iv" "ihw iv' = ihw iv"
    "fifo_list (rxDoneFifo iv') = take 2047 (fifo_list (rxDoneFifo iv) @ [p])"
    "pkts iv' = (pkts iv)(p := rx_finish_pkt (rx_length st) (rx_opts2 (rxRing iv ! i)) (pkts iv p))"
proof -
  let ?k = "rx_finish_pkt (rx_length st) (rx_opts2 (rxRing iv ! i)) (pkts iv p)"
  let ?iv1 = "set_pkt p (rx_finish_pkt (rx_length st) (rx_opts2 (rxRing iv ! i))) (iv\<lparr>rxPkt := (rxPkt iv)[i := None]\<rparr>)"
  obtain c2 where c2: "rx_log_syn ?k (nat (rx_length st)) ((ctr iv)\<lparr>rxDelivered := rxDelivered (ctr iv) + 1\<rparr>) = Some c2"
    using rx_log_syn_defined [of "nat (rx_length st)" ?k] fits by auto
  have fi: "fifo_inv (rxDoneFifo iv)" and len: "length (rxPkt iv) = 1024" using inv by (simp_all add: rx_inv_def)
  obtain ok f where pu: "fifoPush (rxDoneFifo iv) p = (ok, f)" by fastforce
  have f: "fifo_list f = take 2047 (fifo_list (rxDoneFifo iv) @ [p])" "fifo_inv f" "ok \<longleftrightarrow> length (fifo_list (rxDoneFifo iv)) < 2047"
    using fifo_push_take [OF fi, of p] pu by simp_all
  define iv' where "iv' = (if ok then ?iv1\<lparr>ctr := c2, rxDoneFifo := f\<rparr>
     else signal (DeallocateRx p) ((tally (\<lambda>c. c\<lparr>rxDroppedFifo := rxDroppedFifo c + 1\<rparr>) (?iv1\<lparr>ctr := c2\<rparr>))\<lparr>rxDropWarned := True\<rparr>))"
  have r: "rx_deliver i p st iv = Some iv'"
    using c2 pu unfolding rx_deliver_def Let_def by (simp add: set_pkt_def iv'_def)
  have s: "rxPkt iv' = (rxPkt iv)[i := None]" "rxRing iv' = rxRing iv" "ihw iv' = ihw iv"
      "pkts iv' = (pkts iv)(p := ?k)" "rxFreeFifo iv' = rxFreeFifo iv" "rxDoneFifo iv' = (if ok then f else rxDoneFifo iv)"
      "ndk iv' = (if ok then ndk iv else DeallocateRx p # ndk iv)"
    by (cases ok; simp add: iv'_def set_pkt_def signal_def tally_def)+
  have d: "fifo_list (rxDoneFifo iv') = take 2047 (fifo_list (rxDoneFifo iv) @ [p])"
    using f s(6) fifo.cap_bound [OF fi] by auto
  have inv': "rx_inv iv'"
    using inv i s f(2) len by (auto simp: rx_inv_def rx_slot_ok_def nth_list_update split: option.splits)
  have "mset (concat (map opt_list (rxPkt iv))) = mset (concat (map opt_list (rxPkt iv'))) + {#p#}"
    using opt_list_update [of i "rxPkt iv" None] i len s(1) by simp
  then have "rx_balance {#} {#} iv iv'"
    using s f(1,3) by (simp add: rx_balance_def rx_held_def rx_freed_def rx_alloced_def)
  then have "rx_effect {#} {#} iv iv'"
    using inv' s(4) by (simp add: rx_effect_def rx_same_bufs_def)
  then show thesis using that r s d by blast
qed

lemma rx_recycle_effect:
  assumes inv: "rx_inv iv" and i: "i < 1024" "rxPkt iv ! i = Some p"
  shows "rx_effect {#} {#} iv (rx_recycle i iv)"
proof -
  have len: "length (rxRing iv) = 1024" using inv by (simp add: rx_inv_def)
  have "rx_inv (rx_recycle i iv)"
    using inv i len by (auto simp: rx_inv_def rx_recycle_def tally_def nth_list_update rx_slot_ok_def split: option.splits)
  then show ?thesis
    by (simp add: rx_effect_def rx_balance_def rx_held_def rx_freed_def rx_alloced_def rx_same_bufs_def rx_recycle_def tally_def)
qed

lemma rx_advance_effect: "rx_inv iv \<Longrightarrow> rx_effect {#} {#} iv (rx_advance iv)"
  by (simp add: rx_effect_def rx_inv_def rx_balance_def rx_held_def rx_freed_def rx_alloced_def rx_same_bufs_def
      rx_advance_def rx_next_index)


text \<open>One iteration changes slot \<open>i\<close> only and moves to the next index.\<close>

definition rx_moved :: "nat \<Rightarrow> RTL8127Driver_IVars \<Rightarrow> RTL8127Driver_IVars \<Rightarrow> bool" where
  "rx_moved i iv iv' \<longleftrightarrow> rx_effect {#} {#} iv iv' \<and>
     unat (rxNextDescIndex (ihw iv')) = (i + 1) mod 1024 \<and>
     (\<forall>k < 1024. k \<noteq> i \<longrightarrow> rxPkt iv' ! k = rxPkt iv ! k \<and> rxRing iv' ! k = rxRing iv ! k) \<and>
     (if rx_good iv i then rxPkt iv' ! i = None else rxPkt iv' ! i = rxPkt iv ! i \<and> rx_owned (rxRing iv' ! i)) \<and>
     fifo_list (rxDoneFifo iv') = take 2047 (fifo_list (rxDoneFifo iv) @ rx_delivered [i] iv)"

lemma rx_moved_fits:
  assumes "rx_moved i iv iv'" "rx_fits iv" "i < 1024"
  shows "rx_fits iv'"
  unfolding rx_fits_def
proof (intro allI impI)
  fix k p
  assume k: "k < 1024" "rxPkt iv' ! k = Some p" "\<not> rx_owned (rxRing iv' ! k)" "\<not> rx_bad (rx_opts1 (rxRing iv' ! k))"
  have "k \<noteq> i" using assms(1) k by (auto simp: rx_moved_def split: if_splits)
  then show "nat (rx_length (rx_opts1 (rxRing iv' ! k))) \<le> length (buffer (pkts iv' p))"
    using assms(1,2) k by (auto simp: rx_moved_def rx_fits_def rx_effect_def rx_same_bufs_def)
qed

lemma rx_run_step:
  assumes m: "rx_moved i iv iv'" and i: "i = unat (rxNextDescIndex (ihw iv))" "i < 1024" and r: "rx_ready iv i" and n: "n < 1024"
  shows "rx_run (Suc n) iv = i # rx_run n iv'"
    "rx_delivered (rx_run (Suc n) iv) iv = rx_delivered [i] iv @ rx_delivered (rx_run n iv') iv'"
    "i \<notin> set (rx_run n iv')"
proof -
  let ?is = "map (\<lambda>j. (i + Suc j) mod 1024) [0..<n]"
  have ne: "(i + Suc j) mod 1024 \<noteq> i" if "j < n" for j
    using mod_add_left_inj [of "Suc j" 1024 0 i] that n i(2) by auto
  have idx: "map (\<lambda>j. (unat (rxNextDescIndex (ihw iv')) + j) mod 1024) [0..<n] = ?is"
    using m by (simp add: rx_moved_def mod_simps)
  have same: "rx_ready iv' k = rx_ready iv k" "rx_good iv' k = rx_good iv k" "rxPkt iv' ! k = rxPkt iv ! k"
    if "k \<in> set ?is" for k
    using that m ne by (auto simp: rx_moved_def rx_ready_def rx_good_def)
  have run': "rx_run n iv' = takeWhile (rx_ready iv) ?is"
    unfolding rx_run_def idx by (rule takeWhile_cong) (use same in simp_all)
  have "map (\<lambda>j. (i + j) mod 1024) [0..<Suc n] = i # ?is"
    using i(2) by (simp only: map_upt_Suc) simp
  then show run: "rx_run (Suc n) iv = i # rx_run n iv'"
    unfolding run' unfolding rx_run_def i(1) [symmetric] using r by (simp only: takeWhile.simps if_True)
  have sub: "set (rx_run n iv') \<subseteq> set ?is" unfolding run' using set_takeWhileD by fastforce
  then show "i \<notin> set (rx_run n iv')" using ne by (force simp del: upt_Suc)
  have "filter (rx_good iv) (rx_run n iv') = filter (rx_good iv') (rx_run n iv')"
    using sub same(2) by (intro filter_cong) auto
  moreover have "map (\<lambda>i. the (rxPkt iv ! i)) (filter (rx_good iv') (rx_run n iv')) =
      map (\<lambda>i. the (rxPkt iv' ! i)) (filter (rx_good iv') (rx_run n iv'))"
    using sub same(3) by (intro map_cong) auto
  ultimately show "rx_delivered (rx_run (Suc n) iv) iv = rx_delivered [i] iv @ rx_delivered (rx_run n iv') iv'"
    unfolding run by (simp add: rx_delivered_def)
qed

lemma rx_iteration:
  assumes inv: "rx_inv iv" and fits: "rx_fits iv" and i: "i = unat (rxNextDescIndex (ihw iv))" and r: "rx_ready iv i"
  obtains iv' where "rx_moved i iv iv'"
    "rx_service_loop (Suc n) d iv = rx_service_loop n (d \<or> rx_good iv i) iv'"
proof -
  have lt: "i < 1024" using inv i by (simp add: rx_inv_def)
  obtain p where p: "rxPkt iv ! i = Some p" using r by (auto simp: rx_ready_def)
  have no: "\<not> rx_owned (rxRing iv ! i)" using r by (simp add: rx_ready_def)
  have len: "length (rxPkt iv) = 1024" "length (rxRing iv) = 1024" using inv by (simp_all add: rx_inv_def)
  show thesis
  proof (cases "rx_good iv i")
    case False
    let ?iv = "rx_advance (rx_recycle i iv)"
    have e: "rx_effect {#} {#} iv (rx_recycle i iv)" by (rule rx_recycle_effect [OF inv lt p])
    have "rx_effect {#} {#} (rx_recycle i iv) ?iv"
      using e by (intro rx_advance_effect) (simp add: rx_effect_def)
    from rx_effect_trans [OF e this] have "rx_effect {#} {#} iv ?iv" by simp
    then have "rx_moved i iv ?iv"
      using False lt len i fifo.cap_bound [of "rxDoneFifo iv"] inv
      by (simp add: rx_moved_def rx_advance_def rx_recycle_def tally_def rx_next_index rx_delivered_def rx_inv_def)
    moreover have "rx_service_loop (Suc n) d iv = rx_service_loop n (d \<or> rx_good iv i) ?iv"
      using False p no by (simp add: Let_def i [symmetric] rx_good_def rx_owned_def)
    ultimately show thesis using that by blast
  next
    case True
    have "nat (rx_length (rx_opts1 (rxRing iv ! i))) \<le> length (buffer (pkts iv p))"
      using fits lt p no True by (simp add: rx_fits_def rx_good_def)
    then obtain iv1 where d1: "rx_deliver i p (rx_opts1 (rxRing iv ! i)) iv = Some iv1" "rx_effect {#} {#} iv iv1"
        "rxPkt iv1 = (rxPkt iv)[i := None]" "rxRing iv1 = rxRing iv" "ihw iv1 = ihw iv"
        "fifo_list (rxDoneFifo iv1) = take 2047 (fifo_list (rxDoneFifo iv) @ [p])"
      using rx_deliver_spec [OF inv lt p no] by metis
    have "rx_effect {#} {#} iv1 (rx_advance iv1)"
      using d1(2) by (intro rx_advance_effect) (simp add: rx_effect_def)
    from rx_effect_trans [OF d1(2) this] have "rx_effect {#} {#} iv (rx_advance iv1)" by simp
    then have "rx_moved i iv (rx_advance iv1)"
      using True lt len i d1 p by (simp add: rx_moved_def rx_advance_def rx_next_index rx_delivered_def)
    moreover have "rx_service_loop (Suc n) d iv = rx_service_loop n (d \<or> rx_good iv i) (rx_advance iv1)"
      using True p no d1(1) by (simp add: Let_def i [symmetric] rx_good_def rx_owned_def)
    ultimately show thesis using that by blast
  qed
qed


lemma rx_run_less: "k \<in> set (rx_run n iv) \<Longrightarrow> k < 1024"
proof -
  assume "k \<in> set (rx_run n iv)"
  then have "k \<in> set (map (\<lambda>j. (unat (rxNextDescIndex (ihw iv)) + j) mod 1024) [0..<n])"
    unfolding rx_run_def by (rule set_takeWhileD [THEN conjunct1])
  then show ?thesis by auto
qed

lemma rx_service_loop_spec:
  assumes "rx_inv iv" "rx_fits iv" "n \<le> 1024"
  shows "\<exists>iv'. rx_service_loop n d iv = Some (d \<or> rx_delivered (rx_run n iv) iv \<noteq> [], iv') \<and> rx_effect {#} {#} iv iv' \<and>
    unat (rxNextDescIndex (ihw iv')) = (unat (rxNextDescIndex (ihw iv)) + length (rx_run n iv)) mod 1024 \<and>
    fifo_list (rxDoneFifo iv') = take 2047 (fifo_list (rxDoneFifo iv) @ rx_delivered (rx_run n iv) iv) \<and>
    (\<forall>k < 1024. k \<notin> set (rx_run n iv) \<longrightarrow> rxPkt iv' ! k = rxPkt iv ! k \<and> rxRing iv' ! k = rxRing iv ! k) \<and>
    (\<forall>k \<in> set (rx_run n iv). if rx_good iv k then rxPkt iv' ! k = None
       else rxPkt iv' ! k = rxPkt iv ! k \<and> rx_owned (rxRing iv' ! k))"
  using assms
proof (induction n arbitrary: d iv)
  case 0
  then show ?case
    using fifo.cap_bound [of "rxDoneFifo iv"]
    by (simp add: rx_run_def rx_delivered_def rx_effect_refl rx_inv_def)
next
  case (Suc n)
  let ?i = "unat (rxNextDescIndex (ihw iv))"
  have i: "?i < 1024" using Suc.prems by (simp add: rx_inv_def)
  show ?case
  proof (cases "rx_ready iv ?i")
    case False
    have "rx_run (Suc n) iv = []"
      using False i by (simp add: rx_run_def upt_rec [of 0] del: upt_Suc)
    moreover have "rx_service_loop (Suc n) d iv = Some (d, iv)"
      using False by (auto simp: Let_def rx_ready_def rx_owned_def split: option.splits)
    ultimately show ?thesis
      using Suc.prems i fifo.cap_bound [of "rxDoneFifo iv"] by (simp add: rx_delivered_def rx_effect_refl rx_inv_def)
  next
    case True
    obtain iv1 where m: "rx_moved ?i iv iv1"
        and l: "rx_service_loop (Suc n) d iv = rx_service_loop n (d \<or> rx_good iv ?i) iv1"
      by (rule rx_iteration [OF Suc.prems(1,2) refl True])
    have n: "n < 1024" using Suc.prems(3) by simp
    note rs = rx_run_step [OF m refl i True n]
    have "rx_inv iv1" using m by (simp add: rx_moved_def rx_effect_def)
    from Suc.IH [OF this rx_moved_fits [OF m Suc.prems(2) i], of "d \<or> rx_good iv ?i"] n
    obtain iv' where ih: "rx_service_loop n (d \<or> rx_good iv ?i) iv1 = Some ((d \<or> rx_good iv ?i) \<or> rx_delivered (rx_run n iv1) iv1 \<noteq> [], iv')"
        "rx_effect {#} {#} iv1 iv'"
        "unat (rxNextDescIndex (ihw iv')) = (unat (rxNextDescIndex (ihw iv1)) + length (rx_run n iv1)) mod 1024"
        "fifo_list (rxDoneFifo iv') = take 2047 (fifo_list (rxDoneFifo iv1) @ rx_delivered (rx_run n iv1) iv1)"
        "\<forall>k < 1024. k \<notin> set (rx_run n iv1) \<longrightarrow> rxPkt iv' ! k = rxPkt iv1 ! k \<and> rxRing iv' ! k = rxRing iv1 ! k"
        "\<forall>k \<in> set (rx_run n iv1). if rx_good iv1 k then rxPkt iv' ! k = None
           else rxPkt iv' ! k = rxPkt iv1 ! k \<and> rx_owned (rxRing iv' ! k)"
      by auto
    have lt: "\<forall>k \<in> set (rx_run n iv1). k < 1024"
      using rx_run_less by blast
    have oth: "\<And>k. k < 1024 \<Longrightarrow> k \<noteq> ?i \<Longrightarrow> rxPkt iv1 ! k = rxPkt iv ! k \<and> rxRing iv1 ! k = rxRing iv ! k"
      using m by (simp add: rx_moved_def)
    have d1: "rx_delivered [?i] iv \<noteq> [] \<longleftrightarrow> rx_good iv ?i" by (simp add: rx_delivered_def)
    have "rx_effect {#} {#} iv iv'"
      using rx_effect_trans [of "{#}" "{#}" iv iv1 "{#}" "{#}" iv'] m ih(2) by (simp add: rx_moved_def)
    moreover have "fifo_list (rxDoneFifo iv') = take 2047 (fifo_list (rxDoneFifo iv) @ rx_delivered (rx_run (Suc n) iv) iv)"
    proof -
      have "fifo_list (rxDoneFifo iv1) = take 2047 (fifo_list (rxDoneFifo iv) @ rx_delivered [?i] iv)"
        using m by (simp add: rx_moved_def)
      then show ?thesis unfolding ih(4) rs(2) by (simp only: take_take_append append_assoc)
    qed
    moreover have "unat (rxNextDescIndex (ihw iv')) = (?i + length (rx_run (Suc n) iv)) mod 1024"
      using ih(3) m by (simp add: rs(1) rx_moved_def mod_simps)
    moreover have "\<forall>k \<in> set (rx_run n iv1). rx_good iv1 k = rx_good iv k"
      using oth lt rs(3) by (metis rx_good_def)
    moreover have "if rx_good iv ?i then rxPkt iv' ! ?i = None else rxPkt iv' ! ?i = rxPkt iv ! ?i \<and> rx_owned (rxRing iv' ! ?i)"
      using m ih(5) i rs(3) by (simp add: rx_moved_def)
    moreover have "rx_service_loop (Suc n) d iv = Some (d \<or> rx_delivered (rx_run (Suc n) iv) iv \<noteq> [], iv')"
      using l ih(1) d1 by (simp add: rs(2) disj_ac)
    ultimately show ?thesis
      using ih(5,6) oth lt rs(3) unfolding rs(1) by (intro exI [of _ iv']) (auto split: if_splits)
  qed
qed

end
