(* ===== verification/DextRxSystem.thy ===== *)
theory DextRxSystem
  imports DextRx
begin

text \<open>
  The receive path as a whole: what one service pass delivers, the system of
  driver, framework and chip (\<open>rx_step\<close>), and what holds in every reachable
  state: the chip only ever owns descriptors of buffers the driver holds, and
  no packet is lost or duplicated.
\<close>

subsection \<open>Effects of the actions\<close>

lemma rx_refill_loop_done: "rxDoneFifo (snd (rx_refill_loop is iv)) = rxDoneFifo iv"
proof (induction "is" arbitrary: iv)
  case (Cons i "is")
  obtain po iv1 where t: "rx_take iv = (po, iv1)" by fastforce
  have d: "rxDoneFifo iv1 = rxDoneFifo iv"
    using t by (auto simp: rx_take_def Let_def signal_def split: if_splits prod.splits)
  show ?case
  proof (cases po)
    case (Some p)
    have "rxDoneFifo (rx_arm i p iv1) = rxDoneFifo iv" using d by (simp add: rx_arm_def signal_def)
    then show ?thesis using Cons.IH Some t by simp
  qed (use Cons.IH t d in simp)
qed simp

lemma rx_tally_effect:
  assumes "rx_effect i out a b"
  shows "rx_effect i out a (tally f b)"
  using assms by (simp add: rx_effect_def rx_inv_def rx_balance_def rx_held_def rx_freed_def rx_alloced_def
      rx_same_bufs_def tally_def)

lemma rx_signal_effect:
  assumes "rx_effect i out a b" "\<And>x. ev_alloc_rx (e x) = []" "\<And>x. ev_dealloc_rx (e x) = []"
  shows "rx_effect i out a (signal_opt e q b)"
  using assms by (cases q) (simp_all add: rx_effect_def rx_inv_def rx_balance_def rx_held_def rx_freed_def rx_alloced_def
      rx_same_bufs_def signal_opt_def signal_def)

lemma rx_service_spec:
  assumes inv: "rx_inv iv" and fits: "rx_fits iv"
  obtains iv' where "rxRingService iv = Some iv'" "rx_effect {#} {#} iv iv'"
    "fifo_list (rxDoneFifo iv') = take 2047 (fifo_list (rxDoneFifo iv) @ rx_delivered (rx_run 1024 iv) iv)"
proof -
  obtain d iv1 where 1: "rx_service_loop 1024 False iv = Some (d, iv1)" "rx_effect {#} {#} iv iv1"
      "fifo_list (rxDoneFifo iv1) = take 2047 (fifo_list (rxDoneFifo iv) @ rx_delivered (rx_run 1024 iv) iv)"
    using rx_service_loop_spec [OF inv fits order_refl, of False] by blast
  obtain c iv2 where r: "rxRingRefill iv1 = (c, iv2)" by fastforce
  have "rx_effect {#} {#} iv1 iv2" using rx_refill_effect [of iv1] 1(2) r by (simp add: rx_effect_def)
  from rx_effect_trans [OF 1(2) this] have 2: "rx_effect {#} {#} iv iv2" by simp
  have d2: "rxDoneFifo iv2 = rxDoneFifo iv1"
    using rx_refill_loop_done [of "[0..<kNumRxDesc]" iv1] r by (simp add: rxRingRefill_def)
  define iv3 where "iv3 = (if c then iv2 else tally (\<lambda>c. c\<lparr>rxRefillShort := rxRefillShort c + 1\<rparr>) iv2)"
  have 3: "rx_effect {#} {#} iv iv3" "rxDoneFifo iv3 = rxDoneFifo iv1"
    using 2 rx_tally_effect [OF 2] d2 by (simp_all add: iv3_def tally_def)
  define iv4 where "iv4 = (if d \<and> rxCompQueue iv3 \<noteq> None
     then signal_opt RequestDequeue (rxSubQueue iv3) (signal_opt RequestEnqueue (rxCompQueue iv3) iv3) else iv3)"
  have "rx_effect {#} {#} iv iv4"
    using 3(1) unfolding iv4_def by (auto intro!: rx_signal_effect)
  moreover have "rxDoneFifo iv4 = rxDoneFifo iv1"
    using 3(2) by (auto simp: iv4_def signal_opt_def signal_def split: option.splits)
  moreover have "rxRingService iv = Some iv4"
    unfolding rxRingService_def kNumRxDesc_def
    by (simp only: 1(1) r option.case prod.case Let_def iv3_def iv4_def)
  ultimately show thesis using that 1(3) by simp
qed

lemma rx_push_loop_spec:
  assumes "fifo_inv f" "rx_push_loop ps f = (n, g)"
  shows "fifo_inv g" "n \<le> length ps" "fifo_list g = fifo_list f @ take n ps"
proof -
  have "fifo_inv g \<and> n \<le> length ps \<and> fifo_list g = fifo_list f @ take n ps"
    using assms
  proof (induction ps arbitrary: f n g)
    case (Cons p ps)
    obtain ok f1 where pu: "fifoPush f p = (ok, f1)" by fastforce
    have f1: "fifo_inv f1" "fifo_list f1 = fifo_list f @ (if ok then [p] else [])"
      using fifo.enq_inv [OF Cons.prems(1), of p] fifo.enq_contents [OF Cons.prems(1), of p] pu by simp_all
    show ?case
    proof (cases ok)
      case True
      obtain m h where l: "rx_push_loop ps f1 = (m, h)" by fastforce
      then show ?thesis using Cons.IH [OF f1(1) l] Cons.prems(2) pu True f1(2) by auto
    next
      case False
      then show ?thesis using Cons.prems(2) pu f1 by simp
    qed
  qed simp
  then show "fifo_inv g" "n \<le> length ps" "fifo_list g = fifo_list f @ take n ps" by simp_all
qed

lemma rx_dequeue_effect:
  assumes inv: "rx_inv iv" and r: "rxDequeueAction ps iv = (acc, iv')" and len: "length ps < 2 ^ 32"
  shows "rx_effect (mset (take (unat acc) ps)) {#} iv iv'" "unat acc \<le> length ps"
proof -
  obtain n g where l: "rx_push_loop ps (rxFreeFifo iv) = (n, g)" by fastforce
  have fi: "fifo_inv (rxFreeFifo iv)" using inv by (simp add: rx_inv_def)
  note sp = rx_push_loop_spec [OF fi l]
  have e: "acc = of_nat n" "iv' = iv\<lparr>rxFreeFifo := g\<rparr>" using r l by (simp_all add: rxDequeueAction_def)
  have n: "unat acc = n" using sp(2) len e(1) by (simp add: unat_of_nat)
  show "unat acc \<le> length ps" using n sp(2) by simp
  have "rx_inv iv'" using inv sp(1) e(2) by (simp add: rx_inv_def)
  then show "rx_effect (mset (take (unat acc) ps)) {#} iv iv'"
    using sp(3) n e(2) by (simp add: rx_effect_def rx_balance_def rx_held_def rx_freed_def rx_alloced_def rx_same_bufs_def union_ac)
qed

lemma rx_enqueue_effect:
  assumes inv: "rx_inv iv" and r: "rxEnqueueAction cap iv = (ps, iv')"
  shows "rx_effect {#} (mset ps) iv iv'" "ps = take (unat cap) (fifo_list (rxDoneFifo iv))"
proof -
  have fi: "fifo_inv (rxDoneFifo iv)" using inv by (simp add: rx_inv_def)
  note dr = fifo.drain_take [OF fi, of "unat cap"]
  obtain g where g: "drain fifoPop (unat cap) (rxDoneFifo iv) = (ps, g)" "iv' = iv\<lparr>rxDoneFifo := g\<rparr>"
    using r by (auto simp: rxEnqueueAction_def split: prod.splits)
  show ps: "ps = take (unat cap) (fifo_list (rxDoneFifo iv))" using dr g by simp
  have "mset (fifo_list (rxDoneFifo iv)) = mset ps + mset (fifo_list g)"
    using dr g by (metis append_take_drop_id fst_conv mset_append snd_conv)
  moreover have "rx_inv iv'" using inv dr g by (simp add: rx_inv_def)
  ultimately show "rx_effect {#} (mset ps) iv iv'"
    using g(2) by (simp add: rx_effect_def rx_balance_def rx_held_def rx_freed_def rx_alloced_def rx_same_bufs_def union_ac)
qed

lemma rx_dma_effect:
  assumes inv: "rx_inv iv" and i: "i < 1024" "rx_owned (rxRing iv ! i)"
  shows "rx_effect {#} {#} iv (rx_dma i o1 o2 iv)"
proof -
  have len: "length (rxRing iv) = 1024" using inv by (simp add: rx_inv_def)
  have "\<not> rx_owned ((rxRing iv ! i)\<lparr>rx_opts1 := o1 AND NOT DescOwn, rx_opts2 := o2\<rparr>)"
    by (simp add: rx_owned_def and.assoc)
  then have "rx_inv (rx_dma i o1 o2 iv)"
    using inv i len by (auto simp: rx_inv_def rx_dma_def nth_list_update rx_slot_ok_def split: option.splits)
  then show ?thesis
    by (simp add: rx_effect_def rx_balance_def rx_held_def rx_freed_def rx_alloced_def rx_same_bufs_def rx_dma_def)
qed


subsection \<open>One service pass\<close>

text \<open>
  (C10) A service pass terminates without leaving a packet buffer, provided the
  chip reports no frame larger than its buffer. It takes the completed
  descriptors in ring order up to the first one the chip still owns or that has
  no packet, delivers exactly the error-free single-descriptor frames among them
  behind what is already queued, and keeps the ring invariant; no packet is lost
  or duplicated.
\<close>

theorem rx_service_delivers_in_order:
  assumes "rx_inv iv" "rx_fits iv"
  shows "\<exists>iv'. rxRingService iv = Some iv' \<and> rx_inv iv' \<and>
    fifo_list (rxDoneFifo iv') = take 2047 (fifo_list (rxDoneFifo iv) @
      map (\<lambda>i. the (rxPkt iv ! i)) (filter (\<lambda>i. \<not> rx_bad (rx_opts1 (rxRing iv ! i)))
        (takeWhile (\<lambda>i. \<not> rx_owned (rxRing iv ! i) \<and> rxPkt iv ! i \<noteq> None)
          (map (\<lambda>j. (unat (rxNextDescIndex (ihw iv)) + j) mod 1024) [0..<1024])))) \<and>
    rx_held iv' + rx_freed iv' + rx_alloced iv = rx_held iv + rx_freed iv + rx_alloced iv'"
proof -
  obtain iv' where "rxRingService iv = Some iv'" "rx_effect {#} {#} iv iv'"
    "fifo_list (rxDoneFifo iv') = take 2047 (fifo_list (rxDoneFifo iv) @ rx_delivered (rx_run 1024 iv) iv)"
    by (rule rx_service_spec [OF assms])
  moreover have "rx_run 1024 iv = takeWhile (\<lambda>i. \<not> rx_owned (rxRing iv ! i) \<and> rxPkt iv ! i \<noteq> None)
      (map (\<lambda>j. (unat (rxNextDescIndex (ihw iv)) + j) mod 1024) [0..<1024])"
    unfolding rx_run_def by (rule takeWhile_cong) (simp_all add: rx_ready_def)
  ultimately show ?thesis
    by (auto simp: rx_effect_def rx_balance_def rx_delivered_def rx_good_def [abs_def])
qed

text \<open>A driver with one completed minimal frame in slot 0 and nothing else armed.\<close>

definition rx_sample :: "RTL8127Driver_IVars \<Rightarrow> RTL8127Driver_IVars" where
  "rx_sample iv = iv\<lparr>
     ihw := (ihw iv)\<lparr>rxNextDescIndex := 0\<rparr>,
     rxPkt := (replicate 1024 None)[0 := Some 9],
     rxRing := (replicate 1024 \<lparr>rx_opts1 = 0, rx_opts2 = 0, rx_addr = 0\<rparr>)[0 :=
       \<lparr>rx_opts1 = 0x30000040, rx_opts2 = 0, rx_addr = dataIOVA (pkts iv 9)\<rparr>],
     rxDoneFifo := fifo_init 0, rxFreeFifo := fifo_init 0,
     pkts := (pkts iv)(9 := (pkts iv 9)\<lparr>buffer := replicate 9216 0\<rparr>), ndk := []\<rparr>"

lemma rx_sample_inv: "rx_inv (rx_sample iv)" "rx_fits (rx_sample iv)"
proof -
  show "rx_inv (rx_sample iv)"
    by (auto simp: rx_inv_def rx_sample_def fifo_init_inv nth_list_update rx_slot_ok_def rx_owned_def)
  show "rx_fits (rx_sample iv)"
    by (auto simp: rx_fits_def rx_sample_def nth_list_update rx_length_def split: if_splits)
qed

theorem rx_service_delivers_in_order_witness:
  "\<forall>iv. \<exists>iv'. rxRingService (rx_sample iv) = Some iv' \<and> rx_inv iv' \<and> fifo_list (rxDoneFifo iv') = [9]"
proof
  fix iv
  let ?s = "rx_sample iv"
  have u: "[0..<n] = 0 # 1 # [2..<n]" if "2 \<le> n" for n :: nat
    using that upt_conv_Cons [of 0 n] upt_conv_Cons [of 1 n] by (simp add: numeral_2_eq_2)
  obtain xs where upt: "[0..<1024 :: nat] = 0 # 1 # xs"
    by (rule that, rule u) simp
  have "takeWhile (\<lambda>i. \<not> rx_owned (rxRing ?s ! i) \<and> rxPkt ?s ! i \<noteq> None)
      (map (\<lambda>j. (unat (rxNextDescIndex (ihw ?s)) + j) mod 1024) [0..<1024]) = [0]"
    unfolding upt by (simp add: rx_sample_def rx_owned_def)
  moreover have "\<not> rx_bad (rx_opts1 (rxRing ?s ! 0))" "rxPkt ?s ! 0 = Some 9" "fifo_list (rxDoneFifo ?s) = []"
    by (simp_all add: rx_sample_def rx_bad_def rx_length_def fifo_init_list)
  ultimately show "\<exists>iv'. rxRingService ?s = Some iv' \<and> rx_inv iv' \<and> fifo_list (rxDoneFifo iv') = [9]"
    using rx_service_delivers_in_order [OF rx_sample_inv, of iv] by auto
qed


subsection \<open>The receive system\<close>

text \<open>
  \<open>given\<close> collects the empty packets the framework handed in, \<open>got\<close> the received
  packets it collected. The chip completes only descriptors it owns; its
  frames fit their buffers whenever the ring is serviced.
\<close>

record rx_sys =
  rdrv :: RTL8127Driver_IVars
  given :: "pktid multiset"
  got :: "pktid multiset"

inductive rx_step :: "rx_sys \<Rightarrow> rx_sys \<Rightarrow> bool" where
  dma: "i < 1024 \<Longrightarrow> rx_owned (rxRing (rdrv s) ! i) \<Longrightarrow> rx_step s (s\<lparr>rdrv := rx_dma i o1 o2 (rdrv s)\<rparr>)"
| service: "rx_fits (rdrv s) \<Longrightarrow> rxRingService (rdrv s) = Some iv' \<Longrightarrow> rx_step s (s\<lparr>rdrv := iv'\<rparr>)"
| rearm: "rx_step s (s\<lparr>rdrv := rxRingRearm (rdrv s)\<rparr>)"
| refill: "rx_step s (s\<lparr>rdrv := snd (rxRingRefill (rdrv s))\<rparr>)"
| submit: "length ps < 2 ^ 32 \<Longrightarrow> rxDequeueAction ps (rdrv s) = (acc, iv') \<Longrightarrow>
    rx_step s (s\<lparr>rdrv := iv', given := given s + mset (take (unat acc) ps)\<rparr>)"
| collect: "rxEnqueueAction cap (rdrv s) = (ps, iv') \<Longrightarrow>
    rx_step s (s\<lparr>rdrv := iv', got := got s + mset ps\<rparr>)"

definition rx_sys_inv :: "rx_sys \<Rightarrow> bool" where
  "rx_sys_inv s \<longleftrightarrow> rx_inv (rdrv s) \<and>
     rx_held (rdrv s) + rx_freed (rdrv s) + got s = rx_alloced (rdrv s) + given s"

lemma rx_sys_inv_effect:
  assumes "rx_sys_inv s" "rx_effect i out (rdrv s) iv'"
  shows "rx_sys_inv (s\<lparr>rdrv := iv', given := given s + i, got := got s + out\<rparr>)"
proof -
  let ?a = "rx_alloced (rdrv s)"
  have "?a + (rx_held iv' + rx_freed iv' + (got s + out)) = (rx_held iv' + rx_freed iv' + ?a + out) + got s"
    by (simp only: union_ac)
  also have "\<dots> = (rx_held (rdrv s) + rx_freed (rdrv s) + got s) + (rx_alloced iv' + i)"
    using assms(2) unfolding rx_effect_def rx_balance_def by (simp only: union_ac)
  also have "\<dots> = ?a + (rx_alloced iv' + (given s + i))"
    using assms(1) unfolding rx_sys_inv_def by (simp only: union_ac)
  finally show ?thesis
    using assms(2) unfolding rx_sys_inv_def rx_effect_def add_left_cancel by simp
qed

lemma rx_sys_inv_step:
  assumes "rx_step s s'" "rx_sys_inv s"
  shows "rx_sys_inv s'"
  using assms(1)
proof cases
  case (dma i o1 o2)
  then show ?thesis
    using rx_sys_inv_effect [OF assms(2) rx_dma_effect [OF _ dma(2,3)]] assms(2) by (simp add: rx_sys_inv_def)
next
  case (service iv')
  have "rx_inv (rdrv s)" using assms(2) by (simp add: rx_sys_inv_def)
  then obtain iv2 where "rxRingService (rdrv s) = Some iv2" "rx_effect {#} {#} (rdrv s) iv2"
    using rx_service_spec service(2) by blast
  then show ?thesis
    using rx_sys_inv_effect [OF assms(2)] service by fastforce
next
  case rearm
  then show ?thesis
    using rx_sys_inv_effect [OF assms(2) rx_rearm_spec(1)] assms(2) by (simp add: rx_sys_inv_def)
next
  case refill
  then show ?thesis
    using rx_sys_inv_effect [OF assms(2) rx_refill_effect] assms(2) by (simp add: rx_sys_inv_def)
next
  case (submit ps acc iv')
  then show ?thesis
    using rx_sys_inv_effect [OF assms(2) rx_dequeue_effect(1)] assms(2) by (fastforce simp: rx_sys_inv_def)
next
  case (collect cap ps iv')
  then show ?thesis
    using rx_sys_inv_effect [OF assms(2) rx_enqueue_effect(1)] assms(2) by (fastforce simp: rx_sys_inv_def)
qed

interpretation rxs: invariant_system rx_step rx_sys_inv
  by unfold_locales (rule rx_sys_inv_step)

text \<open>
  (C2) In every state reachable from a consistent ring, a descriptor the chip
  may write through belongs to a packet the driver holds in that slot: it
  carries that packet's bus address, the size of a receive buffer, and the
  end-of-ring flag exactly in the last slot. Every packet the framework gave or
  the pool allocated is in the ring, in a hand-off queue, collected by the
  framework, or back in the pool.
\<close>

theorem rx_dma_into_held_buffers:
  assumes "rx_inv (rdrv s0)"
    "rx_held (rdrv s0) + rx_freed (rdrv s0) + got s0 = rx_alloced (rdrv s0) + given s0" "rx_step\<^sup>*\<^sup>* s0 s"
  shows "(\<forall>i < 1024. rx_owned (rxRing (rdrv s) ! i) \<longrightarrow>
      (\<exists>p. rxPkt (rdrv s) ! i = Some p \<and> rx_addr (rxRing (rdrv s) ! i) = dataIOVA (pkts (rdrv s) p) \<and>
        rx_opts1 (rxRing (rdrv s) ! i) AND 0x3fff = kRxBufferSize \<and>
        (bit (rx_opts1 (rxRing (rdrv s) ! i)) 30 \<longleftrightarrow> i = 1023))) \<and>
    rx_held (rdrv s) + rx_freed (rdrv s) + got s = rx_alloced (rdrv s) + given s"
proof -
  have I: "rx_sys_inv s"
    using rxs.reach_good [OF assms(3)] assms(1,2) by (simp add: rx_sys_inv_def)
  have w: "rx_word1 i AND 0x3fff = kRxBufferSize" "bit (rx_word1 i) 30 \<longleftrightarrow> i = 1023" for i
    by (simp_all add: rx_word1_def Let_def kRxBufferSize_def kRxLastDesc_def bit.conj_disj_distrib2 bit_or_iff)
  have "rx_slot_ok (pkts (rdrv s)) i (rxPkt (rdrv s) ! i) (rxRing (rdrv s) ! i)" if "i < 1024" for i
    using I that by (simp add: rx_sys_inv_def rx_inv_def)
  then show ?thesis
    using I w unfolding rx_sys_inv_def rx_slot_ok_def by (fastforce split: option.splits)
qed


lemma rx_sample_held:
  "rx_held (rx_sample iv) = {#9#}" "rx_freed (rx_sample iv) = {#}" "rx_alloced (rx_sample iv) = {#}"
proof -
  have "replicate 1024 (None :: pktid option) = None # replicate 1023 None"
    using replicate_Suc [of 1023 "None :: pktid option"] by simp
  then show "rx_held (rx_sample iv) = {#9#}"
    by (simp add: rx_held_def rx_sample_def fifo_init_list)
qed (simp_all add: rx_freed_def rx_alloced_def rx_sample_def)

theorem rx_dma_into_held_buffers_witness:
  "\<forall>iv. let iv' = rxRingRearm (rx_sample iv) in
     rx_owned (rxRing iv' ! 0) \<and> rx_addr (rxRing iv' ! 0) = dataIOVA (pkts iv' 9) \<and>
     rx_opts1 (rxRing iv' ! 0) AND 0x3fff = kRxBufferSize"
proof
  fix iv
  let ?s = "\<lparr>rdrv = rx_sample iv, given = {#9#}, got = {#}\<rparr>"
  let ?iv = "rxRingRearm (rx_sample iv)"
  have st: "rx_step\<^sup>*\<^sup>* ?s (?s\<lparr>rdrv := ?iv\<rparr>)"
    using rx_step.rearm [of ?s] by auto
  have p: "rxPkt (rx_sample iv) ! 0 = Some 9" by (simp add: rx_sample_def)
  then have k: "rxPkt ?iv ! 0 = Some 9" using rx_rearm_spec(4) [OF rx_sample_inv(1), of iv] by simp
  then have ow: "rx_owned (rxRing ?iv ! 0)"
    using rx_rearm_spec(2) [OF rx_sample_inv(1), of iv] by (simp add: rx_armed_def)
  show "let iv' = ?iv in rx_owned (rxRing iv' ! 0) \<and> rx_addr (rxRing iv' ! 0) = dataIOVA (pkts iv' 9) \<and>
     rx_opts1 (rxRing iv' ! 0) AND 0x3fff = kRxBufferSize"
    using rx_dma_into_held_buffers [OF _ _ st] rx_sample_inv(1) rx_sample_held k ow
    by (auto dest!: spec [of _ 0])
qed


subsection \<open>Re-arming and releasing the ring\<close>

text \<open>
  After a link change the ring is re-armed from slot 0: every slot that
  held a packet keeps it, every held packet's descriptor belongs to the chip
  again, the driver's index is 0, and a service pass before the chip delivers a
  frame finds nothing to do in a ring that is full.
\<close>

theorem rx_rearm_restarts_ring:
  assumes "rx_inv iv"
  shows "rx_inv (rxRingRearm iv) \<and> rxNextDescIndex (ihw (rxRingRearm iv)) = 0 \<and>
    (\<forall>i < 1024. rxPkt (rxRingRearm iv) ! i \<noteq> None \<longrightarrow> rx_owned (rxRing (rxRingRearm iv) ! i)) \<and>
    (\<forall>i < 1024. rxPkt iv ! i \<noteq> None \<longrightarrow> rxPkt (rxRingRearm iv) ! i = rxPkt iv ! i) \<and>
    rx_run 1024 (rxRingRearm iv) = []"
proof -
  note sp = rx_rearm_spec [OF assms]
  have "\<not> rx_ready (rxRingRearm iv) (j mod 1024)" for j
    using sp(2) by (auto simp: rx_armed_def rx_ready_def)
  then have "rx_run 1024 (rxRingRearm iv) = []"
    unfolding rx_run_def by (cases "[0..<1024 :: nat]") (simp_all only: list.map takeWhile.simps sp(3) unat_0 add_0 if_False)
  then show ?thesis using sp by (simp add: rx_effect_def rx_armed_def)
qed

theorem rx_rearm_restarts_ring_witness:
  "\<forall>iv. rx_run 1024 (rxRingRearm (rx_sample iv)) = [] \<and> rxPkt (rxRingRearm (rx_sample iv)) ! 0 = Some 9"
proof
  fix iv
  have "rxPkt (rx_sample iv) ! 0 = Some 9" by (simp add: rx_sample_def)
  then show "rx_run 1024 (rxRingRearm (rx_sample iv)) = [] \<and> rxPkt (rxRingRearm (rx_sample iv)) ! 0 = Some 9"
    using rx_rearm_restarts_ring [OF rx_sample_inv(1), of iv] by simp
qed

lemma rx_release_spec:
  assumes "distinct is" "\<forall>i \<in> set is. i < length (rxPkt iv)"
  shows "rxRing (rx_release_loop is iv) = rxRing iv" "length (rxPkt (rx_release_loop is iv)) = length (rxPkt iv)"
    "\<forall>i < length (rxPkt iv). rxPkt (rx_release_loop is iv) ! i = (if i \<in> set is then None else rxPkt iv ! i)"
    "rx_freed (rx_release_loop is iv) = rx_freed iv + mset (concat (map (\<lambda>i. case rxPkt iv ! i of None \<Rightarrow> [] | Some p \<Rightarrow> [p]) is))"
    "ihw (rx_release_loop is iv) = ihw iv" "rxDoneFifo (rx_release_loop is iv) = rxDoneFifo iv"
    "rxFreeFifo (rx_release_loop is iv) = rxFreeFifo iv" "pkts (rx_release_loop is iv) = pkts iv"
  using assms
  by (induction "is" arbitrary: iv)
    (auto simp: rx_freed_def signal_def nth_list_update union_ac split: option.splits intro!: arg_cong [of _ _ mset] arg_cong [of _ _ concat])


text \<open>
  (C35) Disabling the interface returns every packet of the ring to the pool, once
  each, and empties the slots, but leaves the descriptors as they are: the ring
  is consistent afterwards exactly when the chip owned no descriptor. A
  descriptor the chip still owns keeps the address of a buffer that is back in
  the pool, until a refill reaches its slot.
\<close>

theorem rx_release_leaves_descriptors:
  assumes "rx_inv iv"
  defines "iv' \<equiv> rx_release_loop [0..<kNumRxDesc] iv"
  shows "rxPkt iv' = replicate 1024 None \<and>
    rx_freed iv' = rx_freed iv + mset (concat (map (case_option [] (\<lambda>p. [p])) (rxPkt iv))) \<and>
    rxRing iv' = rxRing iv \<and>
    (rx_inv iv' \<longleftrightarrow> (\<forall>i < 1024. \<not> rx_owned (rxRing iv ! i)))"
proof -
  have len: "length (rxPkt iv) = 1024" using assms(1) by (simp add: rx_inv_def)
  note sp = rx_release_spec [of "[0..<kNumRxDesc]" iv]
  have n: "rxPkt iv' = replicate 1024 None"
    using sp(2,3) len by (intro nth_equalityI) (simp_all add: iv'_def kNumRxDesc_def)
  have "map (case_option [] (\<lambda>p. [p])) (rxPkt iv) = map (\<lambda>i. case rxPkt iv ! i of None \<Rightarrow> [] | Some p \<Rightarrow> [p]) [0..<1024]"
    using len by (intro nth_equalityI) simp_all
  then have f: "rx_freed iv' = rx_freed iv + mset (concat (map (case_option [] (\<lambda>p. [p])) (rxPkt iv)))"
    using sp(4) len by (simp add: iv'_def kNumRxDesc_def)
  have r: "rxRing iv' = rxRing iv" "ihw iv' = ihw iv" "rxDoneFifo iv' = rxDoneFifo iv" "rxFreeFifo iv' = rxFreeFifo iv"
    using sp(1,5-7) len by (simp_all add: iv'_def kNumRxDesc_def)
  have "rx_inv iv' \<longleftrightarrow> (\<forall>i < 1024. \<not> rx_owned (rxRing iv ! i))"
    using assms(1) by (simp add: rx_inv_def n r rx_slot_ok_def)
  then show ?thesis using n f r(1) by simp
qed

theorem rx_release_leaves_descriptors_witness:
  "\<forall>iv. let iv1 = rxRingRearm (rx_sample iv); iv2 = rx_release_loop [0..<kNumRxDesc] iv1 in
     rx_inv iv1 \<and> \<not> rx_inv iv2 \<and> rxPkt iv2 = replicate 1024 None \<and> rx_owned (rxRing iv2 ! 0)"
proof
  fix iv
  let ?iv = "rxRingRearm (rx_sample iv)"
  note sp = rx_rearm_spec [OF rx_sample_inv(1), of iv]
  have inv: "rx_inv ?iv" using sp(1) by (simp add: rx_effect_def)
  have "rxPkt (rx_sample iv) ! 0 = Some 9" by (simp add: rx_sample_def)
  then have ow: "rx_owned (rxRing ?iv ! 0)" using sp(2,4) by (simp add: rx_armed_def)
  then have "\<exists>i < 1024. rx_owned (rxRing ?iv ! i)" by (intro exI [of _ 0]) simp
  then show "let iv1 = rxRingRearm (rx_sample iv); iv2 = rx_release_loop [0..<kNumRxDesc] iv1 in
     rx_inv iv1 \<and> \<not> rx_inv iv2 \<and> rxPkt iv2 = replicate 1024 None \<and> rx_owned (rxRing iv2 ! 0)"
    unfolding Let_def using rx_release_leaves_descriptors [OF inv] inv ow by metis
qed

end
