(* ===== verification/DextLink.thy ===== *)
theory DextLink
  imports ChipFrame DextTxSystem DextRxSystem
begin

text \<open>
  Link state, interrupt and statistics handlers of the DriverKit driver. The
  framework runs the interrupt and timer handlers on one work queue; each
  handler is a function on the instance variables, so what the transmit lock
  excludes is the interleaving of whole handlers. \<open>None\<close> is a read outside a
  packet buffer, as in the receive path.
\<close>

abbreviation "st_LinkStatus \<equiv> (0x02 :: u32)"
abbreviation "st_2500bpsF \<equiv> (0x400 :: u32)"
abbreviation "st_5000bpsL \<equiv> (0x800 :: u32)"
abbreviation "st_5000bpsF \<equiv> (0x1000 :: u32)"
abbreviation "st_10000bpsL \<equiv> (0x2000 :: u32)"
abbreviation "st_10000bpsF \<equiv> (0x4000 :: u32)"
abbreviation "RxFIFOOver \<equiv> (0x40 :: u32)"
abbreviation "CounterDump \<equiv> (0x8 :: u32)"

subsection \<open>Link status\<close>

definition link_media :: "bool \<Rightarrow> u32 \<Rightarrow> media_word" where
  "link_media fiber status =
    ((if status AND st_10000bpsF \<noteq> 0 then (if fiber then Media10GBaseSR else Media10GBaseT)
      else if status AND (st_5000bpsF OR st_10000bpsL) \<noteq> 0 then Media5000BaseT
      else if status AND (st_2500bpsF OR st_5000bpsL) \<noteq> 0 then Media2500BaseT
      else if status AND (st_1000bpsF OR st_2500bpsL OR st_1000bpsL) \<noteq> 0
      then (if fiber then Media1000BaseSX else Media1000BaseT)
      else if status AND st_100bps \<noteq> 0 then Media100BaseTX
      else Media10BaseT),
     (if status AND stFullDup \<noteq> 0 then FullDuplex else HalfDuplex))"

definition phy_up :: "u32 \<Rightarrow> bool" where
  "phy_up status \<longleftrightarrow> status \<noteq> 0xffffffff \<and> status AND st_LinkStatus \<noteq> 0"

definition set_flag :: "nat \<Rightarrow> bool \<Rightarrow> hw \<Rightarrow> hw" where
  "set_flag n b h = h\<lparr>stateFlags := if b then set_bit n (stateFlags h) else unset_bit n (stateFlags h)\<rparr>"

abbreviation "on_state f iv \<equiv> iv\<lparr>ihw := f (ihw iv)\<rparr>"

definition request_tx :: "RTL8127Driver_IVars \<Rightarrow> RTL8127Driver_IVars" where
  "request_tx iv = fold (\<lambda>i iv. signal_opt RequestDequeue (txSubQueues iv ! i) iv) [0..<kNumTxQueues] iv"

definition link_up :: "u32 \<Rightarrow> RTL8127Driver_IVars \<Rightarrow> RTL8127Driver_IVars" where
  "link_up status iv =
    (let media = link_media (fiberMode iv) status;
         iv1 = do_hw rtl812xLinkOnPatch iv;
         iv2 = do_hw (RTL_W8 ChipCmd (CmdTxEnb OR CmdRxEnb)) iv1;
         iv3 = on_state (set_flag bit__LINK_UP True) iv2
     in if \<not> linkUp iv3 \<or> media \<noteq> currentMedia iv3
        then (let iv4 = signal (ReportLinkStatus True media) (iv3\<lparr>linkUp := True, currentMedia := media\<rparr>);
                  iv5 = request_tx iv4
              in signal_opt RequestDequeue (rxSubQueue iv5) iv5)
        else iv3)"

definition tx_restart :: "RTL8127Driver_IVars \<Rightarrow> RTL8127Driver_IVars" where
  "tx_restart iv =
     (on_state (\<lambda>h. h\<lparr>txTailPtr0 := 0, txClosePtr0 := 0, txNextDescIndex := 0, txDirtyDescIndex := 0,
        txNumFreeDesc := of_nat kNumTxDesc\<rparr>) iv)\<lparr>txInflightBytes := 0\<rparr>"

definition set_phy_medium_again :: "RTL8127Driver_IVars \<Rightarrow> RTL8127Driver_IVars" where
  "set_phy_medium_again iv =
    (let t = tp (ihw iv) in
     do_hw (rtl812xSetPhyMedium (tp_autoneg t) (tp_speed t) (tp_duplex t) (tp_advertising t)) iv)"

definition link_down :: "RTL8127Driver_IVars \<Rightarrow> RTL8127Driver_IVars" where
  "link_down iv =
    (let iv1 = on_state (set_flag bit__LINK_UP False) (iv\<lparr>linkUp := False\<rparr>);
         iv2 = do_hw rtl812xLinkDownPatch iv1;
         iv3 = tx_restart (txRingReclaim True iv2);
         iv4 = rxRingRearm iv3;
         iv5 = signal (ReportLinkStatus False (currentMedia iv4)) iv4
     in set_phy_medium_again iv5)"

definition updateLinkStatus :: "RTL8127Driver_IVars \<Rightarrow> RTL8127Driver_IVars" where
  "updateLinkStatus iv =
    (let (status, iv1) = on_hw (RTL_R32 PHYstatus) iv in
     if phy_up status then link_up status iv1
     else if linkUp iv1 then
       (let (status2, iv2) = on_hw (do { mdelay 20; RTL_R32 PHYstatus }) iv1 in
        if phy_up status2 then tally (\<lambda>c. c\<lparr>linkGlitches := linkGlitches c + 1\<rparr>) iv2
        else link_down iv2)
     else iv1)"

subsection \<open>Interrupts\<close>

definition isr_count :: "u32 \<Rightarrow> dext_counters \<Rightarrow> dext_counters" where
  "isr_count status c = c\<lparr>isrCount := isrCount c + 1, lastIsrStatus := status,
     isrRx := isrRx c + (if status AND (RxOK OR RxDescUnavail) \<noteq> 0 then 1 else 0),
     isrTx := isrTx c + (if status AND TxOK \<noteq> 0 then 1 else 0),
     isrTimer := isrTimer c + (if status AND PCSTimeout \<noteq> 0 then 1 else 0),
     isrLink := isrLink c + (if status AND LinkChg \<noteq> 0 then 1 else 0)\<rparr>"

definition isr_mitigate :: "u32 \<Rightarrow> RTL8127Driver_IVars \<Rightarrow> RTL8127Driver_IVars" where
  "isr_mitigate status iv =
    (if status AND (TxOK OR RxOK) \<noteq> 0
     then on_state (\<lambda>h. h\<lparr>intrMask := intrMaskTimer h\<rparr>)
       (do_hw (do { RTL_W32 TIMER_INT0_8125 0x5000; RTL_W32 TCTR0_8125 0x5000 }) iv)
     else if status AND PCSTimeout \<noteq> 0
     then on_state (\<lambda>h. h\<lparr>intrMask := intrMaskRxTx h\<rparr>) (do_hw (RTL_W32 TIMER_INT0_8125 0x0000) iv)
     else iv)"

definition isr_datapath :: "u32 \<Rightarrow> RTL8127Driver_IVars \<Rightarrow> RTL8127Driver_IVars option" where
  "isr_datapath status iv =
    (case (if status AND (RxOK OR RxDescUnavail) \<noteq> 0 then rxRingService iv else Some iv) of
       None \<Rightarrow> None
     | Some iv1 \<Rightarrow>
        Some (isr_mitigate status
          (if status AND (TxOK OR RxOK OR PCSTimeout) \<noteq> 0 then txRingReclaim False iv1 else iv1)))"

definition isr_link :: "u32 \<Rightarrow> RTL8127Driver_IVars \<Rightarrow> RTL8127Driver_IVars" where
  "isr_link status iv =
    (if status AND LinkChg \<noteq> 0 \<and> interfaceEnabled iv
     then on_state (\<lambda>h. h\<lparr>intrMask := intrMaskRxTx h\<rparr>)
       (do_hw (RTL_W32 TIMER_INT0_8125 0x0000) (updateLinkStatus iv))
     else iv)"

definition isr_rearm :: "RTL8127Driver_IVars \<Rightarrow> RTL8127Driver_IVars" where
  "isr_rearm iv = do_hw (RTL_W32 IMR0_8125 (intrMask (ihw iv))) iv"

definition InterruptOccurred :: "RTL8127Driver_IVars \<Rightarrow> RTL8127Driver_IVars option" where
  "InterruptOccurred iv =
    (let (status, iv1) = on_hw (RTL_R32 ISR0_8125) iv in
     if status = 0xFFFFFFFF \<or> status = 0 then Some iv1
     else
       (let iv2 = do_hw (do { RTL_W32 IMR0_8125 0x0000; RTL_W32 ISR0_8125 (status AND NOT RxFIFOOver) }) iv1;
            iv3 = tally (isr_count status) iv2
        in case (if interfaceEnabled iv3 then isr_datapath status iv3 else Some iv3) of
             None \<Rightarrow> None
           | Some iv4 \<Rightarrow> Some (isr_rearm (isr_link status iv4))))"

subsection \<open>Statistics timer\<close>

definition rx_stalled :: "RTL8127Driver_IVars \<Rightarrow> bool" where
  "rx_stalled iv \<longleftrightarrow>
     linkUp iv \<and> isrRx (ctr iv) - rxStallIsrSample (ctr iv) > 5000 \<and> rxDelivered (ctr iv) = rxStallDeliveredSample (ctr iv)"

definition rx_stall_recover :: "RTL8127Driver_IVars \<Rightarrow> RTL8127Driver_IVars" where
  "rx_stall_recover iv =
    (let iv1 = tally (\<lambda>c. c\<lparr>rxStallRecoveries := rxStallRecoveries c + 1\<rparr>) iv;
         iv2 = rxRingRearm (do_hw (RTL_W8 ChipCmd CmdTxEnb) iv1);
         iv3 = do_hw (RTL_W8 ChipCmd (CmdTxEnb OR CmdRxEnb)) iv2
     in signal_opt RequestDequeue (rxSubQueue iv3) iv3)"

definition tally_landed :: "RTL8127Driver_IVars \<Rightarrow> RTL8127Driver_IVars" where
  "tally_landed iv =
    (if tallyPending iv then
       (let (v, iv1) = on_hw (RTL_R32 CounterAddrLow) iv in
        if v AND CounterDump = 0 \<and> statData iv1 then iv1\<lparr>tallyPending := False\<rparr> else iv1)
     else iv)"

definition tally_dump :: "RTL8127Driver_IVars \<Rightarrow> RTL8127Driver_IVars" where
  "tally_dump iv =
    (if tallyPending iv then iv
     else (let cmd = ucast (statPhyAddr (ihw iv)) in
       (do_hw (do {
          RTL_W32 CounterAddrHigh (ucast (drop_bit 32 (statPhyAddr (ihw iv))));
          RTL_W32 CounterAddrLow cmd;
          RTL_W32 CounterAddrLow (cmd OR CounterDump)
        }) iv)\<lparr>tallyPending := True\<rparr>))"

definition log_regs :: "unit hwm" where
  "log_regs = do {
     _ \<leftarrow> RTL_R8 ChipCmd; _ \<leftarrow> RTL_R32 RxConfig; _ \<leftarrow> RTL_R32 TxConfig; _ \<leftarrow> RTL_R16 RxMaxSize;
     _ \<leftarrow> RTL_R32 RxDescAddrHigh; _ \<leftarrow> RTL_R32 RxDescAddrLow;
     _ \<leftarrow> RTL_R32 TxDescStartAddrHigh; _ \<leftarrow> RTL_R32 TxDescStartAddrLow; skip
   }"

definition die_temp :: "u16 \<Rightarrow> int" where
  "die_temp tsRaw = (if tsRaw \<le> 512 then uint tsRaw div 2 else - ((512 - (uint tsRaw - 512)) div 2))"

definition log_stats :: "int hwm" where
  "log_stats = do {
     v \<leftarrow> mdio_direct_read_phy_ocp 0xBD84;
     _ \<leftarrow> rtl812xGetHwCloPtr;
     _ \<leftarrow> RTL_R32 IMR0_8125;
     ret (die_temp (ucast v AND 0x3ff))
   }"

definition StatsTimerOccurred :: "u64 \<Rightarrow> RTL8127Driver_IVars \<Rightarrow> RTL8127Driver_IVars" where
  "StatsTimerOccurred time iv =
    (let iv1 = (if interfaceEnabled iv then
           (let iv1 = (if rx_stalled iv then rx_stall_recover iv else iv);
                iv2 = tally (\<lambda>c. c\<lparr>rxStallIsrSample := isrRx c, rxStallDeliveredSample := rxDelivered c\<rparr>) iv1;
                iv3 = do_hw log_regs (tally_dump (tally_landed iv2));
                iv4 = fold sample_max [0..<kNumTxQueues] iv3
            in do_hw log_stats iv4)
         else iv)
     in if statsTimer iv1 then signal (WakeAtTime (time + 5000000000)) iv1 else iv1)"

subsection \<open>Link transitions and the rings\<close>

text \<open>Operations of the chip layer seen from the instance variables.\<close>

lemma do_hw_tame:
  assumes "tame dp m"
  obtains h where "do_hw m iv = iv\<lparr>ihw := h\<rparr>" "tx_hw_same (ihw iv) h" "rxNextDescIndex h = rxNextDescIndex (ihw iv)"
    "chip h = chip (ihw iv)" "\<exists>new. hist h = new @ hist (ihw iv)" "intrMask h = intrMask (ihw iv)"
proof -
  obtain new t where "snd (run m (ihw iv)) = (ihw iv)\<lparr>hist := new @ hist (ihw iv), tp := t\<rparr>" "dp t = dp (tp (ihw iv))"
    using assms by (rule tameE)
  then show thesis
    by (intro that [of "snd (run m (ihw iv))"]) (simp_all add: do_hw_def tx_hw_same_def dp_def)
qed

lemma fold_signal_opt:
  "\<exists>n. fold (\<lambda>i iv. signal_opt e (q iv ! i) iv) is iv = iv\<lparr>ndk := n @ ndk iv\<rparr>"
proof (induction "is" arbitrary: iv)
  case Nil
  show ?case by (auto intro: exI [of _ "[]"])
next
  case (Cons i "is")
  obtain n1 where n1: "signal_opt e (q iv ! i) iv = iv\<lparr>ndk := n1 @ ndk iv\<rparr>"
    by (cases "q iv ! i") (auto simp: signal_opt_def signal_def intro: that [of "[]"] that [of "[x]" for x])
  obtain n2 where "fold (\<lambda>i iv. signal_opt e (q iv ! i) iv) is (iv\<lparr>ndk := n1 @ ndk iv\<rparr>) = 
      (iv\<lparr>ndk := n1 @ ndk iv\<rparr>)\<lparr>ndk := n2 @ n1 @ ndk iv\<rparr>"
    using Cons [of "iv\<lparr>ndk := n1 @ ndk iv\<rparr>"] by auto
  then show ?case
    using n1 by (intro exI [of _ "n2 @ n1"]) simp
qed

lemma signal_opt_frame: "\<exists>n. signal_opt e q iv = iv\<lparr>ndk := n @ ndk iv\<rparr>"
  by (cases q) (auto simp: signal_opt_def signal_def intro: exI [of _ "[]"] exI [of _ "[x]" for x])

lemma link_up_frame:
  obtains h l m n where "link_up status iv = iv\<lparr>ihw := h, linkUp := l, currentMedia := m, ndk := n @ ndk iv\<rparr>"
    "txTailPtr0 h = 0" "txClosePtr0 h = 0" "txNextDescIndex h = 0" "txDirtyDescIndex h = 0"
    "txNumFreeDesc h = 1024" "rxNextDescIndex h = 0" "dp (tp h) = dp (tp (ihw iv))"
    "intrMask h = intrMask (ihw iv)" "intrMaskRxTx h = intrMaskRxTx (ihw iv)" "\<exists>new. hist h = new @ hist (ihw iv)" 
proof -
  define media where "media = link_media (fiberMode iv) status"
  obtain new t where r: "snd (run rtl812xLinkOnPatch (ihw iv)) =
      (ring_reset (ihw iv))\<lparr>hist := new @ hist (ihw iv), tp := t\<rparr>" "dp t = dp (tp (ihw iv))"
    using resets_link_on by (rule resetsE)
  define h where "h = set_flag bit__LINK_UP True (snd (run (RTL_W8 ChipCmd (CmdTxEnb OR CmdRxEnb))
    (snd (run rtl812xLinkOnPatch (ihw iv)))))"
  have h: "txTailPtr0 h = 0" "txClosePtr0 h = 0" "txNextDescIndex h = 0" "txDirtyDescIndex h = 0"
    "txNumFreeDesc h = 1024" "rxNextDescIndex h = 0" "dp (tp h) = dp (tp (ihw iv))"
    "intrMask h = intrMask (ihw iv)" "intrMaskRxTx h = intrMaskRxTx (ihw iv)" "\<exists>new. hist h = new @ hist (ihw iv)"
    by (simp_all add: h_def set_flag_def reg_defs r ring_reset_def)
  define iv3 where "iv3 = iv\<lparr>ihw := h\<rparr>"
  have eq: "link_up status iv =
      (if \<not> linkUp iv3 \<or> media \<noteq> currentMedia iv3
       then (let iv4 = signal (ReportLinkStatus True media) (iv3\<lparr>linkUp := True, currentMedia := media\<rparr>);
                 iv5 = request_tx iv4
             in signal_opt RequestDequeue (rxSubQueue iv5) iv5)
       else iv3)"
    by (simp add: link_up_def Let_def do_hw_def h_def iv3_def media_def)
  show thesis
  proof (cases "\<not> linkUp iv3 \<or> media \<noteq> currentMedia iv3")
    case True
    let ?iv4 = "signal (ReportLinkStatus True media) (iv3\<lparr>linkUp := True, currentMedia := media\<rparr>)"
    obtain n1 where n1: "request_tx ?iv4 = ?iv4\<lparr>ndk := n1 @ ndk ?iv4\<rparr>"
      unfolding request_tx_def using fold_signal_opt [of RequestDequeue txSubQueues "[0..<kNumTxQueues]" ?iv4] by blast
    obtain n2 where "signal_opt RequestDequeue (rxSubQueue (request_tx ?iv4)) (request_tx ?iv4) =
        (request_tx ?iv4)\<lparr>ndk := n2 @ ndk (request_tx ?iv4)\<rparr>"
      using signal_opt_frame by blast
    then show thesis
      using True by (intro that [where h = h and l = True and m = media and n = "n2 @ n1 @ [ReportLinkStatus True media]"] h)
        (simp add: eq Let_def n1 [unfolded signal_def iv3_def, simplified] signal_def iv3_def)
  next
    case False
    then show thesis
      by (intro that [where h = h and l = "linkUp iv" and m = "currentMedia iv" and n = "[]"] h) (simp add: eq iv3_def)
  qed
qed

definition phy_read1 :: "RTL8127Driver_IVars \<Rightarrow> u32" where
  "phy_read1 iv = chip (ihw iv) (hist (ihw iv)) (Reg32 PHYstatus)"

definition phy_read2 :: "RTL8127Driver_IVars \<Rightarrow> u32" where
  "phy_read2 iv = chip (ihw iv) (Delay 20000 # Rd (Reg32 PHYstatus) (phy_read1 iv) # hist (ihw iv)) (Reg32 PHYstatus)"

lemma tx_inv_empty:
  assumes "tx_inv iv"
  shows "tx_flight iv = [] \<longleftrightarrow> txPkt iv = replicate 1024 None"
proof -
  let ?d = "unat (txDirtyDescIndex (ihw iv))" and ?n = "tx_count iv"
  have l: "length (txPktQueue iv) = 1024" "length (txPktLen iv) = 1024"
    using assms by (simp_all add: tx_inv_def tx_core_def)
  have c: "length (txPkt iv) = 1024" "length (tx_slots iv) = 1024" "?d < 1024" "?n \<le> 1024"
      "\<forall>x \<in> set (tx_window ?n iv). tx_slot_ok x"
      "\<And>j. ?n \<le> j \<Longrightarrow> j < 1024 \<Longrightarrow> txPkt iv ! ((?d + j) mod 1024) = None"
    using assms by (simp_all add: tx_inv_def tx_core_def tx_slots_def)
  have n: "tx_flight iv = [] \<longleftrightarrow> ?n = 0"
    by (metis length_0_conv length_tx_window tx_flight_def)
  show ?thesis
  proof
    assume "tx_flight iv = []"
    then have z: "?n = 0" using n by simp
    have "txPkt iv ! i = None" if "i < 1024" for i
    proof -
      have "(?d + (i + 1024 - ?d) mod 1024) mod 1024 = i"
        using that c(3) by (simp add: mod_add_right_eq)
      moreover have "(i + 1024 - ?d) mod 1024 < 1024" by simp
      ultimately show ?thesis using c(6) [of "(i + 1024 - ?d) mod 1024"] z by simp
    qed
    then show "txPkt iv = replicate 1024 None" using c(1) by (intro nth_equalityI) simp_all
  next
    assume e: "txPkt iv = replicate 1024 None"
    have "?n = 0"
    proof (rule ccontr)
      assume p: "?n \<noteq> 0"
      then have "tx_slot_ok (tx_window ?n iv ! 0)" using c(5) by (simp add: nth_mem)
      moreover have "tx_window ?n iv ! 0 = tx_slots iv ! ?d"
        using p c(2,3) by (simp add: tx_window_def)
      moreover have "fst (tx_slots iv ! ?d) = None"
        using e l c(3) by (simp add: tx_slots_def)
      ultimately show False by (cases "tx_slots iv ! ?d") (simp add: tx_slot_ok_def)
    qed
    then show "tx_flight iv = []" using n by simp
  qed
qed

text \<open>
  (C34) A link-change interrupt that finds the link up reconfigures the chip and
  restarts the transmit ring at descriptor 0 without reclaiming it. The packets
  in flight stay in their slots and in the byte count but leave the ring, so they
  are never completed: the ring is consistent afterwards exactly when nothing
  was in flight.
\<close>

theorem link_up_forgets_in_flight:
  assumes inv: "tx_inv iv" and up: "phy_up (phy_read1 iv)"
  shows "let iv' = updateLinkStatus iv in
    txPkt iv' = txPkt iv \<and> txInflightBytes iv' = txInflightBytes iv \<and> txDoneFifo iv' = txDoneFifo iv \<and>
    tx_flight iv' = [] \<and> (tx_inv iv' \<longleftrightarrow> tx_flight iv = [])"
proof -
  let ?iv1 = "do_hw (RTL_R32 PHYstatus) iv"
  have eq: "updateLinkStatus iv = link_up (phy_read1 iv) ?iv1"
    using up by (simp add: updateLinkStatus_def on_hw_eq phy_read1_def reg_defs)
  obtain h l m n where u: "link_up (phy_read1 iv) ?iv1 = ?iv1\<lparr>ihw := h, linkUp := l, currentMedia := m, ndk := n @ ndk ?iv1\<rparr>"
    and h: "txTailPtr0 h = 0" "txClosePtr0 h = 0" "txNextDescIndex h = 0" "txDirtyDescIndex h = 0"
      "txNumFreeDesc h = 1024" "dp (tp h) = dp (tp (ihw ?iv1))"
    by (rule link_up_frame)
  let ?iv' = "updateLinkStatus iv"
  have f: "txPkt ?iv' = txPkt iv" "txInflightBytes ?iv' = txInflightBytes iv" "txDoneFifo ?iv' = txDoneFifo iv"
      "txPktQueue ?iv' = txPktQueue iv" "txPktLen ?iv' = txPktLen iv" "txRing ?iv' = txRing iv" "ihw ?iv' = h"
    unfolding eq u by (simp_all add: do_hw_def)
  have mk: "tp_MaxTxDescPtrMask (tp h) = tp_MaxTxDescPtrMask (tp (ihw iv))"
    using h(6) by (simp add: dp_def reg_defs)
  have cnt: "tx_count ?iv' = 0" "tx_flight ?iv' = []"
    using h(5) by (simp_all add: tx_count_def f(7) tx_flight_def tx_window_def)
  have "tx_inv ?iv' \<longleftrightarrow> txPkt iv = replicate 1024 None"
  proof
    assume "tx_inv ?iv'"
    then show "txPkt iv = replicate 1024 None" using tx_inv_empty [of ?iv'] cnt(2) f(1) by simp
  next
    assume e: "txPkt iv = replicate 1024 None"
    then have "txInflightBytes iv = 0"
      using inv tx_inv_empty [OF inv] unat_eq_zero by (auto simp: tx_inv_def tx_core_def tx_flight_def [symmetric])
    then show "tx_inv ?iv'"
      using inv e h mk by (simp add: tx_inv_def cnt(1) tx_core_def f tx_window_def)
  qed
  then show ?thesis
    using f cnt(2) tx_inv_empty [OF inv] by (simp add: Let_def)
qed

text \<open>A ring with one frame in flight, and a chip that always answers \<open>v\<close>.\<close>

definition one_in_flight :: "u32 \<Rightarrow> RTL8127Driver_IVars \<Rightarrow> RTL8127Driver_IVars" where
  "one_in_flight v iv = (let s = tx_sample iv in
     s\<lparr>txPkt := (txPkt s)[0 := Some 5], txPktLen := (txPktLen s)[0 := 60], txInflightBytes := 60,
       ihw := (ihw s)\<lparr>chip := \<lambda>_ _. v, txNextDescIndex := 1, txTailPtr0 := 1, txNumFreeDesc := 1023\<rparr>\<rparr>)"

lemma one_in_flight_inv:
  "tx_inv (one_in_flight v iv)" "tx_flight (one_in_flight v iv) = [(Some 5, 0, 60)]"
  "phy_read1 (one_in_flight v iv) = v" "phy_read2 (one_in_flight v iv) = v"
proof -
  have w: "tx_window 1 (one_in_flight v iv) = [(Some 5, 0, 60)]" "tx_count (one_in_flight v iv) = 1"
    by (simp_all add: tx_window_def ring_window_def one_in_flight_def tx_sample_def tx_slots_def tx_count_def Let_def)
  then show "tx_flight (one_in_flight v iv) = [(Some 5, 0, 60)]"
    by (simp add: tx_flight_def)
  have m: "mask 16 = (0xFFFF :: u32)" by (simp add: mask_eq_exp_minus_1)
  show "tx_inv (one_in_flight v iv)"
    unfolding tx_inv_def tx_core_def w
    by (simp add: one_in_flight_def tx_sample_def tx_slot_ok_def fifo_init_inv m Let_def)
  show "phy_read1 (one_in_flight v iv) = v" "phy_read2 (one_in_flight v iv) = v"
    by (simp_all add: phy_read1_def phy_read2_def one_in_flight_def Let_def)
qed

theorem link_up_forgets_in_flight_witness:
  "\<forall>iv. phy_up (phy_read1 (one_in_flight 2 iv)) \<and> tx_inv (one_in_flight 2 iv) \<and>
     \<not> tx_inv (updateLinkStatus (one_in_flight 2 iv)) \<and> txPkt (updateLinkStatus (one_in_flight 2 iv)) ! 0 = Some 5"
proof
  fix iv
  have "phy_up (phy_read1 (one_in_flight 2 iv))" by (simp add: one_in_flight_inv phy_up_def)
  moreover have "txPkt (one_in_flight 2 iv) ! 0 = Some 5" by (simp add: one_in_flight_def tx_sample_def Let_def)
  ultimately show "phy_up (phy_read1 (one_in_flight 2 iv)) \<and> tx_inv (one_in_flight 2 iv) \<and>
     \<not> tx_inv (updateLinkStatus (one_in_flight 2 iv)) \<and> txPkt (updateLinkStatus (one_in_flight 2 iv)) ! 0 = Some 5"
    using link_up_forgets_in_flight [OF one_in_flight_inv(1), of 2 iv] by (simp add: one_in_flight_inv Let_def)
qed

text \<open>Arming the receive ring does not touch the transmit side.\<close>

definition rx_only :: "RTL8127Driver_IVars \<Rightarrow> RTL8127Driver_IVars \<Rightarrow> bool" where
  "rx_only iv iv' \<longleftrightarrow> (\<exists>r p f n. iv' = iv\<lparr>rxRing := r, rxPkt := p, rxFreeFifo := f, ndk := n @ ndk iv\<rparr> \<and>
     concat (map ev_dealloc_tx n) = [])"

lemma rx_only_refl: "rx_only iv iv"
  unfolding rx_only_def
  by (rule exI [of _ "rxRing iv"], rule exI [of _ "rxPkt iv"], rule exI [of _ "rxFreeFifo iv"], rule exI [of _ "[]"]) simp

lemma rx_only_trans: "rx_only a b \<Longrightarrow> rx_only b c \<Longrightarrow> rx_only a c"
proof -
  assume "rx_only a b" "rx_only b c"
  then obtain r1 p1 f1 n1 r2 p2 f2 n2 where
    "b = a\<lparr>rxRing := r1, rxPkt := p1, rxFreeFifo := f1, ndk := n1 @ ndk a\<rparr>" "concat (map ev_dealloc_tx n1) = []"
    "c = b\<lparr>rxRing := r2, rxPkt := p2, rxFreeFifo := f2, ndk := n2 @ ndk b\<rparr>" "concat (map ev_dealloc_tx n2) = []"
    unfolding rx_only_def by blast
  then show "rx_only a c"
    unfolding rx_only_def
    by (intro exI [of _ r2] exI [of _ p2] exI [of _ f2] exI [of _ "n2 @ n1"]) simp
qed

lemma rx_only_take: "rx_only iv (snd (rx_take iv))"
proof -
  obtain p f where f: "fifoPop (rxFreeFifo iv) = (p, f)" by fastforce
  show ?thesis
    unfolding rx_only_def rx_take_def f
    by (rule exI [of _ "rxRing iv"], rule exI [of _ "rxPkt iv"], rule exI [of _ f],
        rule exI [of _ "if p = None \<and> rxPool iv then [AllocatePacket (ndk_alloc iv (ndk iv))] else []"])
      (simp add: Let_def signal_def)
qed

lemma rx_only_arm: "rx_only iv (rx_arm i p iv)"
  unfolding rx_only_def rx_arm_def signal_def
  by (intro exI [of _ "(rxRing iv)[i := \<lparr>rx_opts1 = rx_word1 i, rx_opts2 = 0, rx_addr = dataIOVA (pkts iv p)\<rparr>]"]
      exI [of _ "(rxPkt iv)[i := Some p]"] exI [of _ "rxFreeFifo iv"] exI [of _ "[PrepareWithQueue p]"]) simp

lemma rx_only_refill: "rx_only iv (snd (rx_refill_loop is iv))"
proof (induction "is" arbitrary: iv)
  case (Cons i "is")
  obtain po iv1 where t: "rx_take iv = (po, iv1)" by fastforce
  then have 1: "rx_only iv iv1" using rx_only_take [of iv] by simp
  show ?case
    using Cons 1 rx_only_trans [OF 1 rx_only_trans [OF rx_only_arm Cons]]
    by (cases po) (auto simp: t)
qed (simp add: rx_only_refl)

lemma rx_only_rearm_loop: "rx_only iv (rx_rearm_loop is iv)"
proof (induction "is" arbitrary: iv)
  case (Cons i "is")
  have "rx_only iv (iv\<lparr>rxRing := r\<rparr>)" for r
    unfolding rx_only_def
    by (intro exI [of _ r] exI [of _ "rxPkt iv"] exI [of _ "rxFreeFifo iv"] exI [of _ "[]"]) simp
  note r = this
  show ?case using Cons rx_only_trans [OF r Cons] by simp
qed (simp add: rx_only_refl)

lemma rx_rearm_tx:
  obtains r p f n where "rxRingRearm iv = iv\<lparr>rxRing := r, rxPkt := p, rxFreeFifo := f, ndk := n @ ndk iv,
      ihw := (ihw iv)\<lparr>rxNextDescIndex := 0\<rparr>\<rparr>" "concat (map ev_dealloc_tx n) = []"
proof -
  let ?a = "rx_rearm_loop [0..<kNumRxDesc] iv"
  obtain r1 p1 f1 n1 where 1: "?a = iv\<lparr>rxRing := r1, rxPkt := p1, rxFreeFifo := f1, ndk := n1 @ ndk iv\<rparr>"
      "concat (map ev_dealloc_tx n1) = []"
    using rx_only_rearm_loop [of iv "[0..<kNumRxDesc]"] unfolding rx_only_def by blast
  let ?b = "?a\<lparr>ihw := (ihw ?a)\<lparr>rxNextDescIndex := 0\<rparr>\<rparr>"
  obtain r2 p2 f2 n2 where 2: "snd (rxRingRefill ?b) = ?b\<lparr>rxRing := r2, rxPkt := p2, rxFreeFifo := f2, ndk := n2 @ ndk ?b\<rparr>"
      "concat (map ev_dealloc_tx n2) = []"
    using rx_only_refill [of ?b "[0..<kNumRxDesc]"] unfolding rx_only_def rxRingRefill_def by blast
  have "rxRingRearm iv = iv\<lparr>rxRing := r2, rxPkt := p2, rxFreeFifo := f2, ndk := (n2 @ n1) @ ndk iv,
      ihw := (ihw iv)\<lparr>rxNextDescIndex := 0\<rparr>\<rparr>"
    using 2(1) by (simp add: rxRingRearm_def Let_def 1)
  then show thesis by (rule that) (use 1 2 in simp)
qed

lemma tx_restart_empty:
  assumes inv: "tx_inv iv" and e: "tx_flight iv = []"
  shows "tx_inv (tx_restart iv)" "tx_flight (tx_restart iv) = []" "tx_count (tx_restart iv) = 0" "tx_count iv = 0"
proof -
  show c: "tx_count (tx_restart iv) = 0"
    by (simp add: tx_count_def tx_restart_def kNumTxDesc_def)
  then show "tx_flight (tx_restart iv) = []" by (simp add: tx_flight_def tx_window_def)
  show "tx_count iv = 0" using e by (metis length_0_conv length_tx_window tx_flight_def)
  have "txPkt iv = replicate 1024 None" using tx_inv_empty [OF inv] e by simp
  then show "tx_inv (tx_restart iv)"
    using inv unfolding tx_inv_def c by (simp add: tx_core_def tx_restart_def tx_window_def kNumTxDesc_def)
qed

text \<open>States that agree on both rings and on every packet's place.\<close>

definition same_rings :: "RTL8127Driver_IVars \<Rightarrow> RTL8127Driver_IVars \<Rightarrow> bool" where
  "same_rings a b \<longleftrightarrow> tx_hw_same (ihw a) (ihw b) \<and> rxNextDescIndex (ihw b) = rxNextDescIndex (ihw a) \<and>
     txPkt b = txPkt a \<and> txPktQueue b = txPktQueue a \<and> txPktLen b = txPktLen a \<and> txRing b = txRing a \<and>
     txInflightBytes b = txInflightBytes a \<and> txDoneFifo b = txDoneFifo a \<and> tx_dealloc b = tx_dealloc a \<and>
     rxPkt b = rxPkt a \<and> rxRing b = rxRing a \<and> rxDoneFifo b = rxDoneFifo a \<and> rxFreeFifo b = rxFreeFifo a \<and>
     pkts b = pkts a"

lemma same_rings_refl [simp]: "same_rings a a"
  by (simp add: same_rings_def)

lemma same_rings_trans: "same_rings a b \<Longrightarrow> same_rings b c \<Longrightarrow> same_rings a c"
  by (simp add: same_rings_def tx_hw_same_def)

lemma same_rings_do_hw: "tame dp m \<Longrightarrow> same_rings a b \<Longrightarrow> same_rings a (do_hw m b)"
  by (erule do_hw_tame [of _ b]) (simp add: same_rings_def tx_hw_same_def tx_dealloc_def)

lemma same_rings_signal: "ev_dealloc_tx e = [] \<Longrightarrow> same_rings a b \<Longrightarrow> same_rings a (signal e b)"
  by (simp add: same_rings_def signal_def tx_dealloc_def)

lemma same_rings_inv:
  assumes "same_rings a b"
  shows "tx_inv b = tx_inv a" "tx_count b = tx_count a" "tx_inv a \<Longrightarrow> tx_flight b = tx_flight a"
    "tx_inv a \<Longrightarrow> tx_places (tx_count b) b = tx_places (tx_count a) a" "rx_inv b = rx_inv a" "rx_armed b = rx_armed a"
proof -
  have s: "txPkt b = txPkt a" "txPktQueue b = txPktQueue a" "txPktLen b = txPktLen a" "txRing b = txRing a"
      "txInflightBytes b = txInflightBytes a" "txDoneFifo b = txDoneFifo a" "tx_hw_same (ihw a) (ihw b)"
    using assms by (simp_all add: same_rings_def)
  have f: "tx_inv a \<Longrightarrow> \<forall>f \<in> set (txDoneFifo b). fifo_inv f" "tx_inv b \<Longrightarrow> \<forall>f \<in> set (txDoneFifo a). fifo_inv f"
    using s(6) by (simp_all add: tx_inv_def tx_core_def)
  have "tx_hw_same (ihw b) (ihw a)" using s(7) by (simp add: tx_hw_same_def)
  then show "tx_inv b = tx_inv a"
    using tx_inv_cong(1) [OF _ s(7) s(1-5)] tx_inv_cong(1) [of b a] f s by (auto simp: s)
  show c: "tx_count b = tx_count a" using s(7) by (simp add: tx_count_def tx_hw_same_def)
  show fl: "tx_flight b = tx_flight a" if "tx_inv a"
    using tx_inv_cong(2) [OF that s(7) s(1-5)] f(1) that s(6) by simp
  show "tx_places (tx_count b) b = tx_places (tx_count a) a" if "tx_inv a"
    unfolding c by (rule tx_places_cong) (use fl [OF that] c assms in \<open>simp_all add: tx_flight_def same_rings_def\<close>)
  show "rx_inv b = rx_inv a" "rx_armed b = rx_armed a"
    using assms by (simp_all add: same_rings_def rx_inv_def rx_armed_def)
qed

lemma rx_inv_tx_step:
  assumes "rx_inv iv" "tx_frame iv iv'" "\<forall>p. dataIOVA (pkts iv' p) = dataIOVA (pkts iv p)"
  shows "rx_inv iv'"
proof -
  have "rxPkt iv' = rxPkt iv" "rxRing iv' = rxRing iv" "rxDoneFifo iv' = rxDoneFifo iv" "rxFreeFifo iv' = rxFreeFifo iv"
      "rxNextDescIndex (ihw iv') = rxNextDescIndex (ihw iv)"
    using assms(2) by (simp_all add: tx_frame_def)
  then show ?thesis
    using assms(1,3) by (simp add: rx_inv_def rx_slot_ok_def cong: option.case_cong)
qed

text \<open>The teardown between the two chip operations of \<open>link_down\<close>.\<close>

lemma ring_teardown:
  assumes tx: "tx_inv iv" and rx: "rx_inv iv"
  defines "iv' \<equiv> rxRingRearm (tx_restart (txRingReclaim True iv))"
  shows "tx_inv iv'" "tx_flight iv' = []" "done_lists iv' = done_adds (tx_flight iv) (done_lists iv)"
    "tx_places (tx_count iv') iv' = tx_places (tx_count iv) iv" "rx_inv iv'" "rx_armed iv'"
    "rxNextDescIndex (ihw iv') = 0" "linkUp iv' = linkUp iv" "currentMedia iv' = currentMedia iv"
proof -
  define iv3 where "iv3 = txRingReclaim True iv"
  note rc = tx_reclaim_spec [OF tx reclaim_count_abort [OF tx] le_refl, folded iv3_def]
  have e3: "tx_flight iv3 = []" "take (tx_count iv) (tx_flight iv) = tx_flight iv"
    using rc(2) by (simp_all add: tx_flight_def)
  have fr: "tx_frame iv iv3"
    unfolding iv3_def by (rule tx_frame_reclaim [OF tx]) (simp add: reclaim_count_abort [OF tx])
  define iv4 where "iv4 = tx_restart iv3"
  note i4 = tx_restart_empty [OF rc(1) e3(1), folded iv4_def]
  have d4: "txDoneFifo iv4 = txDoneFifo iv3" "ndk iv4 = ndk iv3" "linkUp iv4 = linkUp iv" "currentMedia iv4 = currentMedia iv"
    using fr by (simp_all add: iv4_def tx_restart_def tx_frame_def)
  have "rx_inv iv3"
    by (rule rx_inv_tx_step [OF rx fr]) (simp add: rc(6) retired_def)
  then have r4: "rx_inv iv4" by (simp add: rx_inv_def iv4_def tx_restart_def)
  note r5 = rx_rearm_spec [OF r4]
  obtain r p f n where 5: "iv' = iv4\<lparr>rxRing := r, rxPkt := p, rxFreeFifo := f, ndk := n @ ndk iv4,
      ihw := (ihw iv4)\<lparr>rxNextDescIndex := 0\<rparr>\<rparr>" "concat (map ev_dealloc_tx n) = []"
    unfolding iv'_def iv3_def [symmetric] iv4_def [symmetric] by (rule rx_rearm_tx)
  have hs: "tx_hw_same (ihw iv4) (ihw iv')" by (simp add: 5 tx_hw_same_def)
  have ii: "tx_inv iv'" "tx_flight iv' = []" "tx_count iv' = 0"
    using tx_inv_cong [OF i4(1) hs] i4 by (simp_all add: tx_inv_def tx_core_def 5(1))
  show "tx_inv iv'" "tx_flight iv' = []" using ii by simp_all
  show "done_lists iv' = done_adds (tx_flight iv) (done_lists iv)" using rc(3) e3 d4 by (simp add: 5(1))
  have "tx_places (tx_count iv') iv' = tx_places 0 iv3"
    unfolding ii(3) by (rule tx_places_cong) (simp_all add: tx_window_def 5 tx_dealloc_def d4)
  then show "tx_places (tx_count iv') iv' = tx_places (tx_count iv) iv" using rc(4) i4(4) by simp
  show "rx_inv iv'" "rx_armed iv'" "rxNextDescIndex (ihw iv') = 0"
    using r5 by (simp_all add: iv'_def iv4_def iv3_def rx_effect_def)
  show "linkUp iv' = linkUp iv" "currentMedia iv' = currentMedia iv" using d4 by (simp_all add: 5(1))
qed

lemma link_down_rings:
  obtains iv2 iv6 where "same_rings iv iv2" "\<not> linkUp iv2" "currentMedia iv2 = currentMedia iv"
    "iv6 = rxRingRearm (tx_restart (txRingReclaim True iv2))" "same_rings iv6 (link_down iv)"
    "linkUp (link_down iv) = linkUp iv6" "ReportLinkStatus False (currentMedia iv6) \<in> set (ndk (link_down iv))"
proof -
  let ?iv1 = "on_state (set_flag bit__LINK_UP False) (iv\<lparr>linkUp := False\<rparr>)"
  let ?iv2 = "do_hw rtl812xLinkDownPatch ?iv1"
  let ?iv6 = "rxRingRearm (tx_restart (txRingReclaim True ?iv2))"
  have 1: "same_rings iv ?iv1"
    by (simp add: same_rings_def tx_hw_same_def set_flag_def tx_dealloc_def)
  have eq: "link_down iv = set_phy_medium_again (signal (ReportLinkStatus False (currentMedia ?iv6)) ?iv6)"
    by (simp add: link_down_def Let_def)
  show thesis
  proof (rule that [of ?iv2 ?iv6])
    show "same_rings iv ?iv2" using 1 by (intro same_rings_do_hw tame_rules)
    show "\<not> linkUp ?iv2" "currentMedia ?iv2 = currentMedia iv" by (simp_all add: do_hw_def)
    show "same_rings ?iv6 (link_down iv)"
      unfolding eq set_phy_medium_again_def Let_def by (intro same_rings_do_hw same_rings_signal tame_rules) simp_all
    show "linkUp (link_down iv) = linkUp ?iv6" "ReportLinkStatus False (currentMedia ?iv6) \<in> set (ndk (link_down iv))"
      by (simp_all add: eq set_phy_medium_again_def Let_def do_hw_def signal_def)
  qed simp
qed


text \<open>A running interface with a frame in flight, a received frame waiting and no carrier.\<close>

definition busy_link :: "RTL8127Driver_IVars \<Rightarrow> RTL8127Driver_IVars" where
  "busy_link iv = rx_sample (one_in_flight 0 iv)"

lemma busy_link_inv:
  "tx_inv (busy_link iv)" "tx_flight (busy_link iv) = [(Some 5, 0, 60)]" "rx_inv (busy_link iv)"
  "linkUp (busy_link iv)" "phy_read1 (busy_link iv) = 0" "phy_read2 (busy_link iv) = 0"
  "done_lists (busy_link iv) = replicate 4 []"
proof -
  have e: "txPkt (busy_link iv) = txPkt (one_in_flight 0 iv)" "txPktQueue (busy_link iv) = txPktQueue (one_in_flight 0 iv)"
      "txPktLen (busy_link iv) = txPktLen (one_in_flight 0 iv)" "txRing (busy_link iv) = txRing (one_in_flight 0 iv)"
      "txInflightBytes (busy_link iv) = txInflightBytes (one_in_flight 0 iv)" "linkUp (busy_link iv) = linkUp (one_in_flight 0 iv)"
      "phy_read1 (busy_link iv) = phy_read1 (one_in_flight 0 iv)" "phy_read2 (busy_link iv) = phy_read2 (one_in_flight 0 iv)"
      "txDoneFifo (busy_link iv) = txDoneFifo (one_in_flight 0 iv)" "tx_hw_same (ihw (one_in_flight 0 iv)) (ihw (busy_link iv))"
    by (simp_all add: busy_link_def rx_sample_def tx_hw_same_def phy_read1_def phy_read2_def)
  have d: "txDoneFifo (one_in_flight 0 iv) = replicate 4 (fifo_init 0)" "linkUp (one_in_flight 0 iv)"
    by (simp_all add: one_in_flight_def tx_sample_def Let_def)
  note tx_inv_cong [OF one_in_flight_inv(1) e(10) e(1-5)]
  then show "tx_inv (busy_link iv)" "tx_flight (busy_link iv) = [(Some 5, 0, 60)]"
    by (simp_all add: e(9) d fifo_init_inv one_in_flight_inv)
  show "rx_inv (busy_link iv)" by (simp add: busy_link_def rx_sample_inv)
  show "linkUp (busy_link iv)" "phy_read1 (busy_link iv) = 0" "phy_read2 (busy_link iv) = 0"
    "done_lists (busy_link iv) = replicate 4 []"
    by (simp_all add: e(6-9) d one_in_flight_inv fifo_init_list)
qed


end
