(* ===== verification/DextIntr.thy ===== *)
theory DextIntr
  imports DextLink
begin

text \<open>
  The interrupt handler as a whole: the order of its accesses to the interrupt
  registers and the mask it leaves, on every cause, with the datapath and the
  link handling in between.
\<close>

subsection \<open>What the datapath leaves of the bus and the interrupt masks\<close>

definition intr_view :: "RTL8127Driver_IVars \<Rightarrow> u32 \<times> u32 \<times> u32 \<times> bool" where
  "intr_view iv = (intrMask (ihw iv), intrMaskRxTx (ihw iv), intrMaskTimer (ihw iv), interfaceEnabled iv)"

definition grows :: "RTL8127Driver_IVars \<Rightarrow> RTL8127Driver_IVars \<Rightarrow> bool" where
  "grows a b \<longleftrightarrow> (\<exists>n. hist (ihw b) = n @ hist (ihw a)) \<and> intr_view b = intr_view a"

named_theorems grows_rules

lemma grows_refl [grows_rules]: "grows a a"
  by (simp add: grows_def)

lemma grows_trans: "grows a b \<Longrightarrow> grows b c \<Longrightarrow> grows a c"
  by (auto simp: grows_def)

lemma grows_same: "hist (ihw b) = hist (ihw a) \<Longrightarrow> intr_view b = intr_view a \<Longrightarrow> grows a b"
  by (simp add: grows_def)

lemma grows_local [grows_rules]:
  "grows a b \<Longrightarrow> grows a (tally f b)" "grows a b \<Longrightarrow> grows a (signal e b)" "grows a b \<Longrightarrow> grows a (signal_opt g q b)"
  "grows a b \<Longrightarrow> grows a (set_pkt p h b)"
  by (auto simp: grows_def intr_view_def tally_def signal_def signal_opt_def set_pkt_def split: option.split)

lemma grows_do_hw [grows_rules]: "tame dp m \<Longrightarrow> grows a b \<Longrightarrow> grows a (do_hw m b)"
  by (rule tameE [of dp m "ihw b"]) (auto simp: grows_def intr_view_def do_hw_def)

lemma grows_reclaim_one: "grows a (fst s) \<Longrightarrow> grows a (fst (tx_reclaim_one abort s))"
  by (cases s) (auto simp: tx_reclaim_one_def Let_def grows_def intr_view_def tally_def set_pkt_def signal_def
      split: option.split prod.split)

lemma grows_reclaim_loop: "grows a (fst s) \<Longrightarrow> grows a (fst ((tx_reclaim_one abort ^^ n) s))"
  by (induction n) (simp_all add: grows_reclaim_one)

lemma grows_notify: "grows a b \<Longrightarrow> grows a (tx_notify abort dw is b)"
  using tx_notify_frame [of abort dw "is" b] by (auto simp: grows_def intr_view_def)

lemma grows_reclaim [grows_rules]: "grows a b \<Longrightarrow> grows a (txRingReclaim abort b)"
proof -
  assume ab: "grows a b"
  have "tame dp rtl812xGetHwCloPtr"
    unfolding rtl812xGetHwCloPtr_def by (intro tame_rules)
  then have 0: "grows a (snd (if abort then (txTailPtr0 (ihw b), b) else on_hw rtl812xGetHwCloPtr b))"
    using ab by (simp add: on_hw_eq grows_do_hw)
  have ptr: "grows a (c\<lparr>ihw := (ihw c)\<lparr>txClosePtr0 := x\<rparr>\<rparr>)" "grows a (c\<lparr>ihw := (ihw c)\<lparr>txNumFreeDesc := y\<rparr>\<rparr>)" if "grows a c" for c x y
    using that by (simp_all add: grows_def intr_view_def)
  show ?thesis
    unfolding txRingReclaim_def Let_def
    using 0 by (auto simp: case_prod_beta intro!: grows_notify ptr grows_local grows_reclaim_loop)
qed

lemma grows_rx_only: "rx_only a b \<Longrightarrow> grows a b"
  by (auto simp: rx_only_def grows_def intr_view_def)

lemma grows_refill [grows_rules]: "grows a b \<Longrightarrow> grows a (snd (rxRingRefill b))"
  unfolding rxRingRefill_def by (erule grows_trans) (rule grows_rx_only [OF rx_only_refill])

lemma grows_rearm [grows_rules]: "grows a b \<Longrightarrow> grows a (rxRingRearm b)"
proof -
  assume "grows a b"
  then have "grows a (rx_rearm_loop [0..<kNumRxDesc] b)"
    by (rule grows_trans) (rule grows_rx_only [OF rx_only_rearm_loop])
  then show ?thesis
    unfolding rxRingRearm_def Let_def by (intro grows_refill) (simp add: grows_def intr_view_def)
qed

lemma grows_deliver: "rx_deliver i p status b = Some c \<Longrightarrow> grows a b \<Longrightarrow> grows a (rx_advance c)"
  by (auto simp: rx_deliver_def rx_advance_def Let_def grows_def intr_view_def tally_def set_pkt_def signal_def
      split: option.splits prod.splits if_splits)

lemma grows_recycle: "grows a b \<Longrightarrow> grows a (rx_advance (rx_recycle i b))"
  by (auto simp: rx_recycle_def rx_advance_def grows_def intr_view_def tally_def)

lemma grows_service_loop: "rx_service_loop n d b = Some (d', c) \<Longrightarrow> grows a b \<Longrightarrow> grows a c"
proof (induction n arbitrary: d b)
  case (Suc n)
  then show ?case
    by (auto simp: Let_def split: if_splits option.splits intro: Suc.IH [OF _ grows_recycle] Suc.IH [OF _ grows_deliver])
qed simp

lemma grows_service: "rxRingService b = Some c \<Longrightarrow> grows a b \<Longrightarrow> grows a c"
proof -
  assume s: "rxRingService b = Some c" and ab: "grows a b"
  then obtain d iv1 where 1: "rx_service_loop kNumRxDesc False b = Some (d, iv1)"
    by (auto simp: rxRingService_def split: option.splits)
  have "grows a iv1" by (rule grows_service_loop [OF 1 ab])
  then have "grows a (snd (rxRingRefill iv1))" by (rule grows_refill)
  then show "grows a c"
    using s 1 by (auto simp: rxRingService_def Let_def case_prod_beta intro: grows_local split: if_splits)
qed

text \<open>The link handler may also restart the rings; of the masks it keeps the one the handler then selects.\<close>

definition bus_grows :: "RTL8127Driver_IVars \<Rightarrow> RTL8127Driver_IVars \<Rightarrow> bool" where
  "bus_grows a b \<longleftrightarrow> (\<exists>n. hist (ihw b) = n @ hist (ihw a)) \<and> intrMaskRxTx (ihw b) = intrMaskRxTx (ihw a)"

lemma grows_bus: "grows a b \<Longrightarrow> bus_grows a b"
  by (simp add: grows_def bus_grows_def intr_view_def)

lemma bus_grows_link_up: "grows a b \<Longrightarrow> bus_grows a (link_up status b)"
  by (rule link_up_frame [of status b]) (auto simp: grows_def bus_grows_def intr_view_def)

lemma grows_link_down: "grows a b \<Longrightarrow> grows a (link_down b)"
proof -
  assume "grows a b"
  then have "grows a (on_state (set_flag bit__LINK_UP False) (b\<lparr>linkUp := False\<rparr>))"
    by (simp add: grows_def intr_view_def set_flag_def)
  then have "grows a (tx_restart (txRingReclaim True (do_hw rtl812xLinkDownPatch
      (on_state (set_flag bit__LINK_UP False) (b\<lparr>linkUp := False\<rparr>)))))" (is "grows a (tx_restart ?c)")
  proof -
    assume g: "grows a (on_state (set_flag bit__LINK_UP False) (b\<lparr>linkUp := False\<rparr>))"
    have "grows a ?c" using g by (intro grows_rules tame_rules)
    then show "grows a (tx_restart ?c)" by (simp add: grows_def intr_view_def tx_restart_def)
  qed
  then show "grows a (link_down b)"
    unfolding link_down_def set_phy_medium_again_def Let_def by (intro grows_rules tame_rules)
qed

lemma bus_grows_link: "grows a b \<Longrightarrow> bus_grows a (updateLinkStatus b)"
proof -
  assume ab: "grows a b"
  have 1: "grows a (do_hw (RTL_R32 PHYstatus) b)" using ab by (intro grows_rules tame_rules)
  have 2: "grows a (do_hw (do { mdelay 20; RTL_R32 PHYstatus }) (do_hw (RTL_R32 PHYstatus) b))"
    by (rule grows_do_hw [OF _ 1]) (intro tame_rules)
  show ?thesis
    unfolding updateLinkStatus_def on_hw_eq
    using bus_grows_link_up [OF 1] grows_bus [OF grows_link_down [OF 2]] grows_bus [OF 1] grows_bus [OF grows_local(1) [OF 2]]
    by (simp add: Let_def)
qed

subsection \<open>The handler\<close>

text \<open>
  The mask a handled interrupt leaves: the timer mask while frames move, the
  receive and transmit mask once the timer has expired or the link has changed.
\<close>

definition isr_mask :: "u32 \<Rightarrow> RTL8127Driver_IVars \<Rightarrow> u32" where
  "isr_mask status iv =
    (if \<not> interfaceEnabled iv then intrMask (ihw iv)
     else if status AND LinkChg \<noteq> 0 then intrMaskRxTx (ihw iv)
     else if status AND (TxOK OR RxOK) \<noteq> 0 then intrMaskTimer (ihw iv)
     else if status AND PCSTimeout \<noteq> 0 then intrMaskRxTx (ihw iv)
     else intrMask (ihw iv))"

lemma mitigate_mask:
  assumes ab: "grows a b" and en: "interfaceEnabled a" and l: "status AND LinkChg = 0"
  shows "intrMask (ihw (isr_mitigate status b)) = isr_mask status a"
proof -
  have "intrMask (ihw b) = intrMask (ihw a)" "intrMaskRxTx (ihw b) = intrMaskRxTx (ihw a)" "intrMaskTimer (ihw b) = intrMaskTimer (ihw a)"
    using ab by (simp_all add: grows_def intr_view_def)
  then show ?thesis
    using en l by (simp add: isr_mitigate_def isr_mask_def do_hw_def reg_defs)
qed

lemma mitigate_bus:
  assumes "grows a b"
  shows "bus_grows a (isr_mitigate status b)" "interfaceEnabled (isr_mitigate status b) = interfaceEnabled a"
  using assms by (auto simp: isr_mitigate_def do_hw_def reg_defs bus_grows_def grows_def intr_view_def)

lemma bus_grows_trans: "bus_grows a b \<Longrightarrow> bus_grows b c \<Longrightarrow> bus_grows a c"
  by (auto simp: bus_grows_def)

lemma isr_link_bus:
  assumes "bus_grows a b" "interfaceEnabled b"
  shows "bus_grows a (isr_link status b)"
    "status AND LinkChg \<noteq> 0 \<Longrightarrow> intrMask (ihw (isr_link status b)) = intrMaskRxTx (ihw a)"
proof -
  have u: "bus_grows a (updateLinkStatus b)"
    using assms(1) bus_grows_link [OF grows_refl] by (rule bus_grows_trans)
  then show "bus_grows a (isr_link status b)"
    using assms(1) by (auto simp: isr_link_def do_hw_def reg_defs bus_grows_def)
  show "intrMask (ihw (isr_link status b)) = intrMaskRxTx (ihw a)" if "status AND LinkChg \<noteq> 0"
    using that u assms(2) by (simp add: isr_link_def do_hw_def reg_defs bus_grows_def)
qed

lemma isr_body:
  assumes inv: "rx_inv iv" "rx_fits iv"
  shows "\<exists>c. (if interfaceEnabled iv then isr_datapath status iv else Some iv) = Some c \<and>
    bus_grows iv (isr_link status c) \<and> intrMask (ihw (isr_link status c)) = isr_mask status iv"
proof (cases "interfaceEnabled iv")
  case True
  obtain iv1 where 1: "(if status AND (RxOK OR RxDescUnavail) \<noteq> 0 then rxRingService iv else Some iv) = Some iv1"
    using rx_service_spec [OF inv] by (metis (full_types))
  then have "grows iv iv1"
    using grows_service [OF _ grows_refl] grows_refl by (auto split: if_splits)
  then have 2: "grows iv (if status AND (TxOK OR RxOK OR PCSTimeout) \<noteq> 0 then txRingReclaim False iv1 else iv1)"
    by (simp add: grows_reclaim)
  let ?c = "isr_mitigate status (if status AND (TxOK OR RxOK OR PCSTimeout) \<noteq> 0 then txRingReclaim False iv1 else iv1)"
  have d: "isr_datapath status iv = Some ?c" using 1 by (simp add: isr_datapath_def)
  have e: "interfaceEnabled ?c" using mitigate_bus(2) [OF 2] True by simp
  have "intrMask (ihw (isr_link status ?c)) = isr_mask status iv"
  proof (cases "status AND LinkChg = 0")
    case True
    then show ?thesis using mitigate_mask [OF 2 \<open>interfaceEnabled iv\<close> True] by (simp add: isr_link_def)
  next
    case False
    then show ?thesis
      using isr_link_bus(2) [OF mitigate_bus(1) [OF 2] e False] True by (simp add: isr_mask_def)
  qed
  then show ?thesis
    using True d isr_link_bus(1) [OF mitigate_bus(1) [OF 2] e] by simp
next
  case False
  then show ?thesis by (simp add: isr_link_def isr_mask_def bus_grows_def)
qed

text \<open>
  (C12) An interrupt of another device, or of a chip that has gone, costs one read
  of the status register and changes nothing. Any other one always returns; it
  masks all causes first, acknowledges the ones it read (leaving the receive
  overflow pending), does its work, and re-enables interrupts in its last access
  with the mask its causes select: moderated by the timer while frames move,
  immediate after the timer or a link change.
\<close>

theorem interrupt_masks_then_rearms:
  assumes "rx_inv iv" "rx_fits iv"
  defines "status \<equiv> chip (ihw iv) (hist (ihw iv)) (Reg32 ISR0_8125)"
  shows "\<exists>iv'. InterruptOccurred iv = Some iv' \<and>
    (if status = 0 \<or> status = 0xFFFFFFFF
     then iv' = iv\<lparr>ihw := (ihw iv)\<lparr>hist := Rd (Reg32 ISR0_8125) status # hist (ihw iv)\<rparr>\<rparr>
     else intrMask (ihw iv') = isr_mask status iv \<and>
       (\<exists>work. hist (ihw iv') = Wr (Reg32 IMR0_8125) (isr_mask status iv) # work @
          [Wr (Reg32 ISR0_8125) (status AND NOT RxFIFOOver), Wr (Reg32 IMR0_8125) 0, Rd (Reg32 ISR0_8125) status] @ hist (ihw iv)))"
proof (cases "status = 0 \<or> status = 0xFFFFFFFF")
  case True
  then show ?thesis
    by (auto simp: InterruptOccurred_def on_hw_eq do_hw_def reg_defs status_def Let_def)
next
  case False
  define iv3 where "iv3 = tally (isr_count status) (iv\<lparr>ihw := (ihw iv)\<lparr>hist :=
    [Wr (Reg32 ISR0_8125) (status AND NOT RxFIFOOver), Wr (Reg32 IMR0_8125) 0, Rd (Reg32 ISR0_8125) status] @ hist (ihw iv)\<rparr>\<rparr>)"
  have "rx_inv iv3" "rx_fits iv3"
    using assms(1,2) by (simp_all add: iv3_def tally_def rx_inv_def rx_fits_def)
  from isr_body [OF this] obtain c where c: "(if interfaceEnabled iv3 then isr_datapath status iv3 else Some iv3) = Some c"
      "bus_grows iv3 (isr_link status c)" "intrMask (ihw (isr_link status c)) = isr_mask status iv3" by blast
  have m: "isr_mask status iv3 = isr_mask status iv" by (simp add: isr_mask_def iv3_def tally_def)
  have "InterruptOccurred iv = (case (if interfaceEnabled iv3 then isr_datapath status iv3 else Some iv3) of
      None \<Rightarrow> None | Some iv4 \<Rightarrow> Some (isr_rearm (isr_link status iv4)))"
    using False by (simp add: InterruptOccurred_def on_hw_eq do_hw_def reg_defs iv3_def Let_def flip: status_def)
  then have eq: "InterruptOccurred iv = Some (isr_rearm (isr_link status c))" by (simp only: c(1) option.case)
  obtain work where "hist (ihw (isr_link status c)) = work @ hist (ihw iv3)"
    using c(2) by (auto simp: bus_grows_def)
  then show ?thesis
    using False eq c(3) m by (auto simp: isr_rearm_def do_hw_def reg_defs iv3_def tally_def)
qed

text \<open>A received frame and a completed transmission on a running interface.\<close>

definition busy_interrupt :: "RTL8127Driver_IVars \<Rightarrow> RTL8127Driver_IVars" where
  "busy_interrupt iv = (rx_sample (iv\<lparr>ihw := (ihw iv)\<lparr>chip := \<lambda>_ _. 5\<rparr>\<rparr>))\<lparr>interfaceEnabled := True\<rparr>"

theorem interrupt_masks_then_rearms_witness:
  "\<forall>iv. \<exists>iv'. InterruptOccurred (busy_interrupt iv) = Some iv' \<and> intrMask (ihw iv') = intrMaskTimer (ihw iv) \<and>
     hd (hist (ihw iv')) = Wr (Reg32 IMR0_8125) (intrMaskTimer (ihw iv))"
proof
  fix iv
  have s: "rx_inv (busy_interrupt iv)" "rx_fits (busy_interrupt iv)" "chip (ihw (busy_interrupt iv)) = (\<lambda>_ _. 5)"
    "isr_mask 5 (busy_interrupt iv) = intrMaskTimer (ihw iv)"
    using rx_sample_inv [of "iv\<lparr>ihw := (ihw iv)\<lparr>chip := \<lambda>_ _. 5\<rparr>\<rparr>"]
    by (simp_all add: busy_interrupt_def rx_inv_def rx_fits_def isr_mask_def) (simp_all add: rx_sample_def)
  show "\<exists>iv'. InterruptOccurred (busy_interrupt iv) = Some iv' \<and> intrMask (ihw iv') = intrMaskTimer (ihw iv) \<and>
     hd (hist (ihw iv')) = Wr (Reg32 IMR0_8125) (intrMaskTimer (ihw iv))"
    using interrupt_masks_then_rearms [OF s(1,2)] by (auto simp: s(3,4))
qed

end
