(* ===== verification/DextControl.thy ===== *)
theory DextControl
  imports DextLink
begin

text \<open>
  Life cycle and configuration entry points of the DriverKit driver:
  \<open>init\<close>, \<open>Start\<close>, \<open>Stop\<close>, \<open>setInterfaceEnable\<close>, receive filters, media, MTU and
  offloads. What the operating system answers to the creation calls of \<open>Start\<close>
  is the argument \<open>os_answers\<close>; a failed call is a failed stage. The kernel
  extension's multicast filter is modelled beside the driver's.
\<close>

subsection \<open>Zero-filled state\<close>

text \<open>
  \<open>IONewZero\<close>. The generation and the medium have no zero constant; both are
  written before they are read. The rings are null until \<open>Start\<close> allocates them.
\<close>

definition eee_zero :: ethtool_eee where
  "eee_zero =
   \<lparr>eee_supported = 0, eee_advertised = 0, eee_enabled = 0, tx_lpi_enabled = 0, tx_lpi_timer = 0,
    eee_active = 0\<rparr>"

definition tp_zero :: rtl8125_private where
  "tp_zero =
   \<lparr>tp_chipset = 0, tp_mcfg = CFG_METHOD_DEFAULT, tp_rx_config = 0, tp_rms = 0, tp_cp_cmd = 0,
    tp_phy_auto_nego_reg = 0, tp_phy_1000_ctrl_reg = 0, tp_phy_2500_ctrl_reg = 0, tp_aspm = 0,
    tp_wol_enabled = 0, tp_wol_opts = 0, tp_eeprom_type = 0, tp_autoneg = 0, tp_duplex = 0, tp_speed = 0,
    tp_fcpause = 0, tp_advertising = 0, tp_HwSuppMaxPhyLinkSpeed = 0, tp_eeprom_len = 0, tp_cur_page = 0,
    tp_bios_setting = 0, tp_org_pci_offset_99 = 0, tp_org_pci_offset_180 = 0, tp_HwIcVerUnknown = False,
    tp_NotWrRamCodeToMicroP = False, tp_NotWrMcuPatchCode = False, tp_HwHasWrRamCodeToMicroP = False,
    tp_sw_ram_code_ver = 0, tp_hw_ram_code_ver = 0, tp_rtk_enable_diag = False, tp_RequiredPfmPatch = False,
    tp_RequirePhyMdiSwapPatch = False, tp_RequireLSOPatch = False, tp_HwFiberModeVer = 0, tp_HwFiberStat = 0,
    tp_HwSuppMagicPktVer = 0, tp_HwSuppCheckPhyDisableModeVer = 0, tp_random_mac = False, tp_phy_reg_aner = 0,
    tp_phy_reg_anlpar = 0, tp_phy_reg_gbsr = 0, tp_phy_reg_status_2500 = 0, tp_HwPcieSNOffset = 0,
    tp_HwSuppEsdVer = 0, tp_TestPhyOcpReg = False, tp_BackupPhyFuseDout = replicate 32 0, tp_MaxTxDescPtrMask = 0,
    tp_HwCloPtrReg = 0, tp_SwTailPtrReg = 0, tp_HwSuppTxNoCloseVer = 0, tp_HwSuppIntMitiVer = 0,
    tp_check_keep_link_speed = False, tp_resume_not_chg_speed = False, tp_HwSuppD0SpeedUpVer = 0,
    tp_D0SpeedUpSpeed = 0, tp_HwSuppDashVer = 0, tp_DASH = False, tp_HwPkgDet = 0, tp_HwSuppOcpChannelVer = 0,
    tp_DashFirmwareVersion = 0, tp_AllowAccessDashOcp = False, tp_eee = eee_zero, tp_HwSuppRxDescType = 0,
    tp_HwSuppMacMcuVer = 0, tp_MacMcuPageSize = 0, tp_hw_mcu_patch_code_ver = 0, tp_bin_mcu_patch_code_ver = 0,
    tp_HwSuppTcamVer = 0, tp_TcamNotValidReg = 0, tp_TcamValidReg = 0, tp_TcamMaAddrcOffset = 0,
    tp_TcamVlanTagOffset = 0\<rparr>"

definition hw_zero :: "chip \<Rightarrow> hw" where
  "hw_zero c =
   \<lparr>chip = c, hist = [], tp = tp_zero, hw_mtu = 0, pcieCapOffset = 0, intrMask = 0, intrMaskRxTx = 0,
    intrMaskTimer = 0, intrMaskPoll = 0, statPhyAddr = 0, txPhyAddr = 0, rxPhyAddr = 0, txTailPtr0 = 0,
    txClosePtr0 = 0, txNextDescIndex = 0, txDirtyDescIndex = 0, txNumFreeDesc = 0, rxNextDescIndex = 0,
    stateFlags = 0, multicastFilter = 0, wolCapable = False, hasSensor = False, currMacAddr = replicate 6 0,
    origMacAddr = replicate 6 0, fallBackMacAddr = replicate 6 0, pciVendor = 0, pciDeviceId = 0,
    gRandSeed = 0x8127cafe\<rparr>"

definition ctr_zero :: dext_counters where
  "ctr_zero =
   \<lparr>txSubmitted = 0, txCompleted = 0, txDroppedFifo = 0, txBytes = 0, txTso = 0, txPartial = 0,
    txPartialFail = 0, rxDelivered = 0, rxErrors = 0, rxDroppedFifo = 0, rxRefillShort = 0, isrCount = 0,
    isrRx = 0, isrTx = 0, isrTimer = 0, isrLink = 0, rxStallIsrSample = 0, rxStallDeliveredSample = 0,
    rxStallRecoveries = 0, linkGlitches = 0, lastIsrStatus = 0, txDebugLogged = 0, txSynLogged = 0,
    rxSynLogged = 0, offLogged = 0, oddLogged = 0, txBadLen = 0, txDequeueCalls = replicate kNumTxQueues 0,
    txPerQueue = replicate kNumTxQueues 0, txNoLinkCalls = 0, txNoLinkPackets = 0, txNoSpaceCalls = 0,
    txNoSpacePackets = 0, txNonzeroDataOffset = 0, txNonemptyCalls = 0,
    txCompletionCalls = replicate kNumTxQueues 0, txCompletionPackets = replicate kNumTxQueues 0,
    txReclaimCalls = 0, txReclaimNonempty = 0, txReclaimedDescriptors = 0, txReclaimMaxBatch = 0,
    txDoneSampledMax = replicate kNumTxQueues 0, mediaQueryLogged = 0\<rparr>"

text \<open>\<open>init\<close>: zero-filled instance variables with the default MTU and TSO on.\<close>

definition init_ivars ::
    "chip \<Rightarrow> pktid \<Rightarrow> (pktid \<Rightarrow> IOUserNetworkPacket) \<Rightarrow> ndk_allocator \<Rightarrow> RTL8127Driver_IVars" where
  "init_ivars c null ps alloc =
   \<lparr>ihw = (hw_zero c)\<lparr>hw_mtu := 1500\<rparr>, opened = False, fiberMode = False,
    interfaceEnabled = False, linkUp = False, ctr = ctr_zero, tallyPending = False, statData = False,
    statsTimer = False, txRing = [],
    rxRing = [], rxPool = False,
    txSubQueues = replicate kNumTxQueues None, txCompQueues = replicate kNumTxQueues None, rxSubQueue = None,
    rxCompQueue = None, txLock = False, txPkt = replicate kNumTxDesc None, txPktQueue = replicate kNumTxDesc 0,
    txPktLen = replicate kNumTxDesc 0, txInflightBytes = 0, rxPkt = replicate kNumRxDesc None,
    txDoneFifo = replicate kNumTxQueues (fifo_init null), rxDoneFifo = fifo_init null, rxFreeFifo = fifo_init null,
    mediaArray = [], currentMedia = (MediaAuto, DuplexNone), mtu = 1500, tsoEnabled = True,
    txDropWarned = False, rxDropWarned = False, pkts = ps, ndk = [], ndk_alloc = alloc, txPool = False,
    intSource = False, workQueue = False, barIndex = 0, barMap = False, txRingDma = False, rxRingDma = False,
    statDma = False\<rparr>"

subsection \<open>Start\<close>

record dma_answer =
  da_create :: IOReturn
  da_command :: IOReturn
  da_prepare :: IOReturn
  da_segments :: nat
  da_iova :: u64

record os_answers =
  os_start :: bool
  os_is_pci :: bool
  os_open :: bool
  os_bar :: "nat \<Rightarrow> u32"
  os_copy_memory :: bool
  os_map :: bool
  os_tx_dma :: dma_answer
  os_rx_dma :: dma_answer
  os_stat_dma :: dma_answer
  os_work_queue :: bool
  os_msi :: bool
  os_int_source :: bool
  os_int_action :: bool
  os_timer :: bool
  os_timer_action :: bool
  os_now :: u64
  os_tx_pool :: bool
  os_rx_pool :: bool
  os_lock :: bool
  os_tx_sub :: "nat \<Rightarrow> queueid option"
  os_tx_comp :: "nat \<Rightarrow> queueid option"
  os_rx_sub :: "queueid option"
  os_rx_comp :: "queueid option"
  os_register :: bool

definition allocDmaBuffer :: "dma_answer \<Rightarrow> IOReturn \<times> u64 option" where
  "allocDmaBuffer a =
    (if da_create a \<noteq> kIOReturnSuccess then (da_create a, None)
     else if da_command a \<noteq> kIOReturnSuccess then (da_command a, None)
     else if da_prepare a \<noteq> kIOReturnSuccess \<or> da_segments a \<noteq> 1
     then (if da_prepare a \<noteq> kIOReturnSuccess then da_prepare a else kIOReturnNoResources, None)
     else (kIOReturnSuccess, Some (da_iova a)))"

text \<open>A stage answers whether \<open>Start\<close> goes on (\<open>True\<close>) or to \<open>fail\<close>.\<close>

type_synonym stage = "RTL8127Driver_IVars \<Rightarrow> bool \<times> RTL8127Driver_IVars"

definition seq_stages :: "stage \<Rightarrow> stage \<Rightarrow> stage" where
  "seq_stages f g iv = (let (ok, iv1) = f iv in if ok then g iv1 else (False, iv1))"

fun find_pcie_cap :: "nat \<Rightarrow> u8 \<Rightarrow> unit hwm" where
  "find_pcie_cap 0 capPtr = skip"
| "find_pcie_cap (Suc n) capPtr =
    (if capPtr = 0 then skip
     else do {
       capId \<leftarrow> extendedConfigRead8 (ucast capPtr);
       if capId = 0x10 then modf (\<lambda>s. s\<lparr>pcieCapOffset := capPtr\<rparr>)
       else do { nxt \<leftarrow> extendedConfigRead8 (ucast capPtr + 1); find_pcie_cap n nxt }
     })"

definition pci_setup :: "unit hwm" where
  "pci_setup = do {
     cmd \<leftarrow> extendedConfigRead16 0x04;
     extendedConfigWrite16 0x04 (cmd OR (0x04 OR 0x02));
     v \<leftarrow> extendedConfigRead16 0x00;
     d \<leftarrow> extendedConfigRead16 0x02;
     modf (\<lambda>s. s\<lparr>pciVendor := v, pciDeviceId := d\<rparr>);
     _ \<leftarrow> extendedConfigRead16 0x2C;
     _ \<leftarrow> extendedConfigRead16 0x2E;
     capPtr \<leftarrow> extendedConfigRead8 0x34;
     find_pcie_cap 16 capPtr
   }"

definition st_open :: "os_answers \<Rightarrow> stage" where
  "st_open a iv =
    (if \<not> os_is_pci a \<or> \<not> os_open a then (False, iv)
     else (True, do_hw pci_setup (iv\<lparr>opened := True\<rparr>)))"

definition st_bar :: "os_answers \<Rightarrow> stage" where
  "st_bar a iv =
    (case find (\<lambda>b. os_bar a b \<noteq> 0 \<and> os_bar a b \<noteq> 0xFFFFFFFF) [0..<6] of
       None \<Rightarrow> (False, iv\<lparr>barIndex := 0xFF\<rparr>)
     | Some b \<Rightarrow> (os_copy_memory a \<and> os_map a, iv\<lparr>barIndex := of_nat b, barMap := os_copy_memory a \<and> os_map a\<rparr>))"

definition st_chip :: "(nat \<Rightarrow> u32) \<Rightarrow> stage" where
  "st_chip wide_shift iv =
    (let (ok, iv1) = on_hw (rtl812xInit wide_shift) iv in
     if \<not> ok then (False, iv1)
     else if is_8127 (tp_mcfg (tp (ihw iv1))) then
       (let (v, iv2) = on_hw (rtl8125_mac_ocp_read 0xD006) iv1 in (True, iv2\<lparr>fiberMode := (v AND 0xFF = 0x07)\<rparr>))
     else (True, iv1\<lparr>fiberMode := False\<rparr>))"

definition st_tx_ring :: "os_answers \<Rightarrow> stage" where
  "st_tx_ring a iv =
    (case snd (allocDmaBuffer (os_tx_dma a)) of None \<Rightarrow> (False, iv)
     | Some addr \<Rightarrow> (True, on_state (\<lambda>h. h\<lparr>txPhyAddr := addr\<rparr>)
         (iv\<lparr>txRingDma := True, txRing := replicate kNumTxDesc \<lparr>tx_opts1 = 0, tx_opts2 = 0, tx_addr = 0\<rparr>\<rparr>)))"

definition st_rx_ring :: "os_answers \<Rightarrow> stage" where
  "st_rx_ring a iv =
    (case snd (allocDmaBuffer (os_rx_dma a)) of None \<Rightarrow> (False, iv)
     | Some addr \<Rightarrow> (True, on_state (\<lambda>h. h\<lparr>rxPhyAddr := addr\<rparr>)
         (iv\<lparr>rxRingDma := True, rxRing := replicate kNumRxDesc \<lparr>rx_opts1 = 0, rx_opts2 = 0, rx_addr = 0\<rparr>\<rparr>)))"

definition st_stat :: "os_answers \<Rightarrow> stage" where
  "st_stat a iv =
    (case snd (allocDmaBuffer (os_stat_dma a)) of None \<Rightarrow> (False, iv)
     | Some addr \<Rightarrow> (True, on_state (\<lambda>h. h\<lparr>statPhyAddr := addr\<rparr>) (iv\<lparr>statDma := True, statData := True\<rparr>)))"

definition st_interrupts :: "os_answers \<Rightarrow> stage" where
  "st_interrupts a iv =
    (let iv1 = iv\<lparr>workQueue := os_work_queue a\<rparr> in
     if \<not> os_work_queue a \<or> \<not> os_msi a then (False, iv1)
     else (let iv2 = iv1\<lparr>intSource := os_int_source a\<rparr> in
       if \<not> os_int_source a \<or> \<not> os_int_action a then (False, iv2)
       else if os_timer a \<and> os_timer_action a
       then (True, signal (WakeAtTime (os_now a + 5000000000)) (iv2\<lparr>statsTimer := True\<rparr>))
       else (True, iv2\<lparr>statsTimer := os_timer a\<rparr>)))"

definition st_pools :: "os_answers \<Rightarrow> stage" where
  "st_pools a iv =
    (if \<not> os_tx_pool a then (False, iv)
     else if \<not> os_rx_pool a then (False, iv\<lparr>txPool := True\<rparr>)
     else (True, iv\<lparr>txPool := True, rxPool := True\<rparr>))"

definition media_list :: "bool \<Rightarrow> u32 \<Rightarrow> media list" where
  "media_list fiber maxSpeed =
     MediaAuto #
     (if fiber then [Media10GBaseSR, Media1000BaseSX]
      else (if maxSpeed \<ge> SPEED_10000 then [Media10GBaseT] else []) @
           (if maxSpeed \<ge> SPEED_5000 then [Media5000BaseT] else []) @
           (if maxSpeed \<ge> SPEED_2500 then [Media2500BaseT] else []) @
           [Media1000BaseT, Media100BaseTX, Media10BaseT])"

definition st_media :: "os_answers \<Rightarrow> stage" where
  "st_media a iv =
    (os_lock a, iv\<lparr>mediaArray := media_list (fiberMode iv) (tp_HwSuppMaxPhyLinkSpeed (tp (ihw iv))),
       currentMedia := (MediaAuto, DuplexNone), txLock := os_lock a\<rparr>)"

fun st_tx_queues :: "os_answers \<Rightarrow> nat list \<Rightarrow> stage" where
  "st_tx_queues a [] iv = (True, iv)"
| "st_tx_queues a (i # is) iv =
    (let iv1 = iv\<lparr>txSubQueues := (txSubQueues iv)[i := os_tx_sub a i],
                  txCompQueues := (txCompQueues iv)[i := os_tx_comp a i]\<rparr> in
     if os_tx_sub a i = None \<or> os_tx_comp a i = None then (False, iv1) else st_tx_queues a is iv1)"

definition st_rx_queues :: "os_answers \<Rightarrow> stage" where
  "st_rx_queues a iv =
    (os_rx_sub a \<noteq> None \<and> os_rx_comp a \<noteq> None, iv\<lparr>rxSubQueue := os_rx_sub a, rxCompQueue := os_rx_comp a\<rparr>)"

definition st_register :: "os_answers \<Rightarrow> stage" where
  "st_register a iv = (os_register a, iv)"

definition start_stages :: "(nat \<Rightarrow> u32) \<Rightarrow> os_answers \<Rightarrow> stage list" where
  "start_stages wide_shift a =
     [st_open a, st_bar a, st_chip wide_shift, st_tx_ring a, st_rx_ring a, st_stat a, st_interrupts a, st_pools a,
      st_media a, st_tx_queues a [0..<kNumTxQueues], st_rx_queues a, st_register a]"

definition Start :: "(nat \<Rightarrow> u32) \<Rightarrow> os_answers \<Rightarrow> RTL8127Driver_IVars \<Rightarrow> IOReturn \<times> RTL8127Driver_IVars" where
  "Start wide_shift a iv =
    (if \<not> os_start a then (kIOReturnError, iv)
     else (let (ok, iv1) = foldr seq_stages (start_stages wide_shift a) (Pair True) iv in
       if ok then (kIOReturnSuccess, iv1)
       else (kIOReturnNoDevice, iv1\<lparr>opened := False\<rparr>)))"

subsection \<open>Stop\<close>

text \<open>
  \<open>Stop\<close> cancels the timer and the interrupt source; each cancellation completes
  later, and the last completion runs \<open>finish\<close>.
\<close>

fun tx_release_loop :: "nat list \<Rightarrow> RTL8127Driver_IVars \<Rightarrow> RTL8127Driver_IVars" where
  "tx_release_loop [] iv = iv"
| "tx_release_loop (i # is) iv =
    (case txPkt iv ! i of
       None \<Rightarrow> tx_release_loop is iv
     | Some p \<Rightarrow> tx_release_loop is ((signal (DeallocateTx p) iv)\<lparr>txPkt := (txPkt iv)[i := None]\<rparr>))"

definition stop_finish :: "RTL8127Driver_IVars \<Rightarrow> RTL8127Driver_IVars" where
  "stop_finish iv =
    (let iv1 = iv\<lparr>txRingDma := False, rxRingDma := False, statDma := False, barMap := False\<rparr>;
         iv2 = (if rxPool iv1 then rx_release_loop [0..<kNumRxDesc] iv1 else iv1);
         iv3 = (if txPool iv2 then tx_release_loop [0..<kNumTxDesc] iv2 else iv2)
     in iv3\<lparr>txSubQueues := replicate kNumTxQueues None, txCompQueues := replicate kNumTxQueues None,
        rxSubQueue := None, rxCompQueue := None, txPool := False, rxPool := False, txLock := False, opened := False\<rparr>)"

record stop_state =
  ss_timer :: bool
  ss_source :: bool
  ss_pending :: nat
  ss_finished :: nat
  ss_iv :: RTL8127Driver_IVars

definition stop_begin :: "RTL8127Driver_IVars \<Rightarrow> stop_state" where
  "stop_begin iv =
    (let timer = statsTimer iv; src = intSource iv; iv1 = iv\<lparr>statsTimer := False, intSource := False\<rparr>;
         pending = (if timer then 1 else 0) + (if src then 1 else 0)
     in if pending = 0
        then \<lparr>ss_timer = False, ss_source = False, ss_pending = 0, ss_finished = 1, ss_iv = stop_finish iv1\<rparr>
        else \<lparr>ss_timer = timer, ss_source = src, ss_pending = pending, ss_finished = 0, ss_iv = iv1\<rparr>)"

definition stop_complete :: "stop_state \<Rightarrow> stop_state" where
  "stop_complete s =
    (let s1 = s\<lparr>ss_pending := ss_pending s - 1\<rparr> in
     if ss_pending s1 = 0
     then s1\<lparr>ss_finished := ss_finished s1 + 1, ss_iv := stop_finish (ss_iv s1)\<rparr> else s1)"

text \<open>The asynchronous completions, in either order.\<close>

inductive stop_step :: "stop_state \<Rightarrow> stop_state \<Rightarrow> bool" where
  timer_cancelled: "ss_timer s \<Longrightarrow> stop_step s (stop_complete (s\<lparr>ss_timer := False\<rparr>))"
| source_cancelled: "ss_source s \<Longrightarrow> stop_step s (stop_complete (s\<lparr>ss_source := False\<rparr>))"

subsection \<open>Interface enable\<close>

abbreviation "for_queues f iv \<equiv> fold (\<lambda>i iv. f i iv) [0..<kNumTxQueues] iv"

definition enable_queues :: "RTL8127Driver_IVars \<Rightarrow> RTL8127Driver_IVars" where
  "enable_queues iv =
    (let iv1 = for_queues (\<lambda>i iv. signal_opt (\<lambda>q. SetQueueEnable q True) (txCompQueues iv ! i)
                 (signal_opt (\<lambda>q. SetQueueEnable q True) (txSubQueues iv ! i) iv)) iv;
         iv2 = signal_opt (\<lambda>q. SetQueueEnable q True) (rxSubQueue iv1) iv1
     in signal_opt (\<lambda>q. SetQueueEnable q True) (rxCompQueue iv2) iv2)"

definition disable_queues :: "RTL8127Driver_IVars \<Rightarrow> RTL8127Driver_IVars" where
  "disable_queues iv =
    (let iv1 = for_queues (\<lambda>i iv. signal_opt (\<lambda>q. SetQueueEnable q False) (txCompQueues iv ! i)
                 (signal_opt PurgePackets (txSubQueues iv ! i)
                   (signal_opt (\<lambda>q. SetQueueEnable q False) (txSubQueues iv ! i) iv))) iv;
         iv2 = signal_opt (\<lambda>q. SetQueueEnable q False) (rxSubQueue iv1) iv1
     in signal_opt (\<lambda>q. SetQueueEnable q False) (rxCompQueue iv2) iv2)"

definition interface_on :: "(mcfg \<Rightarrow> unit hwm) \<Rightarrow> RTL8127Driver_IVars \<Rightarrow> RTL8127Driver_IVars" where
  "interface_on set_phy_mcu iv =
    (let iv1 = enable_queues (do_hw (rtl812xEnable set_phy_mcu) iv);
         iv2 = snd (rxRingRefill iv1);
         iv3 = (signal_opt RequestDequeue (rxSubQueue iv2) iv2)\<lparr>interfaceEnabled := True\<rparr>;
         iv4 = do_hw (RTL_W8 ChipCmd (CmdTxEnb OR CmdRxEnb)) iv3;
         iv5 = isr_rearm iv4
     in request_tx (updateLinkStatus iv5))"

definition interface_off :: "u16 \<Rightarrow> RTL8127Driver_IVars \<Rightarrow> RTL8127Driver_IVars" where
  "interface_off page_size iv =
    (let iv1 = do_hw (rtl812xDisable page_size) (iv\<lparr>interfaceEnabled := False, linkUp := False\<rparr>);
         iv2 = disable_queues (txRingReclaim True iv1);
         iv3 = rx_release_loop [0..<kNumRxDesc] iv2
     in signal (ReportLinkStatus False (currentMedia iv3)) iv3)"

definition setInterfaceEnable ::
    "(mcfg \<Rightarrow> unit hwm) \<Rightarrow> u16 \<Rightarrow> bool \<Rightarrow> RTL8127Driver_IVars \<Rightarrow> IOReturn \<times> RTL8127Driver_IVars" where
  "setInterfaceEnable set_phy_mcu page_size enable iv =
     (kIOReturnSuccess, if enable then interface_on set_phy_mcu iv else interface_off page_size iv)"

subsection \<open>Receive filters\<close>

definition setPromiscuousModeEnable :: "bool \<Rightarrow> RTL8127Driver_IVars \<Rightarrow> IOReturn \<times> RTL8127Driver_IVars" where
  "setPromiscuousModeEnable enable iv =
     (kIOReturnSuccess, do_hw applyRxMode (on_state (set_flag bit__PROMISC enable) iv))"

definition setAllMulticastModeEnable :: "bool \<Rightarrow> RTL8127Driver_IVars \<Rightarrow> IOReturn \<times> RTL8127Driver_IVars" where
  "setAllMulticastModeEnable enable iv =
     (kIOReturnSuccess,
      do_hw applyRxMode (on_state (\<lambda>h. set_flag bit__M_CAST enable
        (h\<lparr>multicastFilter := if enable then 0xffffffffffffffff else 0\<rparr>)) iv))"

text \<open>The bits of an octet go into the register least significant first.\<close>

definition crc_bit :: "bool \<Rightarrow> u32 \<Rightarrow> u32" where
  "crc_bit b crc = push_bit 1 crc XOR (if (crc <s 0) \<noteq> b then 0x04c11db7 else 0)"

fun crc_octet :: "nat \<Rightarrow> u8 \<Rightarrow> u32 \<Rightarrow> u32" where
  "crc_octet 0 octet crc = crc"
| "crc_octet (Suc n) octet crc = crc_octet n (drop_bit 1 octet) (crc_bit (octet AND 1 \<noteq> 0) crc)"

definition etherCrc :: "u8 list \<Rightarrow> u32" where
  "etherCrc data = fold (crc_octet 8) data 0xffffffff"

definition swap64 :: "u64 \<Rightarrow> u64" where
  "swap64 v = fold (\<lambda>i w. w OR push_bit (56 - 8 * i) (drop_bit (8 * i) v AND 0xff)) [0..<8] 0"

definition hash_bit :: "u8 list \<Rightarrow> nat" where
  "hash_bit a = unat (drop_bit 26 (etherCrc a) AND 0x3f)"

definition mc_hash :: "u8 list list \<Rightarrow> u64" where
  "mc_hash addrs = fold (\<lambda>a f. f OR push_bit (hash_bit a) 1) addrs 0"

definition setMulticastAddresses ::
    "u8 list list option \<Rightarrow> u32 \<Rightarrow> RTL8127Driver_IVars \<Rightarrow> IOReturn \<times> RTL8127Driver_IVars" where
  "setMulticastAddresses addresses cnt iv =
    (let flt = (case addresses of None \<Rightarrow> 0xffffffffffffffff
                | Some as \<Rightarrow> if cnt > 32 then 0xffffffffffffffff else swap64 (mc_hash (take (unat cnt) as)))
     in (kIOReturnSuccess,
         do_hw applyRxMode (on_state (\<lambda>h. set_flag bit__M_CAST (cnt \<noteq> 0) (h\<lparr>multicastFilter := flt\<rparr>)) iv)))"

subsection \<open>The kernel extension's multicast filter\<close>

text \<open>
  \<open>ether_crc\<close> keeps the register in a signed \<open>int\<close>; \<open>1 << n\<close> is an \<open>int\<close> shift that
  is sign-extended to the 64-bit filter. From bit 32 on the shift is undefined in
  C; what it yields there is the argument \<open>wide_shift\<close>.
\<close>

definition kext_crc_bit :: "bool \<Rightarrow> u32 \<Rightarrow> u32" where
  "kext_crc_bit b crc = push_bit 1 crc XOR (if (sint crc < 0) \<noteq> b then 0x04c11db7 else 0)"

fun kext_crc_octet :: "nat \<Rightarrow> u8 \<Rightarrow> u32 \<Rightarrow> u32" where
  "kext_crc_octet 0 octet crc = crc"
| "kext_crc_octet (Suc n) octet crc = kext_crc_octet n (drop_bit 1 octet) (kext_crc_bit (bit octet 0) crc)"

definition kext_ether_crc :: "u8 list \<Rightarrow> u32" where
  "kext_ether_crc data = fold (kext_crc_octet 8) data (- 1)"

definition kext_shift :: "(nat \<Rightarrow> u32) \<Rightarrow> nat \<Rightarrow> u64" where
  "kext_shift wide_shift n = scast (if n < 32 then push_bit n (1 :: u32) else wide_shift n)"

definition kext_setMulticastList :: "(nat \<Rightarrow> u32) \<Rightarrow> u8 list list \<Rightarrow> unit hwm" where
  "kext_setMulticastList wide_shift addrs = do {
     let flt = (if length addrs \<le> 32
        then swap64 (fold (\<lambda>a f. f OR kext_shift wide_shift (unat (drop_bit 26 (kext_ether_crc a) AND 0x3f))) addrs 0)
        else 0xffffffffffffffff);
     modf (\<lambda>s. s\<lparr>multicastFilter := flt\<rparr>);
     RTL_W32 MAR0 (ucast flt);
     RTL_W32 MAR1 (ucast (drop_bit 32 flt))
   }"

subsection \<open>Media\<close>

definition getSupportedMediaArray ::
    "bool \<Rightarrow> u32 option \<Rightarrow> RTL8127Driver_IVars \<Rightarrow> IOReturn \<times> (media list \<times> u32) \<times> RTL8127Driver_IVars" where
  "getSupportedMediaArray has_array mediaCount iv =
    (case mediaCount of None \<Rightarrow> (kIOReturnBadArgument, ([], 0), iv)
     | Some cnt \<Rightarrow>
        (let available = of_nat (length (mediaArray iv)) :: u32;
             limit = (if cnt \<noteq> 0 then cnt else available);
             n = (if limit < available then limit else available);
             iv' = tally (\<lambda>c. c\<lparr>mediaQueryLogged := mediaQueryLogged c + 1\<rparr>) iv
         in (kIOReturnSuccess,
             if has_array then (take (unat n) (mediaArray iv), n) else ([], available), iv')))"

definition getInitialMedia :: media where
  "getInitialMedia = MediaAuto"

fun media_speed :: "media \<Rightarrow> u32" where
  "media_speed Media10GBaseSR = SPEED_10000"
| "media_speed Media10GBaseT = SPEED_10000"
| "media_speed Media1000BaseSX = SPEED_1000"
| "media_speed Media1000BaseT = SPEED_1000"
| "media_speed Media5000BaseT = SPEED_5000"
| "media_speed Media2500BaseT = SPEED_2500"
| "media_speed _ = SPEED_10000"

definition handleChosenMedia :: "media_word \<Rightarrow> RTL8127Driver_IVars \<Rightarrow> IOReturn \<times> RTL8127Driver_IVars" where
  "handleChosenMedia chosen iv =
    (let speed = (if snd chosen = DuplexNone then media_speed (fst chosen) else SPEED_10000);
         iv1 = iv\<lparr>currentMedia := chosen\<rparr>
     in (kIOReturnSuccess,
         if interfaceEnabled iv1
         then do_hw (rtl812xSetPhyMedium AUTONEG_ENABLE speed DUPLEX_FULL (tp_advertising (tp (ihw iv1)))) iv1
         else iv1))"

subsection \<open>MTU and offloads\<close>

definition setMaxTransferUnit :: "u32 \<Rightarrow> RTL8127Driver_IVars \<Rightarrow> IOReturn \<times> RTL8127Driver_IVars" where
  "setMaxTransferUnit m iv =
    (if m < 60 \<or> m > kMaxMtu then (kIOReturnUnsupported, iv)
     else
       (let iv1 = on_state (\<lambda>h. h\<lparr>hw_mtu := m, tp := (tp h)\<lparr>tp_rms := ucast (m + 18 + 4),
                    tp_eee := (tp_eee (tp h))\<lparr>tx_lpi_timer := m + 14 + 0x20\<rparr>\<rparr>\<rparr>) (iv\<lparr>mtu := m\<rparr>)
        in (kIOReturnSuccess,
            if interfaceEnabled iv1 then do_hw (RTL_W16 RxMaxSize (tp_rms (tp (ihw iv1)))) iv1 else iv1)))"

definition getMaxTransferUnit :: u32 where
  "getMaxTransferUnit = kMaxMtu"

datatype hw_assist = TxChecksumIPHdr | TxChecksumTCP | TxChecksumUDP | RxChecksum | TSO4 | TSO6

definition getHardwareAssists :: "RTL8127Driver_IVars \<Rightarrow> hw_assist list" where
  "getHardwareAssists iv =
     [TxChecksumIPHdr, TxChecksumTCP, TxChecksumUDP, RxChecksum] @ (if tsoEnabled iv then [TSO4, TSO6] else [])"

definition setHardwareAssists ::
    "hw_assist list \<Rightarrow> hw_assist list \<Rightarrow> RTL8127Driver_IVars \<Rightarrow> IOReturn \<times> RTL8127Driver_IVars" where
  "setHardwareAssists assists msk iv =
     (kIOReturnSuccess,
      if TSO4 \<in> set msk \<or> TSO6 \<in> set msk then iv\<lparr>tsoEnabled := TSO4 \<in> set assists \<or> TSO6 \<in> set assists\<rparr> else iv)"

definition getTSOOptions :: "bool \<Rightarrow> IOReturn \<times> (u32 \<times> u32) option" where
  "getTSOOptions has_options =
     (if has_options then (kIOReturnSuccess, Some (kTsoMaxPacket, kTsoMaxPacket)) else (kIOReturnBadArgument, None))"

definition getHardwareAddress :: "bool \<Rightarrow> RTL8127Driver_IVars \<Rightarrow> IOReturn \<times> u8 list option" where
  "getHardwareAddress has_addr iv =
     (if has_addr then (kIOReturnSuccess, Some (take 6 (currMacAddr (ihw iv)))) else (kIOReturnBadArgument, None))"

end
