(* ===== verification/DextConfig.thy ===== *)
theory DextConfig
  imports DextControl
begin

text \<open>
  Configuration calls of the driver: the multicast hash filter and its
  agreement with the kernel extension's, the MTU and the receive buffers, and
  what a media choice changes.
\<close>

subsection \<open>Multicast hash filter\<close>

lemma bit_0xff: "bit (0xff :: u64) n \<longleftrightarrow> n < 8"
proof -
  have "(0xff :: u64) = mask 8" by (simp add: mask_eq_exp_minus_1)
  then show ?thesis by (simp only: bit_mask_iff) auto
qed

lemma bit_swap_fold:
  assumes "n < 64"
  shows "bit (fold (\<lambda>i w. w OR push_bit (56 - 8 * i) (drop_bit (8 * i) v AND 0xff)) is w) n \<longleftrightarrow>
    bit (w :: u64) n \<or> (\<exists>i \<in> set is. 56 - 8 * i \<le> n \<and> n - (56 - 8 * i) < 8 \<and> bit (v :: u64) (8 * i + (n - (56 - 8 * i))))"
  using assms
proof (induction "is" arbitrary: w)
  case (Cons i "is")
  have "bit (w OR push_bit (56 - 8 * i) (drop_bit (8 * i) v AND 0xff)) n \<longleftrightarrow>
      bit w n \<or> 56 - 8 * i \<le> n \<and> n - (56 - 8 * i) < 8 \<and> bit v (8 * i + (n - (56 - 8 * i)))"
    using Cons.prems by (simp only: bit_or_iff bit_push_bit_iff bit_and_iff bit_drop_bit_eq bit_0xff o_def) auto
  then show ?case using Cons.IH [OF Cons.prems] by simp
qed simp

lemma bit_swap64:
  assumes "k < 8" "r < 8"
  shows "bit (swap64 v) (8 * k + r) = bit v (8 * (7 - k) + r)"
proof -
  have "8 * k + r < 64" using assms by simp
  note f = bit_swap_fold [OF this, of v "[0..<8]" 0, folded swap64_def]
  have "(56 - 8 * i \<le> 8 * k + r \<and> 8 * k + r - (56 - 8 * i) < 8 \<and> bit v (8 * i + (8 * k + r - (56 - 8 * i)))) \<longleftrightarrow>
      i = 7 - k \<and> bit v (8 * (7 - k) + r)" if "i < 8" for i
  proof (cases "i = 7 - k")
    case True
    then have "56 - 8 * i = 8 * k" using assms(1) by simp
    then show ?thesis using True assms(2) by simp
  next
    case False
    then have "\<not> (56 - 8 * i \<le> 8 * k + r \<and> 8 * k + r - (56 - 8 * i) < 8)" using that assms by linarith
    then show ?thesis using False by blast
  qed
  then have e: "(\<exists>i \<in> set [0..<8]. 56 - 8 * i \<le> 8 * k + r \<and> 8 * k + r - (56 - 8 * i) < 8 \<and>
      bit v (8 * i + (8 * k + r - (56 - 8 * i)))) \<longleftrightarrow> (\<exists>i \<in> set [0..<8]. i = 7 - k \<and> bit v (8 * (7 - k) + r))"
    by (intro bex_cong) (simp_all only: set_upt atLeastLessThan_iff)
  have m: "7 - k \<in> set [0..<8]" and z: "bit (0 :: u64) (8 * k + r) = False" by simp_all
  have "(\<exists>i \<in> set [0..<8]. i = 7 - k \<and> Q) = Q" for Q using m by blast
  then show ?thesis by (simp only: f e z simp_thms)
qed

lemma swap64_swap64: "swap64 (swap64 v) = v"
proof (rule bit_word_eqI)
  fix n :: nat
  assume "n < LENGTH(64)"
  then have "n div 8 < 8" "n mod 8 < 8" "8 * (n div 8) + n mod 8 = n" by simp_all
  then show "bit (swap64 (swap64 v)) n = bit v n"
    using bit_swap64 [of "n div 8" "n mod 8" "swap64 v"] bit_swap64 [of "7 - n div 8" "n mod 8" v] by simp
qed

lemma bit_mc_hash: "n < 64 \<Longrightarrow> bit (mc_hash as) n \<longleftrightarrow> (\<exists>a \<in> set as. hash_bit a = n)"
proof -
  assume n: "n < 64"
  have "bit (fold (\<lambda>a f. f OR push_bit (hash_bit a) 1) as f) n \<longleftrightarrow> bit (f :: u64) n \<or> (\<exists>a \<in> set as. hash_bit a = n)" for f
    using n by (induction as arbitrary: f) (auto simp: bit_simps bit_1_iff)
  then show ?thesis by (simp add: mc_hash_def)
qed

subsection \<open>The kernel extension's CRC\<close>

lemma crc_octet_kext: "kext_crc_octet n octet crc = crc_octet n octet crc"
  by (induction n octet crc rule: crc_octet.induct)
    (simp_all add: crc_bit_def kext_crc_bit_def word_sless_alt and_one_eq odd_iff_mod_2_eq_one bit_0)

lemma etherCrc_kext: "kext_ether_crc data = etherCrc data"
proof -
  have m: "(- 1 :: u32) = 0xffffffff" by simp
  have "kext_crc_octet 8 = crc_octet 8" by (intro ext) (rule crc_octet_kext)
  then show ?thesis unfolding kext_ether_crc_def etherCrc_def m by simp
qed

lemma kext_shift_small: "n < 31 \<Longrightarrow> kext_shift ws n = push_bit n 1"
  by (rule bit_eqI) (auto simp: kext_shift_def bit_simps bit_1_iff)

lemma applyRxMode_run:
  obtains rest where "snd (run applyRxMode s) = s\<lparr>hist := Wr (Reg32 MAR1) (snd (snd (rx_mode (stateFlags s) (multicastFilter s)))) #
    Wr (Reg32 MAR0) (fst (snd (rx_mode (stateFlags s) (multicastFilter s)))) # rest\<rparr>"
  by (rule that [of "drop 2 (hist (snd (run applyRxMode s)))"]) (simp add: applyRxMode_def reg_defs Let_def)

lemma applyRxMode_filter: "multicastFilter (snd (run applyRxMode s)) = multicastFilter s"
  by (rule applyRxMode_run [of s]) simp

lemma length_u32:
  assumes "length as \<le> 32"
  shows "unat (of_nat (length as) :: u32) = length as" "\<not> (32 :: u32) < of_nat (length as)"
    "of_nat (length as) = (0 :: u32) \<longleftrightarrow> as = []"
proof -
  show u: "unat (of_nat (length as) :: u32) = length as"
    using assms by (simp add: unat_of_nat)
  then show "\<not> (32 :: u32) < of_nat (length as)"
    using assms by (simp add: word_less_nat_alt)
  show "of_nat (length as) = (0 :: u32) \<longleftrightarrow> as = []"
    unfolding unat_eq_zero [symmetric] u by simp
qed

text \<open>The filter the driver stores for a list of joined groups.\<close>

lemma multicast_filter:
  assumes "length as \<le> 32"
  shows "ihw (snd (setMulticastAddresses (Some as) (of_nat (length as)) iv)) =
    snd (run applyRxMode (set_flag bit__M_CAST (as \<noteq> []) ((ihw iv)\<lparr>multicastFilter := swap64 (mc_hash as)\<rparr>)))"
  using length_u32 [OF assms] by (simp add: setMulticastAddresses_def Let_def)

text \<open>
  (C19) Joining at most 32 groups programs the hash table exactly: the bit of the
  filter registers that belongs to a hash value is set when, and only when, a
  joined address has that hash. The table is byte-reversed across the two
  registers, hash values 0 to 31 lying in the second one.
\<close>

theorem multicast_filter_exact:
  assumes "as \<noteq> []" "length as \<le> 32" "\<not> bit (stateFlags (ihw iv)) bit__PROMISC"
  shows "\<exists>w0 w1 rest.
    hist (ihw (snd (setMulticastAddresses (Some as) (of_nat (length as)) iv))) = Wr (Reg32 MAR1) w1 # Wr (Reg32 MAR0) w0 # rest \<and>
    (\<forall>k < 4. \<forall>r < 8. (bit w1 (8 * k + r) \<longleftrightarrow> (\<exists>a \<in> set as. hash_bit a = 8 * (3 - k) + r)) \<and>
                       (bit w0 (8 * k + r) \<longleftrightarrow> (\<exists>a \<in> set as. hash_bit a = 8 * (7 - k) + r)))"
proof -
  define f where "f = swap64 (mc_hash as)"
  let ?s = "set_flag bit__M_CAST (as \<noteq> []) ((ihw iv)\<lparr>multicastFilter := f\<rparr>)"
  have m: "rx_mode (stateFlags ?s) (multicastFilter ?s) =
      (AcceptBroadcast OR AcceptMulticast OR AcceptMyPhys, ucast f, ucast (drop_bit 32 f))"
    using assms(1,3) by (simp add: rx_mode_def set_flag_def bit_simps)
  obtain rest where h: "hist (snd (run applyRxMode ?s)) = Wr (Reg32 MAR1) (ucast (drop_bit 32 f)) # Wr (Reg32 MAR0) (ucast f) # rest"
    by (rule applyRxMode_run [of ?s]) (simp add: m)
  have b: "bit (ucast (drop_bit 32 f) :: u32) (8 * k + r) \<longleftrightarrow> (\<exists>a \<in> set as. hash_bit a = 8 * (3 - k) + r)"
      "bit (ucast f :: u32) (8 * k + r) \<longleftrightarrow> (\<exists>a \<in> set as. hash_bit a = 8 * (7 - k) + r)" if "k < 4" "r < 8" for k r
  proof -
    have "8 * (k + 4) + r = 32 + (8 * k + r)" "7 - (k + 4) = 3 - k" by simp_all
    with bit_swap64 [of "k + 4" r "mc_hash as"] that
    have e: "bit (swap64 (mc_hash as)) (32 + (8 * k + r)) = bit (mc_hash as) (8 * (3 - k) + r)" by (simp del: distrib_left_numeral)
    show "bit (ucast (drop_bit 32 f) :: u32) (8 * k + r) \<longleftrightarrow> (\<exists>a \<in> set as. hash_bit a = 8 * (3 - k) + r)"
      using that by (simp add: f_def bit_simps e bit_mc_hash)
    show "bit (ucast f :: u32) (8 * k + r) \<longleftrightarrow> (\<exists>a \<in> set as. hash_bit a = 8 * (7 - k) + r)"
      using that bit_swap64 [of k r] by (simp add: f_def bit_simps bit_mc_hash)
  qed
  show ?thesis
    unfolding multicast_filter [OF assms(2)] f_def [symmetric] using h b by blast
qed

text \<open>The all-hosts group 224.0.0.1.\<close>

abbreviation all_hosts :: "u8 list" where
  "all_hosts \<equiv> [0x01, 0x00, 0x5e, 0x00, 0x00, 0x01]"

lemma hash_all_hosts: "hash_bit all_hosts = 31"
  by code_simp

theorem multicast_filter_exact_witness:
  "\<forall>iv. \<exists>w0 w1 rest.
     hist (ihw (snd (setMulticastAddresses (Some [all_hosts]) 1 (on_state (set_flag bit__PROMISC False) iv)))) =
       Wr (Reg32 MAR1) w1 # Wr (Reg32 MAR0) w0 # rest \<and> bit w1 7 \<and> \<not> bit w1 6"
proof
  fix iv :: RTL8127Driver_IVars
  let ?iv = "on_state (set_flag bit__PROMISC False) iv"
  have "\<not> bit (stateFlags (ihw ?iv)) bit__PROMISC" by (simp add: set_flag_def bit_simps)
  from multicast_filter_exact [of "[all_hosts]", OF _ _ this] obtain w0 w1 rest where
      h: "hist (ihw (snd (setMulticastAddresses (Some [all_hosts]) 1 ?iv))) = Wr (Reg32 MAR1) w1 # Wr (Reg32 MAR0) w0 # rest"
      and b: "\<And>k r. k < 4 \<Longrightarrow> r < 8 \<Longrightarrow> bit w1 (8 * k + r) \<longleftrightarrow> hash_bit all_hosts = 8 * (3 - k) + r"
    by auto
  have "bit w1 7" "\<not> bit w1 6" using b [of 0 7] b [of 0 6] hash_all_hosts by simp_all
  then show "\<exists>w0 w1 rest. hist (ihw (snd (setMulticastAddresses (Some [all_hosts]) 1 ?iv))) =
       Wr (Reg32 MAR1) w1 # Wr (Reg32 MAR0) w0 # rest \<and> bit w1 7 \<and> \<not> bit w1 6"
    using h by blast
qed

subsection \<open>The two drivers compared\<close>

lemma kext_filter:
  assumes "length as \<le> 32"
  shows "multicastFilter (snd (run (kext_setMulticastList ws as) s)) =
    swap64 (fold (\<lambda>a f. f OR kext_shift ws (hash_bit a)) as 0)"
  using assms by (simp add: kext_setMulticastList_def reg_defs etherCrc_kext hash_bit_def Let_def)

lemma dext_filter:
  assumes "length as \<le> 32"
  shows "multicastFilter (ihw (snd (setMulticastAddresses (Some as) (of_nat (length as)) iv))) = swap64 (mc_hash as)"
  by (simp add: multicast_filter [OF assms] applyRxMode_filter set_flag_def)

text \<open>
  (C25) For up to 32 groups none of whose hash values exceeds 30, the driver and
  the kernel extension store the same filter: their CRC routines agree on every
  address, and so do the shifts that set the hash bits.
\<close>

theorem multicast_filter_matches_kext:
  assumes "length as \<le> 32" "\<forall>a \<in> set as. hash_bit a < 31"
  shows "multicastFilter (snd (run (kext_setMulticastList ws as) s)) =
    multicastFilter (ihw (snd (setMulticastAddresses (Some as) (of_nat (length as)) iv)))"
proof -
  have "fold (\<lambda>a f. f OR kext_shift ws (hash_bit a)) as 0 = mc_hash as"
    unfolding mc_hash_def using assms(2) by (intro fold_cong) (simp_all add: kext_shift_small)
  then show ?thesis by (simp only: kext_filter [OF assms(1)] dext_filter [OF assms(1)])
qed

theorem multicast_filter_matches_kext_witness:
  "\<forall>ws s iv. hash_bit [0x01, 0x00, 0x5e, 0x00, 0x00, 0xfb] < 31 \<and>
     multicastFilter (snd (run (kext_setMulticastList ws [[0x01, 0x00, 0x5e, 0x00, 0x00, 0xfb]]) s)) =
     multicastFilter (ihw (snd (setMulticastAddresses (Some [[0x01, 0x00, 0x5e, 0x00, 0x00, 0xfb]]) 1 iv)))"
proof -
  have "hash_bit [0x01, 0x00, 0x5e, 0x00, 0x00, 0xfb] < 31" by code_simp
  then show ?thesis
    using multicast_filter_matches_kext [of "[[0x01, 0x00, 0x5e, 0x00, 0x00, 0xfb]]"] by simp
qed

text \<open>
  (C36) The kernel extension shifts a 32-bit constant, and bit 31 is extended into
  the upper half of the filter: a host that has joined only the all-hosts group,
  whose hash value is 31, accepts every group with a hash value from 31 to 63,
  where the driver accepts the one.
\<close>

theorem kext_all_hosts_opens_filter:
  "(\<forall>n < 64. bit (swap64 (multicastFilter (snd (run (kext_setMulticastList ws [all_hosts]) s)))) n = (31 \<le> n)) \<and>
   (\<forall>n < 64. bit (swap64 (multicastFilter (ihw (snd (setMulticastAddresses (Some [all_hosts]) 1 iv))))) n = (n = 31))"
proof (intro conjI allI impI)
  fix n :: nat
  assume n: "n < 64"
  have "kext_shift ws 31 = NOT (mask 31)"
    by (simp add: kext_shift_def mask_eq_exp_minus_1)
  then have "bit (kext_shift ws 31) n = (31 \<le> n)"
    using n by (simp only: bit_not_iff bit_mask_iff) auto
  then show "bit (swap64 (multicastFilter (snd (run (kext_setMulticastList ws [all_hosts]) s)))) n = (31 \<le> n)"
    by (simp add: kext_filter hash_all_hosts swap64_swap64)
  show "bit (swap64 (multicastFilter (ihw (snd (setMulticastAddresses (Some [all_hosts]) 1 iv))))) n = (n = 31)"
    using dext_filter [of "[all_hosts]" iv] n by (auto simp: hash_all_hosts swap64_swap64 bit_mc_hash)
qed

theorem kext_all_hosts_opens_filter_witness:
  "\<forall>ws s iv. bit (swap64 (multicastFilter (snd (run (kext_setMulticastList ws [all_hosts]) s)))) 40 \<and>
     \<not> bit (swap64 (multicastFilter (ihw (snd (setMulticastAddresses (Some [all_hosts]) 1 iv))))) 40"
  using kext_all_hosts_opens_filter by simp

subsection \<open>MTU\<close>

text \<open>
  (C30) The driver accepts exactly the MTUs from 60 to 9000, the maximum it
  reports. An accepted one leaves room for the VLAN header and the checksum in
  the frame size limit without wrapping the 16-bit register, and a frame of the
  largest size the chip then passes on fits in a receive buffer; the limit
  reaches a running chip at once. Any other MTU is refused and changes nothing.
\<close>

theorem mtu_fits_receive_buffer:
  "let (r, iv') = setMaxTransferUnit m iv; rms = tp_rms (tp (ihw iv')) in
     if 60 \<le> m \<and> m \<le> getMaxTransferUnit
     then r = kIOReturnSuccess \<and> mtu iv' = m \<and> unat rms = unat m + 22 \<and> unat rms < unat kRxBufferSize \<and>
       hist (ihw iv') = (if interfaceEnabled iv then [Wr (Reg16 RxMaxSize) (ucast rms)] else []) @ hist (ihw iv)
     else r = kIOReturnUnsupported \<and> iv' = iv"
proof (cases "60 \<le> m \<and> m \<le> 9000")
  case True
  then have u: "unat m \<le> 9000" "60 \<le> m" "m \<le> 9000" by (simp_all add: word_le_nat_alt)
  have "unat (m + 18 + 4) = unat m + 22"
    using u(1) by (simp add: unat_word_ariths add.assoc)
  then have "unat (ucast (m + 18 + 4) :: u16) = unat m + 22"
    using u(1) by (simp add: unat_ucast_mod)
  then show ?thesis
    using u by (simp add: setMaxTransferUnit_def getMaxTransferUnit_def kMaxMtu_def kRxBufferSize_def Let_def do_hw_def reg_defs
        not_less add.assoc)
next
  case False
  then show ?thesis
    by (auto simp: setMaxTransferUnit_def getMaxTransferUnit_def kMaxMtu_def Let_def not_le)
qed

subsection \<open>Media choice\<close>

lemma set_medium_hist: "hist (snd (run (set_medium a sp d adv) s)) = hist s"
  by (simp add: set_medium_def rtl8125_set_d0_speedup_speed_def)

text \<open>Up to the last step, a negotiated copper medium depends on the advertised modes only.\<close>

definition negotiate :: "u64 \<Rightarrow> unit hwm" where
  "negotiate adv = do {
     t0 \<leftarrow> tpget id;
     _ \<leftarrow> (if eee_enabled (tp_eee t0) \<noteq> 0 then rtl8125_enable_eee else rtl8125_disable_eee);
     rtl8125_disable_giga_lite;
     g \<leftarrow> rtl8125_mdio_read MII_CTRL1000;
     c \<leftarrow> mdio_direct_read_phy_ocp 0xA5D4;
     a \<leftarrow> rtl8125_mdio_read MII_ADVERTISE;
     t \<leftarrow> tpget id;
     let auto_nego = medium_auto adv (tp_fcpause t) a;
     let giga_ctrl = medium_1000 adv (g AND NOT (ADVERTISE_1000HALF OR ADVERTISE_1000FULL));
     let ctrl_2500 = medium_2500 t adv (c AND NOT (RTK_ADVERTISE_2500FULL OR RTK_ADVERTISE_5000FULL OR RTK_ADVERTISE_10000FULL));
     tpmod (\<lambda>t. t\<lparr>tp_phy_auto_nego_reg := auto_nego, tp_phy_1000_ctrl_reg := giga_ctrl,
                  tp_phy_2500_ctrl_reg := ctrl_2500\<rparr>);
     rtl8125_mdio_write 0x1f 0x0000;
     rtl8125_mdio_write MII_ADVERTISE (ucast auto_nego);
     rtl8125_mdio_write MII_CTRL1000 (ucast giga_ctrl);
     mdio_direct_write_phy_ocp 0xA5D4 (ucast ctrl_2500);
     rtl8125_phy_restart_nway
   }"

lemma set_phy_medium_copper:
  assumes "rtl8125_is_speed_mode_valid speed" "\<not> HW_FIBER_MODE_ENABLED (tp s)"
  shows "snd (run (rtl812xSetPhyMedium AUTONEG_ENABLE speed d adv) s) =
    snd (run (set_medium AUTONEG_ENABLE speed d adv) (snd (run (negotiate adv) s)))"
  unfolding rtl812xSetPhyMedium_def copper_medium_def negotiate_def Let_def
  using assms by (simp add: case_prod_beta)



end
