(* ===== verification/ChipInit.thy ===== *)
theory ChipInit
  imports ChipFrame
begin

text \<open>
  What chip bring-up establishes: identification picks the table row of the
  generation it reports, the software variables give the transmit ring the
  counter width and the pointer registers of that generation, and the station
  address ends up valid and programmed.
\<close>

subsection \<open>How an operation moves the datapath variables\<close>

type_synonym dp_vars = "mcfg \<times> u32 \<times> u32 \<times> u16 \<times> u16 \<times> u8"

definition moves :: "(dp_vars \<Rightarrow> dp_vars) \<Rightarrow> 'a hwm \<Rightarrow> bool" where
  "moves f m \<longleftrightarrow> (\<forall>s. dp (tp (snd (run m s))) = f (dp (tp s)))"

lemma movesD: "moves f m \<Longrightarrow> dp (tp (snd (run m s))) = f (dp (tp s))"
  by (simp add: moves_def)

lemma moves_tame: "tame dp m \<Longrightarrow> moves id m"
  unfolding moves_def
proof
  fix s
  assume "tame dp m"
  then show "dp (tp (snd (run m s))) = id (dp (tp s))" by (rule tameE [where s = s]) simp
qed

lemma moves_bind: "moves f m \<Longrightarrow> (\<And>x. moves g (k x)) \<Longrightarrow> moves (g \<circ> f) (m \<bind> k)"
  unfolding moves_def snd_run_bind by simp

lemma moves_tpmod: "(\<And>t. dp (h t) = f (dp t)) \<Longrightarrow> moves f (tpmod h)"
  by (simp add: moves_def)

lemma moves_modf: "(\<And>s. tp (h s) = tp s) \<Longrightarrow> moves id (modf h)"
  by (simp add: moves_def)

text \<open>Dropping a step that leaves them alone.\<close>

lemma moves_after: "moves id m \<Longrightarrow> (\<And>x. moves g (k x)) \<Longrightarrow> moves g (m \<bind> k)"
  using moves_bind [of id m g k] by simp

lemmas moves_after_tame = moves_tame [THEN moves_after]

subsection \<open>Software variables\<close>

fun d_close :: "dp_vars \<Rightarrow> dp_vars" where
  "d_close (m, c, k, cl, sw, v) = (m, c, k, cl, sw,
     if m \<in> {CFG_METHOD_2, CFG_METHOD_3, CFG_METHOD_4, CFG_METHOD_5, CFG_METHOD_6, CFG_METHOD_7} then 3
     else if m \<in> {CFG_METHOD_8, CFG_METHOD_9, CFG_METHOD_10, CFG_METHOD_11, CFG_METHOD_12, CFG_METHOD_13,
         CFG_METHOD_41, CFG_METHOD_42} then 6
     else if m = CFG_METHOD_31 then 4 else if m \<in> {CFG_METHOD_32, CFG_METHOD_33} then 5 else v)"

fun d_mask :: "dp_vars \<Rightarrow> dp_vars" where
  "d_mask (m, c, k, cl, sw, v) = (m, c,
     if v \<in> {5, 6} then 0x7FFFFFFF else if v = 4 then 0xFFFFFFFF else if v = 3 then 0xFFFF else k, cl, sw, v)"

fun d_regs :: "dp_vars \<Rightarrow> dp_vars" where
  "d_regs (m, c, k, cl, sw, v) = (m, c, k,
     if v \<in> {4, 5} then HW_CLO_PTR0_8126 else if v = 6 then HW_CLO_PTR0_8125BP else HW_CLO_PTR0_8125,
     if v \<in> {4, 5} then SW_TAIL_PTR0_8126 else if v = 6 then SW_TAIL_PTR0_8125BP else SW_TAIL_PTR0_8125, v)"

lemma moves_sv:
  "moves d_close (tpmod sv_tx_no_close)" "moves d_mask (tpmod sv_desc_mask)" "moves d_regs rtl8125_setup_mqs_reg"
  unfolding rtl8125_setup_mqs_reg_def
  by (rule moves_tpmod; simp add: dp_def sv_tx_no_close_def sv_desc_mask_def Let_def)+

lemma tame_sv:
  "tame dp (tpmod sv_ocp_channel)" "tame dp (tpmod sv_pcie_sn)" "tame dp (tpmod sv_max_speed)" "tame dp (tpmod sv_magic)"
  "tame dp (tpmod sv_esd)" "tame dp (tpmod sv_d0)" "tame dp (tpmod sv_lso)" "tame dp (tpmod sv_ram_code)"
  "tame dp (tpmod sv_mac_mcu)" "tame dp (tpmod sv_int_miti)" "tame dp (tpmod sv_tcam)" "tame dp (tpmod sv_pfm)"
  "tame dp (tpmod sv_rx_desc)" "tame dp (tpmod (sv_eee ws))" "tame dp (tpmod (\<lambda>t. t\<lparr>tp_AllowAccessDashOcp := a\<rparr>))"
  by (rule tame_tpmod; simp add: dp_def sv_ocp_channel_def sv_pcie_sn_def sv_max_speed_def sv_magic_def sv_esd_def
      sv_d0_def sv_lso_def sv_ram_code_def sv_mac_mcu_def sv_int_miti_def sv_tcam_def sv_pfm_def sv_rx_desc_def
      sv_eee_def eee_defaults_def Let_def split: option.split)+

lemma moves_software_variable:
  "moves (id \<circ> d_regs \<circ> d_mask \<circ> d_close) (rtl8125_init_software_variable ws)"
  unfolding rtl8125_init_software_variable_def
  by (intro moves_sv [THEN moves_bind] tame_sv [THEN moves_after_tame] tame_soft_var [THEN moves_after_tame]
      tame_nic_oob [THEN moves_after_tame] tame_nic_ops [THEN moves_after_tame] tame_phy_patch [THEN moves_after_tame]
      tame_fiber [THEN moves_after_tame] tame_sv [THEN moves_tame])

subsection \<open>Bring-up\<close>

lemma moves_random_buf: "moves id (random_buf n)"
  unfolding random_buf_def Let_def
  by (intro moves_after moves_modf moves_tame tame_rules) simp_all

lemma tame_read_mac: "tame dp (read_mac n r)"
  by (induction n arbitrary: r) (auto intro!: tame_rules)

lemma moves_initMacAddr: "moves id initMacAddr"
proof -
  have pick: "moves id (if a then ret x else if b then ret y else if c then ret z
      else do { r \<leftarrow> random_buf 6; ret (local_unicast r) })" for a b c x y z
    by (simp add: moves_tame tame_return moves_after moves_random_buf)
  show ?thesis
    unfolding initMacAddr_def Let_def
    by (intro pick moves_after moves_modf moves_tame tame_read_mac tame_rules) simp_all
qed

lemma moves_init_settings: "moves id (init_settings ws)"
  unfolding init_settings_def
  by (intro moves_after moves_modf moves_tame tame_rules) (simp_all add: dp_def init_eee_def Let_def)

lemma init_run:
  "fst (run (rtl812xInit ws) s) = fst (run rtl812xIdentifyChip s)"
  "fst (run rtl812xIdentifyChip s) \<Longrightarrow>
     dp (tp (snd (run (rtl812xInit ws) s))) = (d_regs \<circ> d_mask \<circ> d_close) (dp (tp (snd (run rtl812xIdentifyChip s))))"
proof -
  define rest where "rest = do {
       rtl8125_get_bios_setting;
       init_aspm;
       rtl8125_init_software_variable ws;
       init_settings ws;
       rtl8125_exit_oob;
       rtl812xHwInit;
       rtl8125_nic_reset;
       rtl8125_eeprom_type;
       ty \<leftarrow> tpget tp_eeprom_type;
       whenM (ty = EEPROM_TYPE_93C46 \<or> ty = EEPROM_TYPE_93C56) rtl8125_set_eeprom_sel_low;
       initMacAddr;
       cp \<leftarrow> RTL_R16 CPlusCmd;
       tpmod (\<lambda>t. t\<lparr>tp_cp_cmd := cp OR 0x20\<rparr>);
       modf set_intr_masks;
       tpmod (\<lambda>t. t\<lparr>tp_rx_config := RCR_Cfg (chip_row t)\<rparr>);
       stat \<leftarrow> getf statPhyAddr;
       RTL_W32 CounterAddrHigh (ucast (drop_bit 32 stat));
       RTL_W32 CounterAddrLow (ucast stat OR 1);
       rtl8125_disable_rxdvgate;
       ret True
     }"
  have t: "fst (run rest s') = True" for s'
    unfolding rest_def fst_run_bind by simp
  have c: "tame dp (tpmod (\<lambda>t. t\<lparr>tp_cp_cmd := cp OR 0x20\<rparr>))"
      "tame dp (tpmod (\<lambda>t. t\<lparr>tp_rx_config := RCR_Cfg (chip_row t)\<rparr>))" for cp
    by (rule tame_tpmod; simp add: dp_def)+
  have m: "moves (id \<circ> (id \<circ> d_regs \<circ> d_mask \<circ> d_close)) rest"
    unfolding rest_def
    by (intro moves_software_variable [THEN moves_bind] moves_init_settings [THEN moves_after] moves_initMacAddr [THEN moves_after]
        tame_nic_power [THEN moves_after_tame] tame_hw_layer [THEN moves_after_tame] tame_nic_oob [THEN moves_after_tame]
        tame_nic_ops [THEN moves_after_tame] tame_eeprom [THEN moves_after_tame] tame_regs [THEN moves_after_tame]
        c [THEN moves_after_tame] moves_modf [THEN moves_after] tame_tpget [THEN moves_after_tame]
        tame_getf [THEN moves_after_tame] tame_whenM [THEN moves_after_tame] tame_eeprom
        tame_return [THEN moves_tame]) (simp add: set_intr_masks_def)
  have eq: "rtl812xInit ws = rtl812xIdentifyChip \<bind> (\<lambda>known. if \<not> known then ret False else rest)"
    unfolding rtl812xInit_def rest_def ..
  show "fst (run (rtl812xInit ws) s) = fst (run rtl812xIdentifyChip s)"
    unfolding eq fst_run_bind using t by simp
  show "dp (tp (snd (run (rtl812xInit ws) s))) = (d_regs \<circ> d_mask \<circ> d_close) (dp (tp (snd (run rtl812xIdentifyChip s))))"
    if "fst (run rtl812xIdentifyChip s)"
    unfolding eq snd_run_bind using that movesD [OF m] by simp
qed

text \<open>
  The table row of a generation, and the completion counter that goes with its
  descriptor format: version, counter mask, chip and driver pointer registers.
\<close>

definition chip_typed :: "rtl8125_private \<Rightarrow> bool" where
  "chip_typed t \<longleftrightarrow> tp_mcfg t \<noteq> CFG_METHOD_DEFAULT \<and> unat (tp_chipset t) < length rtlChipInfo \<and>
     ci_mcfg (chip_row t) = tp_mcfg t"

definition tx_counter_ok :: "rtl8125_private \<Rightarrow> bool" where
  "tx_counter_ok t \<longleftrightarrow>
     (tp_HwSuppTxNoCloseVer t, tp_MaxTxDescPtrMask t, tp_HwCloPtrReg t, tp_SwTailPtrReg t) \<in>
       {(3, mask 16, HW_CLO_PTR0_8125, SW_TAIL_PTR0_8125), (4, mask 32, HW_CLO_PTR0_8126, SW_TAIL_PTR0_8126),
        (5, mask 31, HW_CLO_PTR0_8126, SW_TAIL_PTR0_8126), (6, mask 31, HW_CLO_PTR0_8125BP, SW_TAIL_PTR0_8125BP)}"

lemma identify_row:
  assumes "identify v = Some (m0, c0, u)" "remap_8162 dev (m0, c0) = (m, c)"
  shows "m \<noteq> CFG_METHOD_DEFAULT" "unat c < length rtlChipInfo" "ci_mcfg (rtlChipInfo ! unat c) = m"
  using assms
  by (auto simp: identify_def ic_ver_def remap_8162_def rtlChipInfo_def chip_info_def Let_def split: if_splits)

lemma identify_run:
  fixes s :: hw
  defines "v \<equiv> chip s (hist s) (Reg32 TxConfig)"
  shows "fst (run rtl812xIdentifyChip s) \<longleftrightarrow> identify v \<noteq> None"
    and "identify v \<noteq> None \<Longrightarrow> chip_typed (tp (snd (run rtl812xIdentifyChip s)))"
proof -
  obtain m0 c0 u where i: "(case identify v of Some r \<Rightarrow> r | None \<Rightarrow> (CFG_METHOD_DEFAULT, tp_chipset (tp s), True)) = (m0, c0, u)"
    by (metis prod_cases3)
  obtain m c where r: "remap_8162 (pciDeviceId s) (m0, c0) = (m, c)" by (rule prod.exhaust)
  have f: "fst (run rtl812xIdentifyChip s) = (m \<noteq> CFG_METHOD_DEFAULT)"
      "tp_mcfg (tp (snd (run rtl812xIdentifyChip s))) = m" "tp_chipset (tp (snd (run rtl812xIdentifyChip s))) = c"
    unfolding rtl812xIdentifyChip_def using i r
    by (cases "identify v"; simp add: fst_run_bind snd_run_bind reg_defs v_def Let_def)+
  have n: "m = CFG_METHOD_DEFAULT" if "identify v = None"
    using that i r by (simp add: remap_8162_def split: if_splits)
  have k: "m \<noteq> CFG_METHOD_DEFAULT" "unat c < length rtlChipInfo" "ci_mcfg (rtlChipInfo ! unat c) = m" if "identify v \<noteq> None"
    using that i identify_row [OF _ r, of v u] by auto
  show "fst (run rtl812xIdentifyChip s) \<longleftrightarrow> identify v \<noteq> None" using f(1) n k(1) by blast
  show "chip_typed (tp (snd (run rtl812xIdentifyChip s)))" if "identify v \<noteq> None"
    using f k [OF that] by (simp add: chip_typed_def)
qed

lemma counter_of_mcfg:
  assumes "dp t' = (d_regs \<circ> d_mask \<circ> d_close) (dp t)" "chip_typed t"
  shows "chip_typed t'" "tx_counter_ok t'"
proof -
  have m: "mask 16 = (0xFFFF :: u32)" "mask 31 = (0x7FFFFFFF :: u32)" "mask 32 = (0xFFFFFFFF :: u32)"
    by (simp_all add: mask_eq_exp_minus_1)
  show "chip_typed t'" using assms by (simp add: chip_typed_def dp_def)
  show "tx_counter_ok t'"
    using assms by (cases "tp_mcfg t") (simp_all add: chip_typed_def tx_counter_ok_def dp_def m)
qed

lemma init_typed:
  assumes "fst (run (rtl812xInit ws) s)"
  shows "chip_typed (tp (snd (run (rtl812xInit ws) s)))" "tx_counter_ok (tp (snd (run (rtl812xInit ws) s)))"
  using assms identify_run [of s] init_run [where ws = ws and s = s] counter_of_mcfg by simp_all

text \<open>
  (C18) Chip bring-up succeeds exactly for the chips it can name. When it does,
  the chip index lies in the table and selects the row of the identified
  generation, and the transmit completion counter has one of the four known
  formats, with its mask and both pointer registers belonging together.
\<close>

theorem init_types_chip:
  "fst (run (rtl812xInit ws) s) = (identify (chip s (hist s) (Reg32 TxConfig)) \<noteq> None) \<and>
   (fst (run (rtl812xInit ws) s) \<longrightarrow>
      chip_typed (tp (snd (run (rtl812xInit ws) s))) \<and> tx_counter_ok (tp (snd (run (rtl812xInit ws) s))))"
  using identify_run(1) [of s] init_run(1) [where ws = ws and s = s] init_typed [of ws s] by simp

theorem init_types_chip_witness:
  "\<forall>ws s. let r = run (rtl812xInit ws) (s\<lparr>chip := \<lambda>_ _. 0x6C800000\<rparr>) in
     fst r \<and> chip_typed (tp (snd r)) \<and> tx_counter_ok (tp (snd r))"
proof (intro allI)
  fix ws and s :: hw
  have "identify (chip (s\<lparr>chip := \<lambda>_ _. 0x6C800000\<rparr>) (hist s) (Reg32 TxConfig)) \<noteq> None"
    by (simp add: identify_def ic_ver_def)
  then show "let r = run (rtl812xInit ws) (s\<lparr>chip := \<lambda>_ _. 0x6C800000\<rparr>) in
      fst r \<and> chip_typed (tp (snd r)) \<and> tx_counter_ok (tp (snd r))"
    using init_types_chip [of ws "s\<lparr>chip := \<lambda>_ _. 0x6C800000\<rparr>"] by (simp add: Let_def)
qed

subsection \<open>Station address\<close>

lemma length_rand_bytes: "length (fst (rand_bytes n seed)) = n"
  by (induction n arbitrary: seed) (simp_all add: Let_def case_prod_beta del: rand_step.simps)

lemma length_read_mac: "length (fst (run (read_mac n r) s)) = n"
  by (induction n arbitrary: r s) (simp_all add: case_prod_beta)

lemma local_unicast_valid:
  assumes "length r = 6"
  shows "length (local_unicast r) = 6" "is_valid_ether_addr (local_unicast r)"
proof -
  obtain b bs where r: "r = b # bs" using assms by (cases r) auto
  have "bit (b AND 0xfe OR 0x02) 1" "\<not> bit (b AND 0xfe OR 0x02) 0" by (simp_all add: bit_simps)
  then have "b AND 0xfe OR 0x02 \<noteq> 0" "0x01 AND (b AND 0xfe OR 0x02) = 0"
    by (force, simp only: one_and_eq bit_0 even_iff_mod_2_eq_zero not_not)
  then show "length (local_unicast r) = 6" "is_valid_ether_addr (local_unicast r)"
    using assms by (simp_all add: r is_valid_ether_addr_def is_multicast_ether_addr_def is_zero_ether_addr_def)
qed

text \<open>The two words written to the address registers spell the address.\<close>

lemma rar_words_roundtrip:
  assumes "length a = 6"
  shows "mac_of_words (rar_low a) (ucast (rar_high a)) = a"
proof -
  obtain a0 a1 a2 a3 a4 a5 where "a = [a0, a1, a2, a3, a4, a5]"
    using assms by (auto simp: length_Suc_conv eval_nat_numeral)
  moreover have "\<not> bit (x :: u8) (8 + n)" "\<not> bit x (16 + n)" "\<not> bit x (24 + n)" for x n
    by (auto dest: bit_imp_le_length)
  ultimately show ?thesis
    by (simp add: mac_of_words_def rar_low_def rar_high_def) (auto intro!: bit_eqI simp: bit_simps)
qed

definition pick_mac :: "u8 list \<Rightarrow> u8 list \<Rightarrow> u8 list \<Rightarrow> u8 list hwm" where
  "pick_mac mac fb org =
    (if is_valid_ether_addr mac then ret mac
     else if is_valid_ether_addr fb then ret fb
     else if is_valid_ether_addr org then ret org
     else do { r \<leftarrow> random_buf 6; ret (local_unicast r) })"

lemma pick_mac_valid:
  assumes "length mac = 6" "length fb = 6" "length org = 6"
  shows "length (fst (run (pick_mac mac fb org) s)) = 6" "is_valid_ether_addr (fst (run (pick_mac mac fb org) s))"
  using assms by (auto simp: pick_mac_def random_buf_def Let_def length_rand_bytes local_unicast_valid fst_run_bind)

lemma rar_set_run:
  obtains new t where "snd (run (rtl8125_rar_set a) s) = s\<lparr>hist := new @ hist s, tp := t\<rparr>"
    "Wr (Reg32 MAC0) (rar_low a) \<in> set new" "Wr (Reg32 MAC4) (rar_high a) \<in> set new"
  by (rule that [where t = "tp s" and new = "take 6 (hist (snd (run (rtl8125_rar_set a) s)))"])
    (simp_all add: rtl8125_rar_set_def rtl8125_enable_cfg9346_write_def rtl8125_disable_cfg9346_write_def rmw8_def reg_defs)

text \<open>
  (C29) Whatever the chip holds, the station address the driver settles on is a
  valid unicast address of six octets; a valid address in the address registers
  is kept; and the words written back to those registers spell the chosen
  address.
\<close>

theorem initMacAddr_programs_valid_address:
  assumes fb: "length (fallBackMacAddr s) = 6"
  defines "mac \<equiv> fst (run (read_mac 6 MAC0) s)" and "s' \<equiv> snd (run initMacAddr s)"
  shows "length (currMacAddr s') = 6 \<and> is_valid_ether_addr (currMacAddr s') \<and>
    (is_valid_ether_addr mac \<longrightarrow> currMacAddr s' = mac) \<and>
    (\<exists>lo hi. Wr (Reg32 MAC0) lo \<in> set (hist s') \<and> Wr (Reg32 MAC4) hi \<in> set (hist s') \<and>
       mac_of_words lo (ucast hi) = currMacAddr s')"
proof -
  obtain n1 t1 where 1: "snd (run (read_mac 6 MAC0) s) = s\<lparr>hist := n1 @ hist s, tp := t1\<rparr>"
    using tame_read_mac by (rule tameE)
  define s1 where "s1 = s\<lparr>hist := n1 @ hist s, tp := t1\<rparr>"
  have s1: "chip s1 = chip s" "fallBackMacAddr s1 = fallBackMacAddr s" by (simp_all add: s1_def)
  define lo where "lo = chip s (hist s1) (Reg32 BACKUP_ADDR0_8125)"
  define h1 where "h1 = Rd (Reg32 BACKUP_ADDR0_8125) lo # hist s1"
  define hi where "hi = chip s h1 (Reg16 BACKUP_ADDR1_8125)"
  define org where "org = mac_of_words lo (ucast hi)"
  define s3 where "s3 = s1\<lparr>hist := Rd (Reg16 BACKUP_ADDR1_8125) hi # h1, origMacAddr := org\<rparr>"
  define r where "r = run (pick_mac mac (fallBackMacAddr s) org) s3"
  have "snd (run initMacAddr s) = snd (run (rtl8125_rar_set (fst r)) ((snd r)\<lparr>currMacAddr := fst r\<rparr>))"
    unfolding initMacAddr_def pick_mac_def [symmetric] snd_run_bind 1 s1_def [symmetric]
    by (simp add: s1 reg_defs r_def s3_def hi_def h1_def lo_def org_def mac_def Let_def case_prod_beta)
  then have eq: "s' = snd (run (rtl8125_rar_set (fst r)) ((snd r)\<lparr>currMacAddr := fst r\<rparr>))"
    by (simp add: s'_def)
  have l: "length mac = 6" "length org = 6"
    by (simp_all add: mac_def org_def length_read_mac mac_of_words_def)
  have v: "length (fst r) = 6" "is_valid_ether_addr (fst r)"
    using pick_mac_valid [OF l(1) fb l(2)] by (simp_all add: r_def)
  have k: "fst r = mac" if "is_valid_ether_addr mac" using that by (simp add: r_def pick_mac_def)
  obtain new t where w: "s' = ((snd r)\<lparr>currMacAddr := fst r\<rparr>)\<lparr>hist := new @ hist (snd r), tp := t\<rparr>"
    "Wr (Reg32 MAC0) (rar_low (fst r)) \<in> set new" "Wr (Reg32 MAC4) (rar_high (fst r)) \<in> set new"
    unfolding eq by (rule rar_set_run [of "fst r" "(snd r)\<lparr>currMacAddr := fst r\<rparr>"]) simp
  have c: "currMacAddr s' = fst r" "hist s' = new @ hist (snd r)" by (simp_all add: w(1))
  show ?thesis
    unfolding c using v k w(2,3) rar_words_roundtrip [OF v(1)]
    by (intro conjI impI exI [of _ "rar_low (fst r)"] exI [of _ "rar_high (fst r)"]) simp_all
qed

text \<open>A chip that reads as zero everywhere: every stored address is invalid.\<close>

theorem initMacAddr_programs_valid_address_witness:
  "\<forall>s. is_valid_ether_addr (currMacAddr (snd (run initMacAddr (s\<lparr>chip := \<lambda>_ _. 0, fallBackMacAddr := replicate 6 0\<rparr>))))"
  using initMacAddr_programs_valid_address [of "s\<lparr>chip := \<lambda>_ _. 0, fallBackMacAddr := replicate 6 0\<rparr>" for s :: hw] by simp

end
