(* ===== verification/DextLife.thy ===== *)
theory DextLife
  imports DextControl ChipInit
begin

text \<open>
  Life cycle of the driver: what a successful \<open>Start\<close> and the first enable of
  the interface establish, what disabling it returns, and the asynchronous
  teardown of \<open>Stop\<close>.
\<close>

subsection \<open>Stop\<close>

inductive_cases stop_stepE: "stop_step s s'"

text \<open>Each outstanding cancellation is counted once; the teardown has run when none is left.\<close>

definition stop_good :: "RTL8127Driver_IVars \<Rightarrow> stop_state \<Rightarrow> bool" where
  "stop_good iv s \<longleftrightarrow>
     ss_pending s = (if ss_timer s then 1 else 0) + (if ss_source s then 1 else 0) \<and>
     ss_finished s = (if ss_pending s = 0 then 1 else 0) \<and>
     ss_iv s = (if ss_pending s = 0 then stop_finish iv else iv)"

interpretation stopping: terminating_system stop_step "stop_good iv" ss_pending for iv
proof
  fix s s'
  assume "stop_good iv s" "stop_step s s'"
  then show "stop_good iv s'" "ss_pending s' < ss_pending s"
    by (auto simp: stop_good_def stop_complete_def Let_def elim!: stop_stepE split: if_splits)
qed

lemma stop_begin_good: "stop_good (iv\<lparr>statsTimer := False, intSource := False\<rparr>) (stop_begin iv)"
  by (simp add: stop_begin_def stop_good_def Let_def)

lemma stop_pending_steps:
  assumes "stop_good iv s"
  shows "(\<exists>s'. stop_step s s') \<longleftrightarrow> ss_pending s \<noteq> 0"
proof
  assume "\<exists>s'. stop_step s s'"
  then show "ss_pending s \<noteq> 0" using assms by (auto simp: stop_good_def elim!: stop_stepE)
next
  assume "ss_pending s \<noteq> 0"
  then have "ss_timer s \<or> ss_source s" using assms by (auto simp: stop_good_def split: if_splits)
  then show "\<exists>s'. stop_step s s'" by (auto intro: timer_cancelled source_cancelled)
qed

lemma tx_release_spec:
  assumes "distinct is" "\<forall>i \<in> set is. i < length (txPkt iv)"
  shows "length (txPkt (tx_release_loop is iv)) = length (txPkt iv)"
    "\<forall>i < length (txPkt iv). txPkt (tx_release_loop is iv) ! i = (if i \<in> set is then None else txPkt iv ! i)"
    "mset (tx_dealloc (tx_release_loop is iv)) = mset (tx_dealloc iv) + mset (concat (map (\<lambda>i. opt_list (txPkt iv ! i)) is))"
    "rxPkt (tx_release_loop is iv) = rxPkt iv" "rx_freed (tx_release_loop is iv) = rx_freed iv"
  using assms
  by (induction "is" arbitrary: iv)
    (auto simp: tx_dealloc_def rx_freed_def signal_def nth_list_update union_ac split: option.splits
      intro!: arg_cong [of _ _ mset] arg_cong [of _ _ concat])

lemma map_nth_upt: "length xs = n \<Longrightarrow> map (\<lambda>i. f (xs ! i)) [0..<n] = map f xs"
  by (rule nth_equalityI) simp_all

lemma tx_release_all:
  assumes "length (txPkt iv) = 1024"
  shows "txPkt (tx_release_loop [0..<1024] iv) = replicate 1024 None"
    "mset (tx_dealloc (tx_release_loop [0..<1024] iv)) = mset (tx_dealloc iv) + mset (concat (map opt_list (txPkt iv)))"
  using tx_release_spec [of "[0..<1024]" iv] assms map_nth_upt [OF assms, of opt_list]
  by (auto intro!: nth_equalityI)

lemma rx_release_tx:
  "txPkt (rx_release_loop is iv) = txPkt iv" "tx_dealloc (rx_release_loop is iv) = tx_dealloc iv"
  "txPool (rx_release_loop is iv) = txPool iv"
  by (induction "is" arbitrary: iv) (auto simp: tx_dealloc_def signal_def split: option.split)

lemma rx_release_all:
  assumes "length (rxPkt iv) = 1024"
  shows "rxPkt (rx_release_loop [0..<1024] iv) = replicate 1024 None"
    "rx_freed (rx_release_loop [0..<1024] iv) = rx_freed iv + mset (concat (map opt_list (rxPkt iv)))"
proof -
  have o: "(\<lambda>po. case po of None \<Rightarrow> [] | Some p \<Rightarrow> [p]) = opt_list"
    by (rule ext) (simp split: option.split)
  show "rxPkt (rx_release_loop [0..<1024] iv) = replicate 1024 None"
    using rx_release_spec(2,3) [of "[0..<1024]" iv] assms by (auto intro!: nth_equalityI)
  show "rx_freed (rx_release_loop [0..<1024] iv) = rx_freed iv + mset (concat (map opt_list (rxPkt iv)))"
    using rx_release_spec(4) [of "[0..<1024]" iv] assms map_nth_upt [OF assms, of "case_option [] (\<lambda>p. [p])"] by (simp add: o)
qed

lemma stop_finish_releases:
  assumes "length (txPkt iv) = 1024" "length (rxPkt iv) = 1024" "txPool iv" "rxPool iv"
  shows "txPkt (stop_finish iv) = replicate 1024 None" "rxPkt (stop_finish iv) = replicate 1024 None"
    "mset (tx_dealloc (stop_finish iv)) = mset (tx_dealloc iv) + mset (concat (map opt_list (txPkt iv)))"
    "rx_freed (stop_finish iv) = rx_freed iv + mset (concat (map opt_list (rxPkt iv)))"
proof -
  define iv1 where "iv1 = iv\<lparr>txRingDma := False, rxRingDma := False, statDma := False, barMap := False\<rparr>"
  define iv2 where "iv2 = rx_release_loop [0..<1024] iv1"
  define iv3 where "iv3 = tx_release_loop [0..<1024] iv2"
  have 1: "txPkt iv1 = txPkt iv" "rxPkt iv1 = rxPkt iv" "txPool iv1" "rxPool iv1" "tx_dealloc iv1 = tx_dealloc iv" "rx_freed iv1 = rx_freed iv"
    using assms by (simp_all add: iv1_def tx_dealloc_def rx_freed_def)
  note r = rx_release_all [of iv1, folded iv2_def] rx_release_tx [of "[0..<1024]" iv1, folded iv2_def]
  have l2: "length (txPkt iv2) = 1024" "length (rxPkt iv1) = 1024" "txPool iv2" using r 1 assms by simp_all
  note t = tx_release_all [OF l2(1), folded iv3_def] tx_release_spec(4,5) [of "[0..<1024]" iv2, folded iv3_def]
  have eq: "txPkt (stop_finish iv) = txPkt iv3" "rxPkt (stop_finish iv) = rxPkt iv3" "ndk (stop_finish iv) = ndk iv3"
    unfolding stop_finish_def Let_def iv1_def [symmetric] kNumRxDesc_def kNumTxDesc_def
    using 1(4) l2(3) by (simp_all add: iv2_def iv3_def)
  show "txPkt (stop_finish iv) = replicate 1024 None" "rxPkt (stop_finish iv) = replicate 1024 None"
    "mset (tx_dealloc (stop_finish iv)) = mset (tx_dealloc iv) + mset (concat (map opt_list (txPkt iv)))"
    "rx_freed (stop_finish iv) = rx_freed iv + mset (concat (map opt_list (rxPkt iv)))"
    using eq t r 1 l2 by (simp_all add: tx_dealloc_def [of "stop_finish iv"] tx_dealloc_def [of iv3] rx_freed_def [of "stop_finish iv"] rx_freed_def [of iv3])
qed

text \<open>
  (C14) However the completions of the timer and of the interrupt source are
  ordered, \<open>Stop\<close> takes at most two of them; the teardown runs exactly once, after
  the last one and not before; and it returns every packet of both rings to its
  pool, once each, leaving the rings empty.
\<close>

theorem stop_tears_down_once:
  assumes run: "stop_step\<^sup>*\<^sup>* (stop_begin iv) s"
    and iv: "length (txPkt iv) = 1024" "length (rxPkt iv) = 1024" "txPool iv" "rxPool iv"
  shows "ss_finished s = (if \<exists>s'. stop_step s s' then 0 else 1) \<and>
    (\<forall>n t. (stop_step ^^ n) (stop_begin iv) t \<longrightarrow> n \<le> 2) \<and>
    (ss_finished s = 1 \<longrightarrow>
       txPkt (ss_iv s) = replicate 1024 None \<and> rxPkt (ss_iv s) = replicate 1024 None \<and>
       mset (tx_dealloc (ss_iv s)) = mset (tx_dealloc iv) + mset (concat (map opt_list (txPkt iv))) \<and>
       rx_freed (ss_iv s) = rx_freed iv + mset (concat (map opt_list (rxPkt iv))))"
proof (intro conjI allI impI)
  let ?iv = "iv\<lparr>statsTimer := False, intSource := False\<rparr>"
  have b: "stop_good ?iv (stop_begin iv)" by (rule stop_begin_good)
  have g: "stop_good ?iv s" using run b by (rule stopping.reach_good)
  have p: "ss_finished s = (if ss_pending s = 0 then 1 else 0)" "ss_iv s = (if ss_pending s = 0 then stop_finish ?iv else ?iv)"
    using g by (simp_all only: stop_good_def)
  show "ss_finished s = (if \<exists>s'. stop_step s s' then 0 else 1)"
    unfolding p(1) stop_pending_steps [OF g] by simp
  have f: "ss_iv s = stop_finish ?iv" if "ss_finished s = 1"
  proof -
    have "ss_pending s = 0" using that p(1) by (cases "ss_pending s = 0") simp_all
    with p(2) show ?thesis by (simp only: refl if_True)
  qed
  have "length (txPkt ?iv) = 1024" "length (rxPkt ?iv) = 1024" "txPool ?iv" "rxPool ?iv" using iv by simp_all
  note r = stop_finish_releases [OF this]
  have i: "tx_dealloc ?iv = tx_dealloc iv" "rx_freed ?iv = rx_freed iv" by (simp_all add: tx_dealloc_def rx_freed_def)
  assume 1: "ss_finished s = 1"
  show "txPkt (ss_iv s) = replicate 1024 None" "rxPkt (ss_iv s) = replicate 1024 None"
    "mset (tx_dealloc (ss_iv s)) = mset (tx_dealloc iv) + mset (concat (map opt_list (txPkt iv)))"
    "rx_freed (ss_iv s) = rx_freed iv + mset (concat (map opt_list (rxPkt iv)))"
    unfolding f [OF 1] using r i by simp_all
next
  fix n t
  assume "(stop_step ^^ n) (stop_begin iv) t"
  from stopping.run_bound [OF this stop_begin_good] have "n \<le> ss_pending (stop_begin iv)" by simp
  also have "\<dots> \<le> 2" by (simp add: stop_begin_def Let_def)
  finally show "n \<le> 2" .
qed

text \<open>A running driver with a frame in flight.\<close>

definition running :: "RTL8127Driver_IVars \<Rightarrow> RTL8127Driver_IVars" where
  "running iv = (busy_link iv)\<lparr>statsTimer := True, intSource := True, txPool := True, rxPool := True\<rparr>"

lemma running_fields:
  "length (txPkt (running iv)) = 1024" "length (rxPkt (running iv)) = 1024" "txPool (running iv)" "rxPool (running iv)"
  "txPkt (running iv) ! 0 = Some 5" "statsTimer (running iv)" "intSource (running iv)"
  by (simp_all add: running_def busy_link_def rx_sample_def one_in_flight_def tx_sample_def Let_def)

theorem stop_tears_down_once_witness:
  "\<forall>iv. \<exists>s. stop_step\<^sup>*\<^sup>* (stop_begin (running iv)) s \<and> ss_finished s = 1 \<and>
     txPkt (ss_iv s) = replicate 1024 None \<and> 5 \<in> set (tx_dealloc (ss_iv s))"
proof
  fix iv
  let ?iv = "running iv"
  have b: "ss_timer (stop_begin ?iv)" "ss_source (stop_begin ?iv)" "ss_pending (stop_begin ?iv) = 2" "ss_finished (stop_begin ?iv) = 0"
    using running_fields(6,7) [of iv] by (simp_all add: stop_begin_def Let_def)
  define s1 where "s1 = stop_complete ((stop_begin ?iv)\<lparr>ss_timer := False\<rparr>)"
  have 1: "ss_source s1" "ss_pending s1 = 1" "ss_finished s1 = 0"
    using b by (simp_all add: s1_def stop_complete_def Let_def)
  define s2 where "s2 = stop_complete (s1\<lparr>ss_source := False\<rparr>)"
  have "stop_step (stop_begin ?iv) s1" unfolding s1_def using b(1) by (rule timer_cancelled)
  moreover have "stop_step s1 s2" unfolding s2_def using 1(1) by (rule source_cancelled)
  ultimately have r: "stop_step\<^sup>*\<^sup>* (stop_begin ?iv) s2" by (blast intro: rtranclp_trans)
  have f: "ss_finished s2 = 1" using 1 by (simp add: s2_def stop_complete_def Let_def)
  note t = stop_tears_down_once [OF r running_fields(1-4)]
  have "Some 5 \<in> set (txPkt ?iv)" using running_fields(1,5) [of iv] by (metis nth_mem zero_less_numeral)
  then have "5 \<in> set (concat (map opt_list (txPkt ?iv)))" by (force simp: image_iff)
  moreover have "mset (tx_dealloc (ss_iv s2)) = mset (tx_dealloc ?iv) + mset (concat (map opt_list (txPkt ?iv)))"
      "txPkt (ss_iv s2) = replicate 1024 None"
    using t f by blast+
  ultimately show "\<exists>s. stop_step\<^sup>*\<^sup>* (stop_begin ?iv) s \<and> ss_finished s = 1 \<and>
     txPkt (ss_iv s) = replicate 1024 None \<and> 5 \<in> set (tx_dealloc (ss_iv s))"
    using r f by (intro exI [of _ s2]) (metis set_mset_mset union_iff)
qed

subsection \<open>Enabling the interface\<close>

text \<open>Both rings hold no packet and the receive descriptors are the driver's.\<close>

definition rings_clear :: "RTL8127Driver_IVars \<Rightarrow> bool" where
  "rings_clear iv \<longleftrightarrow>
     txPkt iv = replicate 1024 None \<and> length (txPktQueue iv) = 1024 \<and> length (txPktLen iv) = 1024 \<and>
     length (txRing iv) = 1024 \<and> txInflightBytes iv = 0 \<and> length (txDoneFifo iv) = 4 \<and>
     (\<forall>f \<in> set (txDoneFifo iv). fifo_inv f) \<and> rxPkt iv = replicate 1024 None \<and> length (rxRing iv) = 1024 \<and>
     (\<forall>i < 1024. \<not> rx_owned (rxRing iv ! i)) \<and> fifo_inv (rxDoneFifo iv) \<and> fifo_inv (rxFreeFifo iv)"

lemma rings_clear_inv:
  assumes c: "rings_clear iv" and z: "ihw iv = (ring_reset h)\<lparr>hist := x, tp := t, intrMask := m, stateFlags := f\<rparr>"
    and t: "tx_counter_ok t"
  shows "tx_inv iv" "tx_flight iv = []" "rx_inv iv" "rx_armed iv"
proof -
  have n: "tx_count iv = 0" by (simp add: tx_count_def z ring_reset_def)
  have w: "tx_window 0 iv = []" by (simp add: tx_window_def)
  have k: "\<exists>k \<in> {16, 31, 32}. tp_MaxTxDescPtrMask t = mask k" using t by (auto simp: tx_counter_ok_def)
  have "tx_core 0 iv"
    using c unfolding tx_core_def w by (simp add: rings_clear_def z ring_reset_def)
  then show "tx_inv iv" using k unfolding tx_inv_def n by (simp add: z ring_reset_def)
  show "tx_flight iv = []" by (simp add: tx_flight_def n w)
  show "rx_inv iv" "rx_armed iv"
    using c by (simp_all add: rings_clear_def rx_inv_def rx_armed_def rx_slot_ok_def z ring_reset_def)
qed

lemma enable_run:
  assumes "\<And>m. tame dp (set_phy_mcu m)"
  obtains new t where "snd (run (rtl812xEnable set_phy_mcu) s) =
    (ring_reset s)\<lparr>hist := new, tp := t, intrMask := intrMaskRxTx s, stateFlags := unset_bit bit__POLL_MODE (stateFlags s)\<rparr>"
    "dp t = dp (tp s)"
proof -
  define s0 where "s0 = s\<lparr>intrMask := intrMaskRxTx s, stateFlags := unset_bit bit__POLL_MODE (stateFlags s)\<rparr>"
  define rest where "rest = do {
     rtl8125_exit_oob;
     rtl812xHwInit;
     rtl8125_hw_reset;
     rtl8125_powerup_pll;
     rtl8125_hw_ephy_config;
     rtl8125_hw_phy_config set_phy_mcu;
     rtl812xHwConfig;
     t \<leftarrow> tpget id;
     rtl812xSetPhyMedium (tp_autoneg t) (tp_speed t) (tp_duplex t) (tp_advertising t)
   }"
  have eq: "snd (run (rtl812xEnable set_phy_mcu) s) = snd (run rest s0)"
    unfolding rtl812xEnable_def snd_run_bind [where m = "modf g" for g] rest_def s0_def by simp
  have "resets rest"
    unfolding rest_def
    by (intro tame_nic_oob [THEN resets_after] tame_hw_layer [THEN resets_after] tame_nic_ops [THEN resets_after]
        tame_nic_wol [THEN resets_after] tame_phy_patch [THEN resets_after] tame_hw_phy_config [THEN resets_after]
        resets_hw_config [THEN resets_before] assms) (intro tame_rules)
  then obtain new t where "snd (run rest s0) = (ring_reset s0)\<lparr>hist := new @ hist s0, tp := t\<rparr>" "dp t = dp (tp s0)"
    by (rule resetsE)
  then show thesis
    by (intro that [where new = "new @ hist s" and t = t]) (simp_all add: eq s0_def ring_reset_def)
qed

lemma counter_dp: "dp t' = dp t \<Longrightarrow> tx_counter_ok t' = tx_counter_ok t"
  by (simp add: dp_def tx_counter_ok_def)

lemma same_rings_signal_opt: "(\<And>q. ev_dealloc_tx (e q) = []) \<Longrightarrow> same_rings a b \<Longrightarrow> same_rings a (signal_opt e q b)"
  by (cases q) (simp_all add: signal_opt_def same_rings_signal)

lemma same_rings_fold:
  "(\<And>i c. same_rings a c \<Longrightarrow> same_rings a (f i c)) \<Longrightarrow> same_rings a b \<Longrightarrow> same_rings a (fold f is b)"
  by (induction "is" arbitrary: b) simp_all

lemma same_rings_queues: "same_rings a b \<Longrightarrow> same_rings a (enable_queues b)" "same_rings a b \<Longrightarrow> same_rings a (disable_queues b)"
  "same_rings a b \<Longrightarrow> same_rings a (request_tx b)"
  unfolding enable_queues_def disable_queues_def request_tx_def Let_def
  by (intro same_rings_signal_opt same_rings_fold; simp)+

lemma linkUp_queues [simp]: "linkUp (enable_queues iv) = linkUp iv" "linkUp (request_tx iv) = linkUp iv"
proof -
  have o: "linkUp (signal_opt e q b) = linkUp b" for e q b
    by (simp add: signal_opt_def signal_def split: option.split)
  have f: "(\<And>i c. linkUp (f i c) = linkUp c) \<Longrightarrow> linkUp (fold f is b) = linkUp b" for f and "is" :: "nat list" and b
    by (induction "is" arbitrary: b) simp_all
  show "linkUp (enable_queues iv) = linkUp iv" "linkUp (request_tx iv) = linkUp iv"
    unfolding enable_queues_def request_tx_def Let_def o by (intro f; simp add: o)+
qed

lemma rx_only_inv:
  assumes "rx_only a b" "tx_inv a"
  shows "tx_inv b" "tx_flight b = tx_flight a" "tx_done b = tx_done a" "tx_dealloc b = tx_dealloc a"
proof -
  obtain r p f n where b: "b = a\<lparr>rxRing := r, rxPkt := p, rxFreeFifo := f, ndk := n @ ndk a\<rparr>" "concat (map ev_dealloc_tx n) = []"
    using assms(1) unfolding rx_only_def by blast
  have "tx_hw_same (ihw a) (ihw b)" by (simp add: b tx_hw_same_def)
  then show "tx_inv b" "tx_flight b = tx_flight a"
    using tx_inv_cong [OF assms(2), of b] assms(2) by (simp_all add: b tx_inv_def tx_core_def)
  show "tx_done b = tx_done a" "tx_dealloc b = tx_dealloc a" by (simp_all add: b tx_done_def tx_dealloc_def)
qed

text \<open>Restarting an empty ring keeps it consistent.\<close>

lemma link_up_empty:
  assumes tx: "tx_inv iv" "tx_flight iv = []" and rx: "rx_inv iv"
  shows "tx_inv (link_up status iv)" "tx_flight (link_up status iv) = []" "rx_inv (link_up status iv)"
    "rx_armed (link_up status iv) = rx_armed iv" "txDoneFifo (link_up status iv) = txDoneFifo iv"
    "rxPkt (link_up status iv) = rxPkt iv"
proof -
  obtain h l m n where u: "link_up status iv = iv\<lparr>ihw := h, linkUp := l, currentMedia := m, ndk := n @ ndk iv\<rparr>"
    "txTailPtr0 h = 0" "txClosePtr0 h = 0" "txNextDescIndex h = 0" "txDirtyDescIndex h = 0"
    "txNumFreeDesc h = 1024" "rxNextDescIndex h = 0" "dp (tp h) = dp (tp (ihw iv))"
    by (rule link_up_frame [of status iv])
  note r = tx_restart_empty [OF tx]
  have z: "txInflightBytes iv = 0"
    using tx by (simp add: tx_inv_def tx_core_def tx_flight_def tx_bytes_def unat_eq_0)
  have "tx_hw_same (ihw (tx_restart iv)) (ihw (link_up status iv))"
    using u(2-8) by (simp add: u(1) tx_hw_same_def tx_restart_def dp_def kNumTxDesc_def)
  from tx_inv_cong [OF r(1) this] show "tx_inv (link_up status iv)" "tx_flight (link_up status iv) = []"
    using tx(1) r(2) z by (simp_all add: u(1) tx_restart_def tx_inv_def tx_core_def)
  show "rx_inv (link_up status iv)" "rx_armed (link_up status iv) = rx_armed iv" "txDoneFifo (link_up status iv) = txDoneFifo iv"
      "rxPkt (link_up status iv) = rxPkt iv"
    using rx u(7) by (simp_all add: u(1) rx_inv_def rx_armed_def)
qed

lemma same_rings_done: "same_rings a b \<Longrightarrow> tx_done b = tx_done a \<and> tx_dealloc b = tx_dealloc a"
  by (simp add: same_rings_def tx_done_def)

lemma dealloc_link_up: "tx_dealloc (link_up status iv) = tx_dealloc iv"
proof -
  have o: "tx_dealloc (signal_opt RequestDequeue q b) = tx_dealloc b" "tx_dealloc (signal (ReportLinkStatus u m) b) = tx_dealloc b"
      "tx_dealloc (request_tx b) = tx_dealloc b" for q b u m
    using same_rings_queues(3) [OF same_rings_refl, of b]
    by (simp_all add: same_rings_def tx_dealloc_def signal_opt_def signal_def split: option.split)
  have k: "tx_dealloc (do_hw m b) = tx_dealloc b" "tx_dealloc (b\<lparr>ihw := g\<rparr>) = tx_dealloc b"
      "tx_dealloc (b\<lparr>linkUp := l, currentMedia := c\<rparr>) = tx_dealloc b" for m :: "unit hwm" and b g l c
    by (simp_all add: tx_dealloc_def do_hw_def)
  show ?thesis by (simp add: link_up_def Let_def o k)
qed

lemma link_status_idle:
  assumes tx: "tx_inv iv" "tx_flight iv = []" and rx: "rx_inv iv" and down: "\<not> linkUp iv"
  shows "tx_inv (updateLinkStatus iv)" "tx_flight (updateLinkStatus iv) = []" "rx_inv (updateLinkStatus iv)"
    "rx_armed (updateLinkStatus iv) = rx_armed iv" "tx_done (updateLinkStatus iv) = tx_done iv"
    "tx_dealloc (updateLinkStatus iv) = tx_dealloc iv" "rxPkt (updateLinkStatus iv) = rxPkt iv"
proof -
  let ?iv = "do_hw (RTL_R32 PHYstatus) iv"
  have s: "same_rings iv ?iv" by (intro same_rings_do_hw tame_rules same_rings_refl)
  note i = same_rings_inv [OF s] same_rings_done [OF s]
  have r: "rxPkt ?iv = rxPkt iv" "\<not> linkUp ?iv" using down by (simp_all add: do_hw_def)
  have c: "tx_inv ?iv" "tx_flight ?iv = []" "rx_inv ?iv" using i tx rx by simp_all
  note u = link_up_empty [OF c] dealloc_link_up [of _ ?iv]
  have eq: "updateLinkStatus iv = (let status = fst (run (RTL_R32 PHYstatus) (ihw iv)) in if phy_up status then link_up status ?iv else ?iv)"
    using r(2) by (simp add: updateLinkStatus_def on_hw_eq Let_def)
  show "tx_inv (updateLinkStatus iv)" "tx_flight (updateLinkStatus iv) = []" "rx_inv (updateLinkStatus iv)"
    "rx_armed (updateLinkStatus iv) = rx_armed iv" "tx_done (updateLinkStatus iv) = tx_done iv"
    "tx_dealloc (updateLinkStatus iv) = tx_dealloc iv" "rxPkt (updateLinkStatus iv) = rxPkt iv"
    unfolding eq Let_def using c u i r(1) by (simp_all add: tx_done_def)
qed

lemma enable_idle:
  assumes mcu: "\<And>m. tame dp (set_phy_mcu m)" and c: "rings_clear iv" "tx_counter_ok (tp (ihw iv))"
  defines "iv' \<equiv> do_hw (rtl812xEnable set_phy_mcu) iv"
  shows "tx_inv iv'" "tx_flight iv' = []" "rx_inv iv'" "rx_armed iv'"
proof -
  obtain new t where e: "snd (run (rtl812xEnable set_phy_mcu) (ihw iv)) = (ring_reset (ihw iv))\<lparr>hist := new, tp := t,
      intrMask := intrMaskRxTx (ihw iv), stateFlags := unset_bit bit__POLL_MODE (stateFlags (ihw iv))\<rparr>" "dp t = dp (tp (ihw iv))"
    using mcu by (rule enable_run)
  have r: "rings_clear iv'" "tx_counter_ok t"
    using c counter_dp [OF e(2)] by (simp_all add: rings_clear_def iv'_def do_hw_def)
  have "ihw iv' = (ring_reset (ihw iv))\<lparr>hist := new, tp := t, intrMask := intrMaskRxTx (ihw iv),
      stateFlags := unset_bit bit__POLL_MODE (stateFlags (ihw iv))\<rparr>"
    by (simp only: iv'_def ihw_do_hw e(1))
  from rings_clear_inv [OF r(1) this r(2)] show "tx_inv iv'" "tx_flight iv' = []" "rx_inv iv'" "rx_armed iv'" .
qed

lemma refill_idle:
  assumes "tx_inv iv" "tx_flight iv = []" "rx_inv iv" "rx_armed iv"
  defines "iv' \<equiv> snd (rxRingRefill iv)"
  shows "tx_inv iv'" "tx_flight iv' = []" "rx_inv iv'" "rx_armed iv'" "tx_done iv' = tx_done iv" "tx_dealloc iv' = tx_dealloc iv"
    "linkUp iv' = linkUp iv"
proof -
  have o: "rx_only iv iv'" unfolding iv'_def rxRingRefill_def by (rule rx_only_refill)
  note 3 = rx_only_inv [OF o assms(1)]
  show "tx_inv iv'" "tx_flight iv' = []" "tx_done iv' = tx_done iv" "tx_dealloc iv' = tx_dealloc iv"
    using 3 assms by simp_all
  show "linkUp iv' = linkUp iv" using o by (auto simp: rx_only_def)
  show "rx_inv iv'" using rx_refill_effect [OF assms(3)] by (simp add: iv'_def rx_effect_def)
  obtain b where b: "rx_refill_loop [0..<1024] iv = (b, iv')"
    unfolding iv'_def rxRingRefill_def kNumRxDesc_def by (metis prod.collapse)
  show "rx_armed iv'" by (rule rx_refill_loop_armed(1) [OF assms(4,3) _ b]) simp
qed

lemma interface_on_idle:
  assumes mcu: "\<And>m. tame dp (set_phy_mcu m)" and c: "rings_clear iv" "tx_counter_ok (tp (ihw iv))" "\<not> linkUp iv"
  defines "iv' \<equiv> interface_on set_phy_mcu iv"
  shows "tx_inv iv'" "tx_flight iv' = []" "rx_inv iv'" "rx_armed iv'" "tx_done iv' = tx_done iv" "tx_dealloc iv' = tx_dealloc iv"
proof -
  define iv1 where "iv1 = do_hw (rtl812xEnable set_phy_mcu) iv"
  note 1 = enable_idle [of set_phy_mcu iv, OF mcu c(1,2), folded iv1_def]
  have d1: "tx_done iv1 = tx_done iv" "tx_dealloc iv1 = tx_dealloc iv" "\<not> linkUp iv1"
    using c(3) by (simp_all add: iv1_def do_hw_def tx_done_def tx_dealloc_def)
  define iv2 where "iv2 = enable_queues iv1"
  have s2: "same_rings iv1 iv2" unfolding iv2_def by (rule same_rings_queues(1) [OF same_rings_refl])
  note 2 = same_rings_inv [OF s2] same_rings_done [OF s2]
  have t2: "tx_inv iv2" "tx_flight iv2 = []" "rx_inv iv2" "rx_armed iv2" using 1 2 by simp_all
  define iv3 where "iv3 = snd (rxRingRefill iv2)"
  note 3 = refill_idle [OF t2, folded iv3_def]
  define iv5 where "iv5 = isr_rearm (do_hw (RTL_W8 ChipCmd (CmdTxEnb OR CmdRxEnb))
    ((signal_opt RequestDequeue (rxSubQueue iv3) iv3)\<lparr>interfaceEnabled := True\<rparr>))"
  have "same_rings iv3 ((signal_opt RequestDequeue (rxSubQueue iv3) iv3)\<lparr>interfaceEnabled := True\<rparr>)"
    using same_rings_signal_opt [OF _ same_rings_refl, of RequestDequeue iv3 "rxSubQueue iv3"]
    by (simp add: same_rings_def tx_dealloc_def)
  then have s5: "same_rings iv3 iv5"
    unfolding iv5_def isr_rearm_def by (intro same_rings_do_hw tame_rules)
  note 5 = same_rings_inv [OF s5] same_rings_done [OF s5]
  have t5: "tx_inv iv5" "tx_flight iv5 = []" "rx_inv iv5" "rx_armed iv5" using 3 5 by simp_all
  have l5: "\<not> linkUp iv5"
    using d1(3) 3(7) by (simp add: iv5_def isr_rearm_def do_hw_def iv2_def signal_opt_def signal_def split: option.split)
  note 6 = link_status_idle [OF t5(1-3) l5]
  have "iv' = request_tx (updateLinkStatus iv5)"
    by (simp only: iv'_def interface_on_def Let_def iv1_def iv2_def iv3_def iv5_def)
  then have s7: "same_rings (updateLinkStatus iv5) iv'" by (simp add: same_rings_queues(3))
  note 7 = same_rings_inv [OF s7] same_rings_done [OF s7]
  show "tx_inv iv'" "tx_flight iv' = []" "rx_inv iv'" "rx_armed iv'" "tx_done iv' = tx_done iv" "tx_dealloc iv' = tx_dealloc iv"
    using 2 3 5 6 7 t5 d1 by simp_all
qed

subsection \<open>Start\<close>

definition stage_ok :: "(RTL8127Driver_IVars \<Rightarrow> bool) \<Rightarrow> stage \<Rightarrow> (RTL8127Driver_IVars \<Rightarrow> bool) \<Rightarrow> bool" where
  "stage_ok P f Q \<longleftrightarrow> (\<forall>iv. P iv \<longrightarrow> fst (f iv) \<longrightarrow> Q (snd (f iv)))"

lemma stage_seq: "stage_ok P f Q \<Longrightarrow> stage_ok Q g R \<Longrightarrow> stage_ok P (seq_stages f g) R"
  by (auto simp: stage_ok_def seq_stages_def Let_def case_prod_beta)

lemma stage_end: "stage_ok P (Pair True) P"
  by (simp add: stage_ok_def)

text \<open>What \<open>init\<close> leaves, and what each allocation of \<open>Start\<close> adds to it.\<close>

definition boot :: "RTL8127Driver_IVars \<Rightarrow> bool" where
  "boot iv \<longleftrightarrow>
     txPkt iv = replicate 1024 None \<and> length (txPktQueue iv) = 1024 \<and> length (txPktLen iv) = 1024 \<and>
     txInflightBytes iv = 0 \<and> length (txDoneFifo iv) = 4 \<and> (\<forall>f \<in> set (txDoneFifo iv). fifo_inv f) \<and>
     tx_done iv = [] \<and> tx_dealloc iv = [] \<and> rxPkt iv = replicate 1024 None \<and>
     fifo_inv (rxDoneFifo iv) \<and> fifo_inv (rxFreeFifo iv) \<and> \<not> linkUp iv \<and> mtu iv = 1500"

abbreviation "chip_ready iv \<equiv> chip_typed (tp (ihw iv)) \<and> tx_counter_ok (tp (ihw iv))"
abbreviation "tx_ring_ready iv \<equiv> length (txRing iv) = 1024"
abbreviation "rx_ring_ready iv \<equiv> length (rxRing iv) = 1024 \<and> (\<forall>i < 1024. \<not> rx_owned (rxRing iv ! i))"

lemma chip_ready_dp: "dp t' = dp t \<Longrightarrow> chip_typed t' = chip_typed t" "dp t' = dp t \<Longrightarrow> tx_counter_ok t' = tx_counter_ok t"
  by (simp_all add: dp_def chip_typed_def tx_counter_ok_def)

lemma boot_init: "boot (init_ivars c null ps alloc)"
  by (simp add: boot_def init_ivars_def kNumTxQueues_def kNumTxDesc_def kNumRxDesc_def fifo_init_inv tx_done_def tx_dealloc_def
      fifo_init_list map_replicate concat_replicate_trivial)

lemma boot_cong:
  assumes "boot iv" "txPkt iv' = txPkt iv" "txPktQueue iv' = txPktQueue iv" "txPktLen iv' = txPktLen iv"
    "txInflightBytes iv' = txInflightBytes iv" "txDoneFifo iv' = txDoneFifo iv" "tx_dealloc iv' = tx_dealloc iv"
    "rxPkt iv' = rxPkt iv" "rxDoneFifo iv' = rxDoneFifo iv" "rxFreeFifo iv' = rxFreeFifo iv" "linkUp iv' = linkUp iv" "mtu iv' = mtu iv"
  shows "boot iv'"
  using assms by (simp add: boot_def tx_done_def)

text \<open>The stages that only record what the operating system answered.\<close>

lemma boot_stages:
  "stage_ok boot (st_open a) boot" "stage_ok boot (st_bar a) boot"
  "stage_ok boot (st_chip ws) (\<lambda>iv. boot iv \<and> chip_ready iv)"
  "stage_ok (\<lambda>iv. boot iv \<and> chip_ready iv) (st_tx_ring a) (\<lambda>iv. boot iv \<and> chip_ready iv \<and> tx_ring_ready iv)"
  "stage_ok (\<lambda>iv. boot iv \<and> chip_ready iv \<and> tx_ring_ready iv) (st_rx_ring a)
     (\<lambda>iv. boot iv \<and> chip_ready iv \<and> tx_ring_ready iv \<and> rx_ring_ready iv)"
proof -
  have d: "boot iv \<Longrightarrow> boot (do_hw m iv)" "boot iv \<Longrightarrow> boot (iv\<lparr>ihw := h\<rparr>)" for iv h and m :: "'b hwm"
    by (erule boot_cong; simp add: do_hw_def tx_dealloc_def)+
  show "stage_ok boot (st_open a) boot"
    unfolding stage_ok_def st_open_def by (auto intro!: d elim!: boot_cong simp: tx_dealloc_def)
  show "stage_ok boot (st_bar a) boot"
    unfolding stage_ok_def st_bar_def by (auto elim!: boot_cong simp: tx_dealloc_def split: option.split)
  show "stage_ok boot (st_chip ws) (\<lambda>iv. boot iv \<and> chip_ready iv)"
    unfolding stage_ok_def
  proof (intro allI impI)
    fix iv
    assume b: "boot iv" and ok: "fst (st_chip ws iv)"
    define iv1 where "iv1 = do_hw (rtl812xInit ws) iv"
    have k: "fst (run (rtl812xInit ws) (ihw iv))" using ok by (auto simp: st_chip_def on_hw_eq Let_def split: if_splits)
    have 1: "boot iv1" "chip_ready iv1" using d(2) [OF b] init_typed [OF k] by (simp_all add: iv1_def do_hw_def)
    define iv2 where "iv2 = do_hw (rtl8125_mac_ocp_read 0xD006) iv1"
    obtain new t where "snd (run (rtl8125_mac_ocp_read 0xD006) (ihw iv1)) = (ihw iv1)\<lparr>hist := new @ hist (ihw iv1), tp := t\<rparr>"
        "dp t = dp (tp (ihw iv1))"
      by (rule tameE [of dp "rtl8125_mac_ocp_read 0xD006"]) (rule tame_rules)
    then have 2: "boot iv2" "chip_ready iv2"
      using d(2) [OF 1(1)] 1(2) chip_ready_dp [of t] by (simp_all add: iv2_def do_hw_def)
    have f: "boot (iv\<lparr>fiberMode := x\<rparr>)" if "boot iv" for iv x using that by (rule boot_cong) (simp_all add: tx_dealloc_def)
    show "boot (snd (st_chip ws iv)) \<and> chip_ready (snd (st_chip ws iv))"
      using k 1 2 f by (simp add: st_chip_def on_hw_eq Let_def flip: iv1_def iv2_def)
  qed
  show "stage_ok (\<lambda>iv. boot iv \<and> chip_ready iv) (st_tx_ring a) (\<lambda>iv. boot iv \<and> chip_ready iv \<and> tx_ring_ready iv)"
    unfolding stage_ok_def st_tx_ring_def
    by (auto elim!: boot_cong simp: tx_dealloc_def kNumTxDesc_def split: option.split)
  show "stage_ok (\<lambda>iv. boot iv \<and> chip_ready iv \<and> tx_ring_ready iv) (st_rx_ring a)
     (\<lambda>iv. boot iv \<and> chip_ready iv \<and> tx_ring_ready iv \<and> rx_ring_ready iv)"
    unfolding stage_ok_def st_rx_ring_def
    by (auto elim!: boot_cong simp: tx_dealloc_def kNumRxDesc_def rx_owned_def split: option.split)
qed

abbreviation "ready iv \<equiv> boot iv \<and> chip_ready iv \<and> tx_ring_ready iv \<and> rx_ring_ready iv"

lemma ready_stages:
  "stage_ok ready (st_stat a) ready" "stage_ok ready (st_interrupts a) ready" "stage_ok ready (st_pools a) ready"
  "stage_ok ready (st_media a) ready" "stage_ok ready (st_tx_queues a is) ready" "stage_ok ready (st_rx_queues a) ready"
  "stage_ok ready (st_register a) ready"
proof -
  show "stage_ok ready (st_tx_queues a is) ready"
    unfolding stage_ok_def
  proof (intro allI impI)
    fix iv
    assume "ready iv" "fst (st_tx_queues a is iv)"
    then show "ready (snd (st_tx_queues a is iv))"
    proof (induction "is" arbitrary: iv)
      case (Cons i "is")
      let ?iv = "iv\<lparr>txSubQueues := (txSubQueues iv)[i := os_tx_sub a i], txCompQueues := (txCompQueues iv)[i := os_tx_comp a i]\<rparr>"
      have "boot ?iv" using Cons.prems(1) by (auto elim!: boot_cong simp: tx_dealloc_def)
      then have "ready ?iv" using Cons.prems(1) by simp
      with Cons.IH [of ?iv] Cons.prems(2) show ?case by (auto simp: Let_def split: if_splits)
    qed simp
  qed
  show "stage_ok ready (st_stat a) ready"
    unfolding stage_ok_def st_stat_def by (auto elim!: boot_cong simp: tx_dealloc_def split: option.splits)
  show "stage_ok ready (st_interrupts a) ready"
    unfolding stage_ok_def st_interrupts_def Let_def
    by (auto elim!: boot_cong simp: tx_dealloc_def signal_def split: if_splits)
  show "stage_ok ready (st_pools a) ready"
    unfolding stage_ok_def st_pools_def by (auto elim!: boot_cong simp: tx_dealloc_def split: if_splits)
  show "stage_ok ready (st_media a) ready" "stage_ok ready (st_rx_queues a) ready" "stage_ok ready (st_register a) ready"
    unfolding stage_ok_def st_media_def st_rx_queues_def st_register_def by (auto elim!: boot_cong simp: tx_dealloc_def)
qed

lemma start_ready:
  assumes "fst (Start ws a (init_ivars c null ps alloc)) = kIOReturnSuccess"
  shows "ready (snd (Start ws a (init_ivars c null ps alloc)))"
proof -
  have "stage_ok boot (foldr seq_stages (start_stages ws a) (Pair True)) ready"
    unfolding start_stages_def list.simps foldr.simps comp_apply id_apply
    by (intro stage_seq [OF boot_stages(1)] stage_seq [OF boot_stages(2)] stage_seq [OF boot_stages(3)]
        stage_seq [OF boot_stages(4)] stage_seq [OF boot_stages(5)] stage_seq [OF ready_stages(1)]
        stage_seq [OF ready_stages(2)] stage_seq [OF ready_stages(3)] stage_seq [OF ready_stages(4)]
        stage_seq [OF ready_stages(5)] stage_seq [OF ready_stages(6)] stage_seq [OF ready_stages(7)] stage_end)
  then show ?thesis
    using assms boot_init unfolding stage_ok_def Start_def by (auto simp: Let_def case_prod_beta split: if_splits)
qed

text \<open>
  (C3) After a successful \<open>Start\<close> the first enable of the interface establishes the
  invariants of both rings: the transmit ring is consistent and empty, no packet
  has gone astray, every receive descriptor the chip may write through belongs
  to a packet the driver holds, and the generation, its table row and its
  completion counter agree. What the PHY microcode loader does to the datapath
  variables is the one assumption: nothing.
\<close>

theorem start_enable_establishes_invariants:
  fixes page_size :: u16
  assumes ok: "fst (Start ws a (init_ivars c null ps alloc)) = kIOReturnSuccess"
    and mcu: "\<forall>m. tame dp (set_phy_mcu m)"
  defines "iv0 \<equiv> snd (Start ws a (init_ivars c null ps alloc))"
  defines "iv \<equiv> snd (setInterfaceEnable set_phy_mcu page_size True iv0)"
  shows "chip_typed (tp (ihw iv0)) \<and> tx_inv iv \<and> tx_flight iv = [] \<and> tx_places (tx_count iv) iv = {#} \<and>
    rx_inv iv \<and> rx_armed iv"
proof -
  have r: "ready iv0" using start_ready [OF ok] by (simp add: iv0_def)
  then have b: "rings_clear iv0" "tx_counter_ok (tp (ihw iv0))" "\<not> linkUp iv0" "tx_done iv0 = []" "tx_dealloc iv0 = []"
    by (simp_all add: boot_def rings_clear_def)
  have "iv = interface_on set_phy_mcu iv0" by (simp add: iv_def setInterfaceEnable_def)
  with interface_on_idle [of set_phy_mcu iv0, OF _ b(1-3)] mcu
  have "tx_inv iv" "tx_flight iv = []" "rx_inv iv" "rx_armed iv" "tx_done iv = []" "tx_dealloc iv = []"
    using b by simp_all
  then show ?thesis using r by (simp add: tx_places_flight)
qed

text \<open>A machine on which every request succeeds, with an RTL8127 behind it.\<close>

definition good_os :: os_answers where
  "good_os = (let d = \<lparr>da_create = kIOReturnSuccess, da_command = kIOReturnSuccess, da_prepare = kIOReturnSuccess,
       da_segments = 1, da_iova = 0x10000\<rparr> in
     \<lparr>os_start = True, os_is_pci = True, os_open = True, os_bar = \<lambda>_. 0x1000, os_copy_memory = True, os_map = True,
      os_tx_dma = d, os_rx_dma = d, os_stat_dma = d, os_work_queue = True, os_msi = True, os_int_source = True,
      os_int_action = True, os_timer = True, os_timer_action = True, os_now = 0, os_tx_pool = True, os_rx_pool = True,
      os_lock = True, os_tx_sub = Some, os_tx_comp = Some, os_rx_sub = Some 9, os_rx_comp = Some 10, os_register = True\<rparr>)"

abbreviation rtl8127_chip :: chip where
  "rtl8127_chip \<equiv> \<lambda>_ _. 0x6C800000"

lemma pci_setup_chip: "keeps chip pci_setup"
proof -
  have "keeps chip (find_pcie_cap n p)" for n p
    by (induction n arbitrary: p) (auto intro!: frame_rules simp: hw_defs ignores_hist_def)
  then show ?thesis unfolding pci_setup_def by (auto intro!: frame_rules simp: hw_defs ignores_hist_def)
qed

lemma good_chip_stage:
  assumes "chip (ihw iv) = rtl8127_chip"
  shows "fst (st_chip ws iv)"
proof -
  have "identify (chip (ihw iv) (hist (ihw iv)) (Reg32 TxConfig)) \<noteq> None"
    using assms by (simp add: identify_def ic_ver_def)
  then have "fst (run (rtl812xInit ws) (ihw iv))"
    using init_run(1) identify_run(1) by simp
  then show ?thesis by (simp add: st_chip_def on_hw_eq Let_def)
qed

lemma good_start: "fst (Start ws good_os (init_ivars rtl8127_chip null ps alloc)) = kIOReturnSuccess"
proof -
  let ?iv = "init_ivars rtl8127_chip null ps alloc"
  have o: "st_open good_os ?iv = (True, do_hw pci_setup (?iv\<lparr>opened := True\<rparr>))"
    by (simp add: st_open_def good_os_def Let_def)
  define iv1 where "iv1 = do_hw pci_setup (?iv\<lparr>opened := True\<rparr>)"
  have c: "chip (ihw iv1) = rtl8127_chip"
    using keepsD [OF pci_setup_chip] by (simp add: iv1_def do_hw_def init_ivars_def hw_zero_def)
  have "[0..<6] = 0 # [1..<6]" by (simp add: upt_rec)
  then have b: "st_bar good_os iv1 = (True, iv1\<lparr>barIndex := 0, barMap := True\<rparr>)"
    by (simp add: st_bar_def good_os_def Let_def)
  define iv2 where "iv2 = snd (st_chip ws (iv1\<lparr>barIndex := 0, barMap := True\<rparr>))"
  have "fst (st_chip ws (iv1\<lparr>barIndex := 0, barMap := True\<rparr>))" using c by (intro good_chip_stage) simp
  then have 2: "st_chip ws (iv1\<lparr>barIndex := 0, barMap := True\<rparr>) = (True, iv2)"
    by (simp add: iv2_def prod_eq_iff)
  have q: "fst (st_tx_queues good_os is iv)" for "is" iv
    by (induction "is" arbitrary: iv) (simp_all add: Let_def good_os_def)
  have s: "fst (seq_stages f g iv) \<longleftrightarrow> fst (f iv) \<and> fst (g (snd (f iv)))" for f g iv
    by (simp add: seq_stages_def Let_def case_prod_beta)
  have r: "fst (st_tx_ring good_os iv)" "fst (st_rx_ring good_os iv)" "fst (st_stat good_os iv)" "fst (st_interrupts good_os iv)"
      "fst (st_pools good_os iv)" "fst (st_media good_os iv)" "fst (st_rx_queues good_os iv)" "fst (st_register good_os iv)" for iv
    by (simp_all add: st_tx_ring_def st_rx_ring_def st_stat_def st_interrupts_def st_pools_def st_media_def st_rx_queues_def
        st_register_def good_os_def allocDmaBuffer_def Let_def)
  have "fst (foldr seq_stages (start_stages ws good_os) (Pair True) ?iv)"
    unfolding start_stages_def list.simps foldr.simps comp_apply id_apply
    by (simp only: s o [folded iv1_def] b 2 r q fst_conv snd_conv simp_thms)
  moreover have "os_start good_os" by (simp add: good_os_def Let_def)
  ultimately show ?thesis by (simp add: Start_def Let_def case_prod_beta)
qed

theorem start_enable_establishes_invariants_witness:
  "\<forall>null ps alloc. let iv0 = snd (Start (\<lambda>_. 0) good_os (init_ivars rtl8127_chip null ps alloc));
       iv = snd (setInterfaceEnable (\<lambda>_. skip) 4096 True iv0) in tx_inv iv \<and> rx_inv iv"
proof (intro allI)
  fix null ps alloc
  have t: "\<forall>m. tame dp ((\<lambda>_ :: mcfg. skip) m)" by (simp add: tame_skip)
  show "let iv0 = snd (Start (\<lambda>_. 0) good_os (init_ivars rtl8127_chip null ps alloc));
       iv = snd (setInterfaceEnable (\<lambda>_. skip) 4096 True iv0) in tx_inv iv \<and> rx_inv iv"
    unfolding Let_def
    using start_enable_establishes_invariants [where page_size = 4096, OF good_start [where ws = "\<lambda>_. 0"] t] by blast
qed

subsection \<open>Disabling the interface\<close>

lemma disable_run:
  obtains new t where "snd (run (rtl812xDisable page_size) s) =
    s\<lparr>hist := new, tp := t, stateFlags := unset_bit bit__LINK_UP (stateFlags s)\<rparr>" "dp t = dp (tp s)"
proof -
  define body where "body = do {
     rtl8127DextSdsPhyReset;
     rtl8125_irq_mask_and_ack;
     rtl8125_hw_reset;
     rtl8125_hw_d3_para page_size;
     rtl8125_powerdown_pll;
     t \<leftarrow> tpget id;
     whenM (HW_DASH_SUPPORT_DASH t) rtl8125_driver_stop
   }"
  have "tame dp body" unfolding body_def by (intro tame_rules)
  then obtain new t where r: "snd (run body s) = s\<lparr>hist := new @ hist s, tp := t\<rparr>" "dp t = dp (tp s)" by (rule tameE)
  have "snd (run (rtl812xDisable page_size) s) =
      (snd (run body s))\<lparr>stateFlags := unset_bit bit__LINK_UP (stateFlags (snd (run body s)))\<rparr>"
    by (simp add: rtl812xDisable_def body_def case_prod_beta)
  then show thesis using r by (intro that [where new = "new @ hist s" and t = t]) simp_all
qed

lemma same_rings_disable: "same_rings a b \<Longrightarrow> same_rings a (do_hw (rtl812xDisable page_size) b)"
  by (rule disable_run [of page_size "ihw b"]) (simp add: same_rings_def do_hw_def tx_hw_same_def dp_def tx_dealloc_def)

lemma rx_only_release: "rx_only iv (rx_release_loop is iv)"
proof (induction "is" arbitrary: iv)
  case (Cons i "is")
  have "rx_only iv ((signal (DeallocateRx p) iv)\<lparr>rxPkt := (rxPkt iv)[i := None]\<rparr>)" for p
    unfolding rx_only_def signal_def
    by (intro exI [of _ "rxRing iv"] exI [of _ "(rxPkt iv)[i := None]"] exI [of _ "rxFreeFifo iv"] exI [of _ "[DeallocateRx p]"]) simp
  then show ?case using Cons by (auto split: option.split intro: rx_only_trans)
qed (simp add: rx_only_refl)

text \<open>Receive packets are untouched by the transmit side.\<close>

lemma rx_freed_simps:
  "rx_freed (tally f iv) = rx_freed iv" "rx_freed (signal e iv) = rx_freed iv + mset (ev_dealloc_rx e)"
  "rx_freed (set_pkt p g iv) = rx_freed iv"
  by (simp_all add: rx_freed_def tally_def signal_def set_pkt_def)

lemma rx_freed_reclaim: "rx_freed (txRingReclaim abort iv) = rx_freed iv"
proof -
  have one: "rx_freed (fst (tx_reclaim_one ab s)) = rx_freed (fst s)" for ab s
    by (cases s) (simp add: tx_reclaim_one_def Let_def rx_freed_def tally_def set_pkt_def signal_def split: option.split prod.split)
  have loop: "rx_freed (fst ((tx_reclaim_one ab ^^ n) s)) = rx_freed (fst s)" for ab n s
    by (induction n) (simp_all add: one)
  have note_opt: "rx_freed (signal_opt e q b) = rx_freed b" if "\<And>q. ev_dealloc_rx (e q) = []" for e q b
    using that by (simp add: signal_opt_def rx_freed_simps split: option.split)
  have sample: "rx_freed (sample_max i b) = rx_freed b" for i b
    using sample_max_frame [of i b] by (auto simp: rx_freed_def)
  have notify: "rx_freed (tx_notify ab dw is b) = rx_freed b" for ab dw "is" b
    by (induction "is" arbitrary: b) (simp_all add: Let_def note_opt sample)
  have hw: "rx_freed (b\<lparr>ihw := h\<rparr>) = rx_freed b" for b h by (simp add: rx_freed_def)
  show ?thesis
    unfolding txRingReclaim_def Let_def
    by (simp add: case_prod_beta on_hw_eq do_hw_def notify loop hw rx_freed_simps(1))
qed

lemma fold_view: "(\<And>i c. h (g i c) = h c) \<Longrightarrow> h (fold g is b) = h b"
  by (induction "is" arbitrary: b) simp_all

lemma rx_freed_disable_queues: "rx_freed (disable_queues iv) = rx_freed iv" "rxPkt (disable_queues iv) = rxPkt iv"
  "interfaceEnabled (disable_queues iv) = interfaceEnabled iv" "linkUp (disable_queues iv) = linkUp iv"
proof -
  have o: "rx_freed (signal_opt e q b) = rx_freed b" if "\<And>q. ev_dealloc_rx (e q) = []" for e q b
    using that by (simp add: signal_opt_def rx_freed_simps split: option.split)
  have p: "rxPkt (signal_opt e q b) = rxPkt b" "interfaceEnabled (signal_opt e q b) = interfaceEnabled b"
      "linkUp (signal_opt e q b) = linkUp b" for e q b
    by (simp_all add: signal_opt_def signal_def split: option.split)
  show "rx_freed (disable_queues iv) = rx_freed iv" "rxPkt (disable_queues iv) = rxPkt iv"
      "interfaceEnabled (disable_queues iv) = interfaceEnabled iv" "linkUp (disable_queues iv) = linkUp iv"
    unfolding disable_queues_def Let_def
    by (simp_all add: o p fold_view [of rx_freed] fold_view [of rxPkt] fold_view [of interfaceEnabled] fold_view [of linkUp])
qed

lemma off_reclaim:
  assumes tx: "tx_inv iv"
  defines "iv' \<equiv> disable_queues (txRingReclaim True iv)"
  shows "tx_inv iv'" "tx_flight iv' = []" "done_lists iv' = done_adds (tx_flight iv) (done_lists iv)"
    "tx_places (tx_count iv') iv' = tx_places (tx_count iv) iv" "rxPkt iv' = rxPkt iv" "rx_freed iv' = rx_freed iv"
    "linkUp iv' = linkUp iv" "interfaceEnabled iv' = interfaceEnabled iv"
proof -
  define iv2 where "iv2 = txRingReclaim True iv"
  note rc = tx_reclaim_spec [OF tx reclaim_count_abort [OF tx] le_refl, folded iv2_def]
  have e2: "tx_flight iv2 = []" "take (tx_count iv) (tx_flight iv) = tx_flight iv" using rc(2) by (simp_all add: tx_flight_def)
  have c2: "tx_count iv2 = 0" using tx_restart_empty(4) [OF rc(1) e2(1)] .
  have fr: "tx_frame iv iv2" unfolding iv2_def by (rule tx_frame_reclaim [OF tx]) (simp add: reclaim_count_abort [OF tx])
  have s: "same_rings iv2 iv'" unfolding iv'_def iv2_def by (rule same_rings_queues(2) [OF same_rings_refl])
  note i = same_rings_inv [OF s]
  show "tx_inv iv'" "tx_flight iv' = []" using i rc(1) e2(1) by simp_all
  show "tx_places (tx_count iv') iv' = tx_places (tx_count iv) iv" using i(4) [OF rc(1)] rc(4) c2 by simp
  show "done_lists iv' = done_adds (tx_flight iv) (done_lists iv)" using s rc(3) e2(2) by (simp add: same_rings_def)
  show "rxPkt iv' = rxPkt iv" "rx_freed iv' = rx_freed iv" "linkUp iv' = linkUp iv" "interfaceEnabled iv' = interfaceEnabled iv"
    using fr rx_freed_reclaim [of True iv, folded iv2_def]
    by (simp_all add: iv'_def rx_freed_disable_queues tx_frame_def flip: iv2_def)
qed

lemma off_release:
  fixes m :: media_word
  assumes tx: "tx_inv iv" "tx_flight iv = []" and l: "length (rxPkt iv) = 1024"
  defines "iv' \<equiv> signal (ReportLinkStatus False m) (rx_release_loop [0..<1024] iv)"
  shows "tx_inv iv'" "tx_flight iv' = []" "done_lists iv' = done_lists iv" "tx_places (tx_count iv') iv' = tx_places (tx_count iv) iv"
    "rxPkt iv' = replicate 1024 None" "rx_freed iv' = rx_freed iv + mset (concat (map opt_list (rxPkt iv)))"
    "linkUp iv' = linkUp iv" "interfaceEnabled iv' = interfaceEnabled iv"
proof -
  define iv4 where "iv4 = rx_release_loop [0..<1024] iv"
  have o: "rx_only iv iv4" unfolding iv4_def by (rule rx_only_release)
  note 4 = rx_only_inv [OF o tx(1)]
  note r = rx_release_all [OF l, folded iv4_def]
  have s: "same_rings iv4 iv'" unfolding iv'_def iv4_def by (rule same_rings_signal [OF _ same_rings_refl]) simp
  note i = same_rings_inv [OF s] same_rings_done [OF s]
  show t: "tx_inv iv'" "tx_flight iv' = []" using 4 i tx by simp_all
  show "tx_places (tx_count iv') iv' = tx_places (tx_count iv) iv"
    unfolding tx_places_flight using i 4 t tx(2) by simp
  show "done_lists iv' = done_lists iv" "linkUp iv' = linkUp iv" "interfaceEnabled iv' = interfaceEnabled iv"
    using o by (auto simp: iv'_def signal_def rx_only_def simp flip: iv4_def)
  show "rxPkt iv' = replicate 1024 None" "rx_freed iv' = rx_freed iv + mset (concat (map opt_list (rxPkt iv)))"
    using r by (simp_all add: iv'_def rx_freed_def signal_def flip: iv4_def)
qed

text \<open>
  (C6) Disabling the interface of a consistent driver completes every packet in
  flight, in order and into the queue of its class, returns every packet of the
  receive ring to the pool once, loses none, leaves both rings empty and the
  transmit ring consistent, and marks the interface and the link as down.
\<close>

theorem interface_off_returns_packets:
  fixes page_size :: u16 and set_phy_mcu :: "mcfg \<Rightarrow> unit hwm"
  assumes tx: "tx_inv iv" and rx: "rx_inv iv"
  defines "iv' \<equiv> snd (setInterfaceEnable set_phy_mcu page_size False iv)"
  shows "tx_inv iv' \<and> txPkt iv' = replicate 1024 None \<and> done_lists iv' = done_adds (tx_flight iv) (done_lists iv) \<and>
    tx_places (tx_count iv') iv' = tx_places (tx_count iv) iv \<and>
    rxPkt iv' = replicate 1024 None \<and> rx_freed iv' = rx_freed iv + mset (concat (map opt_list (rxPkt iv))) \<and>
    \<not> linkUp iv' \<and> \<not> interfaceEnabled iv'"
proof -
  define iv1 where "iv1 = do_hw (rtl812xDisable page_size) (iv\<lparr>interfaceEnabled := False, linkUp := False\<rparr>)"
  have "same_rings iv (iv\<lparr>interfaceEnabled := False, linkUp := False\<rparr>)" by (simp add: same_rings_def tx_hw_same_def tx_dealloc_def)
  then have s1: "same_rings iv iv1" unfolding iv1_def by (rule same_rings_disable)
  note 1 = same_rings_inv [OF s1]
  have t1: "tx_inv iv1" "rxPkt iv1 = rxPkt iv" "txDoneFifo iv1 = txDoneFifo iv" "length (rxPkt iv1) = 1024"
    using 1 s1 tx rx by (simp_all add: same_rings_def rx_inv_def)
  have f1: "\<not> linkUp iv1" "\<not> interfaceEnabled iv1" "rx_freed iv1 = rx_freed iv" by (simp_all add: iv1_def do_hw_def rx_freed_def)
  define iv3 where "iv3 = disable_queues (txRingReclaim True iv1)"
  note 3 = off_reclaim [OF t1(1), folded iv3_def]
  have l3: "length (rxPkt iv3) = 1024" using 3(5) t1(4) by simp
  note 4 = off_release [OF 3(1,2) l3]
  define m where "m = currentMedia (rx_release_loop [0..<1024] iv3)"
  have m: "iv' = signal (ReportLinkStatus False m) (rx_release_loop [0..<1024] iv3)"
    by (simp add: iv'_def setInterfaceEnable_def interface_off_def Let_def iv1_def iv3_def m_def kNumRxDesc_def)
  show ?thesis
    unfolding m using 4 [of m] tx_inv_empty [OF 4(1) [of m]] 3 1(3,4) [OF tx] t1 f1 by simp
qed

text \<open>The busy driver of the link-loss example.\<close>

theorem interface_off_returns_packets_witness:
  "\<forall>iv. let iv' = snd (setInterfaceEnable (\<lambda>_. skip) 4096 False (busy_link iv)) in
     done_lists iv' = [[5], [], [], []] \<and> rxPkt iv' = replicate 1024 None"
proof
  fix iv
  have "done_add 0 5 (replicate 4 []) = [[5], [], [], []]"
    by (simp add: done_add_def eval_nat_numeral)
  then show "let iv' = snd (setInterfaceEnable (\<lambda>_. skip) 4096 False (busy_link iv)) in
     done_lists iv' = [[5], [], [], []] \<and> rxPkt iv' = replicate 1024 None"
    using interface_off_returns_packets [OF busy_link_inv(1,3), of "\<lambda>_. skip" 4096 iv] by (simp add: busy_link_inv Let_def)
qed

end
