(* ===== verification/RxPool.thy ===== *)
theory RxPool
  imports Prelude "HOL-Library.Monad_Syntax"
begin

text \<open>
  The receive buffer pool of the kernel extension, class \<open>RTL8125LucyRxPool\<close>
  (\<open>RTL8125LucyRxPool.cpp\<close>). The pool keeps two reserves of packets, the small
  ones (\<open>mPkt...\<close>) and those with a page cluster (\<open>cPkt...\<close>), each a list
  linked through the packets' own \<open>nextpkt\<close> fields; a refill thread appends to
  the reserves while the receive path takes packets from them, without a lock.
  The theory has the methods of the class as functions of the pool and of the
  kernel's packet memory, and a step relation in which the shared accesses of
  \<open>getPacket\<close> and of \<open>refillPool\<close> interleave.
\<close>

subsection \<open>Packets and the kernel's packet memory\<close>

type_synonym mbuf = nat

text \<open>
  A name of type \<open>mbuf\<close> denotes one allocation. \<open>mbuf_alloc\<close> is the kernel's
  allocator: its answer to a request may depend on all its answers so far,
  which \<open>allocs\<close> records, newest first. \<open>freed\<close> and \<open>refillCalls\<close> record the
  calls of \<open>mbuf_freem_list\<close> and of \<open>thread_call_enter_delayed\<close>.
\<close>

datatype mbuf_how = MBUF_WAITOK | MBUF_DONTWAIT

record mbuf_pkthdr =
  ph_len :: u32
  ph_header :: "nat option"

record mbuf_kernel =
  nextpkt :: "mbuf \<Rightarrow> mbuf option"
  mdata :: "mbuf \<Rightarrow> u8 list"
  mlen :: "mbuf \<Rightarrow> u32"
  pkthdr :: "mbuf \<Rightarrow> mbuf_pkthdr"
  allocs :: "mbuf option list"
  mbuf_alloc :: "mbuf option list \<Rightarrow> mbuf_how \<Rightarrow> u32 \<Rightarrow> mbuf option"
  freed :: "mbuf list"
  refillCalls :: nat

text \<open>A new packet is not linked; the driver then moves its data to the start of the buffer, with length 0.\<close>

definition mbuf_allocpacket :: "mbuf_how \<Rightarrow> u32 \<Rightarrow> mbuf_kernel \<Rightarrow> mbuf option \<times> mbuf_kernel" where
  "mbuf_allocpacket how sz k =
    (let a = mbuf_alloc k (allocs k) how sz; k1 = k\<lparr>allocs := a # allocs k\<rparr> in
     case a of None \<Rightarrow> (None, k1)
     | Some m \<Rightarrow> (Some m, k1\<lparr>nextpkt := (nextpkt k1)(m := None), mlen := (mlen k1)(m := 0)\<rparr>))"

definition mbuf_setnextpkt :: "mbuf \<Rightarrow> mbuf option \<Rightarrow> mbuf_kernel \<Rightarrow> mbuf_kernel" where
  "mbuf_setnextpkt m n k = k\<lparr>nextpkt := (nextpkt k)(m := n)\<rparr>"

text \<open>The packets \<open>mbuf_freem_list\<close> reaches; \<open>None\<close> if the links never end.\<close>

partial_function (option) chain :: "(mbuf \<Rightarrow> mbuf option) \<Rightarrow> mbuf option \<Rightarrow> mbuf list option" where
  "chain nx h = (case h of None \<Rightarrow> Some []
     | Some m \<Rightarrow> do { ms \<leftarrow> chain nx (nx m); Some (m # ms) })"

definition mbuf_freem_list :: "mbuf option \<Rightarrow> mbuf_kernel \<Rightarrow> mbuf_kernel option" where
  "mbuf_freem_list h k = (case chain (nextpkt k) h of None \<Rightarrow> None | Some ms \<Rightarrow> Some (k\<lparr>freed := ms @ freed k\<rparr>))"

subsection \<open>The pool\<close>

text \<open>One reserve: the fields \<open>cPktHead ... cPktNum\<close> or \<open>mPktHead ... mPktNum\<close>.\<close>

record PktList =
  pktHead :: "mbuf option"
  pktTail :: "mbuf option"
  capacity :: u32
  refillTresh :: u32
  pktNum :: u32

record RTL8125LucyRxPool =
  cPkt :: PktList
  mPkt :: PktList
  maxCopySize :: u32
  refillScheduled :: bool
  refillCE :: bool

text \<open>
  The methods return \<open>None\<close> where the code would dereference a null packet
  pointer. \<open>PAGE_SIZE\<close>, the kernel's page size, is an argument.
\<close>

fun fill_loop :: "u32 \<Rightarrow> nat \<Rightarrow> PktList \<Rightarrow> mbuf_kernel \<Rightarrow> (bool \<times> PktList \<times> mbuf_kernel) option" where
  "fill_loop sz 0 q k = Some (True, q, k)"
| "fill_loop sz (Suc n) q k =
    (case mbuf_allocpacket MBUF_WAITOK sz k of
       (None, k1) \<Rightarrow> Some (False, q, k1)
     | (Some m, k1) \<Rightarrow>
        (if pktHead q \<noteq> None then
           (case pktTail q of None \<Rightarrow> None
            | Some t \<Rightarrow> fill_loop sz n (q\<lparr>pktTail := Some m, pktNum := pktNum q + 1\<rparr>) (mbuf_setnextpkt t (Some m) k1))
         else fill_loop sz n (q\<lparr>pktHead := Some m, pktTail := Some m, pktNum := 1\<rparr>) k1))"

definition free_list :: "PktList \<Rightarrow> mbuf_kernel \<Rightarrow> (PktList \<times> mbuf_kernel) option" where
  "free_list q k =
    (if pktHead q \<noteq> None then
       (case mbuf_freem_list (pktHead q) k of None \<Rightarrow> None
        | Some k1 \<Rightarrow> Some (q\<lparr>pktHead := None, pktTail := None, pktNum := 0\<rparr>, k1))
     else Some (q, k))"

definition new_list :: "u32 \<Rightarrow> PktList" where
  "new_list cap = \<lparr>pktHead = None, pktTail = None, capacity = cap, refillTresh = cap - drop_bit 1 cap, pktNum = 0\<rparr>"

text \<open>
  \<open>mhlen\<close> is the answer of \<open>mbuf_get_mhlen\<close>, \<open>ce\<close> says whether the thread call
  could be allocated.
\<close>

definition initWithCapacity :: "u32 \<Rightarrow> u32 \<Rightarrow> bool \<Rightarrow> u32 \<Rightarrow> u32 \<Rightarrow> RTL8125LucyRxPool \<Rightarrow> mbuf_kernel \<Rightarrow>
    (bool \<times> RTL8125LucyRxPool \<times> mbuf_kernel) option" where
  "initWithCapacity PAGE_SIZE mhlen ce mbufCapacity clustCapacity p k =
    (if mbufCapacity > 0 \<and> clustCapacity > 0 then
       (let p0 = p\<lparr>cPkt := new_list clustCapacity, mPkt := new_list mbufCapacity, maxCopySize := mhlen,
                  refillScheduled := False, refillCE := ce\<rparr> in
        if \<not> ce then Some (False, p0, k)
        else case fill_loop mhlen (unat mbufCapacity) (mPkt p0) k of None \<Rightarrow> None
        | Some (ok1, q1, k1) \<Rightarrow>
          (if \<not> ok1 then
             (case free_list q1 k1 of None \<Rightarrow> None | Some (q, k2) \<Rightarrow> Some (False, p0\<lparr>mPkt := q\<rparr>, k2))
           else case fill_loop PAGE_SIZE (unat clustCapacity) (cPkt p0) k1 of None \<Rightarrow> None
           | Some (ok2, q2, k2) \<Rightarrow>
             (if \<not> ok2 then
                (case free_list q2 k2 of None \<Rightarrow> None
                 | Some (qc, k3) \<Rightarrow> (case free_list q1 k3 of None \<Rightarrow> None
                    | Some (qm, k4) \<Rightarrow> Some (False, p0\<lparr>mPkt := qm, cPkt := qc\<rparr>, k4)))
              else Some (True, p0\<lparr>mPkt := q1, cPkt := q2\<rparr>, k2))))
     else Some (False, p, k))"

text \<open>
  The two branches of \<open>getPacket\<close> are the same code on the two reserves; the
  flag is \<open>refillScheduled\<close>. \<open>pktNum\<close> is signed in the first comparison and
  converted to unsigned in the second.
\<close>

definition get_from :: "u32 \<Rightarrow> mbuf_how \<Rightarrow> PktList \<Rightarrow> bool \<Rightarrow> mbuf_kernel \<Rightarrow>
    (mbuf option \<times> PktList \<times> bool \<times> mbuf_kernel) option" where
  "get_from sz how q sched k =
    (case mbuf_allocpacket how sz k of
       (Some m, k1) \<Rightarrow> Some (Some m, q, sched, k1)
     | (None, k1) \<Rightarrow>
        (if sint (pktNum q) > 1 then
           (case pktHead q of None \<Rightarrow> None
            | Some m \<Rightarrow>
               (let q1 = q\<lparr>pktNum := pktNum q - 1, pktHead := nextpkt k1 m\<rparr>;
                    k2 = mbuf_setnextpkt m None k1 in
                if pktNum q1 < refillTresh q1 \<and> \<not> sched
                then Some (Some m, q1, True, k2\<lparr>refillCalls := refillCalls k2 + 1\<rparr>)
                else Some (Some m, q1, sched, k2)))
         else Some (None, q, sched, k1)))"

definition getPacket :: "u32 \<Rightarrow> u32 \<Rightarrow> mbuf_how \<Rightarrow> RTL8125LucyRxPool \<Rightarrow> mbuf_kernel \<Rightarrow>
    (mbuf option \<times> RTL8125LucyRxPool \<times> mbuf_kernel) option" where
  "getPacket PAGE_SIZE sz how p k =
    (if sz > maxCopySize p then
       (case get_from PAGE_SIZE how (cPkt p) (refillScheduled p) k of None \<Rightarrow> None
        | Some (m, q, s, k1) \<Rightarrow> Some (m, p\<lparr>cPkt := q, refillScheduled := s\<rparr>, k1))
     else
       (case get_from (maxCopySize p) how (mPkt p) (refillScheduled p) k of None \<Rightarrow> None
        | Some (m, q, s, k1) \<Rightarrow> Some (m, p\<lparr>mPkt := q, refillScheduled := s\<rparr>, k1)))"

text \<open>One of the two loops of \<open>refillPool\<close>; the flag says whether it ran to the end.\<close>

function refill_loop :: "u32 \<Rightarrow> PktList \<Rightarrow> mbuf_kernel \<Rightarrow> (bool \<times> PktList \<times> mbuf_kernel) option" where
  "refill_loop sz q k =
    (if pktNum q < capacity q then
       (case mbuf_allocpacket MBUF_DONTWAIT sz k of
          (None, k1) \<Rightarrow> Some (False, q, k1)
        | (Some m, k1) \<Rightarrow>
           (case pktTail q of None \<Rightarrow> None
            | Some t \<Rightarrow> refill_loop sz (q\<lparr>pktTail := Some m, pktNum := pktNum q + 1\<rparr>) (mbuf_setnextpkt t (Some m) k1)))
     else Some (True, q, k))"
  by pat_completeness auto

lemma unat_suc: "(x :: u32) < y \<Longrightarrow> unat (x + 1) = unat x + 1"
  using unat_bound [of y] by (simp add: unat_word_ariths word_less_nat_alt)

termination refill_loop
  by (relation "measure (\<lambda>(_, q, _). unat (capacity q) - unat (pktNum q))")
    (auto simp: unat_suc word_less_nat_alt)

declare refill_loop.simps [simp del]

definition refillPool :: "u32 \<Rightarrow> RTL8125LucyRxPool \<Rightarrow> mbuf_kernel \<Rightarrow> (RTL8125LucyRxPool \<times> mbuf_kernel) option" where
  "refillPool PAGE_SIZE p k =
    (case refill_loop (maxCopySize p) (mPkt p) k of None \<Rightarrow> None
     | Some (ok, qm, k1) \<Rightarrow>
        (let p1 = p\<lparr>mPkt := qm\<rparr> in
         if \<not> ok then Some (p1\<lparr>refillScheduled := False\<rparr>, k1)
         else case refill_loop PAGE_SIZE (cPkt p1) k1 of None \<Rightarrow> None
         | Some (_, qc, k2) \<Rightarrow> Some (p1\<lparr>cPkt := qc, refillScheduled := False\<rparr>, k2)))"

text \<open>
  \<open>mp\<close> is the packet in the caller's variable, whose new content is the second
  component of the result; the third is \<open>*replaced\<close>. Both call sites pass the
  addresses of local variables, so that the test for null pointers succeeds.
\<close>

definition replaceOrCopyPacket :: "u32 \<Rightarrow> mbuf \<Rightarrow> u32 \<Rightarrow> RTL8125LucyRxPool \<Rightarrow> mbuf_kernel \<Rightarrow>
    (mbuf option \<times> mbuf \<times> bool \<times> RTL8125LucyRxPool \<times> mbuf_kernel) option" where
  "replaceOrCopyPacket PAGE_SIZE mp len p k =
    (case getPacket PAGE_SIZE len MBUF_DONTWAIT p k of None \<Rightarrow> None
     | Some (n, p1, k1) \<Rightarrow>
        Some (if len > maxCopySize p then
                (case n of None \<Rightarrow> (None, mp, True, p1, k1) | Some m \<Rightarrow> (Some mp, m, True, p1, k1))
              else case n of None \<Rightarrow> (None, mp, False, p1, k1)
                | Some m \<Rightarrow> (Some m, mp, False, p1,
                    k1\<lparr>pkthdr := (pkthdr k1)(m := (pkthdr k1 mp)\<lparr>ph_header := None\<rparr>),
                       mdata := (mdata k1)(m := take (unat len) (mdata k1 mp) @ drop (unat len) (mdata k1 m))\<rparr>)))"

text \<open>\<open>free\<close> of the class, after the thread call has been cancelled.\<close>

definition pool_free :: "RTL8125LucyRxPool \<Rightarrow> mbuf_kernel \<Rightarrow> (RTL8125LucyRxPool \<times> mbuf_kernel) option" where
  "pool_free p k =
    (case free_list (cPkt p) k of None \<Rightarrow> None
     | Some (qc, k1) \<Rightarrow> (case free_list (mPkt p) k1 of None \<Rightarrow> None
        | Some (qm, k2) \<Rightarrow> Some (p\<lparr>refillCE := False, cPkt := qc, mPkt := qm\<rparr>, k2)))"

subsection \<open>Interleaving of the receive path and the refill thread\<close>

text \<open>
  The receive path runs \<open>getPacket\<close>, the refill thread runs \<open>refillPool\<close>; each
  access of either to memory the other one uses is a step. A program counter
  of \<open>getPacket\<close> names the reserve it works on: the allocation has failed
  (\<open>GFailed\<close>), the reserve has more than one packet (\<open>GGranted\<close>), its count has
  been lowered (\<open>GCounted\<close>), the first packet has been unlinked (\<open>GUnlinked\<close>),
  its link has been cleared (\<open>GCleared\<close>), the count has been found low
  (\<open>GLow\<close>), the refill not scheduled (\<open>GFree\<close>), and the flag set (\<open>GArm\<close>).
\<close>

datatype reserve = Cluster | Small

datatype get_pc = GIdle | GFailed reserve | GGranted reserve | GCounted reserve | GUnlinked reserve mbuf
  | GCleared reserve mbuf | GLow reserve mbuf | GFree reserve mbuf | GArm reserve mbuf

datatype refill_pc = RIdle | RTest reserve | RRoom reserve | RGot reserve mbuf | RLinked reserve mbuf
  | RTailed reserve mbuf | REnd

text \<open>
  \<open>given\<close> and \<open>added\<close> are histories: the packets \<open>getPacket\<close> has returned from
  a reserve and those counted into it, in order. \<open>pending\<close> says that the thread
  call has been entered and not yet started.
\<close>

record pool_sys =
  lists :: "reserve \<Rightarrow> PktList"
  scheduled :: bool
  pending :: bool
  links :: "mbuf \<Rightarrow> mbuf option"
  gpc :: get_pc
  rpc :: refill_pc
  given :: "reserve \<Rightarrow> mbuf list"
  added :: "reserve \<Rightarrow> mbuf list"

definition held :: "pool_sys \<Rightarrow> reserve \<Rightarrow> mbuf list" where
  "held s w = drop (length (given s w)) (added s w)"

fun refill_hand :: "refill_pc \<Rightarrow> mbuf list" where
  "refill_hand (RGot w m) = [m]"
| "refill_hand (RLinked w m) = [m]"
| "refill_hand (RTailed w m) = [m]"
| "refill_hand _ = []"

definition pool_owned :: "pool_sys \<Rightarrow> mbuf list" where
  "pool_owned s = held s Cluster @ held s Small @ refill_hand (rpc s)"

definition upd_list :: "reserve \<Rightarrow> (PktList \<Rightarrow> PktList) \<Rightarrow> pool_sys \<Rightarrow> pool_sys" where
  "upd_list w f s = s\<lparr>lists := (lists s)(w := f (lists s w))\<rparr>"

definition set_link :: "mbuf \<Rightarrow> mbuf option \<Rightarrow> pool_sys \<Rightarrow> pool_sys" where
  "set_link m n s = s\<lparr>links := (links s)(m := n)\<rparr>"

definition get_return :: "reserve \<Rightarrow> mbuf \<Rightarrow> pool_sys \<Rightarrow> pool_sys" where
  "get_return w m s = s\<lparr>gpc := GIdle, given := (given s)(w := given s w @ [m])\<rparr>"

text \<open>
  The allocator returns packets that are not in use. Packets the pool does not
  own belong to the rest of the kernel, which may link them as it likes.
\<close>

inductive pool_step :: "pool_sys \<Rightarrow> pool_sys \<Rightarrow> bool" where
  alloc_ok: "gpc s = GIdle \<Longrightarrow> m \<notin> set (pool_owned s) \<Longrightarrow> pool_step s (set_link m None s)"
| alloc_fails: "gpc s = GIdle \<Longrightarrow> pool_step s (s\<lparr>gpc := GFailed w\<rparr>)"
| reserve_low: "gpc s = GFailed w \<Longrightarrow> \<not> sint (pktNum (lists s w)) > 1 \<Longrightarrow> pool_step s (s\<lparr>gpc := GIdle\<rparr>)"
| reserve_used: "gpc s = GFailed w \<Longrightarrow> sint (pktNum (lists s w)) > 1 \<Longrightarrow> pool_step s (s\<lparr>gpc := GGranted w\<rparr>)"
| count_down: "gpc s = GGranted w \<Longrightarrow>
    pool_step s (upd_list w (\<lambda>q. q\<lparr>pktNum := pktNum q - 1\<rparr>) s\<lparr>gpc := GCounted w\<rparr>)"
| unlink: "gpc s = GCounted w \<Longrightarrow> pktHead (lists s w) = Some m \<Longrightarrow>
    pool_step s (upd_list w (\<lambda>q. q\<lparr>pktHead := links s m\<rparr>) s\<lparr>gpc := GUnlinked w m\<rparr>)"
| clear_link: "gpc s = GUnlinked w m \<Longrightarrow> pool_step s (set_link m None s\<lparr>gpc := GCleared w m\<rparr>)"
| enough: "gpc s = GCleared w m \<Longrightarrow> \<not> pktNum (lists s w) < refillTresh (lists s w) \<Longrightarrow> pool_step s (get_return w m s)"
| low: "gpc s = GCleared w m \<Longrightarrow> pktNum (lists s w) < refillTresh (lists s w) \<Longrightarrow> pool_step s (s\<lparr>gpc := GLow w m\<rparr>)"
| already: "gpc s = GLow w m \<Longrightarrow> scheduled s \<Longrightarrow> pool_step s (get_return w m s)"
| not_yet: "gpc s = GLow w m \<Longrightarrow> \<not> scheduled s \<Longrightarrow> pool_step s (s\<lparr>gpc := GFree w m\<rparr>)"
| set_flag: "gpc s = GFree w m \<Longrightarrow> pool_step s (s\<lparr>gpc := GArm w m, scheduled := True\<rparr>)"
| enter_call: "gpc s = GArm w m \<Longrightarrow> pool_step s (get_return w m s\<lparr>pending := True\<rparr>)"
| call_starts: "pending s \<Longrightarrow> rpc s = RIdle \<Longrightarrow> pool_step s (s\<lparr>pending := False, rpc := RTest Small\<rparr>)"
| room: "rpc s = RTest w \<Longrightarrow> pktNum (lists s w) < capacity (lists s w) \<Longrightarrow> pool_step s (s\<lparr>rpc := RRoom w\<rparr>)"
| full_small: "rpc s = RTest Small \<Longrightarrow> \<not> pktNum (lists s Small) < capacity (lists s Small) \<Longrightarrow>
    pool_step s (s\<lparr>rpc := RTest Cluster\<rparr>)"
| full_cluster: "rpc s = RTest Cluster \<Longrightarrow> \<not> pktNum (lists s Cluster) < capacity (lists s Cluster) \<Longrightarrow>
    pool_step s (s\<lparr>rpc := REnd\<rparr>)"
| refill_alloc: "rpc s = RRoom w \<Longrightarrow> m \<notin> set (pool_owned s) \<Longrightarrow> pool_step s (set_link m None s\<lparr>rpc := RGot w m\<rparr>)"
| refill_fails: "rpc s = RRoom w \<Longrightarrow> pool_step s (s\<lparr>rpc := REnd\<rparr>)"
| link_tail: "rpc s = RGot w m \<Longrightarrow> pktTail (lists s w) = Some t \<Longrightarrow>
    pool_step s (set_link t (Some m) s\<lparr>rpc := RLinked w m\<rparr>)"
| move_tail: "rpc s = RLinked w m \<Longrightarrow>
    pool_step s (upd_list w (\<lambda>q. q\<lparr>pktTail := Some m\<rparr>) s\<lparr>rpc := RTailed w m\<rparr>)"
| count_up: "rpc s = RTailed w m \<Longrightarrow>
    pool_step s (upd_list w (\<lambda>q. q\<lparr>pktNum := pktNum q + 1\<rparr>) s\<lparr>rpc := RTest w, added := (added s)(w := added s w @ [m])\<rparr>)"
| refill_ends: "rpc s = REnd \<Longrightarrow> pool_step s (s\<lparr>rpc := RIdle, scheduled := False\<rparr>)"
| environment: "m \<notin> set (pool_owned s) \<Longrightarrow> pool_step s (set_link m n s)"

subsection \<open>Linked lists\<close>

primrec linked :: "(mbuf \<Rightarrow> mbuf option) \<Rightarrow> mbuf option \<Rightarrow> mbuf list \<Rightarrow> bool" where
  "linked nx h [] \<longleftrightarrow> h = None"
| "linked nx h (m # ms) \<longleftrightarrow> h = Some m \<and> linked nx (nx m) ms"

lemma linked_chain: "linked nx h ms \<Longrightarrow> chain nx h = Some ms"
  by (induction ms arbitrary: h) (subst chain.simps, simp)+

lemma linked_frame: "x \<notin> set ms \<Longrightarrow> linked (nx(x := v)) h ms = linked nx h ms"
  by (induction ms arbitrary: h) auto

lemma linked_snoc:
  "linked nx h ms \<Longrightarrow> ms \<noteq> [] \<Longrightarrow> distinct ms \<Longrightarrow> m \<notin> set ms \<Longrightarrow> nx m = None \<Longrightarrow>
   linked (nx(last ms := Some m)) h (ms @ [m])"
  by (induction ms arbitrary: h) (auto simp: linked_frame)

lemma linked_head: "linked nx h ms \<Longrightarrow> h = None \<longleftrightarrow> ms = []"
  by (cases ms) auto

subsection \<open>The invariant of one reserve\<close>

text \<open>
  \<open>hand\<close> is the packet \<open>getPacket\<close> has unlinked, \<open>ex\<close> the one the refill thread
  has linked and not yet counted, \<open>nt\<close> the one it has made the tail.
\<close>

definition reserve_ok :: "(mbuf \<Rightarrow> mbuf option) \<Rightarrow> PktList \<Rightarrow> bool \<Rightarrow> bool \<Rightarrow> mbuf list \<Rightarrow> mbuf list \<Rightarrow> mbuf list \<Rightarrow>
    mbuf list \<Rightarrow> bool \<Rightarrow> bool" where
  "reserve_ok nx q counted granted hand hs ex nt filling \<longleftrightarrow>
    (\<exists>ms. linked nx (pktHead q) ms \<and> hand @ ms = hs @ ex) \<and>
    unat (pktNum q) + (if counted then 1 else 0) + length hand = length hs \<and>
    1 \<le> unat (pktNum q) \<and> (granted \<longrightarrow> 2 \<le> unat (pktNum q)) \<and> unat (pktNum q) \<le> unat (capacity q) \<and>
    unat (capacity q) < 2 ^ 31 \<and> (filling \<longrightarrow> pktNum q < capacity q) \<and> pktTail q = Some (last (hs @ nt))"

lemma reserve_okE:
  assumes "reserve_ok nx q c g hand hs ex nt f"
  obtains ms where "linked nx (pktHead q) ms" "hand @ ms = hs @ ex"
    "unat (pktNum q) + (if c then 1 else 0) + length hand = length hs" "1 \<le> unat (pktNum q)"
    "g \<Longrightarrow> 2 \<le> unat (pktNum q)" "unat (pktNum q) \<le> unat (capacity q)" "unat (capacity q) < 2 ^ 31"
    "f \<Longrightarrow> pktNum q < capacity q" "pktTail q = Some (last (hs @ nt))"
  using assms unfolding reserve_ok_def by blast

lemma reserve_frame:
  assumes "reserve_ok nx q c g hand hs ex nt f" "x \<notin> set hs" "x \<notin> set ex"
  shows "reserve_ok (nx(x := v)) q c g hand hs ex nt f"
proof -
  obtain ms where m: "linked nx (pktHead q) ms" "hand @ ms = hs @ ex"
    using assms(1) by (rule reserve_okE)
  then have "set ms \<subseteq> set hs \<union> set ex" by (metis Un_upper2 set_append)
  then have "x \<notin> set ms" using assms(2,3) by blast
  then show ?thesis using assms(1) m unfolding reserve_ok_def by (metis linked_frame)
qed

lemma reserve_weaken:
  "reserve_ok nx q c g hand hs ex nt f \<Longrightarrow> (g' \<Longrightarrow> g) \<Longrightarrow> (f' \<Longrightarrow> f \<or> pktNum q < capacity q) \<Longrightarrow>
   reserve_ok nx q c g' hand hs ex nt f'"
  unfolding reserve_ok_def by (elim conjE) (intro conjI; blast)

lemma reserve_granted:
  "reserve_ok nx q False False [] hs ex nt f \<Longrightarrow> sint (pktNum q) > 1 \<Longrightarrow> reserve_ok nx q False True [] hs ex nt f"
  unfolding reserve_ok_def by (elim conjE) (simp add: sint_small)

lemma reserve_count:
  "reserve_ok nx q False True [] hs ex nt f \<Longrightarrow>
   reserve_ok nx (q\<lparr>pktNum := pktNum q - 1\<rparr>) True False [] hs ex nt f"
  unfolding reserve_ok_def by (elim conjE) (auto simp: unat_sub word_le_nat_alt word_less_nat_alt)

lemma reserve_unlink:
  assumes "reserve_ok nx q True False [] hs ex nt f" "pktHead q = Some m"
  shows "reserve_ok nx (q\<lparr>pktHead := nx m\<rparr>) False False [m] hs ex nt f"
proof -
  obtain ms where m: "linked nx (pktHead q) ms" "[] @ ms = hs @ ex"
    using assms(1) by (rule reserve_okE)
  then obtain ns where "ms = m # ns" "linked nx (nx m) ns" using assms(2) by (cases ms) auto
  then show ?thesis using assms(1) m(2) unfolding reserve_ok_def by auto
qed

lemma reserve_clear:
  assumes "reserve_ok nx q False False [m] hs ex nt f" "distinct (hs @ ex)"
  shows "reserve_ok (nx(m := None)) q False False [m] hs ex nt f"
proof -
  obtain ms where m: "linked nx (pktHead q) ms" "[m] @ ms = hs @ ex"
    using assms(1) by (rule reserve_okE)
  then have "m \<notin> set ms" using assms(2) by (metis append_Cons append_Nil distinct.simps(2))
  then show ?thesis using assms(1) m unfolding reserve_ok_def by (metis linked_frame)
qed

lemma reserve_return:
  assumes "reserve_ok nx q False False [m] hs ex nt f"
  shows "reserve_ok nx q False False [] (drop 1 hs) ex nt f" "hs = m # drop 1 hs"
proof -
  obtain ms where m: "linked nx (pktHead q) ms" "[m] @ ms = hs @ ex" "unat (pktNum q) + 1 = length hs" "1 \<le> unat (pktNum q)"
    using assms by (rule reserve_okE) simp
  then obtain hs' where h: "hs = m # hs'" "hs' \<noteq> []" by (cases hs) force+
  then show "hs = m # drop 1 hs" by simp
  show "reserve_ok nx q False False [] (drop 1 hs) ex nt f"
    using assms m h unfolding reserve_ok_def by (auto simp: last_append)
qed

lemma reserve_link:
  assumes r: "reserve_ok nx q c g hand hs [] [] f" and t: "pktTail q = Some t"
    and d: "distinct hs" "m \<notin> set hs" "nx m = None"
  shows "reserve_ok (nx(t := Some m)) q c g hand hs [m] [] f"
proof -
  obtain ms where m: "linked nx (pktHead q) ms" "hand @ ms = hs"
    "unat (pktNum q) + (if c then 1 else 0) + length hand = length hs" "1 \<le> unat (pktNum q)" "t = last hs"
    using r t by (auto elim: reserve_okE)
  then have "ms \<noteq> []" by auto
  moreover have "t = last ms" using m(2,5) calculation by auto
  moreover have "distinct ms" "m \<notin> set ms" using m(2) d by auto
  ultimately have "linked (nx(t := Some m)) (pktHead q) (ms @ [m])" using linked_snoc [OF m(1)] d(3) by simp
  then show ?thesis using r m(2) unfolding reserve_ok_def by auto
qed

lemma reserve_tail:
  "reserve_ok nx q c g hand hs [m] [] f \<Longrightarrow> reserve_ok nx (q\<lparr>pktTail := Some m\<rparr>) c g hand hs [m] [m] f"
  unfolding reserve_ok_def by auto

lemma reserve_counted:
  "reserve_ok nx q c g hand hs [m] [m] True \<Longrightarrow>
   reserve_ok nx (q\<lparr>pktNum := pktNum q + 1\<rparr>) c g hand (hs @ [m]) [] [] False"
  unfolding reserve_ok_def by (elim conjE) (auto simp: unat_suc word_less_nat_alt)

subsection \<open>The invariant of the pool\<close>

fun hand :: "get_pc \<Rightarrow> reserve \<Rightarrow> mbuf list" where
  "hand (GUnlinked v m) w = (if v = w then [m] else [])"
| "hand (GCleared v m) w = (if v = w then [m] else [])"
| "hand (GLow v m) w = (if v = w then [m] else [])"
| "hand (GFree v m) w = (if v = w then [m] else [])"
| "hand (GArm v m) w = (if v = w then [m] else [])"
| "hand _ w = []"

fun uncounted :: "refill_pc \<Rightarrow> reserve \<Rightarrow> mbuf list" where
  "uncounted (RLinked v m) w = (if v = w then [m] else [])"
| "uncounted (RTailed v m) w = (if v = w then [m] else [])"
| "uncounted _ w = []"

fun new_tail :: "refill_pc \<Rightarrow> reserve \<Rightarrow> mbuf list" where
  "new_tail (RTailed v m) w = (if v = w then [m] else [])"
| "new_tail _ w = []"

fun filling :: "refill_pc \<Rightarrow> reserve \<Rightarrow> bool" where
  "filling (RRoom v) w = (v = w)"
| "filling (RGot v m) w = (v = w)"
| "filling (RLinked v m) w = (v = w)"
| "filling (RTailed v m) w = (v = w)"
| "filling _ w = False"

fun arming :: "get_pc \<Rightarrow> bool" where
  "arming (GArm w m) = True"
| "arming _ = False"

fun unflagged :: "get_pc \<Rightarrow> bool" where
  "unflagged (GFree w m) = True"
| "unflagged _ = False"

definition sys_reserve :: "pool_sys \<Rightarrow> reserve \<Rightarrow> bool" where
  "sys_reserve s w \<longleftrightarrow> reserve_ok (links s) (lists s w) (gpc s = GCounted w) (gpc s = GGranted w) (hand (gpc s) w)
     (held s w) (uncounted (rpc s) w) (new_tail (rpc s) w) (filling (rpc s) w)"

text \<open>At most one of the three reasons for the flag holds: an entered call, a running refill, and one being entered.\<close>

definition flag_ok :: "pool_sys \<Rightarrow> bool" where
  "flag_ok s \<longleftrightarrow> scheduled s = (pending s \<or> rpc s \<noteq> RIdle \<or> arming (gpc s)) \<and>
     (pending s \<longrightarrow> rpc s = RIdle) \<and> (arming (gpc s) \<longrightarrow> \<not> pending s \<and> rpc s = RIdle) \<and>
     (unflagged (gpc s) \<longrightarrow> \<not> scheduled s)"

definition pool_good :: "pool_sys \<Rightarrow> bool" where
  "pool_good s \<longleftrightarrow> sys_reserve s Cluster \<and> sys_reserve s Small \<and> distinct (pool_owned s) \<and> flag_ok s \<and>
     (\<forall>w. given s w @ held s w = added s w) \<and> (\<forall>w m. rpc s = RGot w m \<longrightarrow> links s m = None)"

lemma pool_goodE:
  assumes "pool_good s"
  obtains "\<And>w. sys_reserve s w" "distinct (pool_owned s)" "flag_ok s" "\<And>w. given s w @ held s w = added s w"
    "\<And>w m. rpc s = RGot w m \<Longrightarrow> links s m = None"
proof (rule that)
  show "sys_reserve s w" for w using assms by (cases w) (simp_all add: pool_good_def)
qed (use assms in \<open>auto simp: pool_good_def\<close>)

lemma pool_goodI:
  assumes "\<And>w. sys_reserve s w" "distinct (pool_owned s)" "flag_ok s" "\<And>w. given s w @ held s w = added s w"
    "\<And>w m. rpc s = RGot w m \<Longrightarrow> links s m = None"
  shows "pool_good s"
  using assms by (simp add: pool_good_def)

lemma held_in_owned: "set (held s w) \<subseteq> set (pool_owned s)"
  by (cases w) (auto simp: pool_owned_def)

lemma uncounted_in_hand: "set (uncounted pc w) \<subseteq> set (refill_hand pc)"
  by (cases pc) auto

lemma distinct_reserve: "distinct (pool_owned s) \<Longrightarrow> distinct (held s w @ uncounted (rpc s) w)"
  by (cases w; cases "rpc s") (auto simp: pool_owned_def)

text \<open>Steps that leave the reserves, the histories and the packets in hand alone.\<close>

lemma pool_good_quiet:
  assumes g: "pool_good s" and f: "flag_ok s'"
    and same: "lists s' = lists s" "links s' = links s" "given s' = given s" "added s' = added s"
    and pc: "\<And>w. hand (gpc s') w = hand (gpc s) w" "\<And>w. (gpc s' = GCounted w) = (gpc s = GCounted w)"
      "\<And>w. gpc s' = GGranted w \<Longrightarrow> gpc s = GGranted w"
      "refill_hand (rpc s') = refill_hand (rpc s)" "\<And>w. uncounted (rpc s') w = uncounted (rpc s) w"
      "\<And>w. new_tail (rpc s') w = new_tail (rpc s) w"
      "\<And>w. filling (rpc s') w \<Longrightarrow> filling (rpc s) w \<or> pktNum (lists s w) < capacity (lists s w)"
      "\<And>w m. rpc s' = RGot w m \<Longrightarrow> rpc s = RGot w m"
  shows "pool_good s'"
proof -
  have h: "held s' w = held s w" for w by (simp add: held_def same)
  show ?thesis
  proof (rule pool_goodI)
    fix w
    from g have "sys_reserve s w" by (rule pool_goodE)
    then show "sys_reserve s' w"
      unfolding sys_reserve_def same h pc(1,2,5,6) by (rule reserve_weaken) (simp_all add: pc(3,7))
  next
    show "distinct (pool_owned s')" using g by (auto elim!: pool_goodE simp: pool_owned_def h pc(4))
    show "links s' m = None" if "rpc s' = RGot w m" for w m
      using g pc(8) [OF that] by (auto elim!: pool_goodE simp: same)
    show "given s' w @ held s' w = added s' w" for w using g by (auto elim!: pool_goodE simp: same h)
  qed (rule f)
qed

text \<open>Steps that work on one reserve and write at most one link.\<close>

lemma pool_good_at:
  assumes g: "pool_good s" and ok: "sys_reserve s' w" "flag_ok s'" "distinct (pool_owned s')"
    and hist: "given s' w @ held s' w = added s' w" "\<And>v. v \<noteq> w \<Longrightarrow> given s' v = given s v \<and> added s' v = added s v"
    and lists: "\<And>v. v \<noteq> w \<Longrightarrow> lists s' v = lists s v"
    and links: "links s' = links s \<or> (\<exists>x y. links s' = (links s)(x := y) \<and>
      (\<forall>v. v \<noteq> w \<longrightarrow> x \<notin> set (held s v) \<and> x \<notin> set (uncounted (rpc s) v)))"
    and pc: "\<And>v. v \<noteq> w \<Longrightarrow> hand (gpc s') v = hand (gpc s) v \<and> (gpc s' = GCounted v) = (gpc s = GCounted v) \<and>
      (gpc s' = GGranted v) = (gpc s = GGranted v) \<and> uncounted (rpc s') v = uncounted (rpc s) v \<and>
      new_tail (rpc s') v = new_tail (rpc s) v \<and> filling (rpc s') v = filling (rpc s) v"
    and got: "\<And>v m. rpc s' = RGot v m \<Longrightarrow> links s' m = None"
  shows "pool_good s'"
proof (rule pool_goodI)
  fix v
  have h: "held s' v = held s v" if "v \<noteq> w" using hist(2) [OF that] by (simp add: held_def)
  show "sys_reserve s' v"
  proof (cases "v = w")
    case False
    from g have "sys_reserve s v" by (rule pool_goodE)
    then have "reserve_ok (links s') (lists s v) (gpc s = GCounted v) (gpc s = GGranted v) (hand (gpc s) v)
        (held s v) (uncounted (rpc s) v) (new_tail (rpc s) v) (filling (rpc s) v)"
      unfolding sys_reserve_def using links False by (auto simp: reserve_frame)
    then show ?thesis
      unfolding sys_reserve_def using pc [OF False] lists [OF False] h [OF False] by simp
  qed (use ok in simp)
  show "given s' v @ held s' v = added s' v"
  proof (cases "v = w")
    case False
    from g have "given s v @ held s v = added s v" by (rule pool_goodE)
    then show ?thesis using hist(2) [OF False] h [OF False] by simp
  qed (use hist(1) in simp)
qed (use ok got in auto)

lemma reserve_neq: "v \<noteq> w \<Longrightarrow> (v = Cluster \<and> w = Small) \<or> (v = Small \<and> w = Cluster)"
  by (cases v; cases w) simp_all

lemmas sys_simps = upd_list_def set_link_def get_return_def held_def pool_owned_def

lemma good_link_outside:
  assumes g: "pool_good s" and m: "m \<notin> set (pool_owned s)"
  shows "pool_good (set_link m n s)"
proof (rule pool_goodI)
  fix w
  from g have "sys_reserve s w" by (rule pool_goodE)
  moreover have "m \<notin> set (held s w)" "m \<notin> set (uncounted (rpc s) w)"
    using m held_in_owned [of s w] uncounted_in_hand [of "rpc s" w] by (auto simp: pool_owned_def)
  ultimately show "sys_reserve (set_link m n s) w"
    unfolding sys_reserve_def by (simp add: set_link_def held_def reserve_frame)
next
  show "links (set_link m n s) x = None" if "rpc (set_link m n s) = RGot w x" for w x
    using g that m by (auto elim!: pool_goodE simp: set_link_def pool_owned_def)
qed (use g in \<open>auto elim!: pool_goodE simp: set_link_def held_def pool_owned_def flag_ok_def\<close>)

lemma good_reserve_used:
  assumes g: "pool_good s" and pc: "gpc s = GFailed w" and n: "sint (pktNum (lists s w)) > 1"
  shows "pool_good (s\<lparr>gpc := GGranted w\<rparr>)"
proof (rule pool_good_at [OF g, where w = w])
  from g have r: "sys_reserve s w" and f: "flag_ok s" by (blast elim: pool_goodE)+
  show "sys_reserve (s\<lparr>gpc := GGranted w\<rparr>) w"
    using r pc n by (simp add: sys_reserve_def held_def reserve_granted)
  show "flag_ok (s\<lparr>gpc := GGranted w\<rparr>)" using f pc by (simp add: flag_ok_def)
qed (use g pc in \<open>auto elim!: pool_goodE simp: sys_simps\<close>)

lemma good_count_down:
  assumes g: "pool_good s" and pc: "gpc s = GGranted w"
  shows "pool_good (upd_list w (\<lambda>q. q\<lparr>pktNum := pktNum q - 1\<rparr>) s\<lparr>gpc := GCounted w\<rparr>)"
proof (rule pool_good_at [OF g, where w = w])
  from g have r: "sys_reserve s w" and f: "flag_ok s" by (blast elim: pool_goodE)+
  show "sys_reserve (upd_list w (\<lambda>q. q\<lparr>pktNum := pktNum q - 1\<rparr>) s\<lparr>gpc := GCounted w\<rparr>) w"
    using r pc by (simp add: sys_reserve_def held_def upd_list_def reserve_count)
  show "flag_ok (upd_list w (\<lambda>q. q\<lparr>pktNum := pktNum q - 1\<rparr>) s\<lparr>gpc := GCounted w\<rparr>)"
    using f pc by (auto simp: flag_ok_def upd_list_def)
qed (use g pc in \<open>auto elim!: pool_goodE simp: sys_simps\<close>)

lemma good_unlink:
  assumes g: "pool_good s" and pc: "gpc s = GCounted w" and h: "pktHead (lists s w) = Some m"
  shows "pool_good (upd_list w (\<lambda>q. q\<lparr>pktHead := links s m\<rparr>) s\<lparr>gpc := GUnlinked w m\<rparr>)"
proof (rule pool_good_at [OF g, where w = w])
  from g have r: "sys_reserve s w" and f: "flag_ok s" by (blast elim: pool_goodE)+
  show "sys_reserve (upd_list w (\<lambda>q. q\<lparr>pktHead := links s m\<rparr>) s\<lparr>gpc := GUnlinked w m\<rparr>) w"
    using r pc h by (simp add: sys_reserve_def held_def upd_list_def reserve_unlink)
  show "flag_ok (upd_list w (\<lambda>q. q\<lparr>pktHead := links s m\<rparr>) s\<lparr>gpc := GUnlinked w m\<rparr>)"
    using f pc by (auto simp: flag_ok_def upd_list_def)
qed (use g pc in \<open>auto elim!: pool_goodE simp: sys_simps\<close>)

text \<open>A packet in hand is the oldest one its reserve has not returned.\<close>

lemma hand_held:
  assumes "pool_good s" "hand (gpc s) w = [m]"
  shows "m \<in> set (held s w)" "held s w = m # drop 1 (held s w)"
proof -
  from assms(1) have "sys_reserve s w" by (rule pool_goodE)
  moreover have "\<not> gpc s = GCounted w" "\<not> gpc s = GGranted w" using assms(2) by auto
  ultimately have r: "reserve_ok (links s) (lists s w) False False [m] (held s w) (uncounted (rpc s) w)
      (new_tail (rpc s) w) (filling (rpc s) w)"
    using assms(2) by (simp add: sys_reserve_def)
  show 1: "held s w = m # drop 1 (held s w)" by (rule reserve_return(2) [OF r])
  show "m \<in> set (held s w)" by (subst 1) simp
qed

lemma held_apart:
  assumes "pool_good s" "m \<in> set (held s w)" "v \<noteq> w"
  shows "m \<notin> set (held s v)" "m \<notin> set (uncounted (rpc s) v)" "m \<notin> set (refill_hand (rpc s))"
proof -
  from assms(1) have d: "distinct (pool_owned s)" by (rule pool_goodE)
  show "m \<notin> set (held s v)" using d assms(2) reserve_neq [OF assms(3)] by (auto simp: pool_owned_def)
  show 1: "m \<notin> set (refill_hand (rpc s))" using d assms(2) by (cases w) (auto simp: pool_owned_def)
  show "m \<notin> set (uncounted (rpc s) v)" using 1 uncounted_in_hand [of "rpc s" v] by blast
qed

lemma good_clear_link:
  assumes g: "pool_good s" and pc: "gpc s = GUnlinked w m"
  shows "pool_good (set_link m None s\<lparr>gpc := GCleared w m\<rparr>)"
proof (rule pool_good_at [OF g, where w = w])
  from g have r: "sys_reserve s w" and f: "flag_ok s" and d: "distinct (pool_owned s)" by (blast elim: pool_goodE)+
  have m: "m \<in> set (held s w)" using hand_held [OF g, of w m] pc by simp
  show "sys_reserve (set_link m None s\<lparr>gpc := GCleared w m\<rparr>) w"
    using r pc distinct_reserve [OF d, of w] by (simp add: sys_reserve_def held_def set_link_def reserve_clear)
  show "flag_ok (set_link m None s\<lparr>gpc := GCleared w m\<rparr>)"
    using f pc by (auto simp: flag_ok_def set_link_def)
  show "links (set_link m None s\<lparr>gpc := GCleared w m\<rparr>) = links s \<or>
    (\<exists>x y. links (set_link m None s\<lparr>gpc := GCleared w m\<rparr>) = (links s)(x := y) \<and>
      (\<forall>v. v \<noteq> w \<longrightarrow> x \<notin> set (held s v) \<and> x \<notin> set (uncounted (rpc s) v)))"
    using held_apart [OF g m] by (intro disjI2 exI [of _ m] exI [of _ None]) (simp add: set_link_def)
qed (use g pc in \<open>auto elim!: pool_goodE simp: sys_simps\<close>)

lemma good_return:
  assumes g: "pool_good s" and pc: "hand (gpc s) w = [m]" and s': "s' = get_return w m s\<lparr>pending := b\<rparr>" and f: "flag_ok s'"
  shows "pool_good s'"
proof (rule pool_good_at [OF g _ f, where w = w])
  note h = hand_held [OF g pc]
  have gh: "given s w @ held s w = added s w" using g by (rule pool_goodE)
  have le: "length (given s w) < length (added s w)" using arg_cong [OF gh, of length] h(1) by (cases "held s w") auto
  have hw: "held s' w = drop 1 (held s w)" using le by (simp add: s' get_return_def held_def)
  have hv: "held s' v = held s v" if "v \<noteq> w" for v using that by (simp add: s' get_return_def held_def)
  from g have r: "sys_reserve s w" by (rule pool_goodE)
  have npc: "\<not> gpc s = GCounted w" "\<not> gpc s = GGranted w" using pc by auto
  show "sys_reserve s' w"
    using reserve_return(1) [of "links s" "lists s w" m "held s w"] r npc pc hw
    by (simp add: sys_reserve_def s' get_return_def)
  show "given s' w @ held s' w = added s' w"
    unfolding hw using gh h(2) by (simp add: s' get_return_def)
  have d: "distinct (pool_owned s)" using g by (rule pool_goodE)
  have sub: "set (held s' w) \<subseteq> set (held s w)" "distinct (held s w) \<longrightarrow> distinct (held s' w)"
    unfolding hw by (rule set_drop_subset) simp
  have rp: "rpc s' = rpc s" by (simp add: s' get_return_def)
  show "distinct (pool_owned s')"
    using d sub hv [of Cluster] hv [of Small] by (cases w) (auto simp: pool_owned_def rp)
  fix v :: reserve assume v: "v \<noteq> w"
  show "hand (gpc s') v = hand (gpc s) v \<and> (gpc s' = GCounted v) = (gpc s = GCounted v) \<and>
      (gpc s' = GGranted v) = (gpc s = GGranted v) \<and> uncounted (rpc s') v = uncounted (rpc s) v \<and>
      new_tail (rpc s') v = new_tail (rpc s) v \<and> filling (rpc s') v = filling (rpc s) v"
    using pc v by (cases "gpc s") (auto simp: s' get_return_def split: if_splits)
qed (use g in \<open>auto elim!: pool_goodE simp: s' get_return_def\<close>)

lemma good_refill_alloc:
  assumes g: "pool_good s" and pc: "rpc s = RRoom w" and m: "m \<notin> set (pool_owned s)"
  shows "pool_good (set_link m None s\<lparr>rpc := RGot w m\<rparr>)"
proof -
  let ?s = "set_link m None s"
  have g1: "pool_good ?s" using g m by (rule good_link_outside)
  then have d: "distinct (pool_owned ?s)" "flag_ok ?s" by (blast elim: pool_goodE)+
  show ?thesis
  proof (rule pool_goodI)
    fix v
    from g1 have "sys_reserve ?s v" by (rule pool_goodE)
    then show "sys_reserve (?s\<lparr>rpc := RGot w m\<rparr>) v" using pc by (simp add: sys_reserve_def set_link_def held_def)
  next
    show "distinct (pool_owned (?s\<lparr>rpc := RGot w m\<rparr>))" using d m pc by (auto simp: pool_owned_def set_link_def held_def)
    show "flag_ok (?s\<lparr>rpc := RGot w m\<rparr>)" using d pc by (auto simp: flag_ok_def set_link_def)
  qed (use g1 in \<open>auto elim!: pool_goodE simp: set_link_def held_def\<close>)
qed

lemma good_link_tail:
  assumes g: "pool_good s" and pc: "rpc s = RGot w m" and t: "pktTail (lists s w) = Some t"
  shows "pool_good (set_link t (Some m) s\<lparr>rpc := RLinked w m\<rparr>)" (is "pool_good ?s")
proof (rule pool_good_at [OF g, where w = w])
  from g have r: "sys_reserve s w" and f: "flag_ok s" and d: "distinct (pool_owned s)" and z: "links s m = None"
    using pc by (blast elim: pool_goodE)+
  have m: "m \<notin> set (held s w)" "distinct (held s w)" using d pc by (cases w; auto simp: pool_owned_def)+
  have ro: "reserve_ok (links s) (lists s w) (gpc s = GCounted w) (gpc s = GGranted w) (hand (gpc s) w) (held s w) [] [] True"
    using r pc by (simp add: sys_reserve_def)
  then have "length (held s w) > 0" "t = last (held s w)" using t by (auto elim: reserve_okE)
  then have th: "t \<in> set (held s w)" by (metis last_in_set length_greater_0_conv)
  show "sys_reserve ?s w"
    using reserve_link [OF ro t m(2,1) z] by (simp add: sys_reserve_def set_link_def held_def)
  show "flag_ok ?s" using f pc by (auto simp: flag_ok_def set_link_def)
  show "links ?s = links s \<or> (\<exists>x y. links ?s = (links s)(x := y) \<and>
      (\<forall>v. v \<noteq> w \<longrightarrow> x \<notin> set (held s v) \<and> x \<notin> set (uncounted (rpc s) v)))"
    using held_apart [OF g th] by (intro disjI2 exI [of _ t] exI [of _ "Some m"]) (simp add: set_link_def)
  show "distinct (pool_owned ?s)" using d pc by (simp add: pool_owned_def set_link_def held_def)
qed (use g pc in \<open>auto elim!: pool_goodE simp: set_link_def held_def\<close>)

lemma good_move_tail:
  assumes g: "pool_good s" and pc: "rpc s = RLinked w m"
  shows "pool_good (upd_list w (\<lambda>q. q\<lparr>pktTail := Some m\<rparr>) s\<lparr>rpc := RTailed w m\<rparr>)" (is "pool_good ?s")
proof (rule pool_good_at [OF g, where w = w])
  from g have r: "sys_reserve s w" and f: "flag_ok s" and d: "distinct (pool_owned s)" by (blast elim: pool_goodE)+
  show "sys_reserve ?s w" using r pc by (simp add: sys_reserve_def upd_list_def held_def reserve_tail)
  show "flag_ok ?s" using f pc by (auto simp: flag_ok_def upd_list_def)
  show "distinct (pool_owned ?s)" using d pc by (simp add: pool_owned_def upd_list_def held_def)
qed (use g pc in \<open>auto elim!: pool_goodE simp: upd_list_def held_def\<close>)

lemma good_count_up:
  assumes g: "pool_good s" and pc: "rpc s = RTailed w m"
  shows "pool_good (upd_list w (\<lambda>q. q\<lparr>pktNum := pktNum q + 1\<rparr>) s\<lparr>rpc := RTest w, added := (added s)(w := added s w @ [m])\<rparr>)"
    (is "pool_good ?s")
proof (rule pool_good_at [OF g, where w = w])
  from g have r: "sys_reserve s w" and f: "flag_ok s" and d: "distinct (pool_owned s)"
    and gh: "given s w @ held s w = added s w" by (blast elim: pool_goodE)+
  have le: "length (given s w) \<le> length (added s w)" using arg_cong [OF gh, of length] by simp
  have hw: "held ?s w = held s w @ [m]" using le by (simp add: upd_list_def held_def)
  have hv: "held ?s v = held s v" if "v \<noteq> w" for v using that by (simp add: upd_list_def held_def)
  show "sys_reserve ?s w"
    using r pc unfolding sys_reserve_def hw by (simp add: upd_list_def reserve_counted)
  show "flag_ok ?s" using f pc by (auto simp: flag_ok_def upd_list_def)
  show "distinct (pool_owned ?s)" using d pc hw hv by (cases w) (auto simp: pool_owned_def upd_list_def)
  show "given ?s w @ held ?s w = added ?s w" unfolding hw using gh by (simp add: upd_list_def)
qed (use g pc in \<open>auto elim!: pool_goodE simp: upd_list_def held_def\<close>)

lemma pool_step_good:
  assumes g: "pool_good s" and st: "pool_step s s'"
  shows "pool_good s'"
proof -
  from g have f: "flag_ok s" by (rule pool_goodE)
  show ?thesis
    using st
  proof cases
    case (enough w m)
    then show ?thesis using f by (intro good_return [OF g, of w m s' "pending s"]) (auto simp: get_return_def flag_ok_def)
  next
    case (already w m)
    then show ?thesis using f by (intro good_return [OF g, of w m s' "pending s"]) (auto simp: get_return_def flag_ok_def)
  next
    case (enter_call w m)
    then show ?thesis using f by (intro good_return [OF g, of w m s' True]) (auto simp: get_return_def flag_ok_def)
  next
    case (alloc_ok m)
    then show ?thesis using good_link_outside [OF g] by simp
  next
    case (environment m n)
    then show ?thesis using good_link_outside [OF g] by simp
  next
    case (reserve_used w)
    then show ?thesis using good_reserve_used [OF g] by simp
  next
    case (count_down w)
    then show ?thesis using good_count_down [OF g] by simp
  next
    case (unlink w m)
    then show ?thesis using good_unlink [OF g] by simp
  next
    case (clear_link w m)
    then show ?thesis using good_clear_link [OF g] by simp
  next
    case (refill_alloc w m)
    then show ?thesis using good_refill_alloc [OF g] by simp
  next
    case (link_tail w m t)
    then show ?thesis using good_link_tail [OF g] by simp
  next
    case (move_tail w m)
    then show ?thesis using good_move_tail [OF g] by simp
  next
    case (count_up w m)
    then show ?thesis using good_count_up [OF g] by simp
  qed (rule pool_good_quiet [OF g]; use f in \<open>auto simp: flag_ok_def\<close>)+
qed

interpretation pools: invariant_system pool_step pool_good
  by unfold_locales (rule pool_step_good)

text \<open>
  The pool as \<open>initWithCapacity\<close> leaves it: no thread is active, and each
  reserve is a list of its own packets, counted and ended by its tail.
\<close>

definition pool_start :: "pool_sys \<Rightarrow> bool" where
  "pool_start s \<longleftrightarrow> gpc s = GIdle \<and> rpc s = RIdle \<and> \<not> scheduled s \<and> \<not> pending s \<and>
     (\<forall>w. given s w = [] \<and> added s w \<noteq> [] \<and> linked (links s) (pktHead (lists s w)) (added s w) \<and>
       pktTail (lists s w) = Some (last (added s w)) \<and> unat (pktNum (lists s w)) = length (added s w) \<and>
       length (added s w) \<le> unat (capacity (lists s w)) \<and> unat (capacity (lists s w)) < 2 ^ 31) \<and>
     distinct (added s Cluster @ added s Small)"

lemma pool_start_good:
  assumes "pool_start s" shows "pool_good s"
proof (rule pool_goodI)
  show "sys_reserve s w" for w
    using assms by (auto simp: pool_start_def sys_reserve_def reserve_ok_def held_def Suc_le_eq)
qed (use assms in \<open>auto simp: pool_start_def pool_owned_def held_def flag_ok_def\<close>)

text \<open>
  (C9) However the accesses of the receive path and of the refill thread
  interleave, a reserve hands out its packets in the order in which they were
  put in, each one once: those returned, the one in hand and those still linked
  are the ones counted in, followed by one the refill has linked and not yet
  counted. Neither thread meets a null pointer, since a reserve keeps at least
  one packet; no reserve outgrows its capacity; and no second refill is entered
  while one is running.
\<close>

theorem rx_pool_interleaving_safe:
  assumes "pool_start s0" "pool_step\<^sup>*\<^sup>* s0 s"
  shows "(\<forall>w. \<exists>ms. linked (links s) (pktHead (lists s w)) ms \<and>
      given s w @ hand (gpc s) w @ ms = added s w @ uncounted (rpc s) w) \<and>
    (\<forall>w. pktHead (lists s w) \<noteq> None \<and> pktTail (lists s w) \<noteq> None \<and>
      1 \<le> unat (pktNum (lists s w)) \<and> unat (pktNum (lists s w)) \<le> unat (capacity (lists s w))) \<and>
    distinct (pool_owned s) \<and> (pending s \<longrightarrow> rpc s = RIdle)"
proof -
  have g: "pool_good s" using pools.reach_good [OF assms(2) pool_start_good [OF assms(1)]] .
  then have r: "sys_reserve s w" and gh: "given s w @ held s w = added s w" for w by (blast elim: pool_goodE)+
  have l: "\<exists>ms. linked (links s) (pktHead (lists s w)) ms \<and> given s w @ hand (gpc s) w @ ms = added s w @ uncounted (rpc s) w" for w
    using r [of w] unfolding sys_reserve_def by (rule reserve_okE) (metis append.assoc gh)
  have b: "pktHead (lists s w) \<noteq> None \<and> pktTail (lists s w) \<noteq> None \<and>
      1 \<le> unat (pktNum (lists s w)) \<and> unat (pktNum (lists s w)) \<le> unat (capacity (lists s w))" for w
    using r [of w] unfolding sys_reserve_def
  proof (rule reserve_okE)
    fix ms assume a: "linked (links s) (pktHead (lists s w)) ms" "hand (gpc s) w @ ms = held s w @ uncounted (rpc s) w"
      "unat (pktNum (lists s w)) + (if gpc s = GCounted w then 1 else 0) + length (hand (gpc s) w) = length (held s w)"
      "1 \<le> unat (pktNum (lists s w))" "unat (pktNum (lists s w)) \<le> unat (capacity (lists s w))"
      "pktTail (lists s w) = Some (last (held s w @ new_tail (rpc s) w))"
    have "length ms > 0" using arg_cong [OF a(2), of length] a(3,4) by (cases ms) (simp_all split: if_splits)
    then show ?thesis using a linked_head [OF a(1)] by auto
  qed
  show ?thesis using l b g by (auto elim!: pool_goodE simp: flag_ok_def)
qed

text \<open>Two cluster packets and a small one; the receive path takes a cluster packet.\<close>

definition pool_sample :: pool_sys where
  "pool_sample = \<lparr>lists = (\<lambda>w. if w = Cluster
       then \<lparr>pktHead = Some 1, pktTail = Some 2, capacity = 4, refillTresh = 2, pktNum = 2\<rparr>
       else \<lparr>pktHead = Some 3, pktTail = Some 3, capacity = 1, refillTresh = 1, pktNum = 1\<rparr>),
     scheduled = False, pending = False, links = (\<lambda>m. if m = 1 then Some 2 else None), gpc = GIdle, rpc = RIdle,
     given = (\<lambda>w. []), added = (\<lambda>w. if w = Cluster then [1, 2] else [3])\<rparr>"

lemma pool_sample_start: "pool_start pool_sample"
  by (simp add: pool_start_def pool_sample_def)

lemma pool_sample_run:
  "\<exists>s. pool_step\<^sup>*\<^sup>* pool_sample s \<and> gpc s = GUnlinked Cluster 1 \<and> pktHead (lists s Cluster) = Some 2"
proof -
  let ?s1 = "pool_sample\<lparr>gpc := GFailed Cluster\<rparr>"
  let ?s2 = "?s1\<lparr>gpc := GGranted Cluster\<rparr>"
  let ?s3 = "upd_list Cluster (\<lambda>q. q\<lparr>pktNum := pktNum q - 1\<rparr>) ?s2\<lparr>gpc := GCounted Cluster\<rparr>"
  let ?s4 = "upd_list Cluster (\<lambda>q. q\<lparr>pktHead := links ?s3 1\<rparr>) ?s3\<lparr>gpc := GUnlinked Cluster 1\<rparr>"
  have "pool_step pool_sample ?s1" by (rule alloc_fails) (simp add: pool_sample_def)
  moreover have "pool_step ?s1 ?s2" by (rule reserve_used) (simp_all add: pool_sample_def)
  moreover have "pool_step ?s2 ?s3" by (rule count_down) simp
  moreover have "pool_step ?s3 ?s4" by (rule unlink) (simp_all add: upd_list_def pool_sample_def)
  ultimately have "pool_step\<^sup>*\<^sup>* pool_sample ?s4" by (meson converse_rtranclp_into_rtranclp rtranclp.rtrancl_refl)
  then show ?thesis by (intro exI [of _ ?s4]) (simp add: upd_list_def pool_sample_def)
qed

theorem rx_pool_interleaving_safe_witness:
  "\<exists>s. pool_step\<^sup>*\<^sup>* pool_sample s \<and> gpc s = GUnlinked Cluster 1 \<and> pktHead (lists s Cluster) = Some 2 \<and>
     pktTail (lists s Cluster) \<noteq> None \<and> distinct (pool_owned s)"
proof -
  obtain s where s: "pool_step\<^sup>*\<^sup>* pool_sample s" "gpc s = GUnlinked Cluster 1" "pktHead (lists s Cluster) = Some 2"
    using pool_sample_run by blast
  then show ?thesis using rx_pool_interleaving_safe [OF pool_sample_start s(1)] by blast
qed

subsection \<open>The methods of the class\<close>

text \<open>A well-formed reserve with the packets \<open>xs\<close>, and a well-formed pool.\<close>

definition list_ok :: "mbuf_kernel \<Rightarrow> PktList \<Rightarrow> mbuf list \<Rightarrow> bool" where
  "list_ok k q xs \<longleftrightarrow> linked (nextpkt k) (pktHead q) xs \<and> (xs \<noteq> [] \<longrightarrow> pktTail q = Some (last xs)) \<and>
     unat (pktNum q) = length xs \<and> length xs \<le> unat (capacity q) \<and> unat (capacity q) < 2 ^ 31 \<and>
     distinct xs \<and> Some ` set xs \<subseteq> set (allocs k)"

definition pool_ok :: "RTL8125LucyRxPool \<Rightarrow> mbuf_kernel \<Rightarrow> mbuf list \<Rightarrow> mbuf list \<Rightarrow> bool" where
  "pool_ok p k cs ms \<longleftrightarrow> list_ok k (cPkt p) cs \<and> list_ok k (mPkt p) ms \<and> cs \<noteq> [] \<and> ms \<noteq> [] \<and> set cs \<inter> set ms = {}"

text \<open>The allocator never returns a packet it has returned before.\<close>

definition fresh_alloc :: "mbuf_kernel \<Rightarrow> bool" where
  "fresh_alloc k \<longleftrightarrow> (\<forall>past how sz m. mbuf_alloc k past how sz = Some m \<longrightarrow> Some m \<notin> set past)"

lemma linked_cong: "(\<And>m. m \<in> set ms \<Longrightarrow> nx' m = nx m) \<Longrightarrow> linked nx' h ms = linked nx h ms"
  by (induction ms arbitrary: h) auto

text \<open>What the allocations and the linking of one reserve leave of the rest of the memory.\<close>

definition kernel_keeps :: "mbuf list \<Rightarrow> mbuf_kernel \<Rightarrow> mbuf_kernel \<Rightarrow> bool" where
  "kernel_keeps xs k k' \<longleftrightarrow> (\<forall>m. Some m \<in> set (allocs k) \<longrightarrow> m \<notin> set xs \<longrightarrow> nextpkt k' m = nextpkt k m) \<and>
     mdata k' = mdata k \<and> pkthdr k' = pkthdr k \<and> mbuf_alloc k' = mbuf_alloc k \<and>
     (\<exists>new. allocs k' = new @ allocs k)"

lemma list_ok_keeps:
  assumes "list_ok k q ys" "kernel_keeps xs k k'" "set xs \<inter> set ys = {}"
  shows "list_ok k' q ys"
proof -
  have "nextpkt k' m = nextpkt k m" if "m \<in> set ys" for m
  proof -
    have "Some m \<in> set (allocs k)" using assms(1) that by (auto simp: list_ok_def)
    moreover have "m \<notin> set xs" using assms(3) that by auto
    ultimately show ?thesis using assms(2) by (simp add: kernel_keeps_def)
  qed
  then show ?thesis using assms(1,2) linked_cong [of ys "nextpkt k'" "nextpkt k"]
    by (auto simp: list_ok_def kernel_keeps_def)
qed

lemma keeps_refl: "kernel_keeps xs k k"
  by (simp add: kernel_keeps_def)

lemma keeps_trans:
  assumes "kernel_keeps xs k1 k2" "kernel_keeps ys k2 k3" "set ys \<subseteq> set xs \<union> {m. Some m \<notin> set (allocs k1)}"
  shows "kernel_keeps xs k1 k3"
  using assms unfolding kernel_keeps_def by (auto simp: subset_iff)

lemma keeps_fresh: "kernel_keeps xs k k' \<Longrightarrow> fresh_alloc k \<Longrightarrow> fresh_alloc k'"
  by (simp add: kernel_keeps_def fresh_alloc_def)

lemma alloc_keeps:
  assumes "mbuf_allocpacket how sz k = (a, k1)" "fresh_alloc k"
  shows "kernel_keeps [] k k1" "allocs k1 = a # allocs k" "freed k1 = freed k"
    "a = Some m \<Longrightarrow> Some m \<notin> set (allocs k) \<and> nextpkt k1 m = None"
proof -
  have f: "Some m \<notin> set (allocs k)" if "mbuf_alloc k (allocs k) how sz = Some m" for m
    using assms(2) that by (auto simp: fresh_alloc_def)
  have a: "a = mbuf_alloc k (allocs k) how sz"
    "k1 = (case a of None \<Rightarrow> k\<lparr>allocs := None # allocs k\<rparr>
       | Some m \<Rightarrow> k\<lparr>allocs := Some m # allocs k, nextpkt := (nextpkt k)(m := None), mlen := (mlen k)(m := 0)\<rparr>)"
    using assms(1) by (auto simp: mbuf_allocpacket_def Let_def split: option.splits)
  have f: "Some m \<notin> set (allocs k)" if "a = Some m" for m using f that a(1) by simp
  show "kernel_keeps [] k k1"
    unfolding a(2) kernel_keeps_def using f by (cases a) auto
  show "allocs k1 = a # allocs k" "freed k1 = freed k"
    unfolding a(2) by (simp_all split: option.split)
  show "a = Some m \<Longrightarrow> Some m \<notin> set (allocs k) \<and> nextpkt k1 m = None"
    unfolding a(2) using f [of m] by simp
qed

lemma setnext_keeps: "kernel_keeps [t] k (mbuf_setnextpkt t n k)" "allocs (mbuf_setnextpkt t n k) = allocs k"
    "freed (mbuf_setnextpkt t n k) = freed k"
  by (simp_all add: kernel_keeps_def mbuf_setnextpkt_def)

lemma list_ok_append:
  assumes ok: "list_ok k q xs" "xs \<noteq> []" "length xs < unat (capacity q)" and fr: "fresh_alloc k"
    and al: "mbuf_allocpacket how sz k = (Some m, k1)"
  defines "k2 \<equiv> mbuf_setnextpkt (last xs) (Some m) k1"
  shows "list_ok k2 (q\<lparr>pktTail := Some m, pktNum := pktNum q + 1\<rparr>) (xs @ [m])" "kernel_keeps xs k k2"
proof -
  note a = alloc_keeps [OF al fr]
  have m: "Some m \<notin> set (allocs k)" "nextpkt k1 m = None" using a(4) [OF refl] by simp_all
  show "kernel_keeps xs k k2"
    unfolding k2_def using keeps_trans [OF _ setnext_keeps(1), of xs k k1 "last xs"] a(1) ok(2)
    by (auto simp: kernel_keeps_def)
  have "list_ok k1 q xs" using list_ok_keeps [OF ok(1) a(1)] by simp
  moreover have "m \<notin> set xs" using ok(1) m(1) by (auto simp: list_ok_def)
  moreover have "pktNum q < capacity q" using ok by (simp add: list_ok_def word_less_nat_alt)
  ultimately show "list_ok k2 (q\<lparr>pktTail := Some m, pktNum := pktNum q + 1\<rparr>) (xs @ [m])"
    using linked_snoc [of "nextpkt k1" "pktHead q" xs m] ok(2,3) m(2)
    by (auto simp: list_ok_def k2_def mbuf_setnextpkt_def unat_suc a(2))
qed

lemma list_ok_first:
  assumes ok: "list_ok k q []" "0 < unat (capacity q)" and fr: "fresh_alloc k"
    and al: "mbuf_allocpacket how sz k = (Some m, k1)"
  shows "list_ok k1 (q\<lparr>pktHead := Some m, pktTail := Some m, pktNum := 1\<rparr>) [m]" "kernel_keeps [] k k1"
  using alloc_keeps [OF al fr] ok by (simp_all add: list_ok_def)

lemma fill_loop_spec:
  assumes "list_ok k q xs" "length xs + n \<le> unat (capacity q)" "fresh_alloc k"
  obtains ok q' k' zs where "fill_loop sz n q k = Some (ok, q', k')" "list_ok k' q' (xs @ zs)" "kernel_keeps xs k k'"
    "ok \<Longrightarrow> length zs = n" "allocs k' = (if ok then [] else [None]) @ rev (map Some zs) @ allocs k" "freed k' = freed k"
    "Some ` set zs \<inter> set (allocs k) = {}"
  using assms
proof (induction n arbitrary: q k xs thesis)
  case 0
  then show ?case by (auto intro: keeps_refl)
next
  case (Suc n)
  obtain a k1 where al: "mbuf_allocpacket MBUF_WAITOK sz k = (a, k1)" by fastforce
  note k1 = alloc_keeps [OF al Suc.prems(4)]
  show ?case
  proof (cases a)
    case None
    show ?thesis
      by (rule Suc.prems(1) [of False q k1 "[]"])
        (use None al k1 Suc.prems(2) list_ok_keeps [OF Suc.prems(2) k1(1)] in \<open>auto simp: kernel_keeps_def\<close>)
  next
    case (Some m)
    note al = al [unfolded Some] and k1 = k1 [unfolded Some]
    define t where "t = last xs"
    define q1 where "q1 = (if xs = [] then q\<lparr>pktHead := Some m, pktTail := Some m, pktNum := 1\<rparr>
      else q\<lparr>pktTail := Some m, pktNum := pktNum q + 1\<rparr>)"
    define k2 where "k2 = (if xs = [] then k1 else mbuf_setnextpkt t (Some m) k1)"
    have c: "capacity q1 = capacity q" by (simp add: q1_def)
    have s: "list_ok k2 q1 (xs @ [m])" "kernel_keeps xs k k2"
      using list_ok_first [OF _ _ Suc.prems(4) al] list_ok_append [OF _ _ _ Suc.prems(4) al] Suc.prems(2,3)
      by (auto simp: q1_def k2_def t_def)
    have k2: "allocs k2 = Some m # allocs k" "freed k2 = freed k" using k1 by (simp_all add: k2_def setnext_keeps)
    have h: "pktHead q \<noteq> None \<longleftrightarrow> xs \<noteq> []" "xs \<noteq> [] \<longrightarrow> pktTail q = Some t"
      using Suc.prems(2) linked_head [of "nextpkt k" "pktHead q" xs] by (auto simp: list_ok_def t_def)
    have eq: "fill_loop sz (Suc n) q k = fill_loop sz n q1 k2"
      using al h by (auto simp: q1_def k2_def)
    obtain ok q' k' zs where r: "fill_loop sz n q1 k2 = Some (ok, q', k')" "list_ok k' q' ((xs @ [m]) @ zs)"
      "kernel_keeps (xs @ [m]) k2 k'" "ok \<Longrightarrow> length zs = n"
      "allocs k' = (if ok then [] else [None]) @ rev (map Some zs) @ allocs k2" "freed k' = freed k2"
      "Some ` set zs \<inter> set (allocs k2) = {}"
      by (rule Suc.IH [OF _ s(1) _ keeps_fresh [OF s(2) Suc.prems(4)]]) (use Suc.prems(3) c in auto)
    have m: "Some m \<notin> set (allocs k)" using k1(4) by simp
    then have "kernel_keeps xs k k'" using keeps_trans [OF s(2) r(3)] by auto
    then show ?thesis
      using Suc.prems(1) [of ok q' k' "m # zs"] r k2 eq m by auto
  qed
qed

lemma free_list_spec:
  assumes "list_ok k q xs"
  obtains q' where "free_list q k = Some (q', k\<lparr>freed := xs @ freed k\<rparr>)"
  using assms linked_chain [of "nextpkt k" "pktHead q" xs] linked_head [of "nextpkt k" "pktHead q" xs]
  by (cases "pktHead q") (auto simp: list_ok_def free_list_def mbuf_freem_list_def)

lemma list_ok_freed [simp]: "list_ok (k\<lparr>freed := fs\<rparr>) q xs = list_ok k q xs"
  by (simp add: list_ok_def)

lemma new_list_ok: "unat cap < 2 ^ 31 \<Longrightarrow> list_ok k (new_list cap) []"
  by (simp add: list_ok_def new_list_def)

lemma refill_loop_spec:
  assumes "list_ok k q xs" "xs \<noteq> []" "fresh_alloc k"
  obtains ok q' k' zs where "refill_loop sz q k = Some (ok, q', k')" "list_ok k' q' (xs @ zs)" "kernel_keeps xs k k'"
    "ok \<Longrightarrow> unat (pktNum q') = unat (capacity q)" "Some ` set zs \<inter> set (allocs k) = {}"
  using assms
proof (induction "unat (capacity q) - length xs" arbitrary: q k xs thesis)
  case 0
  then have "\<not> pktNum q < capacity q" "unat (pktNum q) = unat (capacity q)"
    by (auto simp: list_ok_def word_less_nat_alt)
  then show ?case using 0 by (intro 0(2) [of True q k "[]"]) (auto intro: keeps_refl simp: refill_loop.simps)
next
  case (Suc d)
  note ok = Suc.prems(2)
  have lt: "length xs < unat (capacity q)" "pktNum q < capacity q"
    using Suc.hyps(2) ok by (auto simp: list_ok_def word_less_nat_alt)
  obtain a k1 where al: "mbuf_allocpacket MBUF_DONTWAIT sz k = (a, k1)" by fastforce
  note k1 = alloc_keeps [OF al Suc.prems(4)]
  show ?case
  proof (cases a)
    case None
    have "kernel_keeps xs k k1" using k1(1) by (auto simp: kernel_keeps_def)
    then show ?thesis
      using None al lt list_ok_keeps [OF ok k1(1)] by (intro Suc.prems(1) [of False q k1 "[]"]) (auto simp: refill_loop.simps)
  next
    case (Some m)
    define q1 where "q1 = q\<lparr>pktTail := Some m, pktNum := pktNum q + 1\<rparr>"
    define k2 where "k2 = mbuf_setnextpkt (last xs) (Some m) k1"
    note s = list_ok_append [OF ok Suc.prems(3) lt(1) Suc.prems(4) al [unfolded Some], folded q1_def k2_def]
    have t: "pktTail q = Some (last xs)" using ok Suc.prems(3) by (simp add: list_ok_def)
    have eq: "refill_loop sz q k = refill_loop sz q1 k2"
      by (subst refill_loop.simps) (simp add: lt al Some t q1_def k2_def)
    have m: "Some m \<notin> set (allocs k)" "allocs k2 = Some m # allocs k"
      using k1 Some by (simp_all add: k2_def setnext_keeps)
    obtain ok' q' k' zs where r: "refill_loop sz q1 k2 = Some (ok', q', k')" "list_ok k' q' ((xs @ [m]) @ zs)"
      "kernel_keeps (xs @ [m]) k2 k'" "ok' \<Longrightarrow> unat (pktNum q') = unat (capacity q1)" "Some ` set zs \<inter> set (allocs k2) = {}"
      by (rule Suc.hyps(1) [OF _ _ s(1) _ keeps_fresh [OF s(2) Suc.prems(4)]])
        (use Suc.hyps(2) in \<open>auto simp: q1_def\<close>)
    have "kernel_keeps xs k k'" using keeps_trans [OF s(2) r(3)] m(1) by auto
    then show ?thesis
      using Suc.prems(1) [of ok' q' k' "m # zs"] r m eq by (auto simp: q1_def)
  qed
qed

text \<open>
  (C22) Creating the pool is all or nothing: with the wanted capacities it either
  succeeds with both reserves full and nothing freed, or it fails and every
  packet it had allocated is freed, once. It never dereferences a null pointer.
\<close>

theorem rx_pool_init_all_or_nothing:
  assumes "fresh_alloc k" "unat mbufCapacity < 2 ^ 31" "unat clustCapacity < 2 ^ 31"
  shows "\<exists>ok p' k'. initWithCapacity PAGE_SIZE mhlen ce mbufCapacity clustCapacity p k = Some (ok, p', k') \<and>
    (if ok then \<exists>cs ms. pool_ok p' k' cs ms \<and> length cs = unat clustCapacity \<and> length ms = unat mbufCapacity \<and>
        freed k' = freed k
     else \<exists>new fs. allocs k' = new @ allocs k \<and> freed k' = fs @ freed k \<and> distinct fs \<and>
        Some ` set fs = set new - {None})"
proof (cases "mbufCapacity > 0 \<and> clustCapacity > 0 \<and> ce")
  case False
  then show ?thesis
    unfolding initWithCapacity_def by (cases "mbufCapacity > 0 \<and> clustCapacity > 0") (auto simp: Let_def)
next
  case True
  let ?p = "p\<lparr>cPkt := new_list clustCapacity, mPkt := new_list mbufCapacity, maxCopySize := mhlen,
    refillScheduled := False, refillCE := ce\<rparr>"
  have le: "length ([] :: mbuf list) + unat cap \<le> unat (capacity (new_list cap))" for cap
    by (simp add: new_list_def)
  obtain ok1 q1 k1 ms where 1: "fill_loop mhlen (unat mbufCapacity) (new_list mbufCapacity) k = Some (ok1, q1, k1)"
    "list_ok k1 q1 ([] @ ms)" "kernel_keeps [] k k1" "ok1 \<Longrightarrow> length ms = unat mbufCapacity"
    "allocs k1 = (if ok1 then [] else [None]) @ rev (map Some ms) @ allocs k" "freed k1 = freed k"
    "Some ` set ms \<inter> set (allocs k) = {}"
    by (rule fill_loop_spec [OF new_list_ok [OF assms(2)] le assms(1), where sz = mhlen]) blast
  show ?thesis
  proof (cases ok1)
    case False
    obtain q where "free_list q1 k1 = Some (q, k1\<lparr>freed := ms @ freed k1\<rparr>)"
      using 1(2) by (auto elim: free_list_spec)
    then have "initWithCapacity PAGE_SIZE mhlen ce mbufCapacity clustCapacity p k =
        Some (False, ?p\<lparr>mPkt := q\<rparr>, k1\<lparr>freed := ms @ freed k1\<rparr>)"
      using True False 1(1) by (simp add: initWithCapacity_def Let_def)
    then show ?thesis using 1(2,5,6) False
      by (auto simp: list_ok_def intro!: exI [of _ "None # rev (map Some ms)"])
  next
    case ok1: True
    obtain ok2 q2 k2 cs where 2: "fill_loop PAGE_SIZE (unat clustCapacity) (new_list clustCapacity) k1 = Some (ok2, q2, k2)"
      "list_ok k2 q2 ([] @ cs)" "kernel_keeps [] k1 k2" "ok2 \<Longrightarrow> length cs = unat clustCapacity"
      "allocs k2 = (if ok2 then [] else [None]) @ rev (map Some cs) @ allocs k1" "freed k2 = freed k1"
      "Some ` set cs \<inter> set (allocs k1) = {}"
      by (rule fill_loop_spec [OF new_list_ok [OF assms(3)] le keeps_fresh [OF 1(3) assms(1)], where sz = PAGE_SIZE]) blast
    have k1: "list_ok k2 q1 ms" using list_ok_keeps [OF _ 2(3), of q1 ms] 1(2) by simp
    have dj: "set cs \<inter> set ms = {}" using 2(7) 1(5) by auto
    show ?thesis
    proof (cases ok2)
      case False
      obtain qc where c: "free_list q2 k2 = Some (qc, k2\<lparr>freed := cs @ freed k2\<rparr>)"
        using 2(2) by (auto elim: free_list_spec)
      obtain qm where m: "free_list q1 (k2\<lparr>freed := cs @ freed k2\<rparr>) =
          Some (qm, k2\<lparr>freed := cs @ freed k2\<rparr>\<lparr>freed := ms @ freed (k2\<lparr>freed := cs @ freed k2\<rparr>)\<rparr>)"
        by (rule free_list_spec [of "k2\<lparr>freed := cs @ freed k2\<rparr>" q1 ms]) (use k1 in auto)
      have "initWithCapacity PAGE_SIZE mhlen ce mbufCapacity clustCapacity p k =
          Some (False, ?p\<lparr>mPkt := qm, cPkt := qc\<rparr>, k2\<lparr>freed := ms @ cs @ freed k2\<rparr>)"
        using True ok1 False 1(1) 2(1) c m by (simp add: initWithCapacity_def Let_def)
      moreover have "distinct (ms @ cs)" using dj k1 2(2) by (auto simp: list_ok_def)
      moreover have "allocs k2 = (None # rev (map Some cs) @ rev (map Some ms)) @ allocs k" "freed k2 = freed k"
        using 1(5,6) 2(5,6) ok1 False by simp_all
      moreover have "Some ` set (ms @ cs) = set (None # rev (map Some cs) @ rev (map Some ms)) - {None}" by auto
      ultimately show ?thesis
        by - (intro exI conjI, assumption, unfold if_False, intro exI conjI, simp, simp, assumption+)
    next
      case ok2: True
      have eq: "initWithCapacity PAGE_SIZE mhlen ce mbufCapacity clustCapacity p k =
          Some (True, ?p\<lparr>mPkt := q1, cPkt := q2\<rparr>, k2)"
        using True ok1 ok2 1(1) 2(1) by (simp add: initWithCapacity_def Let_def)
      have l: "length ms = unat mbufCapacity" "length cs = unat clustCapacity" using 1(4) 2(4) ok1 ok2 by simp_all
      moreover have "0 < unat mbufCapacity" "0 < unat clustCapacity" using True by (simp_all add: word_less_nat_alt)
      ultimately have "0 < length cs" "0 < length ms" by simp_all
      then have "cs \<noteq> []" "ms \<noteq> []" by auto
      then have "pool_ok (?p\<lparr>mPkt := q1, cPkt := q2\<rparr>) k2 cs ms" using 2(2) k1 dj by (simp add: pool_ok_def)
      then show ?thesis using eq l 1(6) 2(6)
        by - (intro exI conjI, assumption, unfold if_True, intro exI conjI, assumption+, simp)
    qed
  qed
qed

text \<open>A machine whose allocator answers with new packets until it has given out \<open>n\<close>.\<close>

definition sample_kernel :: "nat \<Rightarrow> mbuf_kernel" where
  "sample_kernel n = \<lparr>nextpkt = (\<lambda>_. None), mdata = (\<lambda>_. replicate 4096 0), mlen = (\<lambda>_. 0),
     pkthdr = (\<lambda>_. \<lparr>ph_len = 0, ph_header = None\<rparr>), allocs = [],
     mbuf_alloc = (\<lambda>past how sz. if length past < n then Some (fold max (map (case_option 0 Suc) past) 0) else None),
     freed = [], refillCalls = 0\<rparr>"

lemma fold_max_ge: "x \<in> set xs \<or> x \<le> (a :: nat) \<Longrightarrow> x \<le> fold max xs a"
proof (induction xs arbitrary: a)
  case (Cons y ys)
  have "x \<in> set ys \<or> x \<le> max y a" using Cons.prems by (auto simp: le_max_iff_disj)
  then have "x \<le> fold max ys (max y a)" by (rule Cons.IH)
  then show ?case by simp
qed simp

lemma sample_kernel_fresh: "fresh_alloc (sample_kernel n)"
  unfolding fresh_alloc_def
proof (intro allI impI)
  fix past how sz m
  assume "mbuf_alloc (sample_kernel n) past how sz = Some m"
  then have m: "m = fold max (map (case_option 0 Suc) past) 0" by (simp add: sample_kernel_def split: if_splits)
  show "Some m \<notin> set past"
  proof
    assume "Some m \<in> set past"
    then have "case_option 0 Suc (Some m) \<in> set (map (case_option 0 Suc) past)" unfolding set_map by (rule imageI)
    then have "Suc m \<le> m" using fold_max_ge [of "Suc m" "map (case_option 0 Suc) past" 0] m by simp
    then show False by simp
  qed
qed

theorem rx_pool_init_all_or_nothing_witness:
  "\<forall>p. \<exists>ok p' k'. initWithCapacity 4096 224 True 2 2 p (sample_kernel 3) = Some (ok, p', k') \<and>
     (if ok then \<exists>cs ms. pool_ok p' k' cs ms \<and> length cs = 2 \<and> length ms = 2 else distinct (freed k'))"
proof
  fix p
  have two: "unat (2 :: u32) = 2" "(2 :: nat) < 2 ^ 31" by simp_all
  obtain ok p' k' where r: "initWithCapacity 4096 224 True 2 2 p (sample_kernel 3) = Some (ok, p', k')"
    "if ok then \<exists>cs ms. pool_ok p' k' cs ms \<and> length cs = 2 \<and> length ms = 2 \<and> freed k' = freed (sample_kernel 3)
     else \<exists>new fs. allocs k' = new @ allocs (sample_kernel 3) \<and> freed k' = fs @ freed (sample_kernel 3) \<and> distinct fs \<and>
        Some ` set fs = set new - {None}"
    using rx_pool_init_all_or_nothing [OF sample_kernel_fresh [of 3], of 2 2 4096 224 True p, unfolded two, OF two(2) two(2)]
    by blast
  have f: "freed (sample_kernel 3) = []" by (simp add: sample_kernel_def)
  have d: "if ok then \<exists>cs ms. pool_ok p' k' cs ms \<and> length cs = 2 \<and> length ms = 2 else distinct (freed k')"
  proof (cases ok)
    case False
    then have "\<exists>fs. freed k' = fs @ [] \<and> distinct fs" using r(2) unfolding if_not_P [OF False] f by blast
    then show ?thesis unfolding if_not_P [OF False] append_Nil2 by blast
  next
    case True
    show ?thesis using r(2) unfolding if_P [OF True] by blast
  qed
  show "\<exists>ok p' k'. initWithCapacity 4096 224 True 2 2 p (sample_kernel 3) = Some (ok, p', k') \<and>
     (if ok then \<exists>cs ms. pool_ok p' k' cs ms \<and> length cs = 2 \<and> length ms = 2 else distinct (freed k'))"
    by (rule exI [of _ ok], rule exI [of _ p'], rule exI [of _ k'], rule conjI [OF r(1) d])
qed

lemma refillPool_ok:
  assumes "pool_ok p k cs ms" "fresh_alloc k"
  shows "\<exists>p' k' cs' ms'. refillPool PAGE_SIZE p k = Some (p', k') \<and> pool_ok p' k' (cs @ cs') (ms @ ms') \<and>
    \<not> refillScheduled p'"
proof -
  note ok = assms(1) [unfolded pool_ok_def]
  obtain a qm k1 ms' where 1: "refill_loop (maxCopySize p) (mPkt p) k = Some (a, qm, k1)" "list_ok k1 qm (ms @ ms')"
    "kernel_keeps ms k k1" "a \<Longrightarrow> unat (pktNum qm) = unat (capacity (mPkt p))" "Some ` set ms' \<inter> set (allocs k) = {}"
    by (rule refill_loop_spec [of k "mPkt p" ms "maxCopySize p"]) (use ok assms(2) in simp_all)
  have c1: "list_ok k1 (cPkt p) cs" using list_ok_keeps [OF _ 1(3), of "cPkt p" cs] ok by (auto simp: Int_commute)
  have d1: "set cs \<inter> set (ms @ ms') = {}" using ok 1(5) by (auto simp: list_ok_def)
  have r0: "refillPool PAGE_SIZE p k = (if \<not> a then Some (p\<lparr>mPkt := qm, refillScheduled := False\<rparr>, k1)
      else case refill_loop PAGE_SIZE (cPkt p) k1 of None \<Rightarrow> None
        | Some (_, qc, k2) \<Rightarrow> Some (p\<lparr>mPkt := qm, cPkt := qc, refillScheduled := False\<rparr>, k2))"
    by (simp add: refillPool_def 1(1) Let_def)
  show ?thesis
  proof (cases a)
    case False
    then show ?thesis using 1(2) c1 d1 ok r0
      by (intro exI [of _ "p\<lparr>mPkt := qm, refillScheduled := False\<rparr>"] exI [of _ k1] exI [of _ "[]"] exI [of _ ms'])
        (simp add: pool_ok_def)
  next
    case True
    obtain b qc k2 cs' where 2: "refill_loop PAGE_SIZE (cPkt p) k1 = Some (b, qc, k2)" "list_ok k2 qc (cs @ cs')"
      "kernel_keeps cs k1 k2" "b \<Longrightarrow> unat (pktNum qc) = unat (capacity (cPkt p))" "Some ` set cs' \<inter> set (allocs k1) = {}"
      by (rule refill_loop_spec [of k1 "cPkt p" cs PAGE_SIZE]) (use c1 ok keeps_fresh [OF 1(3) assms(2)] in simp_all)
    have "list_ok k2 qm (ms @ ms')" using list_ok_keeps [OF 1(2) 2(3) d1] .
    moreover have "Some ` set (ms @ ms') \<subseteq> set (allocs k1)" using 1(2) by (simp add: list_ok_def)
    then have "set (cs @ cs') \<inter> set (ms @ ms') = {}" using d1 2(5) unfolding set_append [of cs] by blast
    ultimately show ?thesis using 2(1,2) True ok r0
      by (intro exI [of _ "p\<lparr>mPkt := qm, cPkt := qc, refillScheduled := False\<rparr>"] exI [of _ k2] exI [of _ cs'] exI [of _ ms'])
        (simp add: pool_ok_def)
  qed
qed

lemma get_from_spec:
  assumes ok: "list_ok k q xs" "xs \<noteq> []" and fr: "fresh_alloc k"
  obtains r q' s' k' xs' where "get_from sz how q s k = Some (r, q', s', k')" "list_ok k' q' xs'" "xs' \<noteq> []"
    "kernel_keeps xs k k'" "r = None \<Longrightarrow> length xs = 1 \<and> xs' = xs"
    "\<And>m. r = Some m \<Longrightarrow> (Some m \<notin> set (allocs k) \<and> xs' = xs) \<or> xs = m # xs'"
proof -
  obtain a k1 where al: "mbuf_allocpacket how sz k = (a, k1)" by fastforce
  note k1 = alloc_keeps [OF al fr]
  have kk: "kernel_keeps xs k k1" using k1(1) by (simp add: kernel_keeps_def)
  have ok1: "list_ok k1 q xs" using list_ok_keeps [OF ok(1) k1(1)] by simp
  have num: "sint (pktNum q) = int (length xs)" using ok(1) by (simp add: list_ok_def sint_small)
  show ?thesis
  proof (cases "a = None \<and> 1 < length xs")
    case False
    then have "a \<noteq> None \<or> length xs = 1" using ok(2) by (cases xs) auto
    then have "get_from sz how q s k = Some (a, q, s, k1)" "a = None \<Longrightarrow> length xs = 1"
      using al num by (auto simp: get_from_def split: option.splits)
    then show ?thesis using that [of a q s k1 xs] ok1 ok(2) kk k1(4) by auto
  next
    case True
    then obtain m ys where xs: "xs = m # ys" "ys \<noteq> []" by (cases xs) auto
    have h: "pktHead q = Some m" "linked (nextpkt k1) (nextpkt k1 m) ys" "m \<notin> set ys" "pktTail q = Some (last ys)"
      using ok1 xs by (simp_all add: list_ok_def)
    define q1 where "q1 = q\<lparr>pktNum := pktNum q - 1, pktHead := nextpkt k1 m\<rparr>"
    define k2 where "k2 = mbuf_setnextpkt m None k1"
    have "unat (pktNum q - 1) = length ys"
      using ok1 xs by (simp add: list_ok_def unat_sub word_le_nat_alt)
    then have l: "list_ok k2 q1 ys"
      using ok1 h xs by (simp add: list_ok_def q1_def k2_def mbuf_setnextpkt_def linked_frame)
    have kp: "kernel_keeps xs k k2"
      using keeps_trans [OF kk setnext_keeps(1) [of m k1 None]] xs by (simp add: k2_def)
    define lw where "lw = (pktNum q1 < refillTresh q1 \<and> \<not> s)"
    define k3 where "k3 = (if lw then k2\<lparr>refillCalls := refillCalls k2 + 1\<rparr> else k2)"
    have "get_from sz how q s k = Some (Some m, q1, lw \<or> s, k3)"
      using True al num h(1) by (simp add: get_from_def q1_def k2_def k3_def lw_def Let_def) blast
    moreover have "list_ok k3 q1 ys" using l by (simp add: k3_def list_ok_def)
    moreover have "kernel_keeps xs k k3" using kp by (simp add: k3_def kernel_keeps_def)
    ultimately show ?thesis using that [of "Some m" q1 "lw \<or> s" k3 ys] xs by simp
  qed
qed

lemma getPacket_spec:
  assumes pool: "pool_ok p k cs ms" and fr: "fresh_alloc k"
  obtains r p' k' cs' ms' where "getPacket PAGE_SIZE len how p k = Some (r, p', k')" "pool_ok p' k' cs' ms'" "mdata k' = mdata k"
    "r = None \<Longrightarrow> length (if len > maxCopySize p then cs else ms) = 1"
    "\<And>m. r = Some m \<Longrightarrow> m \<notin> set cs' \<and> m \<notin> set ms' \<and> (Some m \<notin> set (allocs k) \<or> m \<in> set cs \<or> m \<in> set ms)"
proof (cases "len > maxCopySize p")
  case True
  obtain r q s k1 cs' where g: "get_from PAGE_SIZE how (cPkt p) (refillScheduled p) k = Some (r, q, s, k1)"
    "list_ok k1 q cs'" "cs' \<noteq> []" "kernel_keeps cs k k1" "r = None \<Longrightarrow> length cs = 1 \<and> cs' = cs"
    "\<And>m. r = Some m \<Longrightarrow> (Some m \<notin> set (allocs k) \<and> cs' = cs) \<or> cs = m # cs'"
    by (rule get_from_spec [of k "cPkt p" cs PAGE_SIZE how "refillScheduled p"]) (use pool fr in \<open>simp_all add: pool_ok_def\<close>)
  have m: "list_ok k1 (mPkt p) ms" using list_ok_keeps [OF _ g(4)] pool by (simp add: pool_ok_def)
  have "r = None \<or> (\<exists>m. r = Some m)" by (cases r) simp_all
  then have "set cs' \<subseteq> set cs" using g(5,6) by auto
  then have ok: "pool_ok (p\<lparr>cPkt := q, refillScheduled := s\<rparr>) k1 cs' ms" using pool g(2,3) m by (auto simp: pool_ok_def)
  have new: "m \<notin> set cs' \<and> m \<notin> set ms \<and> (Some m \<notin> set (allocs k) \<or> m \<in> set cs \<or> m \<in> set ms)" if "r = Some m" for m
    using g(6) [OF that] pool by (auto simp: pool_ok_def list_ok_def)
  have eq: "getPacket PAGE_SIZE len how p k = Some (r, p\<lparr>cPkt := q, refillScheduled := s\<rparr>, k1)"
    using g(1) True by (simp add: getPacket_def)
  have md: "mdata k1 = mdata k" using g(4) by (simp add: kernel_keeps_def)
  show ?thesis by (rule that [OF eq ok md]) (use g(5) True new in auto)
next
  case False
  obtain r q s k1 ms' where g: "get_from (maxCopySize p) how (mPkt p) (refillScheduled p) k = Some (r, q, s, k1)"
    "list_ok k1 q ms'" "ms' \<noteq> []" "kernel_keeps ms k k1" "r = None \<Longrightarrow> length ms = 1 \<and> ms' = ms"
    "\<And>m. r = Some m \<Longrightarrow> (Some m \<notin> set (allocs k) \<and> ms' = ms) \<or> ms = m # ms'"
    by (rule get_from_spec [of k "mPkt p" ms "maxCopySize p" how "refillScheduled p"]) (use pool fr in \<open>simp_all add: pool_ok_def\<close>)
  have c: "list_ok k1 (cPkt p) cs" using list_ok_keeps [OF _ g(4)] pool by (simp add: pool_ok_def Int_commute)
  have "r = None \<or> (\<exists>m. r = Some m)" by (cases r) simp_all
  then have "set ms' \<subseteq> set ms" using g(5,6) by auto
  then have ok: "pool_ok (p\<lparr>mPkt := q, refillScheduled := s\<rparr>) k1 cs ms'" using pool g(2,3) c by (auto simp: pool_ok_def)
  have new: "m \<notin> set cs \<and> m \<notin> set ms' \<and> (Some m \<notin> set (allocs k) \<or> m \<in> set cs \<or> m \<in> set ms)" if "r = Some m" for m
    using g(6) [OF that] pool by (auto simp: pool_ok_def list_ok_def)
  have eq: "getPacket PAGE_SIZE len how p k = Some (r, p\<lparr>mPkt := q, refillScheduled := s\<rparr>, k1)"
    using g(1) False by (simp add: getPacket_def)
  have md: "mdata k1 = mdata k" using g(4) by (simp add: kernel_keeps_def)
  show ?thesis by (rule that [OF eq ok md]) (use g(5) False new in auto)
qed

lemma pool_ok_data [simp]: "pool_ok p (k\<lparr>pkthdr := h, mdata := d\<rparr>) cs ms = pool_ok p k cs ms"
  by (simp add: pool_ok_def list_ok_def)

text \<open>
  (C21) Replacing or copying a received packet leaves the caller with a buffer in
  every case. A packet longer than the copy limit is handed up and a different
  one takes its place; a short one is copied, byte for byte, into a different
  packet and stays. Only when the allocator refuses and the reserve is down to
  its last packet does the call return nothing, and then the buffer stays. The
  packet handed over is no longer in the pool, and the pool stays well formed.
\<close>

theorem rx_replace_keeps_buffer:
  assumes pool: "pool_ok p k cs ms" and fr: "fresh_alloc k"
    and mp: "Some mp \<in> set (allocs k)" "mp \<notin> set cs" "mp \<notin> set ms" "unat len \<le> length (mdata k mp)"
  shows "\<exists>r mp' rep p' k' cs' ms'. replaceOrCopyPacket PAGE_SIZE mp len p k = Some (r, mp', rep, p', k') \<and>
    pool_ok p' k' cs' ms' \<and> rep = (len > maxCopySize p) \<and> mdata k' mp = mdata k mp \<and>
    (case r of
       None \<Rightarrow> mp' = mp \<and> (if rep then length cs = 1 else length ms = 1)
     | Some m \<Rightarrow>
        if rep then m = mp \<and> mp' \<noteq> mp \<and> mp' \<notin> set cs' \<union> set ms'
        else mp' = mp \<and> m \<noteq> mp \<and> m \<notin> set cs' \<union> set ms' \<and> take (unat len) (mdata k' m) = take (unat len) (mdata k mp))"
proof -
  obtain r p' k' cs' ms' where g: "getPacket PAGE_SIZE len MBUF_DONTWAIT p k = Some (r, p', k')" "pool_ok p' k' cs' ms'"
    "mdata k' = mdata k" "r = None \<Longrightarrow> length (if len > maxCopySize p then cs else ms) = 1"
    "\<And>m. r = Some m \<Longrightarrow> m \<notin> set cs' \<and> m \<notin> set ms' \<and> (Some m \<notin> set (allocs k) \<or> m \<in> set cs \<or> m \<in> set ms)"
    by (rule getPacket_spec [OF pool fr, of PAGE_SIZE len MBUF_DONTWAIT]) blast
  show ?thesis
  proof (cases r)
    case None
    then have "replaceOrCopyPacket PAGE_SIZE mp len p k = Some (None, mp, len > maxCopySize p, p', k')"
      using g(1) by (simp add: replaceOrCopyPacket_def)
    then show ?thesis using g(2-4) None by - (intro exI conjI, assumption+, simp_all split: if_splits)
  next
    case (Some m)
    have m: "m \<noteq> mp" "m \<notin> set cs'" "m \<notin> set ms'" using g(5) [OF Some] mp by auto
    let ?k = "k'\<lparr>pkthdr := (pkthdr k')(m := (pkthdr k' mp)\<lparr>ph_header := None\<rparr>),
      mdata := (mdata k')(m := take (unat len) (mdata k' mp) @ drop (unat len) (mdata k' m))\<rparr>"
    show ?thesis
    proof (cases "len > maxCopySize p")
      case True
      then have "replaceOrCopyPacket PAGE_SIZE mp len p k = Some (Some mp, m, True, p', k')"
        using g(1) Some by (simp add: replaceOrCopyPacket_def)
      then show ?thesis using g(2,3) m True by - (intro exI conjI, assumption+, simp_all)
    next
      case False
      then have "replaceOrCopyPacket PAGE_SIZE mp len p k = Some (Some m, mp, False, p', ?k)"
        using g(1) Some by (simp add: replaceOrCopyPacket_def)
      moreover have "pool_ok p' ?k cs' ms'" using g(2) by simp
      ultimately show ?thesis using g(3) m False mp(4) by - (intro exI conjI, assumption+, simp_all)
    qed
  qed
qed

text \<open>A pool with two cluster packets and a small one, on a machine out of memory; packet 9 holds a frame.\<close>

definition sample_pool :: RTL8125LucyRxPool where
  "sample_pool = \<lparr>cPkt = \<lparr>pktHead = Some 1, pktTail = Some 2, capacity = 4, refillTresh = 2, pktNum = 2\<rparr>,
     mPkt = \<lparr>pktHead = Some 3, pktTail = Some 3, capacity = 1, refillTresh = 1, pktNum = 1\<rparr>,
     maxCopySize = 224, refillScheduled = False, refillCE = True\<rparr>"

definition full_kernel :: mbuf_kernel where
  "full_kernel = (sample_kernel 0)\<lparr>nextpkt := (\<lambda>m. if m = 1 then Some 2 else None),
     allocs := map Some [1, 2, 3, 9]\<rparr>"

lemma full_kernel_fresh: "fresh_alloc full_kernel"
  using sample_kernel_fresh [of 0] by (simp add: fresh_alloc_def full_kernel_def)

lemma sample_pool_ok: "pool_ok sample_pool full_kernel [1, 2] [3]"
  by (simp add: pool_ok_def list_ok_def sample_pool_def full_kernel_def)

theorem rx_replace_keeps_buffer_witness:
  "\<exists>r mp' p' k' cs' ms'. replaceOrCopyPacket 4096 9 1500 sample_pool full_kernel = Some (r, mp', True, p', k') \<and>
     pool_ok p' k' cs' ms' \<and> r = Some 9 \<and> mp' \<notin> set cs' \<union> set ms'"
proof -
  have mp: "Some 9 \<in> set (allocs full_kernel)" "(9 :: mbuf) \<notin> set [1, 2]" "(9 :: mbuf) \<notin> set [3]"
    "unat (1500 :: u32) \<le> length (mdata full_kernel 9)"
    by (simp_all add: full_kernel_def sample_kernel_def)
  obtain r mp' rep p' k' cs' ms' where r: "replaceOrCopyPacket 4096 9 1500 sample_pool full_kernel = Some (r, mp', rep, p', k')"
    "pool_ok p' k' cs' ms'" "rep = (1500 > maxCopySize sample_pool)"
    "case r of None \<Rightarrow> mp' = 9 \<and> (if rep then length [1 :: mbuf, 2] = 1 else length [3 :: mbuf] = 1)
     | Some m \<Rightarrow> if rep then m = 9 \<and> mp' \<noteq> 9 \<and> mp' \<notin> set cs' \<union> set ms'
        else mp' = 9 \<and> m \<noteq> 9 \<and> m \<notin> set cs' \<union> set ms' \<and> take (unat (1500 :: u32)) (mdata k' m) = take (unat (1500 :: u32)) (mdata full_kernel 9)"
    using rx_replace_keeps_buffer [OF sample_pool_ok full_kernel_fresh mp, of 4096] by blast
  have rep: "rep" using r(3) by (simp add: sample_pool_def)
  then show ?thesis using r by (cases r) auto
qed

end
