(* ===== verification/Spec2Isabelle.thy ===== *)
theory Spec2Isabelle
  imports Firmware DextIntr DextConfig DextLife RxPool
begin

text \<open>
  \<^bold>\<open>Verification of the RTL8127 drivers.\<close>

  The repository holds two drivers for Realtek multi-gigabit Ethernet chips: a
  DriverKit extension for the RTL8127 (\<open>src/RTL8127Dext\<close>, the dext) and a
  kernel extension for the RTL8125, RTL8126 and RTL8127 families
  (\<open>src/RTL812xLucy\<close>, the kext). Both use the same chip support code
  (\<open>rtl812xx.cpp\<close> and the \<open>rtl812x_*\<close> and \<open>rtl8127_fiber\<close> files). This
  development models that code, the whole dext on top of it, and the receive
  buffer pool and the multicast filter of the kext.

  \<^bold>\<open>The parts and how they interact.\<close> The operating system gives the dext
  packets through submission queues and takes them back through completion
  queues, one pair per transmit service class and one for receive. The entry
  points of \<open>RTL8127Driver.cpp\<close> move packets between these queues, small
  lock-free FIFOs, and two rings of 1024 descriptors which the chip reads and
  writes. Interrupt, link and timer handlers run on one work queue; the queue
  actions run on threads of the framework. All of them reach the chip through
  the class \<open>RTL8127Hw\<close>, which in turn calls the chip support code, which
  reads and writes registers.

  \<^bold>\<open>How the code is modelled.\<close> The chip is not code: it is a parameter that
  answers each read as an arbitrary function of all earlier bus accesses
  (\<open>Mmio\<close>). Code that touches registers is a state monad \<open>hwm\<close> over the
  driver's hardware state with the recorded accesses; the dext's entry points
  are functions on its instance variables (\<open>RTL8127Driver_IVars\<close>), with
  \<open>None\<close> for a read or write outside a packet buffer. Calls into the operating
  system are recorded as a list of events, and its answers are parameters.
  C integers are words of their width; where C has signed values the reading
  is written out with \<open>sint\<close>.

  \<^bold>\<open>Theories, in the order of their imports.\<close>
  \<^item> \<open>Prelude\<close>: word types, masks, rings of a power of two, and two locales for
    step relations: \<open>invariant_system\<close> (an invariant every step keeps holds in
    every reachable state) and \<open>terminating_system\<close> (a measure every step
    lowers bounds the length of a run).
  \<^item> \<open>Mmio\<close>, \<open>Registers\<close>: the bus, the monad, accessors and constants of
    \<open>rtl812xx.h\<close> and \<open>RTL8127Hw.h\<close>.
  \<^item> \<open>OcpAccess\<close>: the indirect channels of \<open>rtl812xx.cpp\<close> (PHY and MAC OCP, ERI,
    EPHY, CSI), their command words, effects and bounded waits.
  \<^item> \<open>NicOps\<close>, \<open>NicPower\<close>, \<open>NicWol\<close>, \<open>NicOob\<close>, \<open>PhyPatch\<close>, \<open>McuPatch\<close>, \<open>PhyConfig\<close>,
    \<open>SoftVar\<close>: reset and stop, PCIe power registers, wake-on-LAN, energy
    efficient Ethernet and management firmware, PHY and MAC microcode, the PHY
    tables of every generation, and the capability table, all of
    \<open>rtl812xx.cpp\<close>.
  \<^item> \<open>Fiber\<close>, \<open>Eeprom\<close>, \<open>Firmware\<close>: \<open>rtl8127_fiber.cpp\<close>, \<open>rtl812x_eeprom.c\<close> and
    \<open>rtl812x_firmware.c\<close>.
  \<^item> \<open>HwLayer\<close>, \<open>ChipFrame\<close>, \<open>ChipInit\<close>: the class \<open>RTL8127Hw\<close>, what its methods
    leave of the datapath's variables, and what bring-up establishes.
  \<^item> \<open>PacketFifo\<close>, \<open>TxBuffer\<close>, \<open>Checksum\<close>, \<open>DextTypes\<close>: the FIFO, the frame view,
    the offload helpers and the instance variables of the dext.
  \<^item> \<open>DextTx\<close>, \<open>DextTxSystem\<close>, \<open>DextRx\<close>, \<open>DextRxSystem\<close>: the two datapaths and the
    systems they form with framework and chip.
  \<^item> \<open>DextLink\<close>, \<open>DextIntr\<close>, \<open>DextControl\<close>, \<open>DextConfig\<close>, \<open>DextLife\<close>: link state,
    interrupt handler, \<open>init\<close>, \<open>Start\<close>, \<open>Stop\<close>, enabling, and the
    configuration calls; \<open>DextConfig\<close> also has the kext's multicast filter.
  \<^item> \<open>RxPool\<close>: the class \<open>RTL8125LucyRxPool\<close> of the kext.

  \<^bold>\<open>What is shown.\<close>
  \<^item> Datapaths. The rings are queues: submissions append, a reclaim retires the
    oldest first, a service pass delivers in ring order; packets are conserved
    in every reachable state; a descriptor the chip may use belongs to a packet
    the driver holds and describes its frame exactly; the ring drains.
  \<^item> Concurrency. The FIFO is linearizable for one producer and one consumer,
    and loses packets with two; the pool of the kext is safe under every
    interleaving of the receive path and the refill thread.
  \<^item> Life cycle. A successful \<open>Start\<close> and enable establish the invariants of
    both rings; losing the link, disabling and stopping give every packet back
    once; the interrupt handler masks, acknowledges, works and re-arms in order.
  \<^item> Chip support. Bring-up leaves well-typed chip data and a valid station
    address; indirect accesses are bounded and have their documented effect;
    the EEPROM read returns the stored word; an accepted firmware stays inside
    its array and, without backward jumps, terminates.
  \<^item> Errors. Seven theorems show what the code does where it departs from its
    intention: packets forgotten when the link comes up twice, descriptors left
    to the chip after their buffers are freed, two producers on one FIFO, a
    32-bit shift in a 64-bit filter, an ignored media choice, an EEPROM left
    selected, and a firmware loop the check admits.

  \<^bold>\<open>Interfaces.\<close> The datapaths use the FIFOs through the contract
  \<open>bounded_queue\<close>, interpreted for \<open>fifoPush\<close> and \<open>fifoPop\<close>. The step relations
  of the FIFO, of both datapaths, of the pool and of \<open>Stop\<close> are interpretations
  of \<open>invariant_system\<close> or \<open>terminating_system\<close>.

  \<^bold>\<open>Bounds and fuel.\<close> Ring sizes, FIFO sizes and wait counts are those of the
  code. Loops over the ring take its size as their budget, as the code does
  (\<open>rx_service_loop\<close>); polling loops take their retry count; the refill of the
  pool terminates by the free capacity. Only the firmware interpreter may run
  forever; it takes fuel, and the theorem on termination shows that one more
  than the length of the program is enough without backward jumps.

  \<^bold>\<open>Not modelled.\<close> The PHY microcode words and firmware images are vendor data:
  arguments of the code that writes them. The driver class of the kext and its
  DMA mapping (\<open>RTL812xLucy.cpp\<close>, \<open>RTL812xLucySetup.cpp\<close>,
  \<open>RTL812xLucyHardware.cpp\<close>, \<open>RTL812xLucyVTD.cpp\<close>) are the IOKit counterpart of
  the dext; of them only the multicast filter is modelled, for the comparison
  with the dext. Log output, the user client, the command line tool, the
  application, tests and packaging have no part in what the drivers do, and the
  headers of the kernel, of Linux and of DriverKit are interfaces whose
  behaviour enters as parameters. Weak memory is not modelled: an access of a
  step relation takes effect at once. The FIFO's acquire and release orderings
  provide this for its indices; the pool's links and tail are plain variables.
\<close>

end
